(* ===== verification/Prelude.thy ===== *)
theory Prelude
  imports "HOL-Library.Word"
begin

text \<open>
  Shared vocabulary of the development: Go's basic types (byte slices, wall-clock times,
  64-bit durations), the fragment of the Go standard library the sources use on strings and
  numbers, and the small state-and-error combinators in which every operation is written.
  A Go function that may fail and may change state is an \<^emph>\<open>action\<close>: a function from a state to
  an error-or-result paired with the new state. The locale \<open>state_order\<close> holds the
  lemmas by which properties that relate the state before to the state after are lifted from
  the primitive steps to whole handlers.
\<close>

section \<open>Collections of facts\<close>

named_theorems keeps_rules \<open>compositional rules for keeps\<close>
named_theorems op_defs \<open>definitions of the operations of a component\<close>
named_theorems action_simps \<open>evaluation of the combinators\<close>

section \<open>Bytes, time and durations\<close>

type_synonym bytes = "8 word list"

text \<open>A Go \<open>time.Time\<close> is counted in nanoseconds since the Unix epoch; a \<open>time.Duration\<close> is a
  signed 64-bit count of nanoseconds.\<close>

type_synonym time = int
type_synonym duration = int

definition int64 :: "int \<Rightarrow> int" where
  "int64 i = (i + 2 ^ 63) mod 2 ^ 64 - 2 ^ 63"

definition second :: duration where
  "second = 1000000000"

definition time_zero :: time where
  "time_zero = - 62135596800 * 1000000000"

definition time_Sub :: "time \<Rightarrow> time \<Rightarrow> duration" where
  "time_Sub t u = max (- (2 ^ 63)) (min (2 ^ 63 - 1) (t - u))"

definition time_Add :: "time \<Rightarrow> duration \<Rightarrow> time" where
  "time_Add t d = t + d"

definition time_Unix :: "time \<Rightarrow> int" where
  "time_Unix t = t div 1000000000"

definition truncate_us :: "time \<Rightarrow> time" where
  "truncate_us t = 1000 * (t div 1000)"

definition dur_mul :: "int \<Rightarrow> duration \<Rightarrow> duration" where
  "dur_mul n d = int64 (n * d)"

text \<open>The text form of times, \<open>time.RFC3339\<close> and \<open>time.RFC3339Nano\<close>: \<open>rfc_Parse\<close> is \<open>time.Parse\<close>,
  \<open>None\<close> when it fails.\<close>

record rfc3339 =
  rfc_Parse :: "string \<Rightarrow> time option"
  rfc_Format :: "time \<Rightarrow> string"

lemma int64_range: "- (2 ^ 63) \<le> int64 i \<and> int64 i < 2 ^ 63"
proof -
  have "0 \<le> (i + 2 ^ 63) mod 2 ^ 64" "(i + 2 ^ 63) mod 2 ^ 64 < 2 ^ 64"
    by simp_all
  then show ?thesis by (simp add: int64_def)
qed

lemma int64_id: "- (2 ^ 63) \<le> i \<Longrightarrow> i < 2 ^ 63 \<Longrightarrow> int64 i = i"
  unfolding int64_def by (simp add: mod_pos_pos_trivial)

lemma truncate_us_idem [simp]: "truncate_us (truncate_us t) = truncate_us t"
  by (simp add: truncate_us_def)

lemma truncate_us_le: "truncate_us t \<le> t"
  unfolding truncate_us_def by linarith

lemma truncate_us_gt: "t - 1000 < truncate_us t"
  unfolding truncate_us_def by linarith

lemma truncate_us_mono: "t \<le> u \<Longrightarrow> truncate_us t \<le> truncate_us u"
  by (simp add: truncate_us_def zdiv_mono1)

section \<open>Strings\<close>

definition strings_HasPrefix :: "string \<Rightarrow> string \<Rightarrow> bool" where
  "strings_HasPrefix s p \<longleftrightarrow> take (length p) s = p"

definition strings_TrimRight :: "string \<Rightarrow> string \<Rightarrow> string" where
  "strings_TrimRight s cutset = rev (dropWhile (\<lambda>c. c \<in> set cutset) (rev s))"

definition strings_TrimPrefix :: "string \<Rightarrow> string \<Rightarrow> string" where
  "strings_TrimPrefix s p = (if strings_HasPrefix s p then drop (length p) s else s)"

text \<open>\<open>strings.IndexByte\<close>: the position of the first occurrence, \<open>None\<close> for Go's \<open>-1\<close>.\<close>

fun strings_IndexByte :: "string \<Rightarrow> char \<Rightarrow> nat option" where
  "strings_IndexByte [] c = None"
| "strings_IndexByte (x # xs) c = (if x = c then Some 0 else map_option Suc (strings_IndexByte xs c))"

fun strings_Contains :: "string \<Rightarrow> string \<Rightarrow> bool" where
  "strings_Contains [] t = (t = [])"
| "strings_Contains (x # xs) t = (strings_HasPrefix (x # xs) t \<or> strings_Contains xs t)"

text \<open>\<open>strings.ToLower\<close> on ASCII, which covers every key the sources write.\<close>

definition lower_char :: "char \<Rightarrow> char" where
  "lower_char c =
     (let n = (of_char c :: nat) in if 65 \<le> n \<and> n \<le> 90 then char_of (n + 32) else c)"

definition strings_ToLower :: "string \<Rightarrow> string" where
  "strings_ToLower s = map lower_char s"

text \<open>\<open>strings.Index\<close>: the position of the first occurrence of a substring.\<close>

fun strings_Index :: "string \<Rightarrow> string \<Rightarrow> nat option" where
  "strings_Index [] t = (if t = [] then Some 0 else None)"
| "strings_Index (x # xs) t =
     (if strings_HasPrefix (x # xs) t then Some 0 else map_option Suc (strings_Index xs t))"

definition strings_HasSuffix :: "string \<Rightarrow> string \<Rightarrow> bool" where
  "strings_HasSuffix s t \<longleftrightarrow> strings_HasPrefix (rev s) (rev t)"

text \<open>\<open>strings.TrimSpace\<close> on ASCII white space, and \<open>strings.Split\<close> at a single character.\<close>

fun strings_TrimLeft :: "string \<Rightarrow> string" where
  "strings_TrimLeft [] = []"
| "strings_TrimLeft (c # cs) =
     (if c \<in> {CHR '' '', CHR 0x09, CHR 0x0A, CHR 0x0B, CHR 0x0C, CHR 0x0D} then strings_TrimLeft cs
      else c # cs)"

definition strings_TrimSpace :: "string \<Rightarrow> string" where
  "strings_TrimSpace s = rev (strings_TrimLeft (rev (strings_TrimLeft s)))"

fun strings_Split :: "char \<Rightarrow> string \<Rightarrow> string list" where
  "strings_Split sep [] = [[]]"
| "strings_Split sep (c # cs) =
     (if c = sep then [] # strings_Split sep cs
      else (case strings_Split sep cs of [] \<Rightarrow> [[c]] | p # ps \<Rightarrow> (c # p) # ps))"

text \<open>Go compares strings bytewise.\<close>

fun string_less :: "string \<Rightarrow> string \<Rightarrow> bool" where
  "string_less [] ys = (ys \<noteq> [])"
| "string_less (x # xs) [] = False"
| "string_less (x # xs) (y # ys) =
     ((of_char x :: nat) < of_char y \<or> x = y \<and> string_less xs ys)"

text \<open>\<open>sort.Strings\<close>.\<close>

fun insert_string :: "string \<Rightarrow> string list \<Rightarrow> string list" where
  "insert_string a [] = [a]"
| "insert_string a (b # bs) = (if string_less b a then b # insert_string a bs else a # b # bs)"

definition sort_Strings :: "string list \<Rightarrow> string list" where
  "sort_Strings xs = foldr insert_string xs []"

definition bytes_of :: "string \<Rightarrow> bytes" where
  "bytes_of s = map (\<lambda>c. word_of_nat (of_char c)) s"

text \<open>\<open>strconv.Itoa\<close> and \<open>strconv.FormatInt(_, 10)\<close>.\<close>

fun nat_digits :: "nat \<Rightarrow> string" where
  "nat_digits n = (if n < 10 then [char_of (48 + n)]
                   else nat_digits (n div 10) @ [char_of (48 + n mod 10)])"

declare nat_digits.simps [simp del]

definition strconv_Itoa :: "int \<Rightarrow> string" where
  "strconv_Itoa i = (if i < 0 then CHR ''-'' # nat_digits (nat (- i)) else nat_digits (nat i))"

definition boolStr :: "bool \<Rightarrow> string" where
  "boolStr b = (if b then ''true'' else ''false'')"

lemma HasPrefix_append [simp]: "strings_HasPrefix (p @ s) p"
  by (simp add: strings_HasPrefix_def)

lemma HasPrefix_iff: "strings_HasPrefix s p \<longleftrightarrow> (\<exists>t. s = p @ t)"
  by (metis HasPrefix_append append_take_drop_id strings_HasPrefix_def)

lemma TrimPrefix_append [simp]: "strings_TrimPrefix (p @ s) p = s"
  by (simp add: strings_TrimPrefix_def)

lemma IndexByte_append: "c \<notin> set xs \<Longrightarrow> strings_IndexByte (xs @ c # ys) c = Some (length xs)"
  by (induction xs) auto

lemma IndexByte_SomeD:
  "strings_IndexByte s c = Some n \<Longrightarrow> n < length s \<and> s ! n = c \<and> c \<notin> set (take n s)"
proof (induction s arbitrary: n)
  case (Cons x xs)
  show ?case
  proof (cases "x = c")
    case False
    with Cons.prems obtain m where "strings_IndexByte xs c = Some m" "n = Suc m" by auto
    with Cons.IH [of m] False show ?thesis by auto
  qed (use Cons.prems in auto)
qed simp

lemma nat_digits_nonempty [simp]: "nat_digits n \<noteq> []"
  by (subst nat_digits.simps) simp

lemma length_bytes_of [simp]: "length (bytes_of s) = length s"
  by (simp add: bytes_of_def)

lemma inj_bytes_of: "inj bytes_of"
proof -
  have "c = d" if "(word_of_nat (of_char c) :: 8 word) = word_of_nat (of_char d)" for c d :: char
  proof -
    have "unat (word_of_nat (of_char c) :: 8 word) = (of_char c :: nat)" for c :: char
    proof -
      have "(of_char c :: nat) < 256" by (rule nat_of_char_less_256)
      then show ?thesis by (simp add: unat_of_nat take_bit_nat_eq_self_iff)
    qed
    with that have "(of_char c :: nat) = of_char d" by metis
    then show ?thesis by simp
  qed
  then have "inj (\<lambda>c. word_of_nat (of_char c) :: 8 word)" by (auto intro: injI)
  then show ?thesis unfolding bytes_of_def by (rule inj_mapI)
qed

lemma bytes_of_eq_iff [simp]: "bytes_of s = bytes_of t \<longleftrightarrow> s = t"
  using inj_bytes_of by (auto dest: injD)

lemma set_insert_string [simp]: "set (insert_string a bs) = insert a (set bs)"
  by (induction bs) auto

lemma set_sort_Strings [simp]: "set (sort_Strings xs) = set xs"
  unfolding sort_Strings_def by (induction xs) auto

lemma distinct_insert_string: "distinct (insert_string a bs) \<longleftrightarrow> a \<notin> set bs \<and> distinct bs"
  by (induction bs) auto

lemma distinct_sort_Strings [simp]: "distinct (sort_Strings xs) = distinct xs"
proof -
  have "set (foldr insert_string xs []) = set xs" by (induction xs) auto
  then show ?thesis unfolding sort_Strings_def
    by (induction xs) (auto simp: distinct_insert_string set_sort_Strings [unfolded sort_Strings_def])
qed

lemma string_less_trans: "string_less a b \<Longrightarrow> string_less b c \<Longrightarrow> string_less a c"
proof (induction a arbitrary: b c)
  case Nil
  then show ?case by (cases b; cases c) auto
next
  case (Cons x xs)
  then show ?case by (cases b; cases c) auto
qed

lemma string_less_total: "a \<noteq> b \<Longrightarrow> string_less a b \<or> string_less b a"
proof (induction a arbitrary: b)
  case (Cons x xs)
  note IH = Cons.IH and ne = Cons.prems
  show ?case
  proof (cases b)
    case (Cons y ys)
    have "(of_char x :: nat) < of_char y \<or> (of_char y :: nat) < of_char x \<or> x = y"
      by (metis linorder_neqE_nat of_char_eq_iff)
    with Cons ne IH [of ys] show ?thesis by auto
  qed simp
qed simp

lemma sort_Strings_sorted: "distinct xs \<Longrightarrow> sorted_wrt string_less (sort_Strings xs)"
proof (induction xs)
  case (Cons a xs)
  have "a \<notin> set bs \<Longrightarrow> sorted_wrt string_less bs \<Longrightarrow> sorted_wrt string_less (insert_string a bs)" for bs
  proof (induction bs)
    case (Cons b bs)
    then show ?case using string_less_total [of a b] by (auto intro: string_less_trans)
  qed simp
  moreover have "a \<notin> set (sort_Strings xs)" "sorted_wrt string_less (sort_Strings xs)" using Cons by auto
  ultimately show ?case by (simp add: sort_Strings_def)
qed (simp add: sort_Strings_def)

section \<open>Lists\<close>

lemma find_SomeD: "find P xs = Some x \<Longrightarrow> x \<in> set xs \<and> P x"
  by (auto simp: find_Some_iff)

lemma find_append_None: "find P xs = None \<Longrightarrow> find P (xs @ ys) = find P ys"
  by (induction xs) (auto split: if_splits)

lemma find_unique:
  "distinct (map f xs) \<Longrightarrow> x \<in> set xs \<Longrightarrow> find (\<lambda>y. f y = f x) xs = Some x"
  by (induction xs) (auto simp: image_iff)

section \<open>Actions\<close>

text \<open>An action of Go code: it reads and changes a state \<open>'w\<close> and ends with an error (\<open>Inl\<close>) or
  a result (\<open>Inr\<close>). \<open>go_try m h f\<close> is \<open>x, err := m(); if err != nil { h(err) } else { f(x) }\<close>, and
  \<open>go_bind\<close> returns the error unchanged.\<close>

type_synonym ('w, 'e, 'a) act = "'w \<Rightarrow> ('e + 'a) \<times> 'w"

definition go_ret :: "'a \<Rightarrow> ('w, 'e, 'a) act" where
  "go_ret x w = (Inr x, w)"

definition go_fail :: "'e \<Rightarrow> ('w, 'e, 'a) act" where
  "go_fail e w = (Inl e, w)"

definition go_try ::
  "('w, 'e, 'a) act \<Rightarrow> ('e \<Rightarrow> ('w, 'f, 'b) act) \<Rightarrow> ('a \<Rightarrow> ('w, 'f, 'b) act) \<Rightarrow> ('w, 'f, 'b) act" where
  "go_try m h f w = (case m w of (Inl e, w') \<Rightarrow> h e w' | (Inr x, w') \<Rightarrow> f x w')"

definition go_bind :: "('w, 'e, 'a) act \<Rightarrow> ('a \<Rightarrow> ('w, 'e, 'b) act) \<Rightarrow> ('w, 'e, 'b) act" where
  "go_bind m f = go_try m go_fail f"

definition keeps :: "('w \<Rightarrow> 'w \<Rightarrow> bool) \<Rightarrow> ('w, 'e, 'a) act \<Rightarrow> bool" where
  "keeps R m \<longleftrightarrow> (\<forall>w. R w (snd (m w)))"

lemma go_ret_apply [simp, action_simps]: "go_ret x w = (Inr x, w)"
  by (simp add: go_ret_def)

lemma go_fail_apply [simp, action_simps]: "go_fail e w = (Inl e, w)"
  by (simp add: go_fail_def)

lemma go_try_Inl [action_simps]: "m w = (Inl e, w') \<Longrightarrow> go_try m h f w = h e w'"
  by (simp add: go_try_def)

lemma go_try_Inr [action_simps]: "m w = (Inr x, w') \<Longrightarrow> go_try m h f w = f x w'"
  by (simp add: go_try_def)

lemma go_bind_Inl [action_simps]: "m w = (Inl e, w') \<Longrightarrow> go_bind m f w = (Inl e, w')"
  by (simp add: go_bind_def go_try_def)

lemma go_bind_Inr [action_simps]: "m w = (Inr x, w') \<Longrightarrow> go_bind m f w = f x w'"
  by (simp add: go_bind_def go_try_def)

lemma go_bind_cases:
  "go_bind m f w = (case m w of (Inl e, w') \<Rightarrow> (Inl e, w') | (Inr x, w') \<Rightarrow> f x w')"
  by (simp add: go_bind_def go_try_def split: prod.split sum.split)

lemma go_bind_InrD:
  assumes "go_bind m f w = (Inr y, w'')"
  obtains x w' where "m w = (Inr x, w')" "f x w' = (Inr y, w'')"
  using assms by (auto simp: go_bind_cases split: prod.splits sum.splits)

lemma go_try_cases:
  assumes "go_try m h f w = r"
  obtains (err) e w' where "m w = (Inl e, w')" "h e w' = r"
    | (ok) x w' where "m w = (Inr x, w')" "f x w' = r"
  using assms by (auto simp: go_try_def split: prod.splits sum.splits)

lemma keepsI: "(\<And>w. R w (snd (m w))) \<Longrightarrow> keeps R m"
  by (simp add: keeps_def)

lemma keepsD: "keeps R m \<Longrightarrow> R w (snd (m w))"
  by (simp add: keeps_def)

lemma keeps_eqD: "keeps R m \<Longrightarrow> m w = (r, w') \<Longrightarrow> R w w'"
  by (drule keepsD [where w = w]) simp

text \<open>A relation between states that every sequence of steps composes: reflexive and
  transitive. Its compositional rules are proved once here and reach each concrete relation
  by interpretation.\<close>

locale state_order =
  fixes R :: "'w \<Rightarrow> 'w \<Rightarrow> bool"
  assumes order_refl: "R w w"
    and order_trans: "R a b \<Longrightarrow> R b c \<Longrightarrow> R a c"
begin

lemma resp_ret [keeps_rules]: "keeps R (go_ret x)"
  by (simp add: keeps_def order_refl)

lemma resp_fail [keeps_rules]: "keeps R (go_fail e)"
  by (simp add: keeps_def order_refl)

lemma resp_Pair [keeps_rules]: "keeps R (Pair r)"
  by (simp add: keeps_def order_refl)

lemma resp_try [keeps_rules]:
  assumes "keeps R m" "\<And>e. keeps R (h e)" "\<And>x. keeps R (f x)"
  shows "keeps R (go_try m h f)"
proof (rule keepsI)
  fix w
  obtain r w1 where m: "m w = (r, w1)" by (cases "m w")
  have R1: "R w w1" using keeps_eqD [OF assms(1) m] .
  show "R w (snd (go_try m h f w))"
  proof (cases r)
    case (Inl e)
    have "R w1 (snd (h e w1))" using assms(2) by (rule keepsD)
    with R1 m Inl show ?thesis by (auto simp: go_try_def intro: order_trans)
  next
    case (Inr x)
    have "R w1 (snd (f x w1))" using assms(3) by (rule keepsD)
    with R1 m Inr show ?thesis by (auto simp: go_try_def intro: order_trans)
  qed
qed

lemma resp_bind [keeps_rules]:
  "keeps R m \<Longrightarrow> (\<And>x. keeps R (f x)) \<Longrightarrow> keeps R (go_bind m f)"
  unfolding go_bind_def by (intro resp_try resp_fail)

lemma resp_if [keeps_rules]:
  "(b \<Longrightarrow> keeps R m) \<Longrightarrow> (\<not> b \<Longrightarrow> keeps R n) \<Longrightarrow> keeps R (if b then m else n)"
  by simp

lemma resp_option [keeps_rules]:
  "keeps R m \<Longrightarrow> (\<And>x. keeps R (f x)) \<Longrightarrow> keeps R (case v of None \<Rightarrow> m | Some x \<Rightarrow> f x)"
  by (cases v) simp_all

lemma resp_pair [keeps_rules]:
  "(\<And>a b. keeps R (f a b)) \<Longrightarrow> keeps R (case p of (a, b) \<Rightarrow> f a b)"
  by (cases p) simp

lemma resp_let [keeps_rules]: "(\<And>x. keeps R (f x)) \<Longrightarrow> keeps R (Let v f)"
  by (simp add: Let_def)

end

end
