(* ===== verification/Encoding.thy ===== *)
theory Encoding
  imports Prelude
begin

text \<open>
  The encodings the sources take from Go's standard library, written out: base64
  (\<open>encoding/base64\<close>: \<open>RawURLEncoding\<close> for writing, \<open>StdEncoding\<close> for reading), the CRC-32 of
  \<open>hash/crc32\<close> with the IEEE polynomial, and the 32-bit FNV-1a hash of \<open>hash/fnv\<close>; and the
  base62 digits of \<open>internal/apikey/format.go\<close>.
\<close>

unbundle bit_operations_syntax

section \<open>Base64\<close>

definition b64url_alphabet :: string where
  "b64url_alphabet = ''ABCDEFGHIJKLMNOPQRSTUVWXYZabcdefghijklmnopqrstuvwxyz0123456789-_''"

definition b64std_alphabet :: string where
  "b64std_alphabet = ''ABCDEFGHIJKLMNOPQRSTUVWXYZabcdefghijklmnopqrstuvwxyz0123456789+/''"

definition b64url_char :: "nat \<Rightarrow> char" where
  "b64url_char n = b64url_alphabet ! (n mod 64)"

fun RawURLEncoding_EncodeToString :: "bytes \<Rightarrow> string" where
  "RawURLEncoding_EncodeToString (a # b # c # r) =
     (let n = unat a * 65536 + unat b * 256 + unat c
      in b64url_char (n div 262144) # b64url_char (n div 4096) # b64url_char (n div 64) # b64url_char n #
         RawURLEncoding_EncodeToString r)"
| "RawURLEncoding_EncodeToString [a, b] =
     (let n = unat a * 65536 + unat b * 256
      in [b64url_char (n div 262144), b64url_char (n div 4096), b64url_char (n div 64)])"
| "RawURLEncoding_EncodeToString [a] =
     (let n = unat a * 65536
      in [b64url_char (n div 262144), b64url_char (n div 4096)])"
| "RawURLEncoding_EncodeToString [] = []"

definition b64std_val :: "char \<Rightarrow> nat option" where
  "b64std_val c = strings_IndexByte b64std_alphabet c"

definition byte_of :: "nat \<Rightarrow> 8 word" where
  "byte_of n = word_of_nat n"

text \<open>\<open>StdEncoding\<close> requires padding to whole quanta and ignores line breaks.\<close>

fun b64_quanta :: "string \<Rightarrow> bytes option" where
  "b64_quanta [] = Some []"
| "b64_quanta (p # q # r # s # rest) =
     (case (b64std_val p, b64std_val q) of
        (Some a, Some b) \<Rightarrow>
          (if rest = [] \<and> r = CHR ''='' \<and> s = CHR ''='' then Some [byte_of (a * 4 + b div 16)]
           else
             (case b64std_val r of
                None \<Rightarrow> None
              | Some c \<Rightarrow>
                  if rest = [] \<and> s = CHR ''=''
                  then Some [byte_of (a * 4 + b div 16), byte_of (b * 16 + c div 4)]
                  else
                    (case (b64std_val s, b64_quanta rest) of
                       (Some d, Some bs) \<Rightarrow>
                         Some (byte_of (a * 4 + b div 16) # byte_of (b * 16 + c div 4) #
                               byte_of (c * 64 + d) # bs)
                     | _ \<Rightarrow> None)))
      | _ \<Rightarrow> None)"
| "b64_quanta _ = None"

definition StdEncoding_DecodeString :: "string \<Rightarrow> bytes option" where
  "StdEncoding_DecodeString s = b64_quanta (filter (\<lambda>c. c \<noteq> CHR 0x0A \<and> c \<noteq> CHR 0x0D) s)"

section \<open>CRC-32\<close>

definition crc_bit :: "32 word \<Rightarrow> 32 word" where
  "crc_bit v = (if v AND 1 = 1 then drop_bit 1 v XOR 0xEDB88320 else drop_bit 1 v)"

definition crc_byte :: "32 word \<Rightarrow> 8 word \<Rightarrow> 32 word" where
  "crc_byte v b = (crc_bit ^^ 8) (v XOR ucast b)"

definition crc32_ChecksumIEEE :: "bytes \<Rightarrow> 32 word" where
  "crc32_ChecksumIEEE bs = NOT (foldl crc_byte (NOT 0) bs)"

lemma word_xor_right_cancel: "a XOR c = b XOR c \<longleftrightarrow> a = b" for a b c :: "'a::len word"
  by (metis xor.assoc xor.right_neutral xor_self_eq)

lemma word_xor_left_cancel: "c XOR a = c XOR b \<longleftrightarrow> a = b" for a b c :: "'a::len word"
  by (metis word_xor_right_cancel xor.commute)

lemma bit_crc_bit_31: "bit (crc_bit v) 31 \<longleftrightarrow> bit v 0"
proof -
  have "bit (0xEDB88320 :: 32 word) 31" by code_simp
  moreover have "\<not> bit (drop_bit 1 v) 31" by (auto simp: bit_drop_bit_eq dest: bit_imp_le_length)
  moreover have "(v AND 1 = 1) \<longleftrightarrow> bit v 0" by (simp add: and_one_eq odd_iff_mod_2_eq_one bit_0)
  ultimately show ?thesis by (simp add: crc_bit_def bit_xor_iff)
qed

lemma drop_bit_one_inj:
  fixes v w :: "32 word"
  assumes "drop_bit 1 v = drop_bit 1 w" and "bit v 0 = bit w 0"
  shows "v = w"
proof (rule bit_word_eqI)
  fix n
  show "bit v n = bit w n"
  proof (cases n)
    case 0
    with assms(2) show ?thesis by simp
  next
    case (Suc m)
    have "bit (drop_bit 1 v) m = bit (drop_bit 1 w) m" using assms(1) by simp
    with Suc show ?thesis by (simp add: bit_drop_bit_eq)
  qed
qed

lemma inj_crc_bit: "inj crc_bit"
proof (rule injI)
  fix v w assume eq: "crc_bit v = crc_bit w"
  have b: "bit v 0 = bit w 0" using eq bit_crc_bit_31 by metis
  have "(v AND 1 = 1) \<longleftrightarrow> bit v 0" "(w AND 1 = 1) \<longleftrightarrow> bit w 0"
    by (simp_all add: and_one_eq odd_iff_mod_2_eq_one bit_0)
  with b eq have "drop_bit 1 v = drop_bit 1 w"
    by (auto simp: crc_bit_def word_xor_right_cancel split: if_splits)
  then show "v = w" using b by (rule drop_bit_one_inj)
qed

lemma inj_crc_bits: "inj (crc_bit ^^ n)"
proof (induction n)
  case (Suc n)
  then show ?case unfolding funpow.simps by (rule inj_compose [OF inj_crc_bit])
qed simp

lemma crc_byte_state_inj: "crc_byte v b = crc_byte w b \<longleftrightarrow> v = w"
  by (simp add: crc_byte_def inj_eq [OF inj_crc_bits] word_xor_right_cancel)

lemma crc_byte_byte_inj: "crc_byte v a = crc_byte v b \<longleftrightarrow> a = b"
proof -
  have "unat (ucast x :: 32 word) = unat x" for x :: "8 word"
  proof -
    have "unat x < 2 ^ LENGTH(8)" by (rule unsigned_less)
    then show ?thesis by (simp add: unsigned_ucast_eq take_bit_nat_eq_self_iff)
  qed
  then have "ucast a = (ucast b :: 32 word) \<longleftrightarrow> a = b"
    by (metis unsigned_word_eqI)
  then show ?thesis
    by (simp add: crc_byte_def inj_eq [OF inj_crc_bits] word_xor_left_cancel)
qed

lemma crc_fold_inj: "foldl crc_byte v bs = foldl crc_byte w bs \<longleftrightarrow> v = w"
  by (induction bs arbitrary: v w) (auto simp: crc_byte_state_inj)

text \<open>The checksum tells apart any two inputs that differ in one byte.\<close>

lemma crc32_single_byte:
  "a \<noteq> b \<Longrightarrow> crc32_ChecksumIEEE (xs @ a # ys) \<noteq> crc32_ChecksumIEEE (xs @ b # ys)"
  by (auto simp: crc32_ChecksumIEEE_def crc_fold_inj crc_byte_byte_inj)

section \<open>FNV-1a\<close>

definition fnv_New32a :: "bytes \<Rightarrow> 32 word" where
  "fnv_New32a bs = foldl (\<lambda>h b. (h XOR ucast b) * 16777619) 2166136261 bs"

section \<open>Base62\<close>

definition alphabet :: string where
  "alphabet = ''0123456789ABCDEFGHIJKLMNOPQRSTUVWXYZabcdefghijklmnopqrstuvwxyz''"

lemma length_alphabet [simp]: "length alphabet = 62"
  by (simp add: alphabet_def)

lemma distinct_alphabet: "distinct alphabet"
  by code_simp

lemma underscore_not_in_alphabet: "CHR ''_'' \<notin> set alphabet"
  by (simp add: alphabet_def)

text \<open>The low \<open>n\<close> base62 digits of a number, most significant first.\<close>

fun base62 :: "nat \<Rightarrow> nat \<Rightarrow> string" where
  "base62 0 v = []"
| "base62 (Suc n) v = base62 n (v div 62) @ [alphabet ! (v mod 62)]"

lemma length_base62 [simp]: "length (base62 n v) = n"
  by (induction n arbitrary: v) auto

lemma base62_in_alphabet: "set (base62 n v) \<subseteq> set alphabet"
  by (induction n arbitrary: v) auto

lemma base62_inj: "v < 62 ^ n \<Longrightarrow> w < 62 ^ n \<Longrightarrow> base62 n v = base62 n w \<Longrightarrow> v = w"
proof (induction n arbitrary: v w)
  case (Suc n)
  have "v div 62 < 62 ^ n" "w div 62 < 62 ^ n"
    using Suc.prems(1,2) by (simp_all add: less_mult_imp_div_less mult.commute)
  moreover have "base62 n (v div 62) = base62 n (w div 62)" using Suc.prems(3) by simp
  ultimately have "v div 62 = w div 62" by (rule Suc.IH)
  moreover have "v mod 62 = w mod 62"
    using Suc.prems(3) distinct_alphabet by (simp add: nth_eq_iff_index_eq)
  ultimately show ?case by (metis div_mult_mod_eq)
qed simp

end
