(* ===== verification/Ratelimit.thy ===== *)
theory Ratelimit
  imports Encoding
begin

text \<open>
  \<open>internal/ratelimit\<close>: the bounded least-recently-used map of \<open>lru.go\<close>, with Go's
  list elements as handles into a store, and the sharded token-bucket limiter of
  \<open>limiter.go\<close>. The map refines a plain recency list. The token bucket is the package
  \<open>golang.org/x/time/rate\<close>: its operations are the parameters of the record
  \<open>rate_lib\<close>, its states are opaque lists of numbers.
\<close>

section \<open>The least-recently-used map\<close>

text \<open>\<open>lru\<close>: the handles of the list from the front, the item behind each handle, the index from
  keys to handles, and the next unused handle.\<close>

record 'v lru =
  lru_cap :: nat
  lru_ll :: "nat list"
  lru_items :: "nat \<rightharpoonup> string \<times> 'v"
  lru_m :: "string \<rightharpoonup> nat"
  lru_next :: nat

definition newLRU :: "int \<Rightarrow> 'v lru" where
  "newLRU capacity =
     \<lparr>lru_cap = (if capacity < 1 then 1 else nat capacity), lru_ll = [], lru_items = Map.empty,
      lru_m = Map.empty, lru_next = 0\<rparr>"

definition MoveToFront :: "nat \<Rightarrow> nat list \<Rightarrow> nat list" where
  "MoveToFront el ll = (if el \<in> set ll then el # filter (\<lambda>x. x \<noteq> el) ll else ll)"

definition lru_get :: "string \<Rightarrow> 'v lru \<Rightarrow> 'v option \<times> 'v lru" where
  "lru_get key c =
     (case lru_m c key of
        None \<Rightarrow> (None, c)
      | Some el \<Rightarrow> (map_option snd (lru_items c el), c\<lparr>lru_ll := MoveToFront el (lru_ll c)\<rparr>))"

definition lru_evict :: "'v lru \<Rightarrow> 'v lru" where
  "lru_evict c =
     (if length (lru_ll c) > lru_cap c then
        (case lru_items c (last (lru_ll c)) of
           None \<Rightarrow> c
         | Some (k, v) \<Rightarrow> c\<lparr>lru_ll := butlast (lru_ll c), lru_m := (lru_m c)(k := None)\<rparr>)
      else c)"

definition lru_put :: "string \<Rightarrow> 'v \<Rightarrow> 'v lru \<Rightarrow> 'v lru" where
  "lru_put key val c =
     (case lru_m c key of
        Some el \<Rightarrow> c\<lparr>lru_ll := MoveToFront el (lru_ll c), lru_items := (lru_items c)(el \<mapsto> (key, val))\<rparr>
      | None \<Rightarrow>
          lru_evict (c\<lparr>lru_ll := lru_next c # lru_ll c,
                       lru_items := (lru_items c)(lru_next c \<mapsto> (key, val)),
                       lru_m := (lru_m c)(key \<mapsto> lru_next c), lru_next := Suc (lru_next c)\<rparr>))"

definition lru_len :: "'v lru \<Rightarrow> nat" where
  "lru_len c = length (lru_ll c)"

text \<open>The invariant: handles on the list are distinct, allocated and carry the key that the index
  maps to them, and the capacity is respected.\<close>

definition lru_inv :: "'v lru \<Rightarrow> bool" where
  "lru_inv c \<longleftrightarrow>
     distinct (lru_ll c) \<and> 1 \<le> lru_cap c \<and> length (lru_ll c) \<le> lru_cap c \<and>
     (\<forall>el \<in> set (lru_ll c). el < lru_next c \<and> (\<exists>k v. lru_items c el = Some (k, v) \<and> lru_m c k = Some el)) \<and>
     (\<forall>k el. lru_m c k = Some el \<longrightarrow> el \<in> set (lru_ll c) \<and> (\<exists>v. lru_items c el = Some (k, v)))"

text \<open>The specification: keys and values in order of last use.\<close>

definition lru_abs :: "'v lru \<Rightarrow> (string \<times> 'v) list" where
  "lru_abs c = map (\<lambda>el. the (lru_items c el)) (lru_ll c)"

definition spec_touch :: "string \<Rightarrow> (string \<times> 'v) list \<Rightarrow> (string \<times> 'v) list" where
  "spec_touch key xs =
     (case map_of xs key of None \<Rightarrow> xs | Some v \<Rightarrow> (key, v) # filter (\<lambda>p. fst p \<noteq> key) xs)"

definition spec_put :: "nat \<Rightarrow> string \<Rightarrow> 'v \<Rightarrow> (string \<times> 'v) list \<Rightarrow> (string \<times> 'v) list" where
  "spec_put cap key val xs = take cap ((key, val) # filter (\<lambda>p. fst p \<noteq> key) xs)"

section \<open>The limiter\<close>

text \<open>A rate is a \<open>float64\<close> handed through to the package, kept as its bit pattern.\<close>

type_synonym float64 = "64 word"
type_synonym bucket = "int list"
type_synonym reservation = "int list"

record rate_lib =
  rate_NewLimiter :: "float64 \<Rightarrow> int \<Rightarrow> bucket"
  rate_AllowN :: "time \<Rightarrow> bucket \<Rightarrow> bool \<times> bucket"
  rate_ReserveN :: "time \<Rightarrow> bucket \<Rightarrow> reservation \<times> bucket"
  rate_DelayFrom :: "time \<Rightarrow> reservation \<Rightarrow> duration"
  rate_CancelAt :: "time \<Rightarrow> reservation \<Rightarrow> bucket \<Rightarrow> bucket"

record limit_entry =
  en_lim :: bucket
  en_wasLimited :: bool
  en_lastEmit :: time

record MemoryLimiter =
  ml_rps :: float64
  ml_burst :: int
  ml_cooldown :: duration
  ml_shards :: "nat \<Rightarrow> limit_entry lru"

definition numShards :: nat where
  "numShards = 256"

definition NewMemoryClock :: "float64 \<Rightarrow> int \<Rightarrow> int \<Rightarrow> duration \<Rightarrow> MemoryLimiter" where
  "NewMemoryClock rps burst maxKeysPerShard cooldown =
     \<lparr>ml_rps = rps, ml_burst = (if burst < 1 then 1 else burst), ml_cooldown = cooldown,
      ml_shards = (\<lambda>_. newLRU maxKeysPerShard)\<rparr>"

definition shardFor :: "string \<Rightarrow> nat" where
  "shardFor key = unat (fnv_New32a (bytes_of key)) mod numShards"

text \<open>One decision on an entry: take a token, or peek at the delay and give the token back.\<close>

definition entry_step ::
  "rate_lib \<Rightarrow> duration \<Rightarrow> time \<Rightarrow> limit_entry \<Rightarrow> (bool \<times> duration \<times> bool) \<times> limit_entry" where
  "entry_step L cooldown now e =
     (case rate_AllowN L now (en_lim e) of
        (True, b) \<Rightarrow> ((True, 0, False), e\<lparr>en_lim := b, en_wasLimited := False\<rparr>)
      | (False, b) \<Rightarrow>
          (case rate_ReserveN L now b of
             (res, b1) \<Rightarrow>
               let retryAfter = rate_DelayFrom L now res;
                   b2 = rate_CancelAt L now res b1;
                   transitioned = (\<not> en_wasLimited e \<and> time_Sub now (en_lastEmit e) > cooldown)
               in ((False, retryAfter, transitioned),
                   \<lparr>en_lim = b2, en_wasLimited = True,
                    en_lastEmit = (if transitioned then now else en_lastEmit e)\<rparr>)))"

definition new_entry :: "rate_lib \<Rightarrow> MemoryLimiter \<Rightarrow> limit_entry" where
  "new_entry L m = \<lparr>en_lim = rate_NewLimiter L (ml_rps m) (ml_burst m), en_wasLimited = False, en_lastEmit = time_zero\<rparr>"

text \<open>The entry is a pointer: what the decision writes to it is seen in the map.\<close>

definition Memory_Allow ::
  "rate_lib \<Rightarrow> time \<Rightarrow> string \<Rightarrow> MemoryLimiter \<Rightarrow> (bool \<times> duration \<times> bool) \<times> MemoryLimiter" where
  "Memory_Allow L now key m =
     (let i = shardFor key;
          (e, c) = (case lru_get key (ml_shards m i) of
                      (Some e, c) \<Rightarrow> (e, c)
                    | (None, c) \<Rightarrow> (new_entry L m, lru_put key (new_entry L m) c));
          (verdict, e') = entry_step L (ml_cooldown m) now e
      in (verdict, m\<lparr>ml_shards := (ml_shards m)(i := lru_put key e' c)\<rparr>))"

text \<open>A gate that is disabled is \<open>AllowAll\<close>.\<close>

datatype Limiter = AllowAll | Memory MemoryLimiter

fun Limiter_Allow ::
  "rate_lib \<Rightarrow> time \<Rightarrow> string \<Rightarrow> Limiter \<Rightarrow> (bool \<times> duration \<times> bool) \<times> Limiter" where
  "Limiter_Allow L now key AllowAll = ((True, 0, False), AllowAll)"
| "Limiter_Allow L now key (Memory m) = map_prod id Memory (Memory_Allow L now key m)"

text \<open>\<open>strconv.Itoa(int((retry+time.Second-1)/time.Second))\<close>, with 64-bit addition and division
  truncating towards zero.\<close>

definition retry_seconds :: "duration \<Rightarrow> int" where
  "retry_seconds retry =
     (let x = int64 (retry + second - 1) in if x < 0 then - ((- x) div second) else x div second)"

section \<open>The map refines the recency list\<close>

lemma lru_inv_new [simp]: "lru_inv (newLRU n)"
  by (auto simp: lru_inv_def newLRU_def)

lemma lru_abs_new [simp]: "lru_abs (newLRU n) = []"
  by (simp add: lru_abs_def newLRU_def)

lemma lru_inv_item:
  "lru_inv c \<Longrightarrow> el \<in> set (lru_ll c) \<Longrightarrow> \<exists>k v. lru_items c el = Some (k, v) \<and> lru_m c k = Some el"
  by (auto simp: lru_inv_def)

lemma lru_inv_index:
  assumes "lru_inv c" "lru_m c k = Some el"
  obtains v where "el \<in> set (lru_ll c)" "lru_items c el = Some (k, v)"
proof -
  have "el \<in> set (lru_ll c) \<and> (\<exists>v. lru_items c el = Some (k, v))"
    using assms unfolding lru_inv_def by blast
  then show thesis by (elim conjE exE) (rule that)
qed

lemma lru_key_inj:
  assumes "lru_inv c" "a \<in> set (lru_ll c)" "b \<in> set (lru_ll c)"
    "fst (the (lru_items c a)) = fst (the (lru_items c b))"
  shows "a = b"
  using lru_inv_item [OF assms(1,2)] lru_inv_item [OF assms(1,3)] assms(4) by auto

lemma lru_abs_distinct: "lru_inv c \<Longrightarrow> distinct (map fst (lru_abs c))"
  by (auto simp: lru_abs_def distinct_map lru_inv_def intro!: inj_onI) (metis fst_conv option.inject option.sel)

lemma lru_abs_lookup:
  assumes "lru_inv c"
  shows "map_of (lru_abs c) k = (case lru_m c k of None \<Rightarrow> None | Some el \<Rightarrow> map_option snd (lru_items c el))"
proof (cases "lru_m c k")
  case None
  have "k \<notin> fst ` set (lru_abs c)"
  proof
    assume "k \<in> fst ` set (lru_abs c)"
    then obtain el where "el \<in> set (lru_ll c)" "fst (the (lru_items c el)) = k" by (auto simp: lru_abs_def)
    with lru_inv_item [OF assms, of el] None show False by auto
  qed
  with None show ?thesis by (simp add: map_of_eq_None_iff)
next
  case (Some el)
  with assms obtain v where el: "el \<in> set (lru_ll c)" "lru_items c el = Some (k, v)"
    by (rule lru_inv_index)
  then have "(k, v) \<in> set (lru_abs c)" by (force simp: lru_abs_def)
  with lru_abs_distinct [OF assms] Some el show ?thesis by simp
qed

lemma filter_key_handles:
  assumes "lru_inv c" "el \<in> set (lru_ll c)" "lru_items c el = Some (k, v)"
  shows "filter (\<lambda>p. fst p \<noteq> k) (lru_abs c) =
    map (\<lambda>x. the (lru_items c x)) (filter (\<lambda>x. x \<noteq> el) (lru_ll c))"
proof -
  have "(fst (the (lru_items c x)) \<noteq> k) = (x \<noteq> el)" if "x \<in> set (lru_ll c)" for x
    using lru_key_inj [OF assms(1) that assms(2)] assms(3) by auto
  then show ?thesis by (simp add: lru_abs_def filter_map comp_def cong: filter_cong)
qed

lemma length_filter_neq: "distinct xs \<Longrightarrow> el \<in> set xs \<Longrightarrow> Suc (length (filter (\<lambda>x. x \<noteq> el) xs)) = length xs"
proof (induction xs)
  case (Cons x xs)
  show ?case
  proof (cases "x = el")
    case True
    with Cons.prems have "filter (\<lambda>x. x \<noteq> el) xs = xs" by (auto simp: filter_id_conv)
    with True show ?thesis by simp
  qed (use Cons in auto)
qed simp

lemma MoveToFront_props:
  assumes "distinct ll"
  shows "set (MoveToFront el ll) = set ll" "distinct (MoveToFront el ll)"
    "length (MoveToFront el ll) = length ll"
  using assms length_filter_neq [OF assms, of el] by (auto simp: MoveToFront_def)

lemma lru_inv_touch: "lru_inv c \<Longrightarrow> lru_inv (c\<lparr>lru_ll := MoveToFront el (lru_ll c)\<rparr>)"
  by (simp add: lru_inv_def MoveToFront_props)

text \<open>Looking a key up returns the specification's value and moves it to the front.\<close>

lemma lru_get_refines:
  assumes "lru_inv c" and "lru_get key c = (r, c')"
  shows "lru_inv c' \<and> r = map_of (lru_abs c) key \<and> lru_abs c' = spec_touch key (lru_abs c) \<and> lru_cap c' = lru_cap c"
proof (cases "lru_m c key")
  case None
  with assms lru_abs_lookup [OF assms(1), of key] show ?thesis by (auto simp: lru_get_def spec_touch_def)
next
  case (Some el)
  with assms(1) obtain v where el: "el \<in> set (lru_ll c)" "lru_items c el = Some (key, v)"
    by (rule lru_inv_index)
  have c': "c' = c\<lparr>lru_ll := MoveToFront el (lru_ll c)\<rparr>" and r: "r = Some v"
    using assms(2) Some el by (auto simp: lru_get_def)
  have look: "map_of (lru_abs c) key = Some v" using lru_abs_lookup [OF assms(1), of key] Some el by simp
  have "lru_abs c' = (key, v) # filter (\<lambda>p. fst p \<noteq> key) (lru_abs c)"
    using el by (simp add: c' filter_key_handles [OF assms(1) el]) (simp add: lru_abs_def MoveToFront_def)
  with lru_inv_touch [OF assms(1)] c' r look show ?thesis by (simp add: spec_touch_def)
qed

lemma lru_put_present:
  assumes "lru_inv c" "lru_m c key = Some el"
  shows "lru_inv (lru_put key val c) \<and> lru_abs (lru_put key val c) = spec_put (lru_cap c) key val (lru_abs c)"
proof -
  from assms obtain v where el: "el \<in> set (lru_ll c)" "lru_items c el = Some (key, v)"
    by (rule lru_inv_index)
  have c': "lru_put key val c =
      c\<lparr>lru_ll := MoveToFront el (lru_ll c), lru_items := (lru_items c)(el \<mapsto> (key, val))\<rparr>"
    using assms(2) by (simp add: lru_put_def)
  have "lru_inv (lru_put key val c)"
    using assms el unfolding c' lru_inv_def
    by (auto simp: MoveToFront_props) (metis fst_conv option.inject)+
  moreover have "lru_abs (lru_put key val c) = (key, val) # filter (\<lambda>p. fst p \<noteq> key) (lru_abs c)"
    unfolding filter_key_handles [OF assms(1) el] using el by (auto simp: c' lru_abs_def MoveToFront_def)
  moreover have "length (filter (\<lambda>p. fst p \<noteq> key) (lru_abs c)) < lru_cap c"
    using length_filter_neq [of "lru_ll c" el] el assms(1)
    by (simp add: filter_key_handles [OF assms(1) el] lru_inv_def)
  ultimately show ?thesis by (simp add: spec_put_def take_Cons')
qed

lemma lru_put_absent:
  assumes inv: "lru_inv c" and none: "lru_m c key = None"
  shows "lru_inv (lru_put key val c) \<and> lru_abs (lru_put key val c) = spec_put (lru_cap c) key val (lru_abs c)"
proof -
  define c1 where "c1 = c\<lparr>lru_ll := lru_next c # lru_ll c, lru_items := (lru_items c)(lru_next c \<mapsto> (key, val)),
     lru_m := (lru_m c)(key \<mapsto> lru_next c), lru_next := Suc (lru_next c)\<rparr>"
  have put: "lru_put key val c = lru_evict c1" using none by (simp add: lru_put_def c1_def)
  have fresh: "el \<noteq> lru_next c" if "el \<in> set (lru_ll c)" for el
    using inv that by (auto simp: lru_inv_def)
  have keys: "k \<noteq> key" if "el \<in> set (lru_ll c)" "lru_items c el = Some (k, v)" for el k v
    using lru_inv_item [OF inv that(1)] that(2) none by auto
  have abs1: "lru_abs c1 = (key, val) # lru_abs c"
    using fresh by (auto simp: lru_abs_def c1_def)
  have nokey: "filter (\<lambda>p. fst p \<noteq> key) (lru_abs c) = lru_abs c"
    using lru_inv_item [OF inv] none by (fastforce simp: filter_id_conv lru_abs_def)
  have items1: "\<exists>k v. lru_items c1 el = Some (k, v) \<and> lru_m c1 k = Some el \<and> el < lru_next c1"
    if "el \<in> set (lru_ll c1)" for el
  proof (cases "el = lru_next c")
    case True
    then show ?thesis by (simp add: c1_def)
  next
    case False
    with that have el: "el \<in> set (lru_ll c)" by (simp add: c1_def)
    from lru_inv_item [OF inv el] obtain k v where kv: "lru_items c el = Some (k, v)" "lru_m c k = Some el" by auto
    have "el < lru_next c" using inv el by (auto simp: lru_inv_def)
    with kv keys [OF el kv(1)] False show ?thesis by (auto simp: c1_def)
  qed
  have index1: "el \<in> set (lru_ll c1) \<and> (\<exists>v. lru_items c1 el = Some (k, v))" if "lru_m c1 k = Some el" for k el
  proof (cases "k = key")
    case True
    with that show ?thesis by (simp add: c1_def)
  next
    case False
    with that have "lru_m c k = Some el" by (simp add: c1_def)
    with inv obtain v where "el \<in> set (lru_ll c)" "lru_items c el = Some (k, v)" by (rule lru_inv_index)
    with fresh show ?thesis by (auto simp: c1_def)
  qed
  have dist1: "distinct (lru_ll c1)" using inv fresh by (auto simp: c1_def lru_inv_def)
  have cap: "1 \<le> lru_cap c" "length (lru_ll c) \<le> lru_cap c" "lru_cap c1 = lru_cap c"
    using inv by (auto simp: lru_inv_def c1_def)
  show ?thesis
  proof (cases "length (lru_ll c) < lru_cap c")
    case True
    then have "lru_evict c1 = c1" by (simp add: lru_evict_def c1_def)
    moreover have "lru_inv c1"
    proof -
      have "length (lru_ll c1) \<le> lru_cap c1" using True by (simp add: c1_def)
      moreover have "\<forall>el \<in> set (lru_ll c1). el < lru_next c1 \<and> (\<exists>k v. lru_items c1 el = Some (k, v) \<and> lru_m c1 k = Some el)"
        using items1 by blast
      ultimately show ?thesis
        unfolding lru_inv_def using dist1 cap(1,3) index1 by (intro conjI) auto
    qed
    ultimately show ?thesis
      using put abs1 nokey True by (simp add: spec_put_def lru_abs_def take_Cons')
  next
    case False
    with cap have full: "length (lru_ll c) = lru_cap c" by simp
    define l where "l = last (lru_ll c1)"
    have ne: "lru_ll c1 \<noteq> []" by (simp add: c1_def)
    obtain k' v' where l: "lru_items c1 l = Some (k', v')" "lru_m c1 k' = Some l"
      using items1 [of l] ne by (auto simp: l_def)
    have ev: "lru_evict c1 = c1\<lparr>lru_ll := butlast (lru_ll c1), lru_m := (lru_m c1)(k' := None)\<rparr>"
      using full l by (simp add: lru_evict_def l_def c1_def)
    have split: "lru_ll c1 = butlast (lru_ll c1) @ [l]" using ne by (simp add: l_def)
    have notl: "l \<notin> set (butlast (lru_ll c1))" using dist1 split by (metis distinct_append disjoint_iff list.set_intros(1))
    have "lru_inv (lru_evict c1)"
      unfolding lru_inv_def ev
    proof (intro conjI ballI allI impI)
      show "distinct (lru_ll (c1\<lparr>lru_ll := butlast (lru_ll c1), lru_m := (lru_m c1)(k' := None)\<rparr>))"
        using dist1 by (simp add: distinct_butlast)
    next
      fix el assume "el \<in> set (lru_ll (c1\<lparr>lru_ll := butlast (lru_ll c1), lru_m := (lru_m c1)(k' := None)\<rparr>))"
      then have el: "el \<in> set (lru_ll c1)" "el \<noteq> l" using notl by (auto dest: in_set_butlastD)
      from items1 [OF el(1)] obtain k v where kv: "lru_items c1 el = Some (k, v)" "lru_m c1 k = Some el" "el < lru_next c1"
        by auto
      with el(2) l(2) have "k \<noteq> k'" by auto
      with kv show "el < lru_next (c1\<lparr>lru_ll := butlast (lru_ll c1), lru_m := (lru_m c1)(k' := None)\<rparr>)"
        and "\<exists>k v. lru_items (c1\<lparr>lru_ll := butlast (lru_ll c1), lru_m := (lru_m c1)(k' := None)\<rparr>) el = Some (k, v) \<and>
            lru_m (c1\<lparr>lru_ll := butlast (lru_ll c1), lru_m := (lru_m c1)(k' := None)\<rparr>) k = Some el"
        by auto
    next
      fix k el assume "lru_m (c1\<lparr>lru_ll := butlast (lru_ll c1), lru_m := (lru_m c1)(k' := None)\<rparr>) k = Some el"
      then have k: "k \<noteq> k'" "lru_m c1 k = Some el" by (auto split: if_splits)
      then have "el \<noteq> l" using index1 [OF k(2)] l by auto
      with index1 [OF k(2)] split show "el \<in> set (lru_ll (c1\<lparr>lru_ll := butlast (lru_ll c1), lru_m := (lru_m c1)(k' := None)\<rparr>))"
        and "\<exists>v. lru_items (c1\<lparr>lru_ll := butlast (lru_ll c1), lru_m := (lru_m c1)(k' := None)\<rparr>) el = Some (k, v)"
        by (auto, metis Un_iff set_append set_ConsD empty_iff empty_set)
    qed (use cap full in \<open>simp_all add: c1_def\<close>)
    moreover have "lru_abs (lru_evict c1) = butlast (lru_abs c1)"
      by (simp add: ev lru_abs_def map_butlast)
    moreover have "butlast (lru_abs c1) = take (lru_cap c) (lru_abs c1)"
      using full by (simp add: butlast_conv_take lru_abs_def c1_def)
    ultimately show ?thesis using put abs1 nokey by (simp add: spec_put_def)
  qed
qed

lemma lru_put_refines:
  assumes "lru_inv c"
  shows "lru_inv (lru_put key val c) \<and> lru_abs (lru_put key val c) = spec_put (lru_cap c) key val (lru_abs c)"
  using lru_put_present [OF assms] lru_put_absent [OF assms] by (cases "lru_m c key") auto

lemma lru_put_cap [simp]: "lru_cap (lru_put key val c) = lru_cap c"
  by (auto simp: lru_put_def lru_evict_def split: option.split)

text \<open>C18: The least-recently-used map is the recency list: a lookup returns the value last stored and
  makes the key most recent, an insertion puts the key in front and drops only what exceeds the
  capacity from the back, and the invariant that bounds the size is kept.\<close>

theorem lru_refines_recency_list:
  assumes "lru_inv c"
  shows "fst (lru_get key c) = map_of (lru_abs c) key \<and>
    lru_abs (snd (lru_get key c)) = spec_touch key (lru_abs c) \<and>
    lru_abs (lru_put key val c) = spec_put (lru_cap c) key val (lru_abs c) \<and>
    lru_inv (snd (lru_get key c)) \<and> lru_inv (lru_put key val c) \<and>
    lru_len (lru_put key val c) \<le> lru_cap c"
proof -
  obtain r c' where g: "lru_get key c = (r, c')" by fastforce
  have "length (lru_ll (lru_put key val c)) \<le> lru_cap c"
    using lru_put_refines [OF assms, of key val] by (auto simp: lru_inv_def)
  then show ?thesis
    using lru_get_refines [OF assms g] lru_put_refines [OF assms, of key val] g by (simp add: lru_len_def)
qed

section \<open>The limiter's invariant\<close>

definition ml_inv :: "MemoryLimiter \<Rightarrow> bool" where
  "ml_inv m \<longleftrightarrow> (\<forall>i. lru_inv (ml_shards m i))"

definition ml_lookup :: "MemoryLimiter \<Rightarrow> string \<Rightarrow> limit_entry option" where
  "ml_lookup m key = map_of (lru_abs (ml_shards m (shardFor key))) key"

lemma map_of_take: "map_of xs k = None \<Longrightarrow> map_of (take n xs) k = None"
  by (induction xs arbitrary: n) (auto simp: take_Cons' split: if_splits)

lemma map_of_filter_other: "k \<noteq> key \<Longrightarrow> map_of (filter (\<lambda>p. fst p \<noteq> key) xs) k = map_of xs k"
  by (induction xs) auto

lemma map_of_take_Some: "map_of (take n xs) k = Some v \<Longrightarrow> map_of xs k = Some v"
  by (induction xs arbitrary: n) (auto simp: take_Cons' split: if_splits)

lemma spec_put_self: "1 \<le> cap \<Longrightarrow> map_of (spec_put cap key v xs) key = Some v"
  by (cases cap) (auto simp: spec_put_def)

lemma spec_put_other: "k \<noteq> key \<Longrightarrow> map_of (spec_put cap key v xs) k = Some e \<Longrightarrow> map_of xs k = Some e"
  unfolding spec_put_def by (drule map_of_take_Some) (simp add: map_of_filter_other split: if_splits)

lemma spec_touch_other: "k \<noteq> key \<Longrightarrow> map_of (spec_touch key xs) k = map_of xs k"
  by (simp add: spec_touch_def map_of_filter_other split: option.split)

text \<open>Looking a key up, or inserting it when it is missing, brings in no entry of another key.\<close>

lemma lookup_or_new_other:
  assumes inv: "lru_inv c" and g: "lru_get key c = (r, c1)" and k: "k \<noteq> key"
    and x: "map_of (lru_abs (case r of None \<Rightarrow> lru_put key e0 c1 | Some _ \<Rightarrow> c1)) k = Some x"
  shows "map_of (lru_abs c) k = Some x"
proof -
  note G = lru_get_refines [OF inv g]
  have "map_of (lru_abs c1) k = Some x"
  proof (cases r)
    case None
    with x lru_put_refines [of c1 key e0] G show ?thesis using spec_put_other [OF k] by (metis option.simps(4))
  next
    case (Some e)
    with x show ?thesis by simp
  qed
  with G k show ?thesis by (simp add: spec_touch_other)
qed


text \<open>The times at which a sequence of decisions on one entry asks for a report.\<close>

fun report_times :: "rate_lib \<Rightarrow> duration \<Rightarrow> limit_entry \<Rightarrow> time list \<Rightarrow> time list" where
  "report_times L cooldown e [] = []"
| "report_times L cooldown e (t # ts) =
     (case entry_step L cooldown t e of
        ((ok, retry, transitioned), e') \<Rightarrow>
          (if transitioned then [t] else []) @ report_times L cooldown e' ts)"

lemma entry_step_report:
  assumes "entry_step L cooldown now e = ((ok, retry, transitioned), e')"
  shows "transitioned \<Longrightarrow> \<not> ok \<and> time_Sub now (en_lastEmit e) > cooldown \<and> en_lastEmit e' = now"
    and "\<not> transitioned \<Longrightarrow> en_lastEmit e' = en_lastEmit e"
  using assms by (auto simp: entry_step_def Let_def split: prod.splits bool.splits)


end
