(* ===== verification/World.thy ===== *)
theory World
  imports Ratelimit
begin

text \<open>
  The state the components share: the PostgreSQL tables (the row structs of
  \<open>internal/*/db/models.go\<close> under the constraints of \<open>db/migrations\<close>), the audit
  recorder's channel, the limiters' and caches' memory, and the outside inputs a request consumes: faults of the database
  connection, clock readings, random UUIDs and random bytes. A statement is atomic; a lost
  connection is reported as an error whether or not the statement took effect
  (\<open>LostAfter\<close>, \<open>LostBefore\<close>). The locale \<open>db_order\<close> lifts relations
  between databases to actions. Text forms of UUIDs belong to the pgtype package and are a
  parameter, the record \<open>pgtype\<close>.
\<close>

section \<open>Errors\<close>

text \<open>Sentinel errors are per package, since \<open>errors.Is\<close> distinguishes them; wrapping with \<open>%w\<close>
  keeps the sentinel, so the message text is left out.\<close>

datatype pkg = PAuthz | POrg | PRole | PPrincipal | PDelegation

datatype err =
    ErrInvalidInput pkg
  | ErrNotFound pkg
  | ErrNoRows
  | UniqueViolation
  | ForeignKeyViolation
  | CheckViolation
  | ErrConn
  | ErrRand
  | ErrBadUUID
  | ErrInvalidKey
  | ErrNoActive
  | ErrText string

datatype code =
    CodeInvalidArgument | CodeNotFound | CodeInternal | CodeUnauthenticated
  | CodePermissionDenied | CodeResourceExhausted | CodeUnimplemented

text \<open>A Connect error: its code and, for a rate-limited call, the Retry-After metadata.\<close>

datatype rpc_error = RpcError (rpc_code: code) (rpc_retry_after: "string option")

definition NewError :: "code \<Rightarrow> rpc_error" where
  "NewError c = RpcError c None"

lemma NewError_sel [simp]: "rpc_code (NewError c) = c" "rpc_retry_after (NewError c) = None"
  by (simp_all add: NewError_def)

lemma NewError_eq [simp]: "NewError c = NewError c' \<longleftrightarrow> c = c'"
  by (simp add: NewError_def)

section \<open>Rows and tables\<close>

type_synonym uuid = "128 word"

record pgtype =
  uuid_Scan :: "string \<Rightarrow> uuid option"
  uuid_String :: "uuid \<Rightarrow> string"

definition uuid_codec :: "pgtype \<Rightarrow> bool" where
  "uuid_codec E \<longleftrightarrow> (\<forall>u. uuid_Scan E (uuid_String E u) = Some u)"

record principal_row =
  p_ID :: string
  p_Type :: string
  p_DisplayName :: string
  p_OwnerPrincipalID :: "string option"
  p_Capabilities :: "string list"
  p_Purpose :: string
  p_OnBehalfOf :: string
  p_CreatedAt :: time

record organization_row =
  o_ID :: uuid
  o_Name :: string
  o_ParentID :: "uuid option"
  o_CreatedAt :: time

record team_row =
  tm_ID :: uuid
  tm_OrgID :: uuid
  tm_Name :: string

record membership_row =
  mb_PrincipalID :: string
  mb_OrgID :: uuid

record team_membership_row =
  tmb_PrincipalID :: string
  tmb_TeamID :: uuid

record role_row =
  r_ID :: uuid
  r_OrgID :: uuid
  r_Name :: string
  r_Permissions :: "string list"

record role_assignment_row =
  ra_PrincipalID :: string
  ra_RoleID :: uuid
  ra_ScopeType :: string
  ra_ScopeID :: uuid

record ownership_row =
  ow_ResourceType :: string
  ow_ResourceID :: string
  ow_OwnerPrincipalID :: string
  ow_OrgID :: uuid

record delegation_row =
  d_ID :: uuid
  d_AgentPrincipalID :: string
  d_DelegatorPrincipalID :: string
  d_OrgID :: uuid
  d_Scope :: "string list"
  d_CnfJkt :: string
  d_ParentDelegationID :: "uuid option"
  d_ExpiresAt :: time
  d_Revoked :: bool
  d_CreatedAt :: time

record signing_key_row =
  sk_Kid :: string
  sk_Alg :: string
  sk_PrivateEnc :: bytes
  sk_State :: string
  sk_CreatedAt :: time
  sk_RetireAfter :: "time option"

record audit_row =
  au_Chain :: string
  au_Seq :: int
  au_Ts :: time
  au_ActorID :: string
  au_ActorType :: string
  au_SystemAdmin :: bool
  au_Action :: string
  au_TargetType :: string
  au_TargetID :: string
  au_OrgID :: string
  au_Outcome :: string
  au_Detail :: bytes
  au_PrevHash :: bytes
  au_Hash :: bytes

record api_key_row =
  k_KeyID :: string
  k_PrincipalID :: string
  k_OrgID :: string
  k_Name :: string
  k_Hash :: bytes
  k_HashVersion :: int
  k_ReadOnly :: bool
  k_Revoked :: bool
  k_CreatedAt :: time
  k_ExpiresAt :: "time option"
  k_LastUsedAt :: "time option"

text \<open>The migration ledger is a table as well, absent before the first start; \<open>executed_ddl\<close> are the
  migration scripts that have taken effect, in order.\<close>

record database =
  principals :: "principal_row list"
  organizations :: "organization_row list"
  teams :: "team_row list"
  memberships :: "membership_row list"
  team_memberships :: "team_membership_row list"
  roles :: "role_row list"
  role_assignments :: "role_assignment_row list"
  ownership :: "ownership_row list"
  delegations :: "delegation_row list"
  signing_keys :: "signing_key_row list"
  audit_events :: "audit_row list"
  api_keys :: "api_key_row list"
  schema_migrations :: "string list option"
  executed_ddl :: "string list"

definition empty_db :: database where
  "empty_db = \<lparr>principals = [], organizations = [], teams = [], memberships = [],
     team_memberships = [], roles = [], role_assignments = [], ownership = [],
     delegations = [], signing_keys = [], audit_events = [], api_keys = [],
     schema_migrations = None, executed_ddl = []\<rparr>"

text \<open>PostgreSQL keeps timestamps to the microsecond.\<close>

definition timestamptz :: "time \<Rightarrow> time" where
  "timestamptz t = truncate_us t"

subsection \<open>The schema's constraints\<close>

definition org_exists :: "database \<Rightarrow> uuid \<Rightarrow> bool" where
  "org_exists d u \<longleftrightarrow> u \<in> set (map o_ID (organizations d))"

definition team_exists :: "database \<Rightarrow> uuid \<Rightarrow> bool" where
  "team_exists d u \<longleftrightarrow> u \<in> set (map tm_ID (teams d))"

definition role_exists :: "database \<Rightarrow> uuid \<Rightarrow> bool" where
  "role_exists d u \<longleftrightarrow> u \<in> set (map r_ID (roles d))"

definition keys_ok :: "database \<Rightarrow> bool" where
  "keys_ok d \<longleftrightarrow>
     distinct (map p_ID (principals d)) \<and>
     distinct (map o_ID (organizations d)) \<and>
     distinct (map tm_ID (teams d)) \<and>
     distinct (map (\<lambda>m. (mb_PrincipalID m, mb_OrgID m)) (memberships d)) \<and>
     distinct (map (\<lambda>m. (tmb_PrincipalID m, tmb_TeamID m)) (team_memberships d)) \<and>
     distinct (map r_ID (roles d)) \<and>
     distinct (map (\<lambda>r. (r_OrgID r, r_Name r)) (roles d)) \<and>
     distinct (map (\<lambda>a. (ra_PrincipalID a, ra_RoleID a, ra_ScopeType a, ra_ScopeID a))
       (role_assignments d)) \<and>
     distinct (map (\<lambda>x. (ow_ResourceType x, ow_ResourceID x)) (ownership d)) \<and>
     distinct (map d_ID (delegations d)) \<and>
     distinct (map sk_Kid (signing_keys d)) \<and>
     distinct (map (\<lambda>a. (au_Chain a, au_Seq a)) (audit_events d)) \<and>
     distinct (map k_KeyID (api_keys d))"

definition refs_ok :: "database \<Rightarrow> bool" where
  "refs_ok d \<longleftrightarrow>
     (\<forall>t \<in> set (teams d). org_exists d (tm_OrgID t)) \<and>
     (\<forall>m \<in> set (memberships d). org_exists d (mb_OrgID m)) \<and>
     (\<forall>m \<in> set (team_memberships d). team_exists d (tmb_TeamID m)) \<and>
     (\<forall>r \<in> set (roles d). org_exists d (r_OrgID r)) \<and>
     (\<forall>a \<in> set (role_assignments d). role_exists d (ra_RoleID a)) \<and>
     (\<forall>x \<in> set (ownership d). org_exists d (ow_OrgID x)) \<and>
     (\<forall>x \<in> set (delegations d). org_exists d (d_OrgID x)) \<and>
     (\<forall>r \<in> set (organizations d). \<forall>u. o_ParentID r = Some u \<longrightarrow> org_exists d u) \<and>
     (\<forall>x \<in> set (delegations d). \<forall>u. d_ParentDelegationID x = Some u \<longrightarrow>
        u \<in> set (map d_ID (delegations d)))"

definition checks_ok :: "database \<Rightarrow> bool" where
  "checks_ok d \<longleftrightarrow>
     (\<forall>p \<in> set (principals d). p_Type p \<in> {''human'', ''service'', ''agent''}) \<and>
     (\<forall>a \<in> set (role_assignments d). ra_ScopeType a \<in> {''org'', ''team''}) \<and>
     length (filter (\<lambda>k. sk_State k = ''active'') (signing_keys d)) \<le> 1"

definition db_ok :: "database \<Rightarrow> bool" where
  "db_ok d \<longleftrightarrow> keys_ok d \<and> refs_ok d \<and> checks_ok d"

lemmas db_ok_defs = db_ok_def keys_ok_def refs_ok_def checks_ok_def

lemma db_ok_empty [simp]: "db_ok empty_db"
  by (simp add: db_ok_defs empty_db_def)

section \<open>The world a request runs in\<close>

record audit_event =
  ev_ActorID :: string
  ev_ActorType :: string
  ev_SystemAdmin :: bool
  ev_Action :: string
  ev_TargetType :: string
  ev_TargetID :: string
  ev_OrgID :: string
  ev_Outcome :: string
  ev_Detail :: "(string \<rightharpoonup> string) option"

record queued =
  q_chain :: string
  q_e :: audit_event

text \<open>The identity engine's side: the principals it holds, and the adapter's memory of having
  opened the user profile.\<close>

record EnginePrincipal =
  ep_ID :: string
  ep_Type :: string
  ep_DisplayName :: string
  ep_Metadata :: "string \<rightharpoonup> string"

record engine_state =
  eng_seq :: int
  eng_items :: "string \<rightharpoonup> EnginePrincipal"
  eng_calls :: int
  eng_attrs_ensured :: bool

text \<open>A signing key (\<open>signingkey.Key\<close>); the private key is \<open>None\<close> for Go's nil pointer. The
  manager keeps a keyset in memory.\<close>

record Key =
  key_Kid :: string
  key_Priv :: "bytes option"

record Keyset =
  ks_Active :: Key
  ks_All :: "Key list"

definition no_key :: Key where
  "no_key = \<lparr>key_Kid = '''', key_Priv = None\<rparr>"

definition no_keyset :: Keyset where
  "no_keyset = \<lparr>ks_Active = no_key, ks_All = []\<rparr>"

datatype fault = Up | LostBefore | LostAfter

record world =
  db :: database
  faults :: "fault list"
  clock :: time
  ticks :: "nat list"
  uuid_src :: "nat \<Rightarrow> uuid"
  uuid_pos :: nat
  rand_src :: "nat \<Rightarrow> 8 word"
  rand_pos :: nat
  chan :: "queued list"
  chan_cap :: nat
  dropped :: int
  eng :: engine_state
  mgr_cached :: Keyset
  mgr_loadedAt :: time
  unkCount :: int
  unkLastFlush :: time
  ipLim :: "Limiter option"
  globalLim :: "Limiter option"
  prLim :: "Limiter option"
  rootLastEmit :: time
  kc_keys :: "string \<rightharpoonup> bytes"
  kc_fetched :: time
  kc_lastRefreshAttempt :: time
  jwks_responses :: "(string \<times> bytes option) list option list"

type_synonym ('e, 'a) wact = "(world, 'e, 'a) act"

definition next_fault :: "world \<Rightarrow> fault \<times> world" where
  "next_fault w = (case faults w of [] \<Rightarrow> (Up, w) | f # fs \<Rightarrow> (f, w\<lparr>faults := fs\<rparr>))"

text \<open>One SQL statement: it fails with its own error or yields a result and new tables.\<close>

definition sql :: "(database \<Rightarrow> err + 'a \<times> database) \<Rightarrow> (err, 'a) wact" where
  "sql q w =
     (case next_fault w of
        (Up, w1) \<Rightarrow> (case q (db w1) of Inl e \<Rightarrow> (Inl e, w1) | Inr (x, d) \<Rightarrow> (Inr x, w1\<lparr>db := d\<rparr>))
      | (LostBefore, w1) \<Rightarrow> (Inl ErrConn, w1)
      | (LostAfter, w1) \<Rightarrow>
          (Inl ErrConn, case q (db w1) of Inl e \<Rightarrow> w1 | Inr (x, d) \<Rightarrow> w1\<lparr>db := d\<rparr>))"

definition sql_read :: "(database \<Rightarrow> 'a) \<Rightarrow> (err, 'a) wact" where
  "sql_read q = sql (\<lambda>d. Inr (q d, d))"

definition sql_one :: "(database \<Rightarrow> 'a option) \<Rightarrow> (err, 'a) wact" where
  "sql_one q = sql (\<lambda>d. case q d of None \<Rightarrow> Inl ErrNoRows | Some x \<Rightarrow> Inr (x, d))"

text \<open>A reading of the clock; the clock may advance before each reading.\<close>

definition time_Now :: "('e, time) wact" where
  "time_Now w =
     (let t = clock w + (case ticks w of [] \<Rightarrow> 0 | k # ks \<Rightarrow> int k)
      in (Inr t, w\<lparr>clock := t, ticks := tl (ticks w)\<rparr>))"

definition gen_random_uuid :: "('e, uuid) wact" where
  "gen_random_uuid w = (Inr (uuid_src w (uuid_pos w)), w\<lparr>uuid_pos := Suc (uuid_pos w)\<rparr>)"

definition rand_Read :: "nat \<Rightarrow> (err, bytes) wact" where
  "rand_Read n w =
     (case next_fault w of
        (Up, w1) \<Rightarrow> (Inr (map (\<lambda>i. rand_src w1 (rand_pos w1 + i)) [0..<n]), w1\<lparr>rand_pos := rand_pos w1 + n\<rparr>)
      | (_, w1) \<Rightarrow> (Inl ErrRand, w1))"

text \<open>A transaction: an error before the commit restores the tables it started from; a commit
  whose acknowledgement is lost is an error with the effects kept.\<close>

definition in_tx :: "(err, 'a) wact \<Rightarrow> (err, 'a) wact" where
  "in_tx m w =
     (case next_fault w of
        (Up, w1) \<Rightarrow>
          (case m w1 of
             (Inl e, w2) \<Rightarrow> (Inl e, w2\<lparr>db := db w1\<rparr>)
           | (Inr x, w2) \<Rightarrow>
               (case next_fault w2 of
                  (Up, w3) \<Rightarrow> (Inr x, w3)
                | (LostBefore, w3) \<Rightarrow> (Inl ErrConn, w3\<lparr>db := db w1\<rparr>)
                | (LostAfter, w3) \<Rightarrow> (Inl ErrConn, w3)))
      | (_, w1) \<Rightarrow> (Inl ErrConn, w1))"

definition db_rel :: "(database \<Rightarrow> database \<Rightarrow> bool) \<Rightarrow> world \<Rightarrow> world \<Rightarrow> bool" where
  "db_rel Q w w' \<longleftrightarrow> Q (db w) (db w')"

lemma next_fault_db [simp]: "next_fault w = (f, w') \<Longrightarrow> db w' = db w"
  by (auto simp: next_fault_def split: list.splits)

lemma next_fault_healthy [simp]: "faults w = [] \<Longrightarrow> next_fault w = (Up, w)"
  by (simp add: next_fault_def)

lemma sql_healthy [simp]:
  "faults w = [] \<Longrightarrow>
     sql q w = (case q (db w) of Inl e \<Rightarrow> (Inl e, w) | Inr (x, d) \<Rightarrow> (Inr x, w\<lparr>db := d\<rparr>))"
  by (simp add: sql_def)

lemma sql_read_healthy [simp]: "faults w = [] \<Longrightarrow> sql_read q w = (Inr (q (db w)), w)"
  by (simp add: sql_read_def)

lemma sql_one_healthy [simp]:
  "faults w = [] \<Longrightarrow>
     sql_one q w = (case q (db w) of None \<Rightarrow> (Inl ErrNoRows, w) | Some x \<Rightarrow> (Inr x, w))"
  by (simp add: sql_one_def split: option.split)

lemma sql_InrD:
  assumes "sql q w = (Inr x, w')"
  shows "\<exists>d. q (db w) = Inr (x, d) \<and> db w' = d"
  using assms by (auto simp: sql_def split: prod.splits fault.splits sum.splits)

lemma sql_outcome:
  assumes "sql q w = (r, w')"
  shows "db w' = db w \<or> (\<exists>x d. q (db w) = Inr (x, d) \<and> db w' = d)"
  using assms by (auto simp: sql_def split: prod.splits fault.splits sum.splits)

lemma sql_read_InrD: "sql_read q w = (Inr x, w') \<Longrightarrow> x = q (db w) \<and> db w' = db w"
  unfolding sql_read_def by (auto dest: sql_InrD)

lemma sql_one_InrD: "sql_one q w = (Inr x, w') \<Longrightarrow> q (db w) = Some x \<and> db w' = db w"
  unfolding sql_one_def by (auto dest!: sql_InrD split: option.splits)

lemma in_tx_healthy:
  "faults w = [] \<Longrightarrow> m w = (r, w') \<Longrightarrow> faults w' = [] \<Longrightarrow>
     in_tx m w = (case r of Inl e \<Rightarrow> (Inl e, w'\<lparr>db := db w\<rparr>) | Inr x \<Rightarrow> (Inr x, w'))"
  by (auto simp: in_tx_def split: sum.split)

lemma in_tx_cases:
  assumes "in_tx m w = (r, w')"
  obtains (rolled_back) e where "r = Inl e" "db w' = db w"
    | (committed) w1 w2 x where "db w1 = db w" "m w1 = (Inr x, w2)" "db w' = db w2" "r = Inr x \<or> r = Inl ErrConn"
proof -
  obtain f w1 where f: "next_fault w = (f, w1)" by fastforce
  obtain r2 w2 where m: "m w1 = (r2, w2)" by fastforce
  obtain g w3 where g: "next_fault w2 = (g, w3)" by fastforce
  note d = next_fault_db [OF f] next_fault_db [OF g]
  show thesis
  proof (cases "f = Up \<and> (\<exists>x. r2 = Inr x) \<and> g \<noteq> LostBefore")
    case True
    then obtain x where "r2 = Inr x" by auto
    moreover have "db w' = db w2" "r = Inr x \<or> r = Inl ErrConn"
      using assms f m g d True \<open>r2 = Inr x\<close> by (auto simp: in_tx_def split: fault.splits)
    ultimately show thesis using committed [of w1 x w2] m d by simp
  next
    case False
    then have "db w' = db w \<and> (\<exists>e. r = Inl e)"
      using assms f m g d by (cases r2) (auto simp: in_tx_def split: fault.splits)
    then show thesis using rolled_back by auto
  qed
qed

lemma in_tx_InrD:
  assumes "in_tx m w = (Inr x, w')"
  shows "\<exists>w1 w2. db w1 = db w \<and> m w1 = (Inr x, w2) \<and> db w' = db w2"
  using assms by (rule in_tx_cases) auto

lemma time_Now_apply [action_simps]:
  "time_Now w = (let t = clock w + (case ticks w of [] \<Rightarrow> 0 | k # ks \<Rightarrow> int k)
      in (Inr t, w\<lparr>clock := t, ticks := tl (ticks w)\<rparr>))"
  by (rule time_Now_def)

lemma time_Now_InrD:
  "time_Now w = (Inr t, w') \<Longrightarrow> clock w \<le> t \<and> clock w' = t \<and> db w' = db w \<and> faults w' = faults w"
  by (auto simp: time_Now_def Let_def split: list.splits)

lemma time_Now_total:
  obtains t w' where "time_Now w = (Inr t, w')" "clock w \<le> t" "clock w' = t" "db w' = db w"
    "faults w' = faults w"
proof -
  have "\<exists>t w'. time_Now w = (Inr t, w') \<and> clock w \<le> t \<and> clock w' = t \<and> db w' = db w \<and>
      faults w' = faults w"
    by (simp add: time_Now_def Let_def split: list.split)
  with that show thesis by blast
qed

lemma gen_random_uuid_total:
  obtains u w' where "gen_random_uuid w = (Inr u, w')" "db w' = db w" "faults w' = faults w"
proof -
  have "\<exists>u w'. gen_random_uuid w = (Inr u, w') \<and> db w' = db w \<and> faults w' = faults w"
    by (simp add: gen_random_uuid_def)
  with that show thesis by blast
qed

lemma time_Now_not_Inl [simp]: "time_Now w \<noteq> (Inl e, w')"
  by (simp add: time_Now_def Let_def)

lemma gen_random_uuid_not_Inl [simp]: "gen_random_uuid w \<noteq> (Inl e, w')"
  by (simp add: gen_random_uuid_def)

text \<open>Relations between databases, lifted to actions.\<close>

locale db_order =
  fixes Q :: "database \<Rightarrow> database \<Rightarrow> bool"
  assumes db_refl: "Q d d"
    and db_trans: "Q a b \<Longrightarrow> Q b c \<Longrightarrow> Q a c"

sublocale db_order \<subseteq> so: state_order "db_rel Q"
  by unfold_locales (auto simp: db_rel_def intro: db_refl db_trans)

context db_order begin

lemma keeps_db_unchanged: "(\<And>w. db (snd (m w)) = db w) \<Longrightarrow> keeps (db_rel Q) m"
  by (simp add: keeps_def db_rel_def db_refl)

lemma keeps_of_same: "keeps (db_rel (=)) m \<Longrightarrow> keeps (db_rel Q) m"
  by (rule keeps_db_unchanged) (simp add: keeps_def db_rel_def)

lemma keeps_sql:
  assumes "\<And>d x d'. q d = Inr (x, d') \<Longrightarrow> Q d d'"
  shows "keeps (db_rel Q) (sql q)"
proof (rule keepsI)
  fix w
  show "db_rel Q w (snd (sql q w))"
    using assms [of "db w"]
    by (auto simp: sql_def db_rel_def db_refl split: prod.split fault.split sum.split)
qed

lemma keeps_sql_read [keeps_rules]: "keeps (db_rel Q) (sql_read q)"
  unfolding sql_read_def by (rule keeps_sql) (auto intro: db_refl)

lemma keeps_sql_one [keeps_rules]: "keeps (db_rel Q) (sql_one q)"
  unfolding sql_one_def by (rule keeps_sql) (auto intro: db_refl split: option.splits)

lemma keeps_time_Now [keeps_rules]: "keeps (db_rel Q) time_Now"
  by (rule keeps_db_unchanged) (simp add: time_Now_def Let_def)

lemma keeps_gen_random_uuid [keeps_rules]: "keeps (db_rel Q) gen_random_uuid"
  by (rule keeps_db_unchanged) (simp add: gen_random_uuid_def)

lemma keeps_rand_Read [keeps_rules]: "keeps (db_rel Q) (rand_Read n)"
  by (rule keeps_db_unchanged) (auto simp: rand_Read_def split: prod.split fault.split)

lemma keeps_in_tx [keeps_rules]:
  assumes "keeps (db_rel Q) m"
  shows "keeps (db_rel Q) (in_tx m)"
proof (rule keepsI)
  fix w
  have "Q (db w1) (db w2)" if "m w1 = (r, w2)" for w1 w2 r
    using keeps_eqD [OF assms that] by (simp add: db_rel_def)
  then show "db_rel Q w (snd (in_tx m w))"
    by (fastforce simp: in_tx_def db_rel_def db_refl split: prod.split fault.split sum.split)
qed

end

text \<open>The two relations used everywhere: the tables are unchanged, and a property of the tables
  is kept.\<close>

definition stays :: "(database \<Rightarrow> bool) \<Rightarrow> database \<Rightarrow> database \<Rightarrow> bool" where
  "stays I d d' \<longleftrightarrow> (I d \<longrightarrow> I d')"

interpretation same_db: db_order "(=)"
  by unfold_locales auto

interpretation stays: db_order "stays I" for I
  by unfold_locales (auto simp: stays_def)

lemma keeps_sameD: "keeps (db_rel (=)) m \<Longrightarrow> m w = (r, w') \<Longrightarrow> db w' = db w"
  by (drule (1) keeps_eqD) (simp add: db_rel_def)

lemma keeps_staysD: "keeps (db_rel (stays I)) m \<Longrightarrow> I (db w) \<Longrightarrow> I (db (snd (m w)))"
  by (drule keepsD [where w = w]) (simp add: db_rel_def stays_def)

text \<open>A healthy connection stays healthy: an action consumes faults and never adds one.\<close>

definition up_rel :: "world \<Rightarrow> world \<Rightarrow> bool" where
  "up_rel w w' \<longleftrightarrow> (faults w = [] \<longrightarrow> faults w' = [])"

interpretation up: state_order up_rel
  by unfold_locales (auto simp: up_rel_def)

lemma up_sql [keeps_rules]: "keeps up_rel (sql q)"
  by (rule keepsI) (simp add: up_rel_def split: sum.split prod.split)

lemma up_sql_read [keeps_rules]: "keeps up_rel (sql_read q)"
  unfolding sql_read_def by (rule up_sql)

lemma up_sql_one [keeps_rules]: "keeps up_rel (sql_one q)"
  unfolding sql_one_def by (rule up_sql)

lemma up_time_Now [keeps_rules]: "keeps up_rel time_Now"
  by (rule keepsI) (simp add: up_rel_def time_Now_def Let_def)

lemma up_gen_random_uuid [keeps_rules]: "keeps up_rel gen_random_uuid"
  by (rule keepsI) (simp add: up_rel_def gen_random_uuid_def)

lemma up_rand_Read [keeps_rules]: "keeps up_rel (rand_Read n)"
  by (rule keepsI) (simp add: up_rel_def rand_Read_def)

lemma up_in_tx [keeps_rules]:
  assumes "keeps up_rel m"
  shows "keeps up_rel (in_tx m)"
proof (rule keepsI)
  fix w
  have "faults w = [] \<Longrightarrow> faults (snd (m w)) = []" using keepsD [OF assms, of w] by (simp add: up_rel_def)
  then show "up_rel w (snd (in_tx m w))"
    by (auto simp: up_rel_def in_tx_def split: prod.split sum.split)
qed

lemma keeps_upD: "keeps up_rel m \<Longrightarrow> m w = (r, w') \<Longrightarrow> faults w = [] \<Longrightarrow> faults w' = []"
  by (drule (1) keeps_eqD) (simp add: up_rel_def)

text \<open>The clock only advances.\<close>

definition clock_rel :: "world \<Rightarrow> world \<Rightarrow> bool" where
  "clock_rel w w' \<longleftrightarrow> clock w \<le> clock w'"

interpretation clk: state_order clock_rel
  by unfold_locales (auto simp: clock_rel_def)

lemma clock_next_fault:
  assumes "next_fault w = (f, w')"
  shows "clock w' = clock w"
proof -
  have "clock (snd (next_fault w)) = clock w" by (cases "faults w") (simp_all add: next_fault_def)
  with assms show ?thesis by simp
qed

lemma clk_sql [keeps_rules]: "keeps clock_rel (sql q)"
proof (rule keepsI)
  fix w
  obtain f w1 where f: "next_fault w = (f, w1)" by fastforce
  from clock_next_fault [OF f] show "clock_rel w (snd (sql q w))"
    by (cases f) (simp_all add: clock_rel_def sql_def f split: sum.split prod.split)
qed

lemma clk_sql_read [keeps_rules]: "keeps clock_rel (sql_read q)"
  unfolding sql_read_def by (rule clk_sql)

lemma clk_sql_one [keeps_rules]: "keeps clock_rel (sql_one q)"
  unfolding sql_one_def by (rule clk_sql)

lemma clk_time_Now [keeps_rules]: "keeps clock_rel time_Now"
  by (rule keepsI) (simp add: clock_rel_def time_Now_def Let_def split: list.split)

lemma clk_gen_random_uuid [keeps_rules]: "keeps clock_rel gen_random_uuid"
  by (rule keepsI) (simp add: clock_rel_def gen_random_uuid_def)

lemma clk_rand_Read [keeps_rules]: "keeps clock_rel (rand_Read n)"
proof (rule keepsI)
  fix w
  obtain f w1 where f: "next_fault w = (f, w1)" by fastforce
  from clock_next_fault [OF f] show "clock_rel w (snd (rand_Read n w))"
    by (cases f) (simp_all add: clock_rel_def rand_Read_def f)
qed

lemma clk_in_tx [keeps_rules]:
  assumes "keeps clock_rel m"
  shows "keeps clock_rel (in_tx m)"
proof (rule keepsI)
  fix w
  obtain f w1 where f: "next_fault w = (f, w1)" by fastforce
  obtain r w2 where m: "m w1 = (r, w2)" by fastforce
  obtain g w3 where g: "next_fault w2 = (g, w3)" by fastforce
  have "clock w \<le> clock w2" "clock w3 = clock w2" "clock w1 = clock w"
    using keeps_eqD [OF assms m] clock_next_fault [OF f] clock_next_fault [OF g]
    by (simp_all add: clock_rel_def)
  then show "clock_rel w (snd (in_tx m w))"
    by (cases f; cases r; cases g) (simp_all add: clock_rel_def in_tx_def f m g)
qed

lemma keeps_clkD: "keeps clock_rel m \<Longrightarrow> m w = (r, w') \<Longrightarrow> clock w \<le> clock w'"
  by (drule (1) keeps_eqD) (simp add: clock_rel_def)

end
