(* ===== verification/Apikey_Format.thy ===== *)
theory Apikey_Format
  imports Encoding World
begin

text \<open>
  \<open>internal/apikey/format.go\<close> and \<open>hash.go\<close>: the textual form
  \<open>bsk_<keyID>_<secret><crc>\<close> of an API key, its generation and parsing, and the keyed
  hash under which the secret is stored. HMAC-SHA-256 is the parameter \<open>hmac\<close>.
\<close>

definition Prefix :: string where "Prefix = ''bsk_''"
definition keyIDLen :: nat where "keyIDLen = 16"
definition secretLen :: nat where "secretLen = 32"
definition crcLen :: nat where "crcLen = 6"

lemmas format_consts = Prefix_def keyIDLen_def secretLen_def crcLen_def

definition to_base62 :: "bytes \<Rightarrow> string" where
  "to_base62 bs = map (\<lambda>b. alphabet ! (unat b mod 62)) bs"

definition randBase62 :: "nat \<Rightarrow> (err, string) wact" where
  "randBase62 n = go_bind (rand_Read n) (\<lambda>b. go_ret (to_base62 b))"

definition crc :: "string \<Rightarrow> string" where
  "crc payload = base62 crcLen (unat (crc32_ChecksumIEEE (bytes_of payload)))"

definition Generate :: "(err, string \<times> string \<times> string) wact" where
  "Generate =
     go_bind (randBase62 keyIDLen) (\<lambda>keyID.
     go_bind (randBase62 secretLen) (\<lambda>secret.
     let body = Prefix @ keyID @ ''_'' @ secret
     in go_ret (body @ crc body, keyID, secret)))"

definition Parse :: "string \<Rightarrow> (string \<times> string) option" where
  "Parse token =
     (if \<not> strings_HasPrefix token Prefix then None
      else
        let rest = drop (length Prefix) token
        in if strings_IndexByte rest CHR ''_'' \<noteq> Some keyIDLen then None
           else
             let keyID = take keyIDLen rest;
                 tail = drop (keyIDLen + 1) rest
             in if length tail \<noteq> secretLen + crcLen then None
                else
                  let secret = take secretLen tail;
                      gotCRC = drop secretLen tail
                  in if crc (Prefix @ keyID @ ''_'' @ secret) \<noteq> gotCRC then None
                     else Some (keyID, secret))"

section \<open>Hashing\<close>

type_synonym hmac_op = "bytes \<Rightarrow> bytes \<Rightarrow> bytes"

definition LoadPepper :: "string \<Rightarrow> err + bytes" where
  "LoadPepper b64 =
     (if b64 = '''' then Inl (ErrText ''BS_APIKEY_PEPPER is required'')
      else case StdEncoding_DecodeString b64 of
        None \<Rightarrow> Inl (ErrText ''BS_APIKEY_PEPPER not valid base64'')
      | Some raw \<Rightarrow>
          if length raw < 32 then Inl (ErrText ''BS_APIKEY_PEPPER must be >=32 bytes'') else Inr raw)"

definition NewHasher :: "bytes \<Rightarrow> err + bytes" where
  "NewHasher pepper =
     (if length pepper < 32 then Inl (ErrText ''pepper must be >=32 bytes'') else Inr pepper)"

definition Hash :: "hmac_op \<Rightarrow> bytes \<Rightarrow> string \<Rightarrow> bytes" where
  "Hash hmac pepper secret = hmac pepper (bytes_of secret)"

definition Equal :: "hmac_op \<Rightarrow> bytes \<Rightarrow> string \<Rightarrow> bytes \<Rightarrow> bool" where
  "Equal hmac pepper secret stored \<longleftrightarrow> Hash hmac pepper secret = stored"

section \<open>Shape\<close>

lemma length_crc [simp]: "length (crc p) = crcLen"
  by (simp add: crc_def)

lemma crc_no_underscore: "CHR ''_'' \<notin> set (crc p)"
  using base62_in_alphabet underscore_not_in_alphabet by (auto simp: crc_def)

lemma length_to_base62 [simp]: "length (to_base62 bs) = length bs"
  by (simp add: to_base62_def)

lemma to_base62_alphabet: "set (to_base62 bs) \<subseteq> set alphabet"
  by (auto simp: to_base62_def)

text \<open>A token with its parts in place parses exactly when the checksum is right.\<close>

lemma Parse_parts:
  assumes "length k = keyIDLen" "CHR ''_'' \<notin> set k" "length s = secretLen" "length c = crcLen"
  shows "Parse (Prefix @ k @ ''_'' @ s @ c) =
    (if crc (Prefix @ k @ ''_'' @ s) = c then Some (k, s) else None)"
proof -
  have rest: "drop (length Prefix) (Prefix @ k @ ''_'' @ s @ c) = k @ CHR ''_'' # s @ c" by simp
  have idx: "strings_IndexByte (k @ CHR ''_'' # s @ c) CHR ''_'' = Some keyIDLen"
    using IndexByte_append [OF assms(2)] assms(1) by simp
  show ?thesis
    unfolding Parse_def rest Let_def idx using assms by simp
qed

text \<open>Conversely, whatever parses has this shape.\<close>

lemma Parse_SomeD:
  assumes "Parse t = Some (k, s)"
  shows "length k = keyIDLen \<and> CHR ''_'' \<notin> set k \<and> length s = secretLen \<and>
    t = Prefix @ k @ ''_'' @ s @ crc (Prefix @ k @ ''_'' @ s)"
proof -
  define rest where "rest = drop (length Prefix) t"
  have t: "t = Prefix @ rest"
    using assms by (auto simp: Parse_def rest_def HasPrefix_iff split: if_splits)
  have idx: "strings_IndexByte rest CHR ''_'' = Some keyIDLen"
    and len: "length (drop (keyIDLen + 1) rest) = secretLen + crcLen"
    and k: "k = take keyIDLen rest" and s: "s = take secretLen (drop (keyIDLen + 1) rest)"
    and c: "crc (Prefix @ k @ ''_'' @ s) = drop secretLen (drop (keyIDLen + 1) rest)"
    using assms by (auto simp: Parse_def rest_def Let_def split: if_splits)
  have i: "keyIDLen < length rest" "rest ! keyIDLen = CHR ''_''" "CHR ''_'' \<notin> set (take keyIDLen rest)"
    using IndexByte_SomeD [OF idx] by auto
  have "rest = take keyIDLen rest @ CHR ''_'' # drop (keyIDLen + 1) rest"
    using i(1,2) by (metis Suc_eq_plus1 id_take_nth_drop)
  also have "drop (keyIDLen + 1) rest = s @ crc (Prefix @ k @ ''_'' @ s)"
    unfolding c unfolding s by (rule append_take_drop_id [symmetric])
  finally have "rest = k @ ''_'' @ s @ crc (Prefix @ k @ ''_'' @ s)" using k by simp
  moreover have "length k = keyIDLen" "length s = secretLen" using i(1) k s len by simp_all
  ultimately show ?thesis using t i(3) k by simp
qed

lemma Generate_parses:
  assumes "Generate w = (Inr (plaintext, keyID, secret), w')"
  shows "Parse plaintext = Some (keyID, secret)" "length plaintext = 59"
proof -
  from assms obtain b1 b2 w1 w2 w3 where r: "rand_Read keyIDLen w = (Inr b1, w1)"
    "rand_Read secretLen w2 = (Inr b2, w3)" "keyID = to_base62 b1" "secret = to_base62 b2"
    and pt: "plaintext = (Prefix @ keyID @ ''_'' @ secret) @ crc (Prefix @ keyID @ ''_'' @ secret)"
    unfolding Generate_def randBase62_def by (auto elim!: go_bind_InrD simp: Let_def)
  have "length b1 = keyIDLen" "length b2 = secretLen"
    using r(1,2) by (auto simp: rand_Read_def split: prod.splits fault.splits)
  with r(3,4) pt have b: "length b1 = keyIDLen" "keyID = to_base62 b1"
    "length b2 = secretLen" "secret = to_base62 b2"
    "plaintext = (Prefix @ keyID @ ''_'' @ secret) @ crc (Prefix @ keyID @ ''_'' @ secret)"
    by blast+
  have "CHR ''_'' \<notin> set keyID"
    using b(2) to_base62_alphabet underscore_not_in_alphabet by blast
  with b Parse_parts [of keyID secret "crc (Prefix @ keyID @ ''_'' @ secret)"]
  show "Parse plaintext = Some (keyID, secret)" "length plaintext = 59" by (simp_all add: format_consts)
qed

section \<open>Properties\<close>

lemma bytes_of_split: "bytes_of (xs @ c # ys) = bytes_of xs @ word_of_nat (of_char c) # bytes_of ys"
  by (simp add: bytes_of_def)

lemma crc_single_char:
  assumes "a \<noteq> b"
  shows "crc (xs @ a # ys) \<noteq> crc (xs @ b # ys)"
proof
  assume eq: "crc (xs @ a # ys) = crc (xs @ b # ys)"
  have "(2::nat) ^ LENGTH(32) < 62 ^ crcLen" by (simp add: crcLen_def)
  then have "unat v < 62 ^ crcLen" for v :: "32 word"
    using unsigned_less [of v, where ?'a = nat] by (meson less_trans)
  with eq have "unat (crc32_ChecksumIEEE (bytes_of (xs @ a # ys))) = unat (crc32_ChecksumIEEE (bytes_of (xs @ b # ys)))"
    unfolding crc_def by (blast intro: base62_inj)
  then have "crc32_ChecksumIEEE (bytes_of (xs @ a # ys)) = crc32_ChecksumIEEE (bytes_of (xs @ b # ys))"
    by (rule unsigned_word_eqI)
  moreover have "(word_of_nat (of_char a) :: 8 word) \<noteq> word_of_nat (of_char b)"
    using assms bytes_of_eq_iff [of "[a]" "[b]"] by (simp add: bytes_of_def)
  ultimately show False by (simp only: bytes_of_split) (metis crc32_single_byte)
qed

text \<open>C31: A single wrong character is always caught: changing one character of a well-formed key, at
  any position, makes it unparseable.\<close>

theorem Parse_rejects_single_typo:
  assumes "Parse t = Some (k, s)" and "i < length t" and "c \<noteq> t ! i"
  shows "Parse (t[i := c]) = None"
proof (rule ccontr)
  assume "Parse (t[i := c]) \<noteq> None"
  then obtain k' s' where p': "Parse (t[i := c]) = Some (k', s')" by auto
  define b where "b = Prefix @ k @ ''_'' @ s"
  define b' where "b' = Prefix @ k' @ ''_'' @ s'"
  have t: "t = b @ crc b" "length b = 53" "t[i := c] = b' @ crc b'" "length b' = 53"
    using Parse_SomeD [OF assms(1)] Parse_SomeD [OF p'] by (auto simp: b_def b'_def format_consts)
  show False
  proof (cases "i < 53")
    case True
    then have "b' = b[i := c] \<and> crc b' = crc b"
      using t by (metis append_eq_append_conv length_list_update list_update_append1)
    moreover have "b = take i b @ b ! i # drop (Suc i) b" "b[i := c] = take i b @ c # drop (Suc i) b"
      using True t(2) by (simp_all add: id_take_nth_drop upd_conv_take_nth_drop)
    moreover have "b ! i \<noteq> c" using assms(3) True t(1,2) by (auto simp: nth_append)
    ultimately show False using crc_single_char [of "b ! i" c "take i b" "drop (Suc i) b"] by metis
  next
    case False
    then have "t[i := c] = b @ (crc b)[i - 53 := c]" using t(1,2) by (simp add: list_update_append)
    then have "b' = b" "crc b' = (crc b)[i - 53 := c]" using t(2,3,4) by (metis append_eq_append_conv)+
    then have "crc b ! (i - 53) = c"
      using assms(2) False t(1,2) by (metis add_diff_inverse_nat length_append nat_add_left_cancel_less nth_list_update_eq)
    with assms(3) False t(1,2) show False by (auto simp: nth_append)
  qed
qed

end
