(* ===== verification/Authn.thy ===== *)
theory Authn
  imports World
begin

text \<open>
  \<open>internal/authn\<close>: the caller attached to a request (\<open>caller.go\<close>), the break-glass root
  token (\<open>root.go\<close>), the read-only allowlist (\<open>readonly.go\<close>) and the capability and
  membership guards every handler starts with (\<open>authz.go\<close>). The request context carries an
  optional caller and nothing else the handlers read. The locale \<open>member_checker\<close> is the
  interface \<open>authn.MemberChecker\<close>.
\<close>

section \<open>Caller and context\<close>

record Caller =
  c_PrincipalID :: string
  c_SystemAdmin :: bool
  c_AuthMethod :: string
  c_ReadOnly :: bool

type_synonym ctx = "Caller option"

definition WithCaller :: "ctx \<Rightarrow> Caller \<Rightarrow> ctx" where
  "WithCaller cx c = Some c"

definition CallerFromContext :: "ctx \<Rightarrow> Caller option" where
  "CallerFromContext cx = cx"

lemma CallerFromContext_WithCaller [simp]: "CallerFromContext (WithCaller cx c) = Some c"
  by (simp add: CallerFromContext_def WithCaller_def)

lemma CallerFromContext_Some [simp]: "CallerFromContext (Some c) = Some c"
  by (simp add: CallerFromContext_def)

lemma CallerFromContext_None [simp]: "CallerFromContext None = None"
  by (simp add: CallerFromContext_def)

section \<open>Root token\<close>

text \<open>\<open>http.Header.Get\<close>: the first value of a header, the empty string when it is absent.\<close>

type_synonym header = "string \<Rightarrow> string"

definition CheckRoot :: "header \<Rightarrow> string \<Rightarrow> bool \<times> bool" where
  "CheckRoot h rootToken =
     (let rt = h ''X-BS-Root-Token'';
          present = (rt \<noteq> '''');
          valid = (0 < length rootToken \<and> present \<and> bytes_of rt = bytes_of rootToken)
      in (present, valid))"

record ThrottleEvent =
  te_Gate :: string
  te_IPPrefix :: string
  te_PrincipalID :: string
  te_AuthMethod :: string
  te_Reason :: string

section \<open>Read-only allowlist\<close>

definition readSafeProcedures :: "string list" where
  "readSafeProcedures =
     [''/baseservers.v1.ApiKeyService/List'',
      ''/baseservers.v1.AuditService/List'',
      ''/baseservers.v1.AuditService/Verify'',
      ''/baseservers.v1.AuthzService/Check'',
      ''/baseservers.v1.DelegationService/CheckDelegated'',
      ''/baseservers.v1.PrincipalService/GetPrincipal'']"

definition IsReadSafe :: "string \<Rightarrow> bool" where
  "IsReadSafe procedure \<longleftrightarrow> procedure \<in> set readSafeProcedures"

section \<open>Capability and membership guards\<close>

type_synonym IsMember_op = "string \<Rightarrow> string \<Rightarrow> (err, bool) wact"

definition RequireSystemAdmin :: "ctx \<Rightarrow> (rpc_error, unit) wact" where
  "RequireSystemAdmin cx =
     (case CallerFromContext cx of
        None \<Rightarrow> go_fail (NewError CodeUnauthenticated)
      | Some c \<Rightarrow>
          if \<not> c_SystemAdmin c then go_fail (NewError CodePermissionDenied)
          else go_ret ())"

definition RequireMember :: "ctx \<Rightarrow> IsMember_op \<Rightarrow> string \<Rightarrow> (rpc_error, Caller) wact" where
  "RequireMember cx isMember orgID =
     (case CallerFromContext cx of
        None \<Rightarrow> go_fail (NewError CodeUnauthenticated)
      | Some c \<Rightarrow>
          if c_SystemAdmin c then go_ret c
          else go_try (isMember (c_PrincipalID c) orgID)
                 (\<lambda>e. go_fail (NewError CodeInternal))
                 (\<lambda>ok. if \<not> ok then go_fail (NewError CodePermissionDenied) else go_ret c))"

context db_order begin

lemma keeps_RequireSystemAdmin [keeps_rules]: "keeps (db_rel Q) (RequireSystemAdmin cx)"
  unfolding RequireSystemAdmin_def by (intro keeps_rules)

lemma keeps_RequireMember [keeps_rules]:
  "(\<And>p u. keeps (db_rel Q) (isMember p u)) \<Longrightarrow> keeps (db_rel Q) (RequireMember cx isMember orgID)"
  unfolding RequireMember_def by (intro keeps_rules)

end

lemma RequireSystemAdmin_InrD:
  "RequireSystemAdmin cx w = (Inr x, w') \<Longrightarrow> \<exists>c. cx = Some c \<and> c_SystemAdmin c \<and> w' = w"
  by (cases cx) (auto simp: RequireSystemAdmin_def split: if_splits)

lemma RequireSystemAdmin_denied:
  "\<not> c_SystemAdmin c \<Longrightarrow>
     RequireSystemAdmin (Some c) w = (Inl (NewError CodePermissionDenied), w)"
  by (simp add: RequireSystemAdmin_def)

text \<open>The interface \<open>MemberChecker\<close>: the check only reads, it answers by the relation
  \<open>members\<close> between principals and organisation ids, and it only fails for a lost
  connection.\<close>

locale member_checker =
  fixes isMember :: IsMember_op
    and members :: "database \<Rightarrow> string \<Rightarrow> string \<Rightarrow> bool"
  assumes isMember_reads: "isMember p u w = (r, w') \<Longrightarrow> db w' = db w"
    and isMember_ok: "isMember p u w = (Inr b, w') \<Longrightarrow> b = members (db w) p u"
    and isMember_up: "faults w = [] \<Longrightarrow> isMember p u w = (Inr (members (db w) p u), w)"
begin

lemma isMember_keeps: "keeps (db_rel (=)) (isMember p u)"
proof (rule keepsI)
  fix w
  show "db_rel (=) w (snd (isMember p u w))"
    using isMember_reads [of p u w] by (cases "isMember p u w") (simp add: db_rel_def)
qed

lemma require_reads: "RequireMember cx isMember u w = (r, w') \<Longrightarrow> db w' = db w"
  by (rule keeps_sameD [OF same_db.keeps_RequireMember]) (rule isMember_keeps)

text \<open>The guard lets a caller through only as system administrator or as a member.\<close>

lemma require_sound:
  assumes "RequireMember cx isMember u w = (Inr c, w')"
  shows "cx = Some c \<and> (c_SystemAdmin c \<or> members (db w) (c_PrincipalID c) u)"
proof -
  from assms obtain c' where cx: "cx = Some c'"
    by (cases cx) (auto simp: RequireMember_def)
  with assms show ?thesis
    by (auto simp: RequireMember_def go_try_def dest: isMember_ok
        split: prod.splits sum.splits if_splits)
qed

text \<open>A caller who is neither is refused, whatever happens to the connection.\<close>

lemma require_refuses:
  assumes "\<not> c_SystemAdmin c" "\<not> members (db w) (c_PrincipalID c) u"
  shows "\<exists>e w'. RequireMember (Some c) isMember u w = (Inl e, w') \<and> db w' = db w \<and>
           rpc_code e \<in> {CodePermissionDenied, CodeInternal} \<and>
           (faults w = [] \<longrightarrow> rpc_code e = CodePermissionDenied)"
proof -
  obtain r w1 where m: "isMember (c_PrincipalID c) u w = (r, w1)" by fastforce
  have d: "db w1 = db w" using isMember_reads [OF m] .
  have b: "\<not> x" if "r = Inr x" for x
    using isMember_ok [of "c_PrincipalID c" u w x w1] m that assms(2) by simp
  have up: "faults w = [] \<Longrightarrow> r = Inr False"
    using isMember_up [of w "c_PrincipalID c" u] m assms(2) by simp
  show ?thesis
    using assms(1) m d b up
    by (cases r) (auto simp: RequireMember_def go_try_def)
qed

lemma require_accepts:
  "faults w = [] \<Longrightarrow> c_SystemAdmin c \<or> members (db w) (c_PrincipalID c) u \<Longrightarrow>
     RequireMember (Some c) isMember u w = (Inr c, w)"
  by (auto simp: RequireMember_def go_try_def isMember_up)

end

end
