(* ===== verification/Audit_Log.thy ===== *)
theory Audit_Log
  imports Authn
begin

text \<open>
  \<open>internal/audit\<close>: events and their canonical hash (\<open>event.go\<close>), the actor of an event
  (\<open>actor.go\<close>), the non-blocking recorder (\<open>recorder.go\<close>) and the hash-chained,
  append-only store (\<open>store.go\<close>, \<open>db/audit.sql.go\<close>). SHA-256 and the JSON codec are the
  parameters of the record \<open>audit_codec\<close>; \<open>jsonb\<close> is what PostgreSQL makes of the
  JSON text of the detail column, \<open>None\<close> when it rejects it.
\<close>

section \<open>Events\<close>

definition ActorSystem :: string where "ActorSystem = ''system''"
definition OutcomeSuccess :: string where "OutcomeSuccess = ''success''"
definition OutcomeDenied :: string where "OutcomeDenied = ''denied''"

definition ChainOf :: "string \<Rightarrow> string" where
  "ChainOf orgID = (if orgID = '''' then ''system'' else orgID)"

record canonicalRecord =
  cr_Seq :: int
  cr_TsUnixNano :: int
  cr_ActorID :: string
  cr_ActorType :: string
  cr_SystemAdmin :: bool
  cr_Action :: string
  cr_TargetType :: string
  cr_TargetID :: string
  cr_OrgID :: string
  cr_Outcome :: string
  cr_Detail :: "(string \<rightharpoonup> string) option"

record audit_codec =
  sha256 :: "bytes \<Rightarrow> bytes"
  json_record :: "canonicalRecord \<Rightarrow> bytes"
  json_Marshal :: "(string \<rightharpoonup> string) option \<Rightarrow> bytes"
  json_Unmarshal :: "bytes \<Rightarrow> (string \<rightharpoonup> string) option"
  jsonb :: "bytes \<Rightarrow> bytes option"

text \<open>What the code relies on: a detail map survives \<open>json.Marshal\<close>, the JSONB column and
  \<open>json.Unmarshal\<close> whenever the column accepts it.\<close>

definition json_codec :: "audit_codec \<Rightarrow> bool" where
  "json_codec C \<longleftrightarrow>
     (\<forall>d b. jsonb C (json_Marshal C d) = Some b \<longrightarrow> json_Unmarshal C b = d)"

definition canonical :: "int \<Rightarrow> int \<Rightarrow> audit_event \<Rightarrow> canonicalRecord" where
  "canonical seq ts e =
     \<lparr>cr_Seq = seq, cr_TsUnixNano = ts, cr_ActorID = ev_ActorID e, cr_ActorType = ev_ActorType e,
      cr_SystemAdmin = ev_SystemAdmin e, cr_Action = ev_Action e, cr_TargetType = ev_TargetType e,
      cr_TargetID = ev_TargetID e, cr_OrgID = ev_OrgID e, cr_Outcome = ev_Outcome e,
      cr_Detail = ev_Detail e\<rparr>"

definition canonicalHash :: "audit_codec \<Rightarrow> int \<Rightarrow> int \<Rightarrow> audit_event \<Rightarrow> bytes \<Rightarrow> bytes" where
  "canonicalHash C seq tsUnixNano e prevHash =
     sha256 C (json_record C (canonical seq tsUnixNano e) @ prevHash)"

definition sensitive_key :: "string \<Rightarrow> bool" where
  "sensitive_key k \<longleftrightarrow>
     (let lk = strings_ToLower k
      in strings_Contains lk ''token'' \<or> strings_Contains lk ''secret'' \<or>
         strings_Contains lk ''kek'' \<or> strings_Contains lk ''password'' \<or>
         strings_Contains lk ''proof'' \<or> strings_Contains lk ''key'' \<or>
         strings_Contains lk ''dpop'' \<or> strings_Contains lk ''cnf'')"

definition Redact :: "(string \<rightharpoonup> string) option \<Rightarrow> (string \<rightharpoonup> string) option" where
  "Redact d =
     (case d of None \<Rightarrow> None
      | Some m \<Rightarrow> Some (\<lambda>k. if sensitive_key k then None else m k))"

definition Actor :: "ctx \<Rightarrow> string \<times> string \<times> bool" where
  "Actor cx =
     (case CallerFromContext cx of
        Some c \<Rightarrow>
          if c_SystemAdmin c then (c_PrincipalID c, ActorSystem, True)
          else (c_PrincipalID c, '''', False)
      | None \<Rightarrow> ('''', ActorSystem, False))"

text \<open>The event literal that the handlers build after \<open>aid, at, sa := audit.Actor(ctx)\<close>.\<close>

definition actor_event ::
  "ctx \<Rightarrow> string \<Rightarrow> string \<Rightarrow> string \<Rightarrow> string \<Rightarrow> string \<Rightarrow> (string \<rightharpoonup> string) option \<Rightarrow> audit_event" where
  "actor_event cx action targetType targetID orgID outcome detail =
     (case Actor cx of (aid, at, sa) \<Rightarrow>
        \<lparr>ev_ActorID = aid, ev_ActorType = at, ev_SystemAdmin = sa, ev_Action = action,
         ev_TargetType = targetType, ev_TargetID = targetID, ev_OrgID = orgID,
         ev_Outcome = outcome, ev_Detail = detail\<rparr>)"

section \<open>The recorder\<close>

definition NewRecorder_cap :: "int \<Rightarrow> nat" where
  "NewRecorder_cap buf = (if buf \<le> 0 then 4096 else nat buf)"

definition fill_actor :: "ctx \<Rightarrow> audit_event \<Rightarrow> audit_event" where
  "fill_actor cx e =
     (if ev_ActorID e = '''' then
        (case CallerFromContext cx of
           Some c \<Rightarrow> e\<lparr>ev_ActorID := c_PrincipalID c, ev_SystemAdmin := c_SystemAdmin c\<rparr>
         | None \<Rightarrow> e)
      else e)"

definition enqueue :: "queued \<Rightarrow> world \<Rightarrow> world" where
  "enqueue q w =
     (if length (chan w) < chan_cap w then w\<lparr>chan := chan w @ [q]\<rparr>
      else w\<lparr>dropped := int64 (dropped w + 1)\<rparr>)"

definition Record :: "ctx \<Rightarrow> audit_event \<Rightarrow> ('e, unit) wact" where
  "Record cx e w =
     (let e' = fill_actor cx e
      in (Inr (), enqueue \<lparr>q_chain = ChainOf (ev_OrgID e'), q_e = e'\<rparr> w))"

definition Dropped :: "world \<Rightarrow> int" where
  "Dropped w = dropped w"

lemma enqueue_db [simp]: "db (enqueue q w) = db w"
  by (simp add: enqueue_def)

lemma enqueue_faults [simp]: "faults (enqueue q w) = faults w"
  by (simp add: enqueue_def)

lemma Record_not_Inl [simp]: "Record cx e w \<noteq> (Inl x, w')"
  by (simp add: Record_def Let_def)

lemma Record_InrD: "Record cx e w = (Inr x, w') \<Longrightarrow> db w' = db w \<and> faults w' = faults w"
  by (auto simp: Record_def Let_def)

context db_order begin

lemma keeps_Record [keeps_rules]: "keeps (db_rel Q) (Record cx e)"
  by (rule keeps_db_unchanged) (simp add: Record_def Let_def)

end

lemma up_Record [keeps_rules]: "keeps up_rel (Record cx e)"
  by (rule keepsI) (simp add: up_rel_def Record_def Let_def)

section \<open>The store\<close>

subsection \<open>Queries\<close>

definition chain_rows :: "string \<Rightarrow> database \<Rightarrow> audit_row list" where
  "chain_rows chain d = sort_key au_Seq (filter (\<lambda>r. au_Chain r = chain) (audit_events d))"

definition AuditChainHead :: "string \<Rightarrow> (err, int \<times> bytes) wact" where
  "AuditChainHead chain =
     sql_one (\<lambda>d. case rev (chain_rows chain d) of
                [] \<Rightarrow> None | r # rs \<Rightarrow> Some (au_Seq r, au_Hash r))"

definition q_InsertAuditEvent ::
  "audit_codec \<Rightarrow> audit_row \<Rightarrow> database \<Rightarrow> err + unit \<times> database" where
  "q_InsertAuditEvent C r d =
     (case jsonb C (au_Detail r) of
        None \<Rightarrow> Inl (ErrText ''invalid input syntax for type json'')
      | Some j \<Rightarrow>
          if (au_Chain r, au_Seq r) \<in> set (map (\<lambda>a. (au_Chain a, au_Seq a)) (audit_events d))
          then Inl UniqueViolation
          else Inr ((), d\<lparr>audit_events := audit_events d @ [r\<lparr>au_Detail := j\<rparr>]\<rparr>))"

definition InsertAuditEvent :: "audit_codec \<Rightarrow> audit_row \<Rightarrow> (err, unit) wact" where
  "InsertAuditEvent C r = sql (q_InsertAuditEvent C r)"

definition ScanAuditChain :: "string \<Rightarrow> (err, audit_row list) wact" where
  "ScanAuditChain chain = sql_read (chain_rows chain)"

subsection \<open>Append\<close>

definition genesis :: bytes where
  "genesis = replicate 32 0"

definition event_row ::
  "audit_codec \<Rightarrow> string \<Rightarrow> int \<Rightarrow> time \<Rightarrow> audit_event \<Rightarrow> bytes \<Rightarrow> bytes \<Rightarrow> audit_row" where
  "event_row C chain seq now e prev h =
     \<lparr>au_Chain = chain, au_Seq = seq, au_Ts = timestamptz now, au_ActorID = ev_ActorID e,
      au_ActorType = ev_ActorType e, au_SystemAdmin = ev_SystemAdmin e, au_Action = ev_Action e,
      au_TargetType = ev_TargetType e, au_TargetID = ev_TargetID e, au_OrgID = ev_OrgID e,
      au_Outcome = ev_Outcome e, au_Detail = json_Marshal C (ev_Detail e), au_PrevHash = prev,
      au_Hash = h\<rparr>"

fun append_loop ::
  "audit_codec \<Rightarrow> string \<Rightarrow> int \<Rightarrow> bytes \<Rightarrow> audit_event list \<Rightarrow> (err, unit) wact" where
  "append_loop C chain seq prev [] = go_ret ()"
| "append_loop C chain seq prev (e # es) =
     go_bind time_Now (\<lambda>t.
       let seq' = int64 (seq + 1);
           now = truncate_us t;
           e' = e\<lparr>ev_Detail := Redact (ev_Detail e)\<rparr>;
           h = canonicalHash C seq' (int64 now) e' prev
       in go_bind (InsertAuditEvent C (event_row C chain seq' now e' prev h))
            (\<lambda>_. append_loop C chain seq' h es))"

definition advisory_lock :: "string \<Rightarrow> (err, unit) wact" where
  "advisory_lock chain = sql_read (\<lambda>d. ())"

definition append_tx :: "audit_codec \<Rightarrow> string \<Rightarrow> audit_event list \<Rightarrow> (err, unit) wact" where
  "append_tx C chain events =
     go_bind (advisory_lock chain) (\<lambda>_.
       go_try (AuditChainHead chain)
         (\<lambda>e. if e = ErrNoRows then append_loop C chain 0 genesis events else go_fail e)
         (\<lambda>(seq, hash). append_loop C chain seq hash events))"

definition Append :: "audit_codec \<Rightarrow> string \<Rightarrow> audit_event list \<Rightarrow> (err, unit) wact" where
  "Append C chain events =
     (if events = [] then go_ret () else in_tx (append_tx C chain events))"

subsection \<open>Verify\<close>

definition row_event :: "audit_codec \<Rightarrow> audit_row \<Rightarrow> audit_event" where
  "row_event C r =
     \<lparr>ev_ActorID = au_ActorID r, ev_ActorType = au_ActorType r, ev_SystemAdmin = au_SystemAdmin r,
      ev_Action = au_Action r, ev_TargetType = au_TargetType r, ev_TargetID = au_TargetID r,
      ev_OrgID = au_OrgID r, ev_Outcome = au_Outcome r,
      ev_Detail = json_Unmarshal C (au_Detail r)\<rparr>"

definition row_hash :: "audit_codec \<Rightarrow> audit_row \<Rightarrow> bytes \<Rightarrow> bytes" where
  "row_hash C r prev = canonicalHash C (au_Seq r) (int64 (truncate_us (au_Ts r))) (row_event C r) prev"

fun verify_loop :: "audit_codec \<Rightarrow> bytes \<Rightarrow> int \<Rightarrow> audit_row list \<Rightarrow> bool \<times> int" where
  "verify_loop C prev wantSeq [] = (True, 0)"
| "verify_loop C prev wantSeq (r # rs) =
     (let wantSeq' = int64 (wantSeq + 1)
      in if au_Seq r \<noteq> wantSeq' then (False, au_Seq r)
         else if row_hash C r prev \<noteq> au_Hash r \<or> au_PrevHash r \<noteq> prev then (False, au_Seq r)
         else verify_loop C (au_Hash r) wantSeq' rs)"

definition Verify :: "audit_codec \<Rightarrow> string \<Rightarrow> (err, bool \<times> int) wact" where
  "Verify C chain =
     go_bind (ScanAuditChain chain) (\<lambda>rows. go_ret (verify_loop C genesis 0 rows))"

context db_order begin

lemma keeps_AuditChainHead [keeps_rules]: "keeps (db_rel Q) (AuditChainHead chain)"
  unfolding AuditChainHead_def by (intro keeps_rules)

lemma keeps_Verify [keeps_rules]: "keeps (db_rel Q) (Verify C chain)"
  unfolding Verify_def ScanAuditChain_def by (intro keeps_rules)

lemma keeps_append_loop:
  "(\<And>r. keeps (db_rel Q) (InsertAuditEvent C r)) \<Longrightarrow>
     keeps (db_rel Q) (append_loop C chain seq prev es)"
  by (induction es arbitrary: seq prev) (auto simp: Let_def intro!: keeps_rules)

lemma keeps_Append:
  "(\<And>r. keeps (db_rel Q) (InsertAuditEvent C r)) \<Longrightarrow> keeps (db_rel Q) (Append C chain es)"
  unfolding Append_def append_tx_def advisory_lock_def by (intro keeps_rules keeps_append_loop)

end

end
