(* ===== verification/Org.thy ===== *)
theory Org
  imports Audit_Log
begin

text \<open>
  \<open>internal/org\<close>: organisations, teams and memberships. The queries of
  \<open>db/org.sql.go\<close> act on the tables; the store parses and prints ids; the service
  validates and seeds the default roles of a new organisation through the interface
  \<open>RoleSeeder\<close> (the locale \<open>role_seeder\<close>); the handler guards, calls the service and
  records the event. The store interprets the interface \<open>member_checker\<close>.
\<close>

record Organization =
  org_ID :: string
  org_Name :: string
  org_ParentID :: string

record Team =
  team_ID :: string
  team_OrgID :: string
  team_Name :: string

section \<open>Queries\<close>

definition q_CreateOrg :: "uuid \<Rightarrow> time \<Rightarrow> string \<Rightarrow> database \<Rightarrow> err + organization_row \<times> database" where
  "q_CreateOrg u now name d =
     (if org_exists d u then Inl UniqueViolation
      else let r = \<lparr>o_ID = u, o_Name = name, o_ParentID = None, o_CreatedAt = timestamptz now\<rparr>
           in Inr (r, d\<lparr>organizations := organizations d @ [r]\<rparr>))"

definition org_q_CreateOrg :: "string \<Rightarrow> (err, organization_row) wact" where
  "org_q_CreateOrg name =
     go_bind gen_random_uuid (\<lambda>u. go_bind time_Now (\<lambda>now. sql (q_CreateOrg u now name)))"

definition org_q_GetOrg :: "uuid \<Rightarrow> (err, organization_row) wact" where
  "org_q_GetOrg u = sql_one (\<lambda>d. find (\<lambda>r. o_ID r = u) (organizations d))"

text \<open>\<open>DELETE FROM organizations\<close> with the schema's cascades: the organisation's teams, members,
  roles, ownership and delegations, and what hangs off its teams and roles. The references
  \<open>parent_id\<close> and \<open>parent_delegation_id\<close> do not cascade, so a remaining child blocks the
  deletion.\<close>

definition delete_cascade :: "uuid \<Rightarrow> database \<Rightarrow> database" where
  "delete_cascade u d =
     (let ts = filter (\<lambda>t. tm_OrgID t \<noteq> u) (teams d);
          rs = filter (\<lambda>r. r_OrgID r \<noteq> u) (roles d);
          gone_teams = map tm_ID (filter (\<lambda>t. tm_OrgID t = u) (teams d));
          gone_roles = map r_ID (filter (\<lambda>r. r_OrgID r = u) (roles d))
      in d\<lparr>organizations := filter (\<lambda>r. o_ID r \<noteq> u) (organizations d),
           teams := ts,
           memberships := filter (\<lambda>m. mb_OrgID m \<noteq> u) (memberships d),
           team_memberships := filter (\<lambda>m. tmb_TeamID m \<notin> set gone_teams) (team_memberships d),
           roles := rs,
           role_assignments := filter (\<lambda>a. ra_RoleID a \<notin> set gone_roles) (role_assignments d),
           ownership := filter (\<lambda>x. ow_OrgID x \<noteq> u) (ownership d),
           delegations := filter (\<lambda>x. d_OrgID x \<noteq> u) (delegations d)\<rparr>)"

definition delete_blocked :: "uuid \<Rightarrow> database \<Rightarrow> bool" where
  "delete_blocked u d \<longleftrightarrow>
     (\<exists>r \<in> set (organizations d). o_ID r \<noteq> u \<and> o_ParentID r = Some u) \<or>
     (\<exists>x \<in> set (delegations d). d_OrgID x \<noteq> u \<and>
        (\<exists>y \<in> set (delegations d). d_OrgID y = u \<and> d_ParentDelegationID x = Some (d_ID y)))"

definition q_DeleteOrg :: "uuid \<Rightarrow> database \<Rightarrow> err + unit \<times> database" where
  "q_DeleteOrg u d =
     (if delete_blocked u d then Inl ForeignKeyViolation else Inr ((), delete_cascade u d))"

definition org_q_DeleteOrg :: "uuid \<Rightarrow> (err, unit) wact" where
  "org_q_DeleteOrg u = sql (q_DeleteOrg u)"

definition q_CreateTeam :: "uuid \<Rightarrow> uuid \<Rightarrow> string \<Rightarrow> database \<Rightarrow> err + team_row \<times> database" where
  "q_CreateTeam u oid name d =
     (if team_exists d u then Inl UniqueViolation
      else if \<not> org_exists d oid then Inl ForeignKeyViolation
      else let r = \<lparr>tm_ID = u, tm_OrgID = oid, tm_Name = name\<rparr>
           in Inr (r, d\<lparr>teams := teams d @ [r]\<rparr>))"

definition org_q_CreateTeam :: "uuid \<Rightarrow> string \<Rightarrow> (err, team_row) wact" where
  "org_q_CreateTeam oid name = go_bind gen_random_uuid (\<lambda>u. sql (q_CreateTeam u oid name))"

definition q_AddMember :: "string \<Rightarrow> uuid \<Rightarrow> database \<Rightarrow> err + unit \<times> database" where
  "q_AddMember pid oid d =
     (let r = \<lparr>mb_PrincipalID = pid, mb_OrgID = oid\<rparr>
      in if r \<in> set (memberships d) then Inr ((), d)
         else if \<not> org_exists d oid then Inl ForeignKeyViolation
         else Inr ((), d\<lparr>memberships := memberships d @ [r]\<rparr>))"

definition org_q_AddMember :: "string \<Rightarrow> uuid \<Rightarrow> (err, unit) wact" where
  "org_q_AddMember pid oid = sql (q_AddMember pid oid)"

definition q_AddTeamMember :: "string \<Rightarrow> uuid \<Rightarrow> database \<Rightarrow> err + unit \<times> database" where
  "q_AddTeamMember pid tid d =
     (let r = \<lparr>tmb_PrincipalID = pid, tmb_TeamID = tid\<rparr>
      in if r \<in> set (team_memberships d) then Inr ((), d)
         else if \<not> team_exists d tid then Inl ForeignKeyViolation
         else Inr ((), d\<lparr>team_memberships := team_memberships d @ [r]\<rparr>))"

definition org_q_AddTeamMember :: "string \<Rightarrow> uuid \<Rightarrow> (err, unit) wact" where
  "org_q_AddTeamMember pid tid = sql (q_AddTeamMember pid tid)"

definition org_q_IsMember :: "string \<Rightarrow> uuid \<Rightarrow> (err, bool) wact" where
  "org_q_IsMember pid oid =
     sql_read (\<lambda>d. \<lparr>mb_PrincipalID = pid, mb_OrgID = oid\<rparr> \<in> set (memberships d))"

definition org_q_GetTeamOrg :: "uuid \<Rightarrow> (err, uuid) wact" where
  "org_q_GetTeamOrg tid = sql_one (\<lambda>d. map_option tm_OrgID (find (\<lambda>t. tm_ID t = tid) (teams d)))"

section \<open>Store\<close>

definition parentIDString :: "string option \<Rightarrow> string" where
  "parentIDString v = (case v of None \<Rightarrow> '''' | Some s \<Rightarrow> s)"

definition org_of_row :: "pgtype \<Rightarrow> organization_row \<Rightarrow> Organization" where
  "org_of_row E r =
     \<lparr>org_ID = uuid_String E (o_ID r), org_Name = o_Name r,
      org_ParentID = parentIDString (Some (case o_ParentID r of None \<Rightarrow> '''' | Some u \<Rightarrow> uuid_String E u))\<rparr>"

definition org_Store_CreateOrg :: "pgtype \<Rightarrow> string \<Rightarrow> (err, Organization) wact" where
  "org_Store_CreateOrg E name = go_bind (org_q_CreateOrg name) (\<lambda>r. go_ret (org_of_row E r))"

definition org_Store_GetOrg :: "pgtype \<Rightarrow> string \<Rightarrow> (err, Organization) wact" where
  "org_Store_GetOrg E s =
     (case uuid_Scan E s of
        None \<Rightarrow> go_fail (ErrNotFound POrg)
      | Some u \<Rightarrow> go_try (org_q_GetOrg u)
                   (\<lambda>e. if e = ErrNoRows then go_fail (ErrNotFound POrg) else go_fail e)
                   (\<lambda>r. go_ret (org_of_row E r)))"

definition org_Store_DeleteOrg :: "pgtype \<Rightarrow> string \<Rightarrow> (err, unit) wact" where
  "org_Store_DeleteOrg E s =
     (case uuid_Scan E s of None \<Rightarrow> go_fail (ErrNotFound POrg) | Some u \<Rightarrow> org_q_DeleteOrg u)"

definition org_Store_CreateTeam :: "pgtype \<Rightarrow> string \<Rightarrow> string \<Rightarrow> (err, Team) wact" where
  "org_Store_CreateTeam E orgID name =
     (case uuid_Scan E orgID of
        None \<Rightarrow> go_fail (ErrNotFound POrg)
      | Some u \<Rightarrow> go_bind (org_q_CreateTeam u name) (\<lambda>r.
                   go_ret \<lparr>team_ID = uuid_String E (tm_ID r), team_OrgID = uuid_String E (tm_OrgID r),
                           team_Name = tm_Name r\<rparr>))"

definition org_Store_AddMember :: "pgtype \<Rightarrow> string \<Rightarrow> string \<Rightarrow> (err, unit) wact" where
  "org_Store_AddMember E principalID orgID =
     (case uuid_Scan E orgID of
        None \<Rightarrow> go_fail (ErrNotFound POrg) | Some u \<Rightarrow> org_q_AddMember principalID u)"

definition org_Store_AddTeamMember :: "pgtype \<Rightarrow> string \<Rightarrow> string \<Rightarrow> (err, unit) wact" where
  "org_Store_AddTeamMember E principalID teamID =
     (case uuid_Scan E teamID of
        None \<Rightarrow> go_fail (ErrNotFound POrg) | Some u \<Rightarrow> org_q_AddTeamMember principalID u)"

definition org_Store_IsMember :: "pgtype \<Rightarrow> string \<Rightarrow> string \<Rightarrow> (err, bool) wact" where
  "org_Store_IsMember E principalID orgID =
     (case uuid_Scan E orgID of
        None \<Rightarrow> go_ret False | Some u \<Rightarrow> org_q_IsMember principalID u)"

definition org_Store_TeamOrg :: "pgtype \<Rightarrow> string \<Rightarrow> (err, string) wact" where
  "org_Store_TeamOrg E teamID =
     (case uuid_Scan E teamID of
        None \<Rightarrow> go_fail (ErrNotFound POrg)
      | Some u \<Rightarrow> go_try (org_q_GetTeamOrg u)
                   (\<lambda>e. if e = ErrNoRows then go_fail (ErrNotFound POrg) else go_fail e)
                   (\<lambda>o'. go_ret (uuid_String E o')))"

section \<open>Service\<close>

type_synonym SeedDefaults_op = "string \<Rightarrow> (err, unit) wact"

definition org_Service_CreateOrg :: "pgtype \<Rightarrow> SeedDefaults_op \<Rightarrow> string \<Rightarrow> (err, Organization) wact" where
  "org_Service_CreateOrg E seed name =
     (if name = '''' then go_fail (ErrInvalidInput POrg)
      else go_bind (org_Store_CreateOrg E name) (\<lambda>x.
             go_try (seed (org_ID x))
               (\<lambda>e. go_try (org_Store_DeleteOrg E (org_ID x)) (\<lambda>_. go_fail e) (\<lambda>_. go_fail e))
               (\<lambda>_. go_ret x)))"

definition org_Service_CreateTeam :: "pgtype \<Rightarrow> string \<Rightarrow> string \<Rightarrow> (err, Team) wact" where
  "org_Service_CreateTeam E orgID name =
     (if orgID = '''' \<or> name = '''' then go_fail (ErrInvalidInput POrg)
      else org_Store_CreateTeam E orgID name)"

definition org_Service_AddMember :: "pgtype \<Rightarrow> string \<Rightarrow> string \<Rightarrow> (err, unit) wact" where
  "org_Service_AddMember E principalID orgID =
     (if principalID = '''' \<or> orgID = '''' then go_fail (ErrInvalidInput POrg)
      else org_Store_AddMember E principalID orgID)"

definition org_Service_AddTeamMember :: "pgtype \<Rightarrow> string \<Rightarrow> string \<Rightarrow> (err, unit) wact" where
  "org_Service_AddTeamMember E principalID teamID =
     (if principalID = '''' \<or> teamID = '''' then go_fail (ErrInvalidInput POrg)
      else org_Store_AddTeamMember E principalID teamID)"

section \<open>Handler\<close>

definition org_errCode :: "err \<Rightarrow> rpc_error" where
  "org_errCode e =
     (if e = ErrInvalidInput POrg then NewError CodeInvalidArgument
      else if e = ErrNotFound POrg then NewError CodeNotFound
      else NewError CodeInternal)"

definition org_Handler_CreateOrganization ::
  "pgtype \<Rightarrow> SeedDefaults_op \<Rightarrow> ctx \<Rightarrow> string \<Rightarrow> (rpc_error, Organization) wact" where
  "org_Handler_CreateOrganization E seed cx name =
     go_bind (RequireSystemAdmin cx) (\<lambda>_.
     go_try (org_Service_CreateOrg E seed name) (\<lambda>e. go_fail (org_errCode e)) (\<lambda>x.
     go_bind (Record cx (actor_event cx ''org.create'' ''org'' (org_ID x) (org_ID x) OutcomeSuccess
                (Some [''name'' \<mapsto> org_Name x]))) (\<lambda>_.
     go_ret x)))"

definition org_Handler_CreateTeam ::
  "pgtype \<Rightarrow> ctx \<Rightarrow> string \<Rightarrow> string \<Rightarrow> (rpc_error, Team) wact" where
  "org_Handler_CreateTeam E cx orgId name =
     go_bind (RequireMember cx (org_Store_IsMember E) orgId) (\<lambda>_.
     go_try (org_Service_CreateTeam E orgId name) (\<lambda>e. go_fail (org_errCode e)) (\<lambda>t.
     go_bind (Record cx (actor_event cx ''team.create'' ''team'' (team_ID t) orgId OutcomeSuccess
                (Some [''name'' \<mapsto> team_Name t]))) (\<lambda>_.
     go_ret t)))"

definition org_Handler_AddMember ::
  "pgtype \<Rightarrow> ctx \<Rightarrow> string \<Rightarrow> string \<Rightarrow> (rpc_error, unit) wact" where
  "org_Handler_AddMember E cx principalId orgId =
     go_bind (RequireMember cx (org_Store_IsMember E) orgId) (\<lambda>_.
     go_try (org_Service_AddMember E principalId orgId) (\<lambda>e. go_fail (org_errCode e)) (\<lambda>_.
     Record cx (actor_event cx ''org.member.add'' ''principal'' principalId orgId OutcomeSuccess None)))"

definition org_Handler_AddTeamMember ::
  "pgtype \<Rightarrow> ctx \<Rightarrow> string \<Rightarrow> string \<Rightarrow> (rpc_error, unit) wact" where
  "org_Handler_AddTeamMember E cx principalId teamId =
     go_try (org_Store_TeamOrg E teamId) (\<lambda>e. go_fail (org_errCode e)) (\<lambda>orgID.
     go_bind (RequireMember cx (org_Store_IsMember E) orgID) (\<lambda>_.
     go_try (org_Service_AddTeamMember E principalId teamId) (\<lambda>e. go_fail (org_errCode e)) (\<lambda>_.
     Record cx (actor_event cx ''team.member.add'' ''principal'' principalId orgID OutcomeSuccess
        (Some [''team_id'' \<mapsto> teamId])))))"

section \<open>Reading operations leave the tables alone\<close>

context db_order begin

lemma keeps_org_reads [keeps_rules]:
  "keeps (db_rel Q) (org_q_GetOrg u)" "keeps (db_rel Q) (org_q_IsMember p u)"
  "keeps (db_rel Q) (org_q_GetTeamOrg u)"
  unfolding org_q_GetOrg_def org_q_IsMember_def org_q_GetTeamOrg_def by (intro keeps_rules)+

lemma keeps_org_store_reads [keeps_rules]:
  "keeps (db_rel Q) (org_Store_GetOrg E s)" "keeps (db_rel Q) (org_Store_IsMember E p s)"
  "keeps (db_rel Q) (org_Store_TeamOrg E s)"
  unfolding org_Store_GetOrg_def org_Store_IsMember_def org_Store_TeamOrg_def
  by (intro keeps_rules)+

end

section \<open>The membership interface\<close>

definition is_member :: "pgtype \<Rightarrow> database \<Rightarrow> string \<Rightarrow> string \<Rightarrow> bool" where
  "is_member E d p s \<longleftrightarrow>
     (case uuid_Scan E s of
        None \<Rightarrow> False | Some u \<Rightarrow> \<lparr>mb_PrincipalID = p, mb_OrgID = u\<rparr> \<in> set (memberships d))"

interpretation org_members: member_checker "org_Store_IsMember E" "is_member E" for E
proof
  fix p u and w w' :: world and r
  assume "org_Store_IsMember E p u w = (r, w')"
  then show "db w' = db w" by (rule keeps_sameD [OF same_db.keeps_org_store_reads(2)])
next
  fix p u and w w' :: world and b
  assume "org_Store_IsMember E p u w = (Inr b, w')"
  then show "b = is_member E (db w) p u"
    by (auto simp: org_Store_IsMember_def org_q_IsMember_def is_member_def
        split: option.splits dest: sql_read_InrD)
next
  fix w :: world and p u
  assume "faults w = []"
  then show "org_Store_IsMember E p u w = (Inr (is_member E (db w) p u), w)"
    by (simp add: org_Store_IsMember_def org_q_IsMember_def is_member_def split: option.split)
qed

section \<open>The role-seeding interface\<close>

text \<open>\<open>RoleSeeder\<close>: seeding an organisation only adds roles of that organisation, a success adds
  exactly the default roles, and a healthy connection stays healthy.\<close>

definition adds_roles :: "database \<Rightarrow> role_row list \<Rightarrow> database \<Rightarrow> bool" where
  "adds_roles d rs d' \<longleftrightarrow> d' = d\<lparr>roles := roles d @ rs\<rparr>"

lemma adds_roles_refl [simp]: "adds_roles d [] d"
  by (simp add: adds_roles_def)

lemma adds_roles_trans: "adds_roles a xs b \<Longrightarrow> adds_roles b ys c \<Longrightarrow> adds_roles a (xs @ ys) c"
  by (simp add: adds_roles_def)

lemma q_CreateOrg_InrD:
  "q_CreateOrg u now n d = Inr (x, d') \<Longrightarrow> \<not> org_exists d (o_ID x) \<and> delegations d' = delegations d"
  by (auto simp: q_CreateOrg_def Let_def split: if_splits)

lemma q_DeleteOrg_InrD:
  "q_DeleteOrg u d = Inr (x, d') \<Longrightarrow> delegations d' = filter (\<lambda>x. d_OrgID x \<noteq> u) (delegations d)"
  by (auto simp: q_DeleteOrg_def delete_cascade_def Let_def split: if_splits)

locale role_seeder =
  fixes E :: pgtype
    and seed :: SeedDefaults_op
    and defaults :: "(string \<times> string list) list"
  assumes seed_adds: "uuid_Scan E s = Some u \<Longrightarrow> seed s w = (r, w') \<Longrightarrow>
      \<exists>rs. adds_roles (db w) rs (db w') \<and> 
           (\<forall>x \<in> set rs. r_OrgID x = u \<and> \<not> role_exists (db w) (r_ID x)) \<and>
           (r = Inr () \<longrightarrow> map (\<lambda>x. (r_Name x, r_Permissions x)) rs = defaults)"
    and seed_up: "faults w = [] \<Longrightarrow> seed s w = (r, w') \<Longrightarrow> faults w' = []"
begin

lemma cascade_undoes:
  assumes "refs_ok d" "\<not> org_exists d (o_ID o1)" 
      "\<forall>x \<in> set rs. r_OrgID x = o_ID o1 \<and> \<not> role_exists d (r_ID x)"
    and "o_ParentID o1 = None"
    and d1: "d1 = d\<lparr>organizations := organizations d @ [o1], roles := roles d @ rs\<rparr>"
  shows "q_DeleteOrg (o_ID o1) d1 = Inr ((), d)"
proof -
  let ?u = "o_ID o1"
  have no: "o_ID t \<noteq> ?u" if "t \<in> set (organizations d)" for t
    using assms(2) that by (auto simp: org_exists_def image_iff)
  have "\<not> delete_blocked ?u d1"
    using assms(1,2,4) d1 by (auto simp: delete_blocked_def refs_ok_def)
  moreover have "filter (\<lambda>r. r_OrgID r = ?u) (roles d) = []"
    using assms(1,2) by (auto simp: filter_empty_conv refs_ok_def)
  moreover have "filter (\<lambda>t. tm_OrgID t = ?u) (teams d) = []"
    using assms(1,2) by (auto simp: filter_empty_conv refs_ok_def)
  moreover have "filter (\<lambda>m. mb_OrgID m \<noteq> ?u) (memberships d) = memberships d"
    "filter (\<lambda>x. ow_OrgID x \<noteq> ?u) (ownership d) = ownership d"
    "filter (\<lambda>x. d_OrgID x \<noteq> ?u) (delegations d) = delegations d"
    "filter (\<lambda>t. tm_OrgID t \<noteq> ?u) (teams d) = teams d"
    "filter (\<lambda>r. r_OrgID r \<noteq> ?u) (roles d) = roles d"
    using assms(1,2) by (auto simp: filter_id_conv refs_ok_def)
  moreover have "filter (\<lambda>r. r_OrgID r \<noteq> ?u) rs = []"
    using assms(3) by (simp add: filter_empty_conv)
  moreover have "filter (\<lambda>r. o_ID r \<noteq> ?u) (organizations d) = organizations d"
    using no by (simp add: filter_id_conv)
  moreover have "filter (\<lambda>a. ra_RoleID a \<notin> r_ID ` {x \<in> set rs. r_OrgID x = ?u}) (role_assignments d) =
      role_assignments d"
    using assms(1,3) by (auto simp: filter_id_conv refs_ok_def)
  ultimately show ?thesis
    by (simp add: q_DeleteOrg_def delete_cascade_def d1)
qed

text \<open>With a healthy connection, creating an organisation is all or nothing: it appears with
  exactly the default roles, or the compensating deletion restores the tables.\<close>

lemma create_org_all_or_nothing:
  assumes codec: "uuid_codec E" and refs: "refs_ok (db w)" and up: "faults w = []"
    and run: "org_Service_CreateOrg E seed name w = (r, w')"
  shows "(\<exists>e. r = Inl e \<and> db w' = db w) \<or>
         (\<exists>o1 rs. r = Inr (org_of_row E o1) \<and> o_Name o1 = name \<and> \<not> org_exists (db w) (o_ID o1) \<and>
            db w' = (db w)\<lparr>organizations := organizations (db w) @ [o1], roles := roles (db w) @ rs\<rparr> \<and>
            (\<forall>x \<in> set rs. r_OrgID x = o_ID o1) \<and>
            map (\<lambda>x. (r_Name x, r_Permissions x)) rs = defaults)"
proof (cases "name = '''' \<or> (\<exists>e w1. org_q_CreateOrg name w = (Inl e, w1))")
  case True
  have "db w1 = db w" if "org_q_CreateOrg name w = (Inl e, w1)" for e w1
    using that up
    by (auto simp: org_q_CreateOrg_def go_bind_cases gen_random_uuid_def time_Now_def Let_def
        split: sum.splits prod.splits)
  with True run have "\<exists>e. r = Inl e \<and> db w' = db w"
    by (auto simp: org_Service_CreateOrg_def org_Store_CreateOrg_def go_bind_cases split: if_splits)
  then show ?thesis by blast
next
  case False
  then obtain o1 w1 where c: "org_q_CreateOrg name w = (Inr o1, w1)" "name \<noteq> ''''"
    by (metis prod.exhaust sum.exhaust)
  have o1: "\<not> org_exists (db w) (o_ID o1)" "o_Name o1 = name" "o_ParentID o1 = None"
    "db w1 = (db w)\<lparr>organizations := organizations (db w) @ [o1]\<rparr>" "faults w1 = []"
    using c up by (auto simp: org_q_CreateOrg_def go_bind_cases gen_random_uuid_def time_Now_def Let_def
        q_CreateOrg_def split: sum.splits prod.splits if_splits)
  let ?s = "uuid_String E (o_ID o1)"
  have scan: "uuid_Scan E ?s = Some (o_ID o1)" using codec by (simp add: uuid_codec_def)
  obtain r2 w2 where sd: "seed ?s w1 = (r2, w2)" by fastforce
  from seed_adds [OF scan sd] obtain rs where
    rs: "adds_roles (db w1) rs (db w2)" "\<forall>x \<in> set rs. r_OrgID x = o_ID o1 \<and> \<not> role_exists (db w1) (r_ID x)"
      "r2 = Inr () \<longrightarrow> map (\<lambda>x. (r_Name x, r_Permissions x)) rs = defaults" by blast
  have up2: "faults w2 = []" using seed_up [OF o1(5) sd] .
  have d2: "db w2 = (db w)\<lparr>organizations := organizations (db w) @ [o1], roles := roles (db w) @ rs\<rparr>"
    using rs(1) o1(4) by (simp add: adds_roles_def)
  show ?thesis
  proof (cases r2)
    case (Inl e)
    have "q_DeleteOrg (o_ID o1) (db w2) = Inr ((), db w)"
      by (rule cascade_undoes [OF refs o1(1) _ o1(3) d2]) (use rs(2) o1(4) in \<open>simp add: role_exists_def\<close>)
    then have "r = Inl e \<and> db w' = db w"
      using run c sd Inl up2 scan
      by (auto simp: org_Service_CreateOrg_def org_Store_CreateOrg_def go_bind_cases go_try_def
          org_Store_DeleteOrg_def org_q_DeleteOrg_def org_of_row_def split: prod.splits sum.splits)
    then show ?thesis by simp
  next
    case (Inr x)
    then have "r = Inr (org_of_row E o1) \<and> db w' = db w2"
      using run c sd
      by (simp add: org_Service_CreateOrg_def org_Store_CreateOrg_def go_bind_cases go_try_def
          org_of_row_def)
    with d2 o1 rs Inr show ?thesis by auto
  qed
qed

text \<open>Whatever the connection does, creating an organisation (and undoing it) leaves the delegations
  alone: those the deletion would cascade to belong to an organisation that was not there.\<close>

lemma create_org_delegations:
  assumes codec: "uuid_codec E" and refs: "refs_ok (db w)"
    and run: "org_Service_CreateOrg E seed name w = (r, w')"
  shows "delegations (db w') = delegations (db w)"
proof (cases "name = '''' \<or> (\<exists>e w1. org_q_CreateOrg name w = (Inl e, w1))")
  case True
  have "delegations (db w1) = delegations (db w)" if "org_q_CreateOrg name w = (Inl e, w1)" for e w1
  proof -
    from that obtain u now wa where s: "sql (q_CreateOrg u now name) wa = (Inl e, w1)" and wa: "db wa = db w"
      by (auto simp: org_q_CreateOrg_def go_bind_cases gen_random_uuid_def time_Now_def Let_def)
    with sql_outcome [OF s] q_CreateOrg_InrD show ?thesis by fastforce
  qed
  with True run show ?thesis
    by (auto simp: org_Service_CreateOrg_def org_Store_CreateOrg_def go_bind_cases split: if_splits)
next
  case False
  then obtain o1 w1 where c: "org_q_CreateOrg name w = (Inr o1, w1)" "name \<noteq> ''''"
    by (metis prod.exhaust sum.exhaust)
  have o1: "\<not> org_exists (db w) (o_ID o1)" "delegations (db w1) = delegations (db w)"
  proof -
    from c(1) obtain u now wa where s: "sql (q_CreateOrg u now name) wa = (Inr o1, w1)" and wa: "db wa = db w"
      by (auto simp: org_q_CreateOrg_def go_bind_cases gen_random_uuid_def time_Now_def Let_def)
    with sql_InrD [OF s] q_CreateOrg_InrD
    show "\<not> org_exists (db w) (o_ID o1)" "delegations (db w1) = delegations (db w)" by fastforce+
  qed
  let ?s = "uuid_String E (o_ID o1)"
  have scan: "uuid_Scan E ?s = Some (o_ID o1)" using codec by (simp add: uuid_codec_def)
  obtain r2 w2 where sd: "seed ?s w1 = (r2, w2)" by fastforce
  from seed_adds [OF scan sd] o1(2) have d2: "delegations (db w2) = delegations (db w)"
    by (auto simp: adds_roles_def)
  have undo: "delegations (db w3) = delegations (db w)" if "org_Store_DeleteOrg E ?s w2 = (r3, w3)" for r3 w3
  proof -
    have "filter (\<lambda>x. d_OrgID x \<noteq> o_ID o1) (delegations (db w)) = delegations (db w)"
      using refs o1(1) by (auto simp: filter_id_conv refs_ok_def)
    moreover have "sql (q_DeleteOrg (o_ID o1)) w2 = (r3, w3)"
      using that scan by (simp add: org_Store_DeleteOrg_def org_q_DeleteOrg_def)
    ultimately show ?thesis using sql_outcome q_DeleteOrg_InrD d2 by fastforce
  qed
  obtain r3 w3 where del: "org_Store_DeleteOrg E ?s w2 = (r3, w3)" by fastforce
  show ?thesis
    using run c sd del undo [OF del] d2
    by (cases r2; cases r3)
       (auto simp: org_Service_CreateOrg_def org_Store_CreateOrg_def go_bind_cases go_try_def org_of_row_def)
qed

end

end
