(* ===== verification/Role.thy ===== *)
theory Role
  imports Org
begin

text \<open>
  \<open>internal/role\<close>: roles of an organisation and their assignment to principals in an
  organisation or team scope. The store is the provider of the interface \<open>role_seeder\<close>; an
  assignment is refused unless the scope belongs to the role's organisation.
\<close>

record Role =
  role_ID :: string
  role_OrgID :: string
  role_Name :: string
  role_Permissions :: "string list"

definition DefaultRoles :: "(string \<times> string list) list" where
  "DefaultRoles =
     [(''owner'', [''*'']),
      (''admin'', [''org.manage'', ''member.manage'', ''role.manage'']),
      (''member'', [''org.read''])]"

section \<open>Queries\<close>

definition q_AssignRole ::
  "string \<Rightarrow> uuid \<Rightarrow> string \<Rightarrow> uuid \<Rightarrow> database \<Rightarrow> err + unit \<times> database" where
  "q_AssignRole pid rid st sid d =
     (let r = \<lparr>ra_PrincipalID = pid, ra_RoleID = rid, ra_ScopeType = st, ra_ScopeID = sid\<rparr>
      in if st \<notin> {''org'', ''team''} then Inl CheckViolation
         else if r \<in> set (role_assignments d) then Inr ((), d)
         else if \<not> role_exists d rid then Inl ForeignKeyViolation
         else Inr ((), d\<lparr>role_assignments := role_assignments d @ [r]\<rparr>))"

definition role_q_AssignRole :: "string \<Rightarrow> uuid \<Rightarrow> string \<Rightarrow> uuid \<Rightarrow> (err, unit) wact" where
  "role_q_AssignRole pid rid st sid = sql (q_AssignRole pid rid st sid)"

definition q_CreateRole ::
  "uuid \<Rightarrow> uuid \<Rightarrow> string \<Rightarrow> string list \<Rightarrow> database \<Rightarrow> err + role_row \<times> database" where
  "q_CreateRole u oid name perms d =
     (if role_exists d u \<or> (oid, name) \<in> set (map (\<lambda>r. (r_OrgID r, r_Name r)) (roles d))
      then Inl UniqueViolation
      else if \<not> org_exists d oid then Inl ForeignKeyViolation
      else let r = \<lparr>r_ID = u, r_OrgID = oid, r_Name = name, r_Permissions = perms\<rparr>
           in Inr (r, d\<lparr>roles := roles d @ [r]\<rparr>))"

definition role_q_CreateRole :: "uuid \<Rightarrow> string \<Rightarrow> string list \<Rightarrow> (err, role_row) wact" where
  "role_q_CreateRole oid name perms =
     go_bind gen_random_uuid (\<lambda>u. sql (q_CreateRole u oid name perms))"

definition role_q_GetRoleOrg :: "uuid \<Rightarrow> (err, uuid) wact" where
  "role_q_GetRoleOrg rid = sql_one (\<lambda>d. map_option r_OrgID (find (\<lambda>r. r_ID r = rid) (roles d)))"

definition role_q_GetTeamOrg :: "uuid \<Rightarrow> (err, uuid) wact" where
  "role_q_GetTeamOrg tid = sql_one (\<lambda>d. map_option tm_OrgID (find (\<lambda>t. tm_ID t = tid) (teams d)))"

section \<open>Store\<close>

definition role_Store_CreateRole ::
  "pgtype \<Rightarrow> string \<Rightarrow> string \<Rightarrow> string list \<Rightarrow> (err, Role) wact" where
  "role_Store_CreateRole E orgID name perms =
     (case uuid_Scan E orgID of
        None \<Rightarrow> go_fail (ErrInvalidInput PRole)
      | Some oid \<Rightarrow> go_bind (role_q_CreateRole oid name perms) (\<lambda>r.
           go_ret \<lparr>role_ID = uuid_String E (r_ID r), role_OrgID = uuid_String E (r_OrgID r),
                   role_Name = r_Name r, role_Permissions = r_Permissions r\<rparr>))"

definition role_Store_AssignRole ::
  "pgtype \<Rightarrow> string \<Rightarrow> string \<Rightarrow> string \<Rightarrow> string \<Rightarrow> (err, unit) wact" where
  "role_Store_AssignRole E principalID roleID scopeType scopeID =
     (case uuid_Scan E roleID of
        None \<Rightarrow> go_fail (ErrInvalidInput PRole)
      | Some rid \<Rightarrow>
          (case uuid_Scan E scopeID of
             None \<Rightarrow> go_fail (ErrInvalidInput PRole)
           | Some sid \<Rightarrow> role_q_AssignRole principalID rid scopeType sid))"

definition role_Store_RoleOrg :: "pgtype \<Rightarrow> string \<Rightarrow> (err, string) wact" where
  "role_Store_RoleOrg E roleID =
     (case uuid_Scan E roleID of
        None \<Rightarrow> go_fail (ErrNotFound PRole)
      | Some rid \<Rightarrow> go_try (role_q_GetRoleOrg rid)
                     (\<lambda>e. if e = ErrNoRows then go_fail (ErrNotFound PRole) else go_fail e)
                     (\<lambda>u. go_ret (uuid_String E u)))"

definition role_Store_TeamOrg :: "pgtype \<Rightarrow> string \<Rightarrow> (err, string) wact" where
  "role_Store_TeamOrg E teamID =
     (case uuid_Scan E teamID of
        None \<Rightarrow> go_fail (ErrNotFound PRole)
      | Some tid \<Rightarrow> go_try (role_q_GetTeamOrg tid)
                     (\<lambda>e. if e = ErrNoRows then go_fail (ErrNotFound PRole) else go_fail e)
                     (\<lambda>u. go_ret (uuid_String E u)))"

fun seed_loop :: "pgtype \<Rightarrow> string \<Rightarrow> (string \<times> string list) list \<Rightarrow> (err, unit) wact" where
  "seed_loop E orgID [] = go_ret ()"
| "seed_loop E orgID ((name, perms) # ds) =
     go_bind (role_Store_CreateRole E orgID name perms) (\<lambda>_. seed_loop E orgID ds)"

definition role_Store_SeedDefaults :: "pgtype \<Rightarrow> string \<Rightarrow> (err, unit) wact" where
  "role_Store_SeedDefaults E orgID = seed_loop E orgID DefaultRoles"

section \<open>Service\<close>

definition role_Service_RoleOrg :: "pgtype \<Rightarrow> string \<Rightarrow> (err, string) wact" where
  "role_Service_RoleOrg E roleID = role_Store_RoleOrg E roleID"

definition role_Service_CreateRole ::
  "pgtype \<Rightarrow> string \<Rightarrow> string \<Rightarrow> string list \<Rightarrow> (err, Role) wact" where
  "role_Service_CreateRole E orgID name perms =
     (if orgID = '''' \<or> name = '''' then go_fail (ErrInvalidInput PRole)
      else role_Store_CreateRole E orgID name perms)"

definition role_Service_AssignRole ::
  "pgtype \<Rightarrow> string \<Rightarrow> string \<Rightarrow> string \<Rightarrow> string \<Rightarrow> (err, unit) wact" where
  "role_Service_AssignRole E principalID roleID scopeType scopeID =
     (if principalID = '''' \<or> roleID = '''' \<or> scopeID = '''' then go_fail (ErrInvalidInput PRole)
      else if scopeType \<noteq> ''org'' \<and> scopeType \<noteq> ''team'' then go_fail (ErrInvalidInput PRole)
      else
        go_try (role_Store_RoleOrg E roleID)
          (\<lambda>e. if e = ErrNotFound PRole then go_fail (ErrInvalidInput PRole) else go_fail e)
          (\<lambda>roleOrg.
             go_bind (if scopeType = ''team''
                      then go_try (role_Store_TeamOrg E scopeID)
                             (\<lambda>e. if e = ErrNotFound PRole then go_fail (ErrInvalidInput PRole)
                                  else go_fail e)
                             go_ret
                      else go_ret scopeID)
               (\<lambda>scopeOrg.
                  if scopeOrg \<noteq> roleOrg then go_fail (ErrInvalidInput PRole)
                  else role_Store_AssignRole E principalID roleID scopeType scopeID)))"

section \<open>Handler\<close>

definition role_code :: "err \<Rightarrow> rpc_error" where
  "role_code e =
     (if e = ErrInvalidInput PRole then NewError CodeInvalidArgument else NewError CodeInternal)"

definition role_Handler_CreateRole ::
  "pgtype \<Rightarrow> IsMember_op \<Rightarrow> ctx \<Rightarrow> string \<Rightarrow> string \<Rightarrow> string list \<Rightarrow> (rpc_error, Role) wact" where
  "role_Handler_CreateRole E isMember cx orgId name perms =
     go_bind (RequireMember cx isMember orgId) (\<lambda>_.
     go_try (role_Service_CreateRole E orgId name perms) (\<lambda>e. go_fail (role_code e)) (\<lambda>r.
     go_bind (Record cx (actor_event cx ''role.create'' ''role'' (role_ID r) orgId OutcomeSuccess
                (Some [''name'' \<mapsto> role_Name r]))) (\<lambda>_.
     go_ret r)))"

definition role_Handler_AssignRole ::
  "pgtype \<Rightarrow> IsMember_op \<Rightarrow> ctx \<Rightarrow> string \<Rightarrow> string \<Rightarrow> string \<Rightarrow> string \<Rightarrow> (rpc_error, unit) wact" where
  "role_Handler_AssignRole E isMember cx principalId roleId scopeType scopeId =
     go_try (role_Service_RoleOrg E roleId)
       (\<lambda>e. if e = ErrNotFound PRole then go_fail (role_code (ErrInvalidInput PRole))
            else go_fail (role_code e))
       (\<lambda>orgID.
          go_bind (RequireMember cx isMember orgID) (\<lambda>_.
          go_try (role_Service_AssignRole E principalId roleId scopeType scopeId)
            (\<lambda>e. go_fail (role_code e)) (\<lambda>_.
          Record cx (actor_event cx ''role.assign'' ''principal'' principalId orgID OutcomeSuccess
            (Some [''role_id'' \<mapsto> roleId])))))"

section \<open>The store seeds roles\<close>

context db_order begin

lemma keeps_role_reads [keeps_rules]:
  "keeps (db_rel Q) (role_q_GetRoleOrg u)" "keeps (db_rel Q) (role_q_GetTeamOrg u)"
  "keeps (db_rel Q) (role_Store_RoleOrg E s)" "keeps (db_rel Q) (role_Store_TeamOrg E s)"
  "keeps (db_rel Q) (role_Service_RoleOrg E s)"
  unfolding role_q_GetRoleOrg_def role_q_GetTeamOrg_def role_Store_RoleOrg_def role_Store_TeamOrg_def
    role_Service_RoleOrg_def
  by (intro keeps_rules)+

end

text \<open>Whatever the connection does, creating a role adds at most that role.\<close>

lemma role_q_CreateRole_adds:
  assumes "role_q_CreateRole oid name perms w = (r, w')"
  obtains (none) e where "r = Inl e" "db w' = db w"
    | (one) x where "adds_roles (db w) [x] (db w')" "r_OrgID x = oid" "r_Name x = name"
        "r_Permissions x = perms" "\<not> role_exists (db w) (r_ID x)" "r = Inr x \<or> (\<exists>e. r = Inl e)"
proof -
  define x where "x = \<lparr>r_ID = uuid_src w (uuid_pos w), r_OrgID = oid, r_Name = name, r_Permissions = perms\<rparr>"
  have "(\<exists>e. r = Inl e) \<and> db w' = db w \<or>
      adds_roles (db w) [x] (db w') \<and> \<not> role_exists (db w) (r_ID x) \<and> (r = Inr x \<or> (\<exists>e. r = Inl e))"
    using assms
    by (auto simp: role_q_CreateRole_def go_bind_cases gen_random_uuid_def sql_def q_CreateRole_def
        adds_roles_def Let_def x_def split: prod.splits fault.splits sum.splits if_splits)
  then show thesis using none one [of x] by (auto simp: x_def)
qed

lemma role_Store_CreateRole_adds:
  assumes "uuid_Scan E s = Some u" "role_Store_CreateRole E s name perms w = (r, w')"
  shows "\<exists>rs. adds_roles (db w) rs (db w') \<and>
           (\<forall>x \<in> set rs. r_OrgID x = u \<and> \<not> role_exists (db w) (r_ID x)) \<and>
           ((\<exists>y. r = Inr y) \<longrightarrow> map (\<lambda>x. (r_Name x, r_Permissions x)) rs = [(name, perms)])"
proof -
  obtain r1 w1 where c: "role_q_CreateRole u name perms w = (r1, w1)" by fastforce
  have r: "w1 = w' \<and> ((\<exists>y. r = Inr y) \<longrightarrow> (\<exists>x. r1 = Inr x))"
    using assms c by (auto simp: role_Store_CreateRole_def go_bind_cases split: sum.splits)
  from c show ?thesis
  proof (cases rule: role_q_CreateRole_adds)
    case none
    with r show ?thesis by (intro exI [of _ "[]"]) auto
  next
    case (one x)
    with r show ?thesis by (intro exI [of _ "[x]"]) auto
  qed
qed

lemma seed_loop_adds:
  assumes "uuid_Scan E s = Some u"
  shows "seed_loop E s ds w = (r, w') \<Longrightarrow>
    \<exists>rs. adds_roles (db w) rs (db w') \<and>
         (\<forall>x \<in> set rs. r_OrgID x = u \<and> \<not> role_exists (db w) (r_ID x)) \<and>
         (r = Inr () \<longrightarrow> map (\<lambda>x. (r_Name x, r_Permissions x)) rs = ds)"
proof (induction ds arbitrary: w)
  case Nil
  then show ?case by (intro exI [of _ "[]"]) simp
next
  case (Cons d ds)
  obtain name perms where d: "d = (name, perms)" by (cases d)
  obtain r1 w1 where c: "role_Store_CreateRole E s name perms w = (r1, w1)" by fastforce
  from role_Store_CreateRole_adds [OF assms c] obtain rs where
    rs: "adds_roles (db w) rs (db w1)" "\<forall>x \<in> set rs. r_OrgID x = u \<and> \<not> role_exists (db w) (r_ID x)"
      "(\<exists>y. r1 = Inr y) \<longrightarrow> map (\<lambda>x. (r_Name x, r_Permissions x)) rs = [(name, perms)]"
    by (elim exE conjE) (rule that)
  show ?case
  proof (cases r1)
    case (Inl e)
    then have "r = Inl e" "w' = w1" using Cons.prems c d by (simp_all add: go_bind_cases)
    with rs show ?thesis by (intro exI [of _ rs]) simp
  next
    case (Inr y)
    then have "seed_loop E s ds w1 = (r, w')" using Cons.prems c d by (simp add: go_bind_cases)
    from Cons.IH [OF this] obtain rs' where
      rs': "adds_roles (db w1) rs' (db w')" "\<forall>x \<in> set rs'. r_OrgID x = u \<and> \<not> role_exists (db w1) (r_ID x)"
        "r = Inr () \<longrightarrow> map (\<lambda>x. (r_Name x, r_Permissions x)) rs' = ds" by blast
    have "\<not> role_exists (db w) v" if "\<not> role_exists (db w1) v" for v
      using that rs(1) by (auto simp: role_exists_def adds_roles_def)
    with rs rs' Inr d show ?thesis
      by (intro exI [of _ "rs @ rs'"]) (auto intro: adds_roles_trans)
  qed
qed

lemma up_seed_loop: "keeps up_rel (seed_loop E s ds)"
  by (induction ds) (auto simp: role_Store_CreateRole_def role_q_CreateRole_def intro!: keeps_rules)

interpretation default_roles: role_seeder E "role_Store_SeedDefaults E" DefaultRoles for E
  by unfold_locales
     (auto simp: role_Store_SeedDefaults_def intro: seed_loop_adds keeps_upD [OF up_seed_loop])

section \<open>Scopes stay inside the role's organisation\<close>

text \<open>The scope of every assignment lies in the organisation of its role: it is that
  organisation, or a team of it.\<close>

definition scope_in_org :: "database \<Rightarrow> role_assignment_row \<Rightarrow> uuid \<Rightarrow> bool" where
  "scope_in_org d a u \<longleftrightarrow>
     (ra_ScopeType a = ''org'' \<and> ra_ScopeID a = u) \<or>
     (ra_ScopeType a = ''team'' \<and> (\<exists>t \<in> set (teams d). tm_ID t = ra_ScopeID a \<and> tm_OrgID t = u))"

definition scopes_ok :: "database \<Rightarrow> bool" where
  "scopes_ok d \<longleftrightarrow>
     (\<forall>a \<in> set (role_assignments d). \<exists>r \<in> set (roles d). r_ID r = ra_RoleID a \<and> scope_in_org d a (r_OrgID r))"

lemma uuid_String_inj: "uuid_codec E \<Longrightarrow> uuid_String E u = uuid_String E v \<longleftrightarrow> u = v"
  by (metis option.inject uuid_codec_def)

lemma role_Store_RoleOrg_InrD:
  "role_Store_RoleOrg E s w = (Inr x, w') \<Longrightarrow>
     \<exists>rid. \<exists>r \<in> set (roles (db w)). uuid_Scan E s = Some rid \<and> r_ID r = rid \<and>
        x = uuid_String E (r_OrgID r) \<and> db w' = db w"
  unfolding role_Store_RoleOrg_def role_q_GetRoleOrg_def
  by (auto simp: go_try_def split: option.splits prod.splits sum.splits if_splits
      dest!: sql_one_InrD find_SomeD)

lemma role_Store_TeamOrg_InrD:
  "role_Store_TeamOrg E s w = (Inr x, w') \<Longrightarrow>
     \<exists>tid. \<exists>t \<in> set (teams (db w)). uuid_Scan E s = Some tid \<and> tm_ID t = tid \<and>
        x = uuid_String E (tm_OrgID t) \<and> db w' = db w"
  unfolding role_Store_TeamOrg_def role_q_GetTeamOrg_def
  by (auto simp: go_try_def split: option.splits prod.splits sum.splits if_splits
      dest!: sql_one_InrD find_SomeD)

text \<open>Whatever the connection does, an assignment either changes nothing or adds one row whose
  scope lies in the organisation of its role.\<close>

lemma role_Service_AssignRole_outcome:
  assumes codec: "uuid_codec E"
    and run: "role_Service_AssignRole E p roleID st scopeID w = (r, w')"
  shows "db w' = db w \<or>
    (\<exists>a. \<exists>x \<in> set (roles (db w)). r_ID x = ra_RoleID a \<and> scope_in_org (db w) a (r_OrgID x) \<and>
       a \<notin> set (role_assignments (db w)) \<and> ra_PrincipalID a = p \<and> uuid_Scan E roleID = Some (ra_RoleID a) \<and>
       db w' = (db w)\<lparr>role_assignments := role_assignments (db w) @ [a]\<rparr>)"
proof (cases "p = '''' \<or> roleID = '''' \<or> scopeID = '''' \<or> st \<noteq> ''org'' \<and> st \<noteq> ''team''")
  case True
  with run show ?thesis by (auto simp: role_Service_AssignRole_def split: if_splits)
next
  case False
  let ?team = "if st = ''team'' then go_try (role_Store_TeamOrg E scopeID)
      (\<lambda>e. if e = ErrNotFound PRole then go_fail (ErrInvalidInput PRole) else go_fail e) go_ret
    else go_ret scopeID"
  obtain r1 w1 where ro: "role_Store_RoleOrg E roleID w = (r1, w1)" by fastforce
  have d1: "db w1 = db w" using ro by (rule keeps_sameD [OF same_db.keeps_role_reads(3)])
  obtain r2 w2 where te: "?team w1 = (r2, w2)" by fastforce
  have "keeps (db_rel (=)) ?team" by (intro keeps_rules)
  from keeps_sameD [OF this te] have d2: "db w2 = db w" using d1 by simp
  show ?thesis
  proof (cases "\<exists>ro. r1 = Inr ro \<and> r2 = Inr ro")
    case True
    then obtain ro' where ok: "r1 = Inr ro'" "r2 = Inr ro'" by blast
    obtain rid x where x: "x \<in> set (roles (db w))" "uuid_Scan E roleID = Some rid" "r_ID x = rid"
        "ro' = uuid_String E (r_OrgID x)"
      using role_Store_RoleOrg_InrD [OF ro [unfolded ok]] by blast
    have "role_Store_AssignRole E p roleID st scopeID w2 = (r, w')"
      using run False ro te ok
      by (cases "st = ''team''") (simp_all add: role_Service_AssignRole_def go_try_def go_bind_cases)
    then have "db w' = db w \<or> (\<exists>sid d. uuid_Scan E scopeID = Some sid \<and>
        q_AssignRole p rid st sid (db w) = Inr ((), d) \<and> db w' = d)"
      using x d2 by (auto simp: role_Store_AssignRole_def role_q_AssignRole_def dest!: sql_outcome
          split: option.splits)
    then show ?thesis
    proof (elim disjE exE conjE)
      fix sid d
      assume sid: "uuid_Scan E scopeID = Some sid" and q: "q_AssignRole p rid st sid (db w) = Inr ((), d)"
        and d: "db w' = d"
      define a where "a = \<lparr>ra_PrincipalID = p, ra_RoleID = rid, ra_ScopeType = st, ra_ScopeID = sid\<rparr>"
      have "scope_in_org (db w) a (r_OrgID x)"
      proof (cases "st = ''team''")
        case True
        then have "role_Store_TeamOrg E scopeID w1 = (Inr ro', w2)"
          using te ok by (auto simp: go_try_def split: prod.splits sum.splits if_splits)
        from role_Store_TeamOrg_InrD [OF this] sid x(4) d1 True uuid_String_inj [OF codec]
        show ?thesis by (auto simp: scope_in_org_def a_def)
      next
        case org: False
        then have "scopeID = ro'" using te ok by simp
        with codec x(4) sid have "sid = r_OrgID x" by (simp add: uuid_codec_def)
        with org False show ?thesis by (simp add: scope_in_org_def a_def)
      qed
      moreover have "db w' = db w \<or> a \<notin> set (role_assignments (db w)) \<and>
          db w' = (db w)\<lparr>role_assignments := role_assignments (db w) @ [a]\<rparr>"
        using q d by (auto simp: q_AssignRole_def a_def Let_def split: if_splits)
      moreover have "r_ID x = ra_RoleID a" "ra_PrincipalID a = p" "uuid_Scan E roleID = Some (ra_RoleID a)"
        using x by (simp_all add: a_def)
      ultimately show ?thesis using x(1) by blast
    qed simp
  next
    case no: False
    then have "db w' = db w"
      using run False ro te d1 d2
      by (cases r1; cases r2) (auto simp: role_Service_AssignRole_def go_try_def go_bind_cases split: if_splits)
    then show ?thesis by simp
  qed
qed

lemma AssignRole_keeps_scopes:
  assumes "uuid_codec E"
  shows "keeps (db_rel (stays scopes_ok)) (role_Service_AssignRole E p roleID st scopeID)"
proof (rule keepsI)
  fix w
  obtain r w' where run: "role_Service_AssignRole E p roleID st scopeID w = (r, w')" by fastforce
  from role_Service_AssignRole_outcome [OF assms run] run
  show "db_rel (stays scopes_ok) w (snd (role_Service_AssignRole E p roleID st scopeID w))"
    by (fastforce simp: db_rel_def stays_def scopes_ok_def scope_in_org_def)
qed


end
