(* ===== verification/Authz.thy ===== *)
theory Authz
  imports Role
begin

text \<open>
  \<open>internal/authz\<close>: the permission check, ownership of the resource or a role that grants
  the action in the organisation's or the team's scope, and the registration of ownership. The
  locale \<open>authz_checker\<close> is the interface \<open>authz.Checker\<close> that the delegation and
  API-key packages call.
\<close>

record Resource =
  res_Type :: string
  res_ID :: string
  res_OrgID :: string
  res_TeamID :: string

section \<open>Queries\<close>

text \<open>A team id that is not given is SQL's NULL, which equals nothing.\<close>

definition has_permission :: "string \<Rightarrow> string \<Rightarrow> uuid \<Rightarrow> uuid option \<Rightarrow> database \<Rightarrow> bool" where
  "has_permission pid action oid tid d \<longleftrightarrow>
     list_ex (\<lambda>ra. list_ex (\<lambda>r.
        r_ID r = ra_RoleID ra \<and> ra_PrincipalID ra = pid \<and>
        (action \<in> set (r_Permissions r) \<or> ''*'' \<in> set (r_Permissions r)) \<and>
        (ra_ScopeType ra = ''org'' \<and> ra_ScopeID ra = oid \<or>
         ra_ScopeType ra = ''team'' \<and> Some (ra_ScopeID ra) = tid)) (roles d)) (role_assignments d)"

definition authz_q_HasPermission ::
  "string \<Rightarrow> string \<Rightarrow> uuid \<Rightarrow> uuid option \<Rightarrow> (err, bool) wact" where
  "authz_q_HasPermission pid action oid tid = sql_read (has_permission pid action oid tid)"

definition is_owner :: "string \<Rightarrow> string \<Rightarrow> string \<Rightarrow> database \<Rightarrow> bool" where
  "is_owner ty rid pid d \<longleftrightarrow>
     list_ex (\<lambda>x. ow_ResourceType x = ty \<and> ow_ResourceID x = rid \<and> ow_OwnerPrincipalID x = pid)
       (ownership d)"

definition authz_q_IsOwner :: "string \<Rightarrow> string \<Rightarrow> string \<Rightarrow> (err, bool) wact" where
  "authz_q_IsOwner ty rid pid = sql_read (is_owner ty rid pid)"

definition q_RegisterOwnership ::
  "string \<Rightarrow> string \<Rightarrow> string \<Rightarrow> uuid \<Rightarrow> database \<Rightarrow> err + unit \<times> database" where
  "q_RegisterOwnership ty rid owner oid d =
     (let same = (\<lambda>x. ow_ResourceType x = ty \<and> ow_ResourceID x = rid)
      in if \<not> org_exists d oid then Inl ForeignKeyViolation
         else if list_ex same (ownership d)
         then Inr ((), d\<lparr>ownership := map (\<lambda>x. if same x then x\<lparr>ow_OwnerPrincipalID := owner, ow_OrgID := oid\<rparr>
                                            else x) (ownership d)\<rparr>)
         else Inr ((), d\<lparr>ownership := ownership d @
                 [\<lparr>ow_ResourceType = ty, ow_ResourceID = rid, ow_OwnerPrincipalID = owner, ow_OrgID = oid\<rparr>]\<rparr>))"

definition authz_q_RegisterOwnership ::
  "string \<Rightarrow> string \<Rightarrow> string \<Rightarrow> uuid \<Rightarrow> (err, unit) wact" where
  "authz_q_RegisterOwnership ty rid owner oid = sql (q_RegisterOwnership ty rid owner oid)"

section \<open>Store and service\<close>

definition authz_Store_RegisterOwnership ::
  "pgtype \<Rightarrow> string \<Rightarrow> string \<Rightarrow> string \<Rightarrow> string \<Rightarrow> (err, unit) wact" where
  "authz_Store_RegisterOwnership E resType resID owner orgID =
     (case uuid_Scan E orgID of
        None \<Rightarrow> go_fail (ErrInvalidInput PAuthz)
      | Some oid \<Rightarrow> authz_q_RegisterOwnership resType resID owner oid)"

definition authz_Store_IsOwner :: "string \<Rightarrow> string \<Rightarrow> string \<Rightarrow> (err, bool) wact" where
  "authz_Store_IsOwner resType resID principalID = authz_q_IsOwner resType resID principalID"

definition authz_Store_HasPermission ::
  "pgtype \<Rightarrow> string \<Rightarrow> string \<Rightarrow> string \<Rightarrow> string \<Rightarrow> (err, bool) wact" where
  "authz_Store_HasPermission E principalID action orgID teamID =
     (case uuid_Scan E orgID of
        None \<Rightarrow> go_fail (ErrInvalidInput PAuthz)
      | Some oid \<Rightarrow>
          if teamID \<noteq> '''' then
            (case uuid_Scan E teamID of
               None \<Rightarrow> go_fail (ErrInvalidInput PAuthz)
             | Some tid \<Rightarrow> authz_q_HasPermission principalID action oid (Some tid))
          else authz_q_HasPermission principalID action oid None)"

definition authz_Service_Check ::
  "pgtype \<Rightarrow> string \<Rightarrow> string \<Rightarrow> Resource \<Rightarrow> (err, bool) wact" where
  "authz_Service_Check E subject action res =
     go_bind (authz_Store_IsOwner (res_Type res) (res_ID res) subject) (\<lambda>owner.
     if owner then go_ret True
     else authz_Store_HasPermission E subject action (res_OrgID res) (res_TeamID res))"

section \<open>Handler\<close>

definition authz_code :: "err \<Rightarrow> rpc_error" where
  "authz_code e =
     (if e = ErrInvalidInput PAuthz then NewError CodeInvalidArgument else NewError CodeInternal)"

record CheckRequest =
  ck_Subject :: string
  ck_Action :: string
  ck_ResourceType :: string
  ck_ResourceId :: string
  ck_OrgId :: string
  ck_TeamId :: string

definition authz_Handler_Check ::
  "pgtype \<Rightarrow> IsMember_op \<Rightarrow> ctx \<Rightarrow> CheckRequest \<Rightarrow> (rpc_error, bool) wact" where
  "authz_Handler_Check E isMember cx m =
     go_bind (RequireMember cx isMember (ck_OrgId m)) (\<lambda>_.
     go_try (authz_Service_Check E (ck_Subject m) (ck_Action m)
               \<lparr>res_Type = ck_ResourceType m, res_ID = ck_ResourceId m, res_OrgID = ck_OrgId m,
                res_TeamID = ck_TeamId m\<rparr>)
       (\<lambda>e. go_fail (authz_code e)) (\<lambda>allowed.
     go_bind (Record cx (actor_event cx ''authz.decision'' (ck_ResourceType m) (ck_ResourceId m)
                (ck_OrgId m) (if allowed then OutcomeSuccess else OutcomeDenied)
                (Some [''action'' \<mapsto> ck_Action m, ''via'' \<mapsto> ''rbac'', ''allowed'' \<mapsto> boolStr allowed]))) (\<lambda>_.
     go_ret allowed)))"

definition authz_Handler_RegisterOwnership ::
  "pgtype \<Rightarrow> IsMember_op \<Rightarrow> ctx \<Rightarrow> string \<Rightarrow> string \<Rightarrow> string \<Rightarrow> string \<Rightarrow> (rpc_error, unit) wact" where
  "authz_Handler_RegisterOwnership E isMember cx resType resId owner orgId =
     go_bind (RequireMember cx isMember orgId) (\<lambda>_.
     go_try (authz_Store_RegisterOwnership E resType resId owner orgId)
       (\<lambda>e. go_fail (authz_code e)) (\<lambda>_.
     Record cx (actor_event cx ''ownership.register'' resType resId orgId OutcomeSuccess
       (Some [''owner_principal_id'' \<mapsto> owner]))))"

section \<open>The check as an interface\<close>

context db_order begin

lemma keeps_authz_reads [keeps_rules]:
  "keeps (db_rel Q) (authz_Store_IsOwner ty rid pid)"
  "keeps (db_rel Q) (authz_Store_HasPermission E pid action orgID teamID)"
  unfolding authz_Store_IsOwner_def authz_q_IsOwner_def authz_Store_HasPermission_def
    authz_q_HasPermission_def
  by (intro keeps_rules)+

lemma keeps_authz_Service_Check [keeps_rules]: "keeps (db_rel Q) (authz_Service_Check E s a res)"
  unfolding authz_Service_Check_def by (intro keeps_rules)

lemma keeps_authz_Handler_Check [keeps_rules]:
  "(\<And>p u. keeps (db_rel Q) (isMember p u)) \<Longrightarrow> keeps (db_rel Q) (authz_Handler_Check E isMember cx m)"
  unfolding authz_Handler_Check_def by (intro keeps_rules)

end

text \<open>What a check decides: the specification over the tables, \<open>None\<close> where an id of the
  request does not parse and the role lookup is reached.\<close>

definition check_spec :: "pgtype \<Rightarrow> database \<Rightarrow> string \<Rightarrow> string \<Rightarrow> Resource \<Rightarrow> bool option" where
  "check_spec E d subject action res =
     (if is_owner (res_Type res) (res_ID res) subject d then Some True
      else case uuid_Scan E (res_OrgID res) of
        None \<Rightarrow> None
      | Some oid \<Rightarrow>
          (if res_TeamID res = '''' then Some (has_permission subject action oid None d)
           else map_option (\<lambda>tid. has_permission subject action oid (Some tid) d)
                  (uuid_Scan E (res_TeamID res))))"

type_synonym Check_op = "string \<Rightarrow> string \<Rightarrow> Resource \<Rightarrow> (err, bool) wact"

text \<open>\<open>authz.Checker\<close>: a check only reads; an answer is the specification's; without a lost
  connection the specification decides the outcome.\<close>

locale authz_checker =
  fixes check :: Check_op
    and spec :: "database \<Rightarrow> string \<Rightarrow> string \<Rightarrow> Resource \<Rightarrow> bool option"
  assumes check_reads: "check s a res w = (r, w') \<Longrightarrow> db w' = db w"
    and check_sound: "check s a res w = (Inr b, w') \<Longrightarrow> spec (db w) s a res = Some b"
    and check_up: "faults w = [] \<Longrightarrow> spec (db w) s a res = Some b \<Longrightarrow> check s a res w = (Inr b, w)"
    and check_bad: "faults w = [] \<Longrightarrow> spec (db w) s a res = None \<Longrightarrow>
                      check s a res w = (Inl (ErrInvalidInput PAuthz), w)"
begin

lemma check_keeps: "keeps (db_rel (=)) (check s a res)"
proof (rule keepsI)
  fix w
  show "db_rel (=) w (snd (check s a res w))"
    using check_reads [of s a res w] by (cases "check s a res w") (simp add: db_rel_def)
qed

end

interpretation rbac: authz_checker "authz_Service_Check E" "check_spec E" for E
proof
  fix s a res and w w' :: world and r
  assume "authz_Service_Check E s a res w = (r, w')"
  then show "db w' = db w" by (rule keeps_sameD [OF same_db.keeps_authz_Service_Check])
next
  fix s a res and w w' :: world and b
  assume "authz_Service_Check E s a res w = (Inr b, w')"
  then show "check_spec E (db w) s a res = Some b"
    unfolding authz_Service_Check_def authz_Store_IsOwner_def authz_q_IsOwner_def
    by (auto elim!: go_bind_InrD dest!: sql_read_InrD
        simp: check_spec_def authz_Store_HasPermission_def authz_q_HasPermission_def
        split: if_splits option.splits)
next
  fix s a res and w :: world and b
  assume "faults w = []" "check_spec E (db w) s a res = Some b"
  then show "authz_Service_Check E s a res w = (Inr b, w)"
    by (auto simp: authz_Service_Check_def authz_Store_IsOwner_def authz_q_IsOwner_def go_bind_cases
        check_spec_def authz_Store_HasPermission_def authz_q_HasPermission_def
        split: if_splits option.splits)
next
  fix s a res and w :: world
  assume "faults w = []" "check_spec E (db w) s a res = None"
  then show "authz_Service_Check E s a res w = (Inl (ErrInvalidInput PAuthz), w)"
    by (auto simp: authz_Service_Check_def authz_Store_IsOwner_def authz_q_IsOwner_def go_bind_cases
        check_spec_def authz_Store_HasPermission_def
        split: if_splits option.splits)
qed

text \<open>C10: Over a healthy connection the check procedure answers what the specification over the tables
  says: a caller that is neither administrator nor member of the organisation is refused, an id
  that does not parse is an invalid argument, and otherwise the answer is ownership of the resource
  or a role that grants the action in the organisation's or the team's scope. The tables stay as
  they are.\<close>

theorem check_handler_refines_spec:
  assumes "faults w = []"
  shows "fst (authz_Handler_Check E (org_Store_IsMember E) (Some c) m w) =
      (if \<not> c_SystemAdmin c \<and> \<not> is_member E (db w) (c_PrincipalID c) (ck_OrgId m)
       then Inl (NewError CodePermissionDenied)
       else case check_spec E (db w) (ck_Subject m) (ck_Action m)
                   \<lparr>res_Type = ck_ResourceType m, res_ID = ck_ResourceId m, res_OrgID = ck_OrgId m,
                    res_TeamID = ck_TeamId m\<rparr> of
              None \<Rightarrow> Inl (NewError CodeInvalidArgument)
            | Some b \<Rightarrow> Inr b) \<and>
    db (snd (authz_Handler_Check E (org_Store_IsMember E) (Some c) m w)) = db w"
proof -
  let ?res = "\<lparr>res_Type = ck_ResourceType m, res_ID = ck_ResourceId m, res_OrgID = ck_OrgId m, res_TeamID = ck_TeamId m\<rparr>"
  let ?run = "authz_Handler_Check E (org_Store_IsMember E) (Some c) m w"
  have db: "db (snd ?run) = db w"
  proof -
    have "keeps (db_rel (=)) (authz_Handler_Check E (org_Store_IsMember E) (Some c) m)"
      by (intro same_db.keeps_authz_Handler_Check org_members.isMember_keeps)
    from keepsD [OF this] show ?thesis by (simp add: db_rel_def)
  qed
  show ?thesis
  proof (cases "c_SystemAdmin c \<or> is_member E (db w) (c_PrincipalID c) (ck_OrgId m)")
    case False
    with assms have "fst ?run = Inl (NewError CodePermissionDenied)"
      by (auto simp: authz_Handler_Check_def RequireMember_def go_try_def go_bind_cases org_members.isMember_up)
    with False db show ?thesis by simp
  next
    case True
    note guard = org_members.require_accepts [OF assms True]
    show ?thesis
    proof (cases "check_spec E (db w) (ck_Subject m) (ck_Action m) ?res")
      case None
      with rbac.check_bad [OF assms None] guard True db show ?thesis
        by (simp add: authz_Handler_Check_def go_bind_cases go_try_def authz_code_def)
    next
      case (Some b)
      with rbac.check_up [OF assms Some] guard True db show ?thesis
        by (simp add: authz_Handler_Check_def go_bind_cases go_try_def Record_def Let_def)
    qed
  qed
qed

text \<open>C38: Registering ownership does not look at the present owner: a member of any organisation takes
  over a resource of another organisation by registering it under its own, after which the check
  for any action on it in the former organisation answers yes for the new owner.\<close>

theorem ownership_takeover:
  assumes "faults w = []" "is_member E (db w) (c_PrincipalID c) o1" "uuid_Scan E o1 = Some u" "org_exists (db w) u"
  shows "\<exists>w'. authz_Handler_RegisterOwnership E (org_Store_IsMember E) (Some c) ty i (c_PrincipalID c) o1 w = (Inr (), w') \<and>
     check_spec E (db w') (c_PrincipalID c) action \<lparr>res_Type = ty, res_ID = i, res_OrgID = o2, res_TeamID = t\<rparr> = Some True"
proof -
  have guard: "RequireMember (Some c) (org_Store_IsMember E) o1 w = (Inr c, w)"
    using org_members.require_accepts [OF assms(1)] assms(2) by blast
  have "\<exists>d. q_RegisterOwnership ty i (c_PrincipalID c) u (db w) = Inr ((), d) \<and> is_owner ty i (c_PrincipalID c) d"
  proof (cases "\<exists>x \<in> set (ownership (db w)). ow_ResourceType x = ty \<and> ow_ResourceID x = i")
    case True
    then obtain x where "x \<in> set (ownership (db w))" "ow_ResourceType x = ty" "ow_ResourceID x = i" by blast
    then show ?thesis
      using assms(4)
      by (auto simp: q_RegisterOwnership_def is_owner_def Let_def list_ex_iff
          intro!: bexI [of _ "x\<lparr>ow_OwnerPrincipalID := c_PrincipalID c, ow_OrgID := u\<rparr>"])
  qed (use assms(4) in \<open>auto simp: q_RegisterOwnership_def is_owner_def Let_def list_ex_iff\<close>)
  then obtain d where "q_RegisterOwnership ty i (c_PrincipalID c) u (db w) = Inr ((), d)" "is_owner ty i (c_PrincipalID c) d"
    by blast
  with guard assms(1,3) show ?thesis
    by (simp add: authz_Handler_RegisterOwnership_def go_bind_cases go_try_def authz_Store_RegisterOwnership_def
        authz_q_RegisterOwnership_def Record_def Let_def check_spec_def)
qed

end
