(* ===== verification/Apikey.thy ===== *)
theory Apikey
  imports Apikey_Format Authz
begin

text \<open>
  \<open>internal/apikey\<close>: stored keys, the verifier that authenticates a presented key (with the
  sampled reporting of unknown keys), and the handler that issues, revokes and lists keys. The
  locale \<open>apikey_verifier\<close> is the interface \<open>authn.APIKeyVerifier\<close>. The text form of
  timestamps in page tokens is the parameter \<open>rfc3339\<close>.
\<close>

record StoredKey =
  st_KeyID :: string
  st_PrincipalID :: string
  st_OrgID :: string
  st_Name :: string
  st_Hash :: bytes
  st_HashVersion :: int
  st_ReadOnly :: bool
  st_Revoked :: bool
  st_CreatedAt :: time
  st_ExpiresAt :: "time option"
  st_LastUsedAt :: "time option"

record NewKey =
  nk_KeyID :: string
  nk_PrincipalID :: string
  nk_OrgID :: string
  nk_Name :: string
  nk_Hash :: bytes
  nk_ReadOnly :: bool
  nk_ExpiresAt :: "time option"

section \<open>Queries\<close>

definition key_active :: "time \<Rightarrow> api_key_row \<Rightarrow> bool" where
  "key_active now k \<longleftrightarrow>
     \<not> k_Revoked k \<and> (case k_ExpiresAt k of None \<Rightarrow> True | Some t \<Rightarrow> t > timestamptz now)"

definition count_active :: "time \<Rightarrow> string \<Rightarrow> database \<Rightarrow> nat" where
  "count_active now pid d = length (filter (\<lambda>k. k_PrincipalID k = pid \<and> key_active now k) (api_keys d))"

definition CountActiveApiKeys :: "string \<Rightarrow> (err, int) wact" where
  "CountActiveApiKeys pid = go_bind time_Now (\<lambda>now. sql_read (\<lambda>d. int (count_active now pid d)))"

definition GetApiKey :: "string \<Rightarrow> (err, api_key_row) wact" where
  "GetApiKey kid = sql_one (\<lambda>d. find (\<lambda>k. k_KeyID k = kid) (api_keys d))"

definition q_InsertApiKey :: "time \<Rightarrow> NewKey \<Rightarrow> database \<Rightarrow> err + unit \<times> database" where
  "q_InsertApiKey now k d =
     (if nk_KeyID k \<in> set (map k_KeyID (api_keys d)) then Inl UniqueViolation
      else Inr ((), d\<lparr>api_keys := api_keys d @
              [\<lparr>k_KeyID = nk_KeyID k, k_PrincipalID = nk_PrincipalID k, k_OrgID = nk_OrgID k,
                k_Name = nk_Name k, k_Hash = nk_Hash k, k_HashVersion = 1, k_ReadOnly = nk_ReadOnly k,
                k_Revoked = False, k_CreatedAt = timestamptz now,
                k_ExpiresAt = map_option timestamptz (nk_ExpiresAt k), k_LastUsedAt = None\<rparr>]\<rparr>))"

definition InsertApiKey :: "NewKey \<Rightarrow> (err, unit) wact" where
  "InsertApiKey k = go_bind time_Now (\<lambda>now. sql (q_InsertApiKey now k))"

text \<open>The order by \<open>key_id DESC\<close> is bytewise on these ASCII ids.\<close>

definition newer :: "api_key_row \<Rightarrow> api_key_row \<Rightarrow> bool" where
  "newer a b \<longleftrightarrow> k_CreatedAt a > k_CreatedAt b \<or>
     k_CreatedAt a = k_CreatedAt b \<and> string_less (k_KeyID b) (k_KeyID a)"

fun insert_newest :: "api_key_row \<Rightarrow> api_key_row list \<Rightarrow> api_key_row list" where
  "insert_newest a [] = [a]"
| "insert_newest a (b # bs) = (if newer b a then b # insert_newest a bs else a # b # bs)"

definition list_keys :: "string \<Rightarrow> time option \<Rightarrow> int \<Rightarrow> database \<Rightarrow> api_key_row list" where
  "list_keys pid after lim d =
     take (nat lim) (foldr insert_newest
       (filter (\<lambda>k. k_PrincipalID k = pid \<and> (case after of None \<Rightarrow> True | Some t \<Rightarrow> k_CreatedAt k < t)) (api_keys d))
       [])"

definition ListApiKeysByPrincipal :: "string \<Rightarrow> time option \<Rightarrow> int \<Rightarrow> (err, api_key_row list) wact" where
  "ListApiKeysByPrincipal pid after lim = sql_read (list_keys pid after lim)"

definition q_RevokeApiKey :: "string \<Rightarrow> database \<Rightarrow> err + api_key_row \<times> database" where
  "q_RevokeApiKey kid d =
     (case find (\<lambda>k. k_KeyID k = kid) (api_keys d) of
        None \<Rightarrow> Inl ErrNoRows
      | Some k \<Rightarrow>
          Inr (k\<lparr>k_Revoked := True\<rparr>,
               d\<lparr>api_keys := map (\<lambda>x. if k_KeyID x = kid then x\<lparr>k_Revoked := True\<rparr> else x) (api_keys d)\<rparr>))"

definition RevokeApiKey :: "string \<Rightarrow> (err, api_key_row) wact" where
  "RevokeApiKey kid = sql (q_RevokeApiKey kid)"

definition q_TouchLastUsed :: "time \<Rightarrow> string \<Rightarrow> database \<Rightarrow> err + unit \<times> database" where
  "q_TouchLastUsed now kid d =
     Inr ((), d\<lparr>api_keys := map (\<lambda>x.
       if k_KeyID x = kid \<and>
          (case k_LastUsedAt x of None \<Rightarrow> True | Some t \<Rightarrow> t < timestamptz now - 60 * second)
       then x\<lparr>k_LastUsedAt := Some (timestamptz now)\<rparr> else x) (api_keys d)\<rparr>)"

definition TouchApiKeyLastUsed :: "string \<Rightarrow> (err, unit) wact" where
  "TouchApiKeyLastUsed kid = go_bind time_Now (\<lambda>now. sql (q_TouchLastUsed now kid))"

section \<open>Store\<close>

definition ak_row :: "api_key_row \<Rightarrow> StoredKey" where
  "ak_row r =
     \<lparr>st_KeyID = k_KeyID r, st_PrincipalID = k_PrincipalID r, st_OrgID = k_OrgID r, st_Name = k_Name r,
      st_Hash = k_Hash r, st_HashVersion = k_HashVersion r, st_ReadOnly = k_ReadOnly r,
      st_Revoked = k_Revoked r, st_CreatedAt = k_CreatedAt r, st_ExpiresAt = k_ExpiresAt r,
      st_LastUsedAt = k_LastUsedAt r\<rparr>"

definition ak_Store_Insert :: "NewKey \<Rightarrow> (err, unit) wact" where
  "ak_Store_Insert k = InsertApiKey k"

definition GetByKeyID :: "string \<Rightarrow> (err, StoredKey) wact" where
  "GetByKeyID kid = go_bind (GetApiKey kid) (\<lambda>r. go_ret (ak_row r))"

definition clampLimit :: "int \<Rightarrow> int" where
  "clampLimit l = (if l \<le> 0 \<or> l > 200 then 100 else l)"

definition ListByPrincipal :: "string \<Rightarrow> time option \<Rightarrow> int \<Rightarrow> (err, StoredKey list) wact" where
  "ListByPrincipal pid after limit =
     (let lim = (if limit \<le> 0 \<or> limit > 200 then 100 else limit)
      in go_bind (ListApiKeysByPrincipal pid after lim) (\<lambda>rs. go_ret (map ak_row rs)))"

definition ak_Store_Revoke :: "string \<Rightarrow> (err, StoredKey) wact" where
  "ak_Store_Revoke kid = go_bind (RevokeApiKey kid) (\<lambda>r. go_ret (ak_row r))"

definition TouchLastUsed :: "string \<Rightarrow> (err, unit) wact" where
  "TouchLastUsed kid = TouchApiKeyLastUsed kid"

definition CountActive :: "string \<Rightarrow> (err, int) wact" where
  "CountActive pid = CountActiveApiKeys pid"

section \<open>Verifier\<close>

definition unknownFlushWindow :: duration where
  "unknownFlushWindow = 10 * second"

definition key_prefix :: "string \<Rightarrow> string" where
  "key_prefix keyID = (if length keyID \<le> 6 then keyID else take 6 keyID)"

definition emitAuthDenied :: "ctx \<Rightarrow> string \<Rightarrow> string \<Rightarrow> ('e, unit) wact" where
  "emitAuthDenied cx pre reason =
     Record cx \<lparr>ev_ActorID = '''', ev_ActorType = '''', ev_SystemAdmin = False, ev_Action = ''apikey.auth'',
       ev_TargetType = ''apikey'', ev_TargetID = pre, ev_OrgID = '''', ev_Outcome = OutcomeDenied,
       ev_Detail = Some [''reason'' \<mapsto> reason]\<rparr>"

text \<open>The critical section of \<open>sampleUnknown\<close>: count the miss, and take the count when the window
  has passed.\<close>

definition sample_step :: "time \<Rightarrow> int \<Rightarrow> time \<Rightarrow> int \<times> int \<times> time" where
  "sample_step now cnt lastFlush =
     (let cnt' = int64 (cnt + 1)
      in if time_Sub now lastFlush > unknownFlushWindow then (cnt', 0, now) else (0, cnt', lastFlush))"

definition sampleUnknown :: "ctx \<Rightarrow> ('e, unit) wact" where
  "sampleUnknown cx =
     go_bind time_Now (\<lambda>now w.
       case sample_step now (unkCount w) (unkLastFlush w) of
         (flush, cnt, lastFlush) \<Rightarrow>
           (let w1 = w\<lparr>unkCount := cnt, unkLastFlush := lastFlush\<rparr>
            in if flush > 0
               then Record cx \<lparr>ev_ActorID = '''', ev_ActorType = '''', ev_SystemAdmin = False,
                      ev_Action = ''apikey.auth'', ev_TargetType = ''apikey'', ev_TargetID = '''',
                      ev_OrgID = '''', ev_Outcome = OutcomeDenied,
                      ev_Detail = Some [''reason'' \<mapsto> ''unknown'', ''count'' \<mapsto> strconv_Itoa flush]\<rparr> w1
               else (Inr (), w1)))"

text \<open>The last-used update runs in its own goroutine with its error dropped; here it runs at the
  point where it is started.\<close>

definition ak_Verify :: "hmac_op \<Rightarrow> bytes \<Rightarrow> ctx \<Rightarrow> string \<Rightarrow> (err, string \<times> bool) wact" where
  "ak_Verify hmac pepper cx token =
     (case Parse token of
        None \<Rightarrow> go_bind (sampleUnknown cx) (\<lambda>_. go_fail ErrInvalidKey)
      | Some (keyID, secret) \<Rightarrow>
          go_try (GetByKeyID keyID)
            (\<lambda>_. go_bind (sampleUnknown cx) (\<lambda>_. go_fail ErrInvalidKey))
            (\<lambda>rec.
               if \<not> Equal hmac pepper secret (st_Hash rec)
               then go_bind (emitAuthDenied cx (key_prefix keyID) ''mismatch'') (\<lambda>_. go_fail ErrInvalidKey)
               else if st_Revoked rec
               then go_bind (emitAuthDenied cx (key_prefix keyID) ''revoked'') (\<lambda>_. go_fail ErrInvalidKey)
               else
                 go_bind (case st_ExpiresAt rec of
                            None \<Rightarrow> go_ret False
                          | Some t \<Rightarrow> go_bind time_Now (\<lambda>now. go_ret (now > t)))
                   (\<lambda>expired.
                      if expired
                      then go_bind (emitAuthDenied cx (key_prefix keyID) ''expired'') (\<lambda>_. go_fail ErrInvalidKey)
                      else go_try (TouchLastUsed keyID)
                             (\<lambda>_. go_ret (st_PrincipalID rec, st_ReadOnly rec))
                             (\<lambda>_. go_ret (st_PrincipalID rec, st_ReadOnly rec)))))"

section \<open>Handler\<close>

record apikey_policy =
  pol_maxTTL :: duration
  pol_allowNeverExpire :: bool
  pol_keyCap :: int

record IssueApiKeyRequest =
  ik_PrincipalId :: string
  ik_OrgId :: string
  ik_Name :: string
  ik_ReadOnly :: bool
  ik_TtlSeconds :: int

record IssueApiKeyResponse =
  ir_KeyId :: string
  ir_Secret :: string
  ir_ExpiresAtUnix :: int

text \<open>The expiry of a new key: \<open>Inl\<close> when the requested lifetime exceeds the policy.\<close>

definition issue_expiry :: "apikey_policy \<Rightarrow> int \<Rightarrow> (rpc_error, time option) wact" where
  "issue_expiry pol ttlSeconds =
     (if ttlSeconds > 0 then
        let ttl = dur_mul ttlSeconds second
        in if ttl > pol_maxTTL pol then go_fail (NewError CodeInvalidArgument)
           else go_bind time_Now (\<lambda>now. go_ret (Some (time_Add now ttl)))
      else if \<not> pol_allowNeverExpire pol
      then go_bind time_Now (\<lambda>now. go_ret (Some (time_Add now (pol_maxTTL pol))))
      else go_ret None)"

definition unixPtr :: "time option \<Rightarrow> int" where
  "unixPtr t = (case t of None \<Rightarrow> 0 | Some x \<Rightarrow> time_Unix x)"

text \<open>A system administrator issues for anyone; others only for themselves, in an organisation they
  are a member of.\<close>

definition issue_guard :: "IsMember_op \<Rightarrow> Caller \<Rightarrow> IssueApiKeyRequest \<Rightarrow> (rpc_error, unit) wact" where
  "issue_guard isMember caller m =
     (if c_SystemAdmin caller then go_ret ()
      else if c_PrincipalID caller \<noteq> ik_PrincipalId m then go_fail (NewError CodePermissionDenied)
      else go_try (isMember (c_PrincipalID caller) (ik_OrgId m))
             (\<lambda>_. go_fail (NewError CodeInternal))
             (\<lambda>member. if \<not> member then go_fail (NewError CodePermissionDenied) else go_ret ()))"

definition ak_Handler_Issue ::
  "hmac_op \<Rightarrow> bytes \<Rightarrow> apikey_policy \<Rightarrow> IsMember_op \<Rightarrow> ctx \<Rightarrow> IssueApiKeyRequest \<Rightarrow>
   (rpc_error, IssueApiKeyResponse) wact" where
  "ak_Handler_Issue hmac pepper pol isMember cx m =
     (case CallerFromContext cx of
        None \<Rightarrow> go_fail (NewError CodeUnauthenticated)
      | Some caller \<Rightarrow>
          if c_AuthMethod caller = ''apikey'' then go_fail (NewError CodePermissionDenied)
          else if ik_PrincipalId m = '''' \<or> ik_OrgId m = '''' then go_fail (NewError CodeInvalidArgument)
          else
            go_bind (issue_guard isMember caller m) (\<lambda>_.
            go_try (CountActive (ik_PrincipalId m)) (\<lambda>_. go_fail (NewError CodeInternal)) (\<lambda>n.
            if n \<ge> pol_keyCap pol then go_fail (NewError CodePermissionDenied)
            else
              go_bind (issue_expiry pol (ik_TtlSeconds m)) (\<lambda>expPtr.
              go_try Generate (\<lambda>_. go_fail (NewError CodeInternal)) (\<lambda>(plaintext, keyID, secret).
              go_try (ak_Store_Insert \<lparr>nk_KeyID = keyID, nk_PrincipalID = ik_PrincipalId m,
                        nk_OrgID = ik_OrgId m, nk_Name = ik_Name m, nk_Hash = Hash hmac pepper secret,
                        nk_ReadOnly = ik_ReadOnly m, nk_ExpiresAt = expPtr\<rparr>)
                (\<lambda>_. go_fail (NewError CodeInternal)) (\<lambda>_.
              go_bind (Record cx (actor_event cx ''apikey.issue'' ''apikey'' keyID (ik_OrgId m) OutcomeSuccess
                         (Some [''principal'' \<mapsto> ik_PrincipalId m, ''name'' \<mapsto> ik_Name m,
                                ''read_only'' \<mapsto> boolStr (ik_ReadOnly m)]))) (\<lambda>_.
              go_ret \<lparr>ir_KeyId = keyID, ir_Secret = plaintext, ir_ExpiresAtUnix = unixPtr expPtr\<rparr>)))))))"

definition ak_Handler_Revoke :: "Check_op \<Rightarrow> ctx \<Rightarrow> string \<Rightarrow> (rpc_error, unit) wact" where
  "ak_Handler_Revoke check cx keyId =
     (case CallerFromContext cx of
        None \<Rightarrow> go_fail (NewError CodeUnauthenticated)
      | Some caller \<Rightarrow>
          go_try (GetByKeyID keyId)
            (\<lambda>e. if e = ErrNoRows then go_fail (NewError CodeNotFound) else go_fail (NewError CodeInternal))
            (\<lambda>rec.
          go_bind (if \<not> c_SystemAdmin caller \<and> c_PrincipalID caller \<noteq> st_PrincipalID rec
                   then go_try (check (c_PrincipalID caller) ''org.manage''
                            \<lparr>res_Type = '''', res_ID = '''', res_OrgID = st_OrgID rec, res_TeamID = ''''\<rparr>)
                          (\<lambda>_. go_fail (NewError CodeInternal))
                          (\<lambda>orgAdmin. if \<not> orgAdmin then go_fail (NewError CodePermissionDenied) else go_ret ())
                   else go_ret ())
            (\<lambda>_.
          go_try (ak_Store_Revoke keyId) (\<lambda>_. go_fail (NewError CodeInternal)) (\<lambda>_.
          Record cx (actor_event cx ''apikey.revoke'' ''apikey'' keyId (st_OrgID rec) OutcomeSuccess
            (Some [''principal'' \<mapsto> st_PrincipalID rec]))))))"

record ApiKeyMeta =
  me_KeyId :: string
  me_Name :: string
  me_ReadOnly :: bool
  me_Revoked :: bool
  me_CreatedAtUnix :: int
  me_ExpiresAtUnix :: int
  me_LastUsedAtUnix :: int

definition meta_of :: "StoredKey \<Rightarrow> ApiKeyMeta" where
  "meta_of r =
     \<lparr>me_KeyId = st_KeyID r, me_Name = st_Name r, me_ReadOnly = st_ReadOnly r, me_Revoked = st_Revoked r,
      me_CreatedAtUnix = time_Unix (st_CreatedAt r), me_ExpiresAtUnix = unixPtr (st_ExpiresAt r),
      me_LastUsedAtUnix = unixPtr (st_LastUsedAt r)\<rparr>"

definition next_page_token :: "rfc3339 \<Rightarrow> int \<Rightarrow> StoredKey list \<Rightarrow> string" where
  "next_page_token F pageSize rows =
     (if rows \<noteq> [] \<and> int (length rows) = clampLimit pageSize
      then rfc_Format F (st_CreatedAt (last rows)) else '''')"

definition ak_Handler_List ::
  "rfc3339 \<Rightarrow> ctx \<Rightarrow> string \<Rightarrow> int \<Rightarrow> string \<Rightarrow> (rpc_error, ApiKeyMeta list \<times> string) wact" where
  "ak_Handler_List F cx principalId pageSize pageToken =
     (case CallerFromContext cx of
        None \<Rightarrow> go_fail (NewError CodeUnauthenticated)
      | Some caller \<Rightarrow>
          if \<not> c_SystemAdmin caller \<and> c_PrincipalID caller \<noteq> principalId
          then go_fail (NewError CodePermissionDenied)
          else
            let after = (if pageToken \<noteq> '''' then rfc_Parse F pageToken else None)
            in go_try (ListByPrincipal principalId after pageSize) (\<lambda>_. go_fail (NewError CodeInternal)) (\<lambda>rows.
               go_ret (map meta_of rows, next_page_token F pageSize rows)))"

section \<open>What the operations leave alone\<close>

context db_order begin

lemma keeps_ak_reads [keeps_rules]:
  "keeps (db_rel Q) (GetByKeyID kid)" "keeps (db_rel Q) (CountActive pid)"
  "keeps (db_rel Q) (ListByPrincipal pid after lim)" "keeps (db_rel Q) Generate"
  "keeps (db_rel Q) (issue_expiry pol ttl)" "keeps (db_rel Q) (emitAuthDenied cx pre reason)"
  unfolding GetByKeyID_def GetApiKey_def CountActive_def CountActiveApiKeys_def ListByPrincipal_def
    ListApiKeysByPrincipal_def Generate_def randBase62_def issue_expiry_def emitAuthDenied_def
  by (intro keeps_rules)+

lemma keeps_sampleUnknown [keeps_rules]: "keeps (db_rel Q) (sampleUnknown cx)"
  by (rule keeps_db_unchanged)
     (simp add: sampleUnknown_def go_bind_cases time_Now_def Record_def Let_def split: prod.split list.split)

lemma keeps_ak_Verify:
  assumes "\<And>kid. keeps (db_rel Q) (TouchLastUsed kid)"
  shows "keeps (db_rel Q) (ak_Verify hmac pepper cx token)"
  unfolding ak_Verify_def by (intro keeps_rules assms)

lemma keeps_ak_Handler_List [keeps_rules]: "keeps (db_rel Q) (ak_Handler_List F cx p n t)"
  unfolding ak_Handler_List_def by (intro keeps_rules)

end

section \<open>Authentication\<close>

text \<open>The tables up to the last-use stamps of API keys.\<close>

definition unstamped :: "database \<Rightarrow> database" where
  "unstamped d = d\<lparr>api_keys := map (\<lambda>k. k\<lparr>k_LastUsedAt := None\<rparr>) (api_keys d)\<rparr>"

definition same_unstamped :: "database \<Rightarrow> database \<Rightarrow> bool" where
  "same_unstamped d d' \<longleftrightarrow> unstamped d' = unstamped d"

interpretation stamped: db_order same_unstamped
  by unfold_locales (auto simp: same_unstamped_def)

lemma touch_stamped: "keeps (db_rel same_unstamped) (TouchLastUsed kid)"
  unfolding TouchLastUsed_def TouchApiKeyLastUsed_def
proof (intro keeps_rules stamped.keeps_sql)
  fix now d x d'
  assume "q_TouchLastUsed now kid d = Inr (x, d')"
  then show "same_unstamped d d'"
    by (auto simp: q_TouchLastUsed_def same_unstamped_def unstamped_def)
qed

lemma GetByKeyID_InrD:
  assumes "GetByKeyID kid w = (Inr rec, w')"
  shows "\<exists>k \<in> set (api_keys (db w)). k_KeyID k = kid \<and> rec = ak_row k \<and>
    find (\<lambda>k. k_KeyID k = kid) (api_keys (db w)) = Some k \<and> db w' = db w"
  using assms unfolding GetByKeyID_def GetApiKey_def
  by (auto elim!: go_bind_InrD dest!: sql_one_InrD dest: find_SomeD)

definition key_matches :: "hmac_op \<Rightarrow> bytes \<Rightarrow> time \<Rightarrow> string \<Rightarrow> api_key_row \<Rightarrow> bool" where
  "key_matches hmac pepper now token k \<longleftrightarrow>
     (\<exists>secret. Parse token = Some (k_KeyID k, secret) \<and> Hash hmac pepper secret = k_Hash k) \<and>
     \<not> k_Revoked k \<and> (\<forall>t. k_ExpiresAt k = Some t \<longrightarrow> now \<le> t)"

lemma clk_GetByKeyID: "keeps clock_rel (GetByKeyID kid)"
  unfolding GetByKeyID_def GetApiKey_def by (intro keeps_rules)

text \<open>An accepted key is stored, its secret hashes to the stored hash, and it is neither revoked nor
  expired.\<close>

lemma ak_Verify_InrD:
  assumes "ak_Verify hmac pepper cx token w = (Inr (p, ro), w')"
  shows "\<exists>k \<in> set (api_keys (db w)). key_matches hmac pepper (clock w) token k \<and>
    p = k_PrincipalID k \<and> ro = k_ReadOnly k"
proof -
  from assms obtain keyID secret where parse: "Parse token = Some (keyID, secret)"
    by (auto simp: ak_Verify_def split: option.splits elim!: go_bind_InrD)
  from assms obtain rec w1 where get: "GetByKeyID keyID w = (Inr rec, w1)"
    and ok: "Equal hmac pepper secret (st_Hash rec)" "\<not> st_Revoked rec" "p = st_PrincipalID rec" "ro = st_ReadOnly rec"
    and exp: "st_ExpiresAt rec = None \<or> (\<exists>t now w2. st_ExpiresAt rec = Some t \<and>
        time_Now w1 = (Inr now :: err + time, w2) \<and> \<not> now > t)"
    unfolding ak_Verify_def parse
    by (fastforce elim!: go_try_cases go_bind_InrD split: if_splits option.splits)
  from GetByKeyID_InrD [OF get] obtain k where k: "k \<in> set (api_keys (db w))" "k_KeyID k = keyID" "rec = ak_row k"
    by auto
  have "clock w \<le> t" if "k_ExpiresAt k = Some t" for t
    using exp that k(3) keeps_clkD [OF clk_GetByKeyID get] time_Now_InrD [where 'a = err]
    by (fastforce simp: ak_row_def)
  with k ok parse show ?thesis by (intro bexI [of _ k]) (auto simp: key_matches_def ak_row_def Equal_def)
qed

text \<open>\<open>authn.APIKeyVerifier\<close>: it only touches last-use stamps, and what it accepts is a stored
  key that matches.\<close>

type_synonym ak_Verify_op = "ctx \<Rightarrow> string \<Rightarrow> (err, string \<times> bool) wact"

locale apikey_verifier =
  fixes verify :: ak_Verify_op
    and matches :: "time \<Rightarrow> string \<Rightarrow> api_key_row \<Rightarrow> bool"
  assumes verify_stamps: "keeps (db_rel same_unstamped) (verify cx token)"
    and verify_sound: "verify cx token w = (Inr (p, ro), w') \<Longrightarrow>
      \<exists>k \<in> set (api_keys (db w)). matches (clock w) token k \<and> p = k_PrincipalID k \<and> ro = k_ReadOnly k"

interpretation stored_keys: apikey_verifier "ak_Verify hmac pepper" "key_matches hmac pepper" for hmac pepper
  by unfold_locales (auto intro: stamped.keeps_ak_Verify touch_stamped dest: ak_Verify_InrD)

text \<open>C6: An API key authenticates only as a stored key: the presented secret hashes to the stored
  hash of the key it names, the key is neither revoked nor expired, and the caller gets that key's
  principal and read-only flag.\<close>

theorem apikey_authentication_sound:
  assumes "ak_Verify hmac pepper cx token w = (Inr (p, ro), w')"
  shows "\<exists>k \<in> set (api_keys (db w)). \<exists>secret. Parse token = Some (k_KeyID k, secret) \<and>
    hmac pepper (bytes_of secret) = k_Hash k \<and> \<not> k_Revoked k \<and>
    (\<forall>t. k_ExpiresAt k = Some t \<longrightarrow> clock w \<le> t) \<and> p = k_PrincipalID k \<and> ro = k_ReadOnly k"
  using stored_keys.verify_sound [OF assms] by (auto simp: key_matches_def Hash_def)

section \<open>Issuing\<close>

lemma issue_expiry_InrD:
  assumes "issue_expiry pol ttl w = (Inr x, w')"
  shows "db w' = db w \<and> clock w \<le> clock w' \<and>
    (x = None \<longrightarrow> pol_allowNeverExpire pol \<and> ttl \<le> 0) \<and>
    (\<forall>t. x = Some t \<longrightarrow> t \<le> clock w' + pol_maxTTL pol)"
  using assms unfolding issue_expiry_def
  by (auto elim!: go_bind_InrD dest!: time_Now_InrD simp: Let_def time_Add_def split: if_splits)

text \<open>What a successful issue did: one new row, with the secret's hash, that the policy allows.\<close>

definition issued_row ::
  "hmac_op \<Rightarrow> bytes \<Rightarrow> apikey_policy \<Rightarrow> IssueApiKeyRequest \<Rightarrow> IssueApiKeyResponse \<Rightarrow> world \<Rightarrow> world \<Rightarrow>
   api_key_row \<Rightarrow> string \<Rightarrow> bool" where
  "issued_row hmac pepper pol m resp w w' k secret \<longleftrightarrow>
     k_PrincipalID k = ik_PrincipalId m \<and> k_OrgID k = ik_OrgId m \<and> k_KeyID k = ir_KeyId resp \<and>
     k_ReadOnly k = ik_ReadOnly m \<and> \<not> k_Revoked k \<and> k_Hash k = Hash hmac pepper secret \<and>
     Parse (ir_Secret resp) = Some (ir_KeyId resp, secret) \<and>
     ir_KeyId resp \<notin> set (map k_KeyID (api_keys (db w))) \<and>
     db w' = (db w)\<lparr>api_keys := api_keys (db w) @ [k]\<rparr> \<and>
     (k_ExpiresAt k = None \<longrightarrow> pol_allowNeverExpire pol \<and> ik_TtlSeconds m \<le> 0) \<and>
     (\<forall>t. k_ExpiresAt k = Some t \<longrightarrow> t \<le> clock w' + pol_maxTTL pol)"

lemma ak_Handler_Issue_InrD:
  assumes "ak_Handler_Issue hmac pepper pol isMember (Some c) m w = (Inr resp, w')"
    and reads: "\<And>p u. keeps (db_rel (=)) (isMember p u)"
  shows "\<exists>k secret. issued_row hmac pepper pol m resp w w' k secret \<and> c_AuthMethod c \<noteq> ''apikey''"
proof -
  let ?nk = "\<lambda>keyID secret x. \<lparr>nk_KeyID = keyID, nk_PrincipalID = ik_PrincipalId m,
     nk_OrgID = ik_OrgId m, nk_Name = ik_Name m, nk_Hash = Hash hmac pepper secret,
     nk_ReadOnly = ik_ReadOnly m, nk_ExpiresAt = x\<rparr>"
  from assms(1) obtain u1 w1 n w2 x w3 pt keyID secret w4 u5 w5 u6 ev where
    am: "c_AuthMethod c \<noteq> ''apikey''"
    and g: "issue_guard isMember c m w = (Inr u1, w1)"
    and cnt: "CountActive (ik_PrincipalId m) w1 = (Inr n, w2)"
    and exp: "issue_expiry pol (ik_TtlSeconds m) w2 = (Inr x, w3)"
    and gen: "Generate w3 = (Inr (pt, keyID, secret), w4)"
    and ins: "ak_Store_Insert (?nk keyID secret x) w4 = (Inr u5, w5)"
    and rec: "Record (Some c) ev w5 = (Inr u6 :: rpc_error + unit, w')"
    and resp: "ir_KeyId resp = keyID" "ir_Secret resp = pt"
    unfolding ak_Handler_Issue_def
    by (fastforce elim!: go_try_cases go_bind_InrD split: if_splits prod.splits)
  have kg: "keeps (db_rel (=)) (issue_guard isMember c m)" unfolding issue_guard_def by (intro keeps_rules reads)
  have d: "db w4 = db w"
    using keeps_sameD [OF kg g] keeps_sameD [OF same_db.keeps_ak_reads(2) cnt]
      issue_expiry_InrD [OF exp] keeps_sameD [OF same_db.keeps_ak_reads(4) gen] by simp
  have cg: "keeps clock_rel Generate" unfolding Generate_def randBase62_def by (intro keeps_rules)
  from ins obtain now w4' where now: "time_Now w4 = (Inr now :: err + time, w4')"
    and s: "sql (q_InsertApiKey now (?nk keyID secret x)) w4' = (Inr u5, w5)"
    unfolding ak_Store_Insert_def InsertApiKey_def by (rule go_bind_InrD)
  define k where "k = \<lparr>k_KeyID = keyID, k_PrincipalID = ik_PrincipalId m, k_OrgID = ik_OrgId m, k_Name = ik_Name m,
    k_Hash = Hash hmac pepper secret, k_HashVersion = 1, k_ReadOnly = ik_ReadOnly m, k_Revoked = False,
    k_CreatedAt = timestamptz now, k_ExpiresAt = map_option timestamptz x, k_LastUsedAt = None\<rparr>"
  have ins': "keyID \<notin> set (map k_KeyID (api_keys (db w)))" "db w5 = (db w)\<lparr>api_keys := api_keys (db w) @ [k]\<rparr>"
    using sql_InrD [OF s] time_Now_InrD [OF now] d by (auto simp: q_InsertApiKey_def k_def split: if_splits)
  have "clock w3 \<le> clock w'"
    using keeps_clkD [OF cg gen] keeps_clkD [OF clk_time_Now now] keeps_clkD [OF clk_sql s] rec
    by (auto simp: Record_def enqueue_def Let_def split: if_splits)
  moreover have "timestamptz t \<le> t" for t by (simp add: timestamptz_def truncate_us_le)
  ultimately have bound: "timestamptz z \<le> clock w' + pol_maxTTL pol" if "x = Some z" for z
  proof -
    have "z \<le> clock w3 + pol_maxTTL pol" using issue_expiry_InrD [OF exp] that by simp
    then show ?thesis using \<open>clock w3 \<le> clock w'\<close> \<open>timestamptz z \<le> z\<close> by linarith
  qed
  have "t \<le> clock w' + pol_maxTTL pol" if "k_ExpiresAt k = Some t" for t
    using that bound by (auto simp: k_def)
  moreover have "Parse pt = Some (keyID, secret)" by (rule Generate_parses(1) [OF gen])
  ultimately show ?thesis
    using ins' am issue_expiry_InrD [OF exp] resp Record_InrD [OF rec]
    by (intro exI [of _ k] exI [of _ secret]) (auto simp: k_def issued_row_def)
qed

lemma ak_Handler_Issue_guarded:
  assumes "ak_Handler_Issue hmac pepper pol (org_Store_IsMember E) (Some c) m w = (Inr resp, w')"
  shows "c_SystemAdmin c \<or> c_PrincipalID c = ik_PrincipalId m \<and> is_member E (db w) (c_PrincipalID c) (ik_OrgId m)"
proof -
  from assms obtain u w1 where "issue_guard (org_Store_IsMember E) c m w = (Inr u, w1)"
    unfolding ak_Handler_Issue_def by (auto elim!: go_bind_InrD split: if_splits)
  then show ?thesis
    unfolding issue_guard_def by (auto elim!: go_try_cases dest!: org_members.isMember_ok split: if_splits)
qed

text \<open>C30: An issued key is bounded by the policy: it is stored unrevoked for the requested principal
  under a fresh id, a non-expiring key only where the policy allows it, otherwise expiring within the
  maximal lifetime, never for a caller that itself authenticated with an API key, and for a caller
  that is no system administrator only for itself in an organisation it is a member of.\<close>

theorem issued_key_within_policy:
  assumes "ak_Handler_Issue hmac pepper pol (org_Store_IsMember E) (Some c) m w = (Inr resp, w')"
  shows "\<exists>k. db w' = (db w)\<lparr>api_keys := api_keys (db w) @ [k]\<rparr> \<and>
     k_KeyID k = ir_KeyId resp \<and> ir_KeyId resp \<notin> set (map k_KeyID (api_keys (db w))) \<and>
     k_PrincipalID k = ik_PrincipalId m \<and> k_OrgID k = ik_OrgId m \<and> \<not> k_Revoked k \<and>
     (k_ExpiresAt k = None \<longrightarrow> pol_allowNeverExpire pol) \<and>
     (\<forall>t. k_ExpiresAt k = Some t \<longrightarrow> t \<le> clock w' + pol_maxTTL pol) \<and> c_AuthMethod c \<noteq> ''apikey'' \<and>
     (c_SystemAdmin c \<or> c_PrincipalID c = ik_PrincipalId m \<and> is_member E (db w) (c_PrincipalID c) (ik_OrgId m))"
proof -
  have reads: "keeps (db_rel (=)) (org_Store_IsMember E p u)" for p u by (rule org_members.isMember_keeps)
  from ak_Handler_Issue_InrD [OF assms reads] obtain k secret where
    "issued_row hmac pepper pol m resp w w' k secret" "c_AuthMethod c \<noteq> ''apikey''" by (elim exE conjE) (rule that)
  with ak_Handler_Issue_guarded [OF assms] show ?thesis by (intro exI [of _ k]) (simp add: issued_row_def)
qed

lemma ak_Verify_up:
  assumes up: "faults w = []" "ticks w = []" and parse: "Parse token = Some (k_KeyID k, secret)"
    and k: "find (\<lambda>x. k_KeyID x = k_KeyID k) (api_keys (db w)) = Some k"
    and ok: "Hash hmac pepper secret = k_Hash k" "\<not> k_Revoked k"
      "\<And>t. k_ExpiresAt k = Some t \<Longrightarrow> clock w \<le> t"
  shows "fst (ak_Verify hmac pepper cx token w) = Inr (k_PrincipalID k, k_ReadOnly k)"
proof -
  have get: "GetByKeyID (k_KeyID k) w = (Inr (ak_row k), w)"
    using up(1) k by (simp add: GetByKeyID_def GetApiKey_def go_bind_cases)
  obtain rt wt where touch: "TouchLastUsed (k_KeyID k) w = (rt, wt)" by fastforce
  have now: "time_Now w = (Inr (clock w) :: err + time, w)"
    using up(2) by (simp add: time_Now_def Let_def)
  show ?thesis
    using parse get ok touch now
    by (cases "k_ExpiresAt k"; cases rt)
       (auto simp: ak_Verify_def go_try_def go_bind_cases Equal_def ak_row_def not_less)
qed


text \<open>The lifetime check can be passed by overflow: a request for 18446744074 seconds (584 years)
  is not refused; the 64-bit product wraps and the key lives 0.29 seconds.\<close>

lemma issue_ttl_overflow:
  assumes "290448384 \<le> pol_maxTTL pol" and "ticks w = []"
  shows "issue_expiry pol 18446744074 w = (Inr (Some (clock w + 290448384)), w)"
  using assms by (simp add: issue_expiry_def dur_mul_def int64_def second_def Let_def go_bind_cases
      time_Now_def time_Add_def)

section \<open>Revoking\<close>

lemma revoked_in_map:
  assumes "y \<in> set (map (\<lambda>x. if k_KeyID x = kid then x\<lparr>k_Revoked := True\<rparr> else x) ks)" and y: "k_KeyID y = kid"
  shows "k_Revoked y"
proof -
  from assms(1) obtain x where x: "y = (if k_KeyID x = kid then x\<lparr>k_Revoked := True\<rparr> else x)"
    unfolding set_map by (rule imageE)
  show ?thesis
  proof (cases "k_KeyID x = kid")
    case True
    then show ?thesis unfolding x by simp
  next
    case False
    then have "y = x" using x by simp
    with False y show ?thesis by simp
  qed
qed

lemma RevokeApiKey_InrD:
  assumes "RevokeApiKey kid w = (Inr x, w')"
  shows "api_keys (db w') = map (\<lambda>x. if k_KeyID x = kid then x\<lparr>k_Revoked := True\<rparr> else x) (api_keys (db w))"
  using assms unfolding RevokeApiKey_def
  by (auto dest!: sql_InrD simp: q_RevokeApiKey_def dest!: sym [of _ "db w'"] split: option.splits)

lemma ak_Handler_Revoke_InrD:
  assumes rev: "ak_Handler_Revoke (authz_Service_Check E) (Some c) keyId w = (Inr (), w1)"
  shows "(\<forall>y \<in> set (api_keys (db w1)). k_KeyID y = keyId \<longrightarrow> k_Revoked y) \<and>
    (\<exists>k \<in> set (api_keys (db w)). k_KeyID k = keyId \<and>
       (c_SystemAdmin c \<or> c_PrincipalID c = k_PrincipalID k \<or>
        check_spec E (db w) (c_PrincipalID c) ''org.manage''
          \<lparr>res_Type = '''', res_ID = '''', res_OrgID = k_OrgID k, res_TeamID = ''''\<rparr> = Some True))"
proof -
  let ?res = "\<lambda>k. \<lparr>res_Type = '''', res_ID = '''', res_OrgID = st_OrgID k, res_TeamID = ''''\<rparr>"
  let ?auth = "\<lambda>rec. if \<not> c_SystemAdmin c \<and> c_PrincipalID c \<noteq> st_PrincipalID rec
     then go_try (authz_Service_Check E (c_PrincipalID c) ''org.manage'' (?res rec))
            (\<lambda>_. go_fail (NewError CodeInternal))
            (\<lambda>orgAdmin. if \<not> orgAdmin then go_fail (NewError CodePermissionDenied) else go_ret ())
     else go_ret ()"
  from rev obtain rec wa ub wb uc wc ev ud where get: "GetByKeyID keyId w = (Inr rec, wa)"
    and auth: "?auth rec wa = (Inr ub, wb)" and st: "ak_Store_Revoke keyId wb = (Inr uc, wc)"
    and rec: "Record (Some c) ev wc = (Inr ud :: rpc_error + unit, w1)"
    unfolding ak_Handler_Revoke_def CallerFromContext_Some option.case
    by (elim go_try_cases go_bind_InrD) (auto split: if_splits)
  from GetByKeyID_InrD [OF get] obtain k where k: "k \<in> set (api_keys (db w))" "k_KeyID k = keyId" "rec = ak_row k"
    "db wa = db w" by auto
  have kauth: "keeps (db_rel (=)) (?auth rec)" by (intro keeps_rules)
  have db: "db wb = db w" using keeps_sameD [OF kauth auth] k(4) by simp
  have who: "c_SystemAdmin c \<or> c_PrincipalID c = k_PrincipalID k \<or>
      check_spec E (db w) (c_PrincipalID c) ''org.manage'' (?res rec) = Some True"
  proof (cases "\<not> c_SystemAdmin c \<and> c_PrincipalID c \<noteq> st_PrincipalID rec")
    case True
    with auth obtain wy where "authz_Service_Check E (c_PrincipalID c) ''org.manage'' (?res rec) wa = (Inr True, wy)"
      by (auto split: if_splits elim!: go_try_cases)
    from rbac.check_sound [OF this] k(4) show ?thesis by simp
  next
    case False
    with k(3) show ?thesis by (auto simp: ak_row_def)
  qed
  from st obtain x where "RevokeApiKey keyId wb = (Inr x, wc)"
    unfolding ak_Store_Revoke_def by (rule go_bind_InrD) simp
  note keys = RevokeApiKey_InrD [OF this]
  have "\<forall>y \<in> set (api_keys (db wc)). k_KeyID y = keyId \<longrightarrow> k_Revoked y"
    unfolding keys by (intro ballI impI) (rule revoked_in_map)
  then have revoked: "\<forall>y \<in> set (api_keys (db w1)). k_KeyID y = keyId \<longrightarrow> k_Revoked y"
    using Record_InrD [OF rec] by simp
  with who k show ?thesis by (auto simp: ak_row_def)
qed

lemma revoked_key_unusable:
  assumes "\<forall>y \<in> set (api_keys (db w)). k_KeyID y = keyId \<longrightarrow> k_Revoked y" "Parse token = Some (keyId, secret)"
  shows "fst (ak_Verify hmac pepper cx token w) \<noteq> Inr (p, ro)"
proof
  assume "fst (ak_Verify hmac pepper cx token w) = Inr (p, ro)"
  then have "ak_Verify hmac pepper cx token w = (Inr (p, ro), snd (ak_Verify hmac pepper cx token w))"
    by (metis prod.collapse)
  from ak_Verify_InrD [OF this] assms show False by (auto simp: key_matches_def)
qed


section \<open>Sampling of unknown keys\<close>

text \<open>Unknown keys do not flood the audit log: whatever the traffic, a miss is reported only when
  more than ten seconds have passed since the last report, and the reported counts add up to the
  misses since then.\<close>

lemma unknown_key_sampling:
  assumes "sample_step now cnt last0 = (flush, cnt', last1)" and "0 \<le> cnt" "cnt < 2 ^ 63 - 1"
  shows "(flush > 0 \<longrightarrow> last1 = now \<and> time_Sub now last0 > 10 * second) \<and>
         (flush = 0 \<longrightarrow> last1 = last0) \<and> flush + cnt' = cnt + 1 \<and> 0 \<le> flush \<and> 0 \<le> cnt'"
proof -
  have "int64 (cnt + 1) = cnt + 1" using assms(2,3) by (intro int64_id) auto
  with assms show ?thesis
    by (auto simp: sample_step_def unknownFlushWindow_def Let_def split: if_splits)
qed

end
