(* ===== verification/Interceptor.thy ===== *)
theory Interceptor
  imports Apikey
begin

text \<open>
  \<open>internal/authn/verifier.go\<close> and \<open>interceptor.go\<close>: bearer tokens of the identity
  provider, checked against a cached key set with throttled refreshes, and the interceptor in front
  of every procedure, which authenticates (root token, API key or bearer token), applies the
  per-principal rate limit, holds read-only credentials to the allowlist and passes the caller on.
  Throttle events become audit events as in \<open>cmd/base-servers/main.go\<close>.
\<close>

section \<open>The bearer-token verifier\<close>

record kcClaims =
  kc_Iss :: string
  kc_Sub :: string
  kc_Azp :: string
  kc_Typ :: string
  kc_Exp :: int

text \<open>JOSE for RS256: parsing yields the \<open>kid\<close> of the first header, if there is one; checking the
  signature decodes the claims.\<close>

record oidc_jose =
  rs_ParseSigned :: "string \<Rightarrow> string option option"
  rs_Claims :: "string \<Rightarrow> bytes \<Rightarrow> kcClaims option"

record Verifier =
  ve_jwksURL :: string
  ve_issuer :: string
  ve_allowedAzp :: "string list"
  ve_cacheTTL :: duration
  ve_minRefreshInterval :: duration

definition NewVerifier :: "string \<Rightarrow> string \<Rightarrow> string list \<Rightarrow> Verifier" where
  "NewVerifier jwksURL issuer allowedAzp =
     \<lparr>ve_jwksURL = jwksURL, ve_issuer = issuer, ve_allowedAzp = allowedAzp, ve_cacheTTL = 300 * second,
      ve_minRefreshInterval = 15 * second\<rparr>"

text \<open>One fetch of the provider's key set: each key with its id, and its RSA key where it is one.\<close>

definition http_fetch_jwks :: "(err, (string \<times> bytes option) list) wact" where
  "http_fetch_jwks w =
     (case jwks_responses w of
        [] \<Rightarrow> (Inl (ErrText ''fetch JWKS''), w)
      | r # rs \<Rightarrow>
          ((case r of None \<Rightarrow> Inl (ErrText ''fetch JWKS'') | Some ks \<Rightarrow> Inr ks), w\<lparr>jwks_responses := rs\<rparr>))"

fun rsa_keys :: "(string \<times> bytes option) list \<Rightarrow> string \<rightharpoonup> bytes" where
  "rsa_keys [] = Map.empty"
| "rsa_keys ((kid, None) # ks) = rsa_keys ks"
| "rsa_keys ((kid, Some pub) # ks) = (\<lambda>x. case rsa_keys ks x of Some p \<Rightarrow> Some p | None \<Rightarrow> if x = kid then Some pub else None)"

definition kc_refresh :: "(err, unit) wact" where
  "kc_refresh =
     go_bind http_fetch_jwks (\<lambda>ks.
     go_bind time_Now (\<lambda>now w. (Inr (), w\<lparr>kc_keys := rsa_keys ks, kc_fetched := now\<rparr>)))"

definition kc_key :: "string \<Rightarrow> ('e, bytes option) wact" where
  "kc_key kid w = (Inr (kc_keys w kid), w)"

definition kc_since :: "(world \<Rightarrow> time) \<Rightarrow> ('e, duration) wact" where
  "kc_since t w = (case time_Now w of (Inl e, w1) \<Rightarrow> (Inl e, w1) | (Inr now, w1) \<Rightarrow> (Inr (time_Sub now (t w)), w1))"

definition need_key :: "bytes option \<Rightarrow> (err, bytes) wact" where
  "need_key k = (case k of None \<Rightarrow> go_fail (ErrText ''no JWKS key for kid'') | Some p \<Rightarrow> go_ret p)"

definition set_lastRefreshAttempt :: "time \<Rightarrow> ('e, unit) wact" where
  "set_lastRefreshAttempt now w = (Inr (), w\<lparr>kc_lastRefreshAttempt := now\<rparr>)"

definition keyFor :: "Verifier \<Rightarrow> string \<Rightarrow> (err, bytes) wact" where
  "keyFor v kid =
     go_bind (kc_key kid) (\<lambda>k.
     go_bind (case k of
                None \<Rightarrow> go_ret False
              | Some _ \<Rightarrow> go_bind (kc_since kc_fetched) (\<lambda>age. go_ret (age \<le> ve_cacheTTL v))) (\<lambda>fresh.
     if fresh then need_key k
     else
       go_bind (kc_since kc_lastRefreshAttempt) (\<lambda>since.
       if since < ve_minRefreshInterval v then need_key k
       else
         go_bind time_Now (\<lambda>now.
         go_bind (set_lastRefreshAttempt now) (\<lambda>_.
         go_bind kc_refresh (\<lambda>_.
         go_bind (kc_key kid) need_key))))))"

definition kc_Verify :: "oidc_jose \<Rightarrow> Verifier \<Rightarrow> string \<Rightarrow> (err, Caller) wact" where
  "kc_Verify J v bearer =
     (case rs_ParseSigned J bearer of
        None \<Rightarrow> go_fail (ErrText ''parse token'')
      | Some None \<Rightarrow> go_fail (ErrText ''token missing header'')
      | Some (Some kid) \<Rightarrow>
          go_bind (keyFor v kid) (\<lambda>pub.
          case rs_Claims J bearer pub of
            None \<Rightarrow> go_fail (ErrText ''verify signature'')
          | Some c \<Rightarrow>
              if kc_Iss c \<noteq> ve_issuer v then go_fail (ErrText ''unexpected issuer'')
              else if kc_Typ c = ''ID'' \<or> kc_Typ c = ''id'' then go_fail (ErrText ''id token not accepted'')
              else if kc_Azp c \<notin> set (ve_allowedAzp v) then go_fail (ErrText ''unexpected azp'')
              else
                go_bind time_Now (\<lambda>now.
                if time_Unix now \<ge> kc_Exp c then go_fail (ErrText ''token expired'')
                else if kc_Sub c = '''' then go_fail (ErrText ''token missing sub'')
                else go_ret \<lparr>c_PrincipalID = kc_Sub c, c_SystemAdmin = False, c_AuthMethod = '''', c_ReadOnly = False\<rparr>)))"

section \<open>Throttle events\<close>

text \<open>\<open>throttleHook\<close> of \<open>main\<close>: the audit event of a denied request.\<close>

definition throttleHook :: "ctx \<Rightarrow> ThrottleEvent \<Rightarrow> ('e, unit) wact" where
  "throttleHook cx ev =
     (let action = (if te_Gate ev = ''root.auth'' then ''root.auth'' else ''ratelimit.throttled'');
          d0 = [''gate'' \<mapsto> te_Gate ev];
          d1 = (if te_IPPrefix ev \<noteq> '''' then d0(''ip'' \<mapsto> te_IPPrefix ev) else d0);
          d2 = (if te_PrincipalID ev \<noteq> '''' then d1(''auth_method'' \<mapsto> te_AuthMethod ev) else d1)
      in Record cx
           \<lparr>ev_ActorID = te_PrincipalID ev, ev_ActorType = '''', ev_SystemAdmin = False, ev_Action = action,
            ev_TargetType = '''', ev_TargetID = '''', ev_OrgID = '''', ev_Outcome = OutcomeDenied,
            ev_Detail = Some d2\<rparr>)"

text \<open>A call of a limiter kept in the process; a nil limiter and a disabled one let everything
  pass.\<close>

definition limiter_call ::
  "rate_lib \<Rightarrow> (world \<Rightarrow> Limiter option) \<Rightarrow> (Limiter option \<Rightarrow> world \<Rightarrow> world) \<Rightarrow> string \<Rightarrow>
   ('e, bool \<times> duration \<times> bool) wact" where
  "limiter_call L get put key w =
     (case get w of
        None \<Rightarrow> (Inr (True, 0, False), w)
      | Some AllowAll \<Rightarrow> (Inr (True, 0, False), w)
      | Some (Memory m) \<Rightarrow>
          (case time_Now w of
             (Inl e, w1) \<Rightarrow> (Inl e, w1)
           | (Inr now, w1) \<Rightarrow>
               (case Limiter_Allow L now key (Memory m) of (verdict, l) \<Rightarrow> (Inr verdict, put (Some l) w1))))"

definition prLimiter_Allow :: "rate_lib \<Rightarrow> string \<Rightarrow> ('e, bool \<times> duration \<times> bool) wact" where
  "prLimiter_Allow L = limiter_call L prLim (\<lambda>l w. w\<lparr>prLim := l\<rparr>)"

section \<open>The interceptor\<close>

definition apikeyPrefix :: string where
  "apikeyPrefix = ''bsk_''"

definition authenticate ::
  "oidc_jose \<Rightarrow> Verifier option \<Rightarrow> ak_Verify_op option \<Rightarrow> string \<Rightarrow> ctx \<Rightarrow> header \<Rightarrow> (rpc_error, Caller) wact" where
  "authenticate J v ak rootToken cx h =
     (if snd (CheckRoot h rootToken)
      then go_ret \<lparr>c_PrincipalID = '''', c_SystemAdmin = True, c_AuthMethod = ''root'', c_ReadOnly = False\<rparr>
      else
        let auth = h ''Authorization''
        in if strings_HasPrefix auth ''Bearer '' then
             let tok = strings_TrimPrefix auth ''Bearer ''
             in (case (if strings_HasPrefix tok apikeyPrefix then ak else None) of
                   Some verify \<Rightarrow>
                     go_try (verify cx tok) (\<lambda>_. go_fail (NewError CodeUnauthenticated)) (\<lambda>(pid, ro).
                     go_ret \<lparr>c_PrincipalID = pid, c_SystemAdmin = False, c_AuthMethod = ''apikey'', c_ReadOnly = ro\<rparr>)
                 | None \<Rightarrow>
                     (case v of
                        Some ver \<Rightarrow>
                          go_try (kc_Verify J ver tok) (\<lambda>_. go_fail (NewError CodeUnauthenticated)) (\<lambda>c.
                          go_ret (c\<lparr>c_AuthMethod := ''oidc''\<rparr>))
                      | None \<Rightarrow> go_fail (NewError CodeUnauthenticated)))
           else go_fail (NewError CodeUnauthenticated))"

text \<open>Gate B: the per-principal bucket; the root token bypasses it.\<close>

definition gateB :: "rate_lib \<Rightarrow> ctx \<Rightarrow> Caller \<Rightarrow> (rpc_error, unit) wact" where
  "gateB L cx c =
     (if c_AuthMethod c \<noteq> ''root'' \<and> c_PrincipalID c \<noteq> '''' then
        go_bind (prLimiter_Allow L (''pr:'' @ c_PrincipalID c)) (\<lambda>(ok, retry, transitioned).
        if ok then go_ret ()
        else
          go_bind (if transitioned
                   then throttleHook cx \<lparr>te_Gate = ''principal'', te_IPPrefix = '''', te_PrincipalID = c_PrincipalID c,
                          te_AuthMethod = c_AuthMethod c, te_Reason = ''rate_limited''\<rparr>
                   else go_ret ()) (\<lambda>_.
          go_fail (RpcError CodeResourceExhausted
            (if retry > 0 then Some (strconv_Itoa (retry_seconds retry)) else None))))
      else go_ret ())"

definition WrapUnary ::
  "oidc_jose \<Rightarrow> Verifier option \<Rightarrow> ak_Verify_op option \<Rightarrow> string \<Rightarrow> rate_lib \<Rightarrow>
   (ctx \<Rightarrow> (rpc_error, 'r) wact) \<Rightarrow> string \<Rightarrow> ctx \<Rightarrow> header \<Rightarrow> (rpc_error, 'r) wact" where
  "WrapUnary J v ak rootToken L next procedure cx h =
     go_bind (authenticate J v ak rootToken cx h) (\<lambda>c.
     go_bind (gateB L cx c) (\<lambda>_.
     if c_ReadOnly c \<and> \<not> IsReadSafe procedure then go_fail (NewError CodePermissionDenied)
     else next (WithCaller cx c)))"

definition WrapStreamingHandler :: "(rpc_error, unit) wact \<Rightarrow> (rpc_error, unit) wact" where
  "WrapStreamingHandler next = go_fail (NewError CodeUnauthenticated)"

text \<open>A bearer token with the prefix of an API key is only ever tried as an API key.\<close>

lemma authenticate_apikey:
  assumes "h ''Authorization'' = ''Bearer '' @ tok" "strings_HasPrefix tok apikeyPrefix"
    and "\<not> snd (CheckRoot h rootToken)"
  shows "authenticate J v (Some verify) rootToken cx h =
    go_try (verify cx tok) (\<lambda>_. go_fail (NewError CodeUnauthenticated)) (\<lambda>(pid, ro).
      go_ret \<lparr>c_PrincipalID = pid, c_SystemAdmin = False, c_AuthMethod = ''apikey'', c_ReadOnly = ro\<rparr>)"
proof -
  have "strings_HasPrefix (''Bearer '' @ tok) ''Bearer ''" "strings_TrimPrefix (''Bearer '' @ tok) ''Bearer '' = tok"
    by (rule HasPrefix_append, rule TrimPrefix_append)
  with assms show ?thesis unfolding authenticate_def Let_def by simp
qed

section \<open>What authentication leaves alone\<close>

context db_order begin

lemma keeps_kc_prims [keeps_rules]:
  "keeps (db_rel Q) http_fetch_jwks" "keeps (db_rel Q) (kc_key kid)" "keeps (db_rel Q) (kc_since t)"
  "keeps (db_rel Q) (set_lastRefreshAttempt now)" "keeps (db_rel Q) (need_key k)"
  by (rule keeps_db_unchanged,
      auto simp: http_fetch_jwks_def kc_key_def kc_since_def set_lastRefreshAttempt_def need_key_def
        time_Now_def Let_def split: list.split option.split)+

lemma keeps_kc_refresh [keeps_rules]: "keeps (db_rel Q) kc_refresh"
  unfolding kc_refresh_def by (intro keeps_rules keeps_db_unchanged) simp_all

lemma keeps_keyFor [keeps_rules]: "keeps (db_rel Q) (keyFor v kid)"
  unfolding keyFor_def by (intro keeps_rules)

lemma keeps_kc_Verify [keeps_rules]: "keeps (db_rel Q) (kc_Verify J v bearer)"
  unfolding kc_Verify_def by (intro keeps_rules)

lemma keeps_throttleHook [keeps_rules]: "keeps (db_rel Q) (throttleHook cx ev)"
  unfolding throttleHook_def by (intro keeps_rules)

lemma keeps_limiter_call:
  "(\<And>l w. db (put l w) = db w) \<Longrightarrow> keeps (db_rel Q) (limiter_call L get put key)"
  by (rule keeps_db_unchanged)
     (auto simp: limiter_call_def time_Now_def Let_def split: option.split Limiter.split prod.split)

lemma keeps_gateB [keeps_rules]: "keeps (db_rel Q) (gateB L cx c)"
  unfolding gateB_def prLimiter_Allow_def by (intro keeps_rules keeps_limiter_call) simp_all

lemma keeps_authenticate:
  assumes "\<And>verify t. ak = Some verify \<Longrightarrow> keeps (db_rel Q) (verify cx t)"
  shows "keeps (db_rel Q) (authenticate J v ak rootToken cx h)"
proof -
  have "keeps (db_rel Q) (verify cx t)" if "(if b then ak else None) = Some verify" for b verify t
    using that assms by (auto split: if_splits)
  then show ?thesis
    unfolding authenticate_def
    by (auto simp: Let_def split: option.split intro!: keeps_rules)
qed

lemma keeps_WrapUnary:
  assumes "\<And>verify t. ak = Some verify \<Longrightarrow> keeps (db_rel Q) (verify cx t)"
    and "\<And>c. c_ReadOnly c \<longrightarrow> IsReadSafe procedure \<Longrightarrow> keeps (db_rel Q) (next (Some c))"
  shows "keeps (db_rel Q) (WrapUnary J v ak rootToken L next procedure cx h)"
  unfolding WrapUnary_def WithCaller_def
  by (intro keeps_rules keeps_authenticate assms) auto

end

end
