(* ===== verification/Server.thy ===== *)
theory Server
  imports Interceptor
begin

text \<open>
  \<open>internal/server\<close>: the middleware in front of every path (Gate A: a global and a per-network
  token bucket, bypassed by the root token, with a debounced report of wrong root tokens), the
  client address behind trusted proxies, and the mux with \<open>/healthz\<close> and \<open>/readyz\<close>. A \<open>net.IP\<close>
  is its 16-byte form. The text forms of addresses (\<open>net.ParseIP\<close>, \<open>net.SplitHostPort\<close>,
  \<open>net.ParseCIDR\<close>, \<open>IP.String\<close>) are the parameter \<open>net_lib\<close>.
\<close>

unbundle bit_operations_syntax

section \<open>Addresses\<close>

type_synonym net_IP = "128 word"

datatype IPNet = Net4 "32 word" "32 word" | Net16 "128 word" "128 word"

record net_lib =
  net_SplitHostPort :: "string \<Rightarrow> string option"
  net_ParseIP :: "string \<Rightarrow> net_IP option"
  net_ParseCIDR :: "string \<Rightarrow> IPNet option"
  net_String4 :: "32 word \<Rightarrow> string"
  net_String16 :: "128 word \<Rightarrow> string"

definition To4 :: "net_IP \<Rightarrow> 32 word option" where
  "To4 ip = (if drop_bit 32 ip = 0xffff then Some (ucast ip) else None)"

definition net_IPv4zero :: net_IP where
  "net_IPv4zero = push_bit 32 0xffff"

text \<open>\<open>IPNet.Contains\<close>: an IPv4 address only lies in an IPv4 network, written in either form.\<close>

fun IPNet_Contains :: "IPNet \<Rightarrow> net_IP \<Rightarrow> bool" where
  "IPNet_Contains (Net4 a m) ip = (case To4 ip of None \<Rightarrow> False | Some x \<Rightarrow> a AND m = x AND m)"
| "IPNet_Contains (Net16 a m) ip =
     (case To4 a of
        Some a4 \<Rightarrow> (case To4 ip of None \<Rightarrow> False | Some x \<Rightarrow> a4 AND ucast m = x AND ucast m)
      | None \<Rightarrow> (case To4 ip of None \<Rightarrow> a AND m = ip AND m | Some _ \<Rightarrow> False))"

fun ipTrusted :: "net_IP \<Rightarrow> IPNet list \<Rightarrow> bool" where
  "ipTrusted ip [] = False"
| "ipTrusted ip (n # ns) = (if IPNet_Contains n ip then True else ipTrusted ip ns)"

record http_request =
  rq_Path :: string
  rq_Header :: header
  rq_RemoteAddr :: string
  rq_Body :: bytes

record http_response =
  rs_Status :: int
  rs_RetryAfter :: "string option"
  rs_Body :: bytes

definition peer_of :: "net_lib \<Rightarrow> http_request \<Rightarrow> net_IP option" where
  "peer_of N r =
     (let host = (case net_SplitHostPort N (rq_RemoteAddr r) of None \<Rightarrow> rq_RemoteAddr r | Some h \<Rightarrow> h)
      in net_ParseIP N (strings_TrimSpace host))"

definition forwarded_for :: "net_lib \<Rightarrow> http_request \<Rightarrow> net_IP option" where
  "forwarded_for N r =
     (let xff = rq_Header r ''X-Forwarded-For''
      in if xff \<noteq> '''' then net_ParseIP N (strings_TrimSpace (hd (strings_Split (CHR '','') xff))) else None)"

definition clientIP :: "net_lib \<Rightarrow> http_request \<Rightarrow> IPNet list \<Rightarrow> net_IP" where
  "clientIP N r trusted =
     (case peer_of N r of
        None \<Rightarrow> net_IPv4zero
      | Some peer \<Rightarrow>
          if ipTrusted peer trusted
          then (case forwarded_for N r of None \<Rightarrow> peer | Some ip \<Rightarrow> ip)
          else peer)"

definition mask24 :: "32 word" where "mask24 = 0xffffff00"
definition mask64 :: "128 word" where "mask64 = push_bit 64 0xffffffffffffffff"

definition ipKey :: "net_lib \<Rightarrow> net_IP \<Rightarrow> string" where
  "ipKey N ip =
     (case To4 ip of
        Some v4 \<Rightarrow> net_String4 N (v4 AND mask24) @ ''/24''
      | None \<Rightarrow> net_String16 N (ip AND mask64) @ ''/64'')"

section \<open>Gate A\<close>

definition rootAuthCooldown :: duration where
  "rootAuthCooldown = 60 * second"

definition rootAuthDebounce_allow :: "time \<Rightarrow> time \<Rightarrow> bool \<times> time" where
  "rootAuthDebounce_allow now lastEmit =
     (if time_Sub now lastEmit \<le> rootAuthCooldown then (False, lastEmit) else (True, now))"

definition debounce :: "('e, bool) wact" where
  "debounce =
     go_bind time_Now (\<lambda>now w.
       case rootAuthDebounce_allow now (rootLastEmit w) of (b, t) \<Rightarrow> (Inr b, w\<lparr>rootLastEmit := t\<rparr>))"

definition reject ::
  "(string \<Rightarrow> ('e, bool \<times> duration \<times> bool) wact) \<Rightarrow> string \<Rightarrow> string \<Rightarrow> string \<Rightarrow>
   ('e, http_response option) wact" where
  "reject allow key gate ipPrefix =
     go_bind (allow key) (\<lambda>(ok, retry, transitioned).
     if ok then go_ret None
     else
       let resp = \<lparr>rs_Status = 429,
             rs_RetryAfter = (if retry > 0 then Some (strconv_Itoa (retry_seconds retry)) else None), rs_Body = []\<rparr>
       in go_bind (if transitioned
                   then throttleHook None \<lparr>te_Gate = gate, te_IPPrefix = ipPrefix, te_PrincipalID = '''',
                          te_AuthMethod = '''', te_Reason = ''rate_limited''\<rparr>
                   else go_ret ()) (\<lambda>_. go_ret (Some resp)))"

definition ipLimiter_Allow :: "rate_lib \<Rightarrow> string \<Rightarrow> ('e, bool \<times> duration \<times> bool) wact" where
  "ipLimiter_Allow L = limiter_call L ipLim (\<lambda>l w. w\<lparr>ipLim := l\<rparr>)"

definition globalLimiter_Allow :: "rate_lib \<Rightarrow> string \<Rightarrow> ('e, bool \<times> duration \<times> bool) wact" where
  "globalLimiter_Allow L = limiter_call L globalLim (\<lambda>l w. w\<lparr>globalLim := l\<rparr>)"

definition root_report :: "bool \<Rightarrow> bool \<Rightarrow> ('e, unit) wact" where
  "root_report present valid =
     (if present \<and> \<not> valid
      then go_bind debounce (\<lambda>b.
             if b then throttleHook None \<lparr>te_Gate = ''root.auth'', te_IPPrefix = '''', te_PrincipalID = '''',
                         te_AuthMethod = '''', te_Reason = ''invalid_root_token''\<rparr>
             else go_ret ())
      else go_ret ())"

definition RateLimitMiddleware ::
  "rate_lib \<Rightarrow> net_lib \<Rightarrow> IPNet list \<Rightarrow> string \<Rightarrow> (http_request \<Rightarrow> ('e, http_response) wact) \<Rightarrow>
   http_request \<Rightarrow> ('e, http_response) wact" where
  "RateLimitMiddleware L N trusted rootToken next r =
     (if rq_Path r = ''/healthz'' then next r
      else
        case CheckRoot (rq_Header r) rootToken of (present, valid) \<Rightarrow>
        go_bind (root_report present valid) (\<lambda>_.
        if present \<and> valid then next r
        else
          let ip = clientIP N r trusted
          in go_bind (reject (globalLimiter_Allow L) ''global'' ''global'' '''') (\<lambda>rej.
             case rej of
               Some resp \<Rightarrow> go_ret resp
             | None \<Rightarrow>
                 go_bind (reject (ipLimiter_Allow L) (''ip:'' @ ipKey N ip) ''ip'' (ipKey N ip)) (\<lambda>rej2.
                 case rej2 of Some resp \<Rightarrow> go_ret resp | None \<Rightarrow> next r))))"

section \<open>The mux\<close>

definition plain :: "int \<Rightarrow> string \<Rightarrow> http_response" where
  "plain status body = \<lparr>rs_Status = status, rs_RetryAfter = None, rs_Body = bytes_of body\<rparr>"

text \<open>\<open>ready\<close> is the readiness probe, absent for Go's nil.\<close>

definition mountAll ::
  "(err, unit) wact option \<Rightarrow> (http_request \<Rightarrow> ('e, http_response) wact) \<Rightarrow>
   http_request \<Rightarrow> ('e, http_response) wact" where
  "mountAll ready handlers r =
     (if rq_Path r = ''/healthz'' then go_ret (plain 200 ''ok'')
      else if rq_Path r = ''/readyz'' then
        (case ready of
           None \<Rightarrow> go_ret (plain 200 ''ready'')
         | Some probe \<Rightarrow>
             go_try probe (\<lambda>_. go_ret (plain 503 ''not ready'')) (\<lambda>_. go_ret (plain 200 ''ready'')))
      else handlers r)"

context db_order begin

lemma keeps_root_report [keeps_rules]: "keeps (db_rel Q) (root_report p v)"
  unfolding root_report_def debounce_def
  by (intro keeps_rules keeps_db_unchanged) (simp_all add: rootAuthDebounce_allow_def)

lemma keeps_reject:
  "(\<And>k. keeps (db_rel Q) (allow k)) \<Longrightarrow> keeps (db_rel Q) (reject allow key gate ipPrefix)"
  unfolding reject_def by (intro keeps_rules)

lemma keeps_gates [keeps_rules]:
  "keeps (db_rel Q) (ipLimiter_Allow L k)" "keeps (db_rel Q) (globalLimiter_Allow L k)"
  unfolding ipLimiter_Allow_def globalLimiter_Allow_def by (intro keeps_limiter_call; simp)+

lemma keeps_RateLimitMiddleware:
  "(\<And>r. keeps (db_rel Q) (next r)) \<Longrightarrow>
     keeps (db_rel Q) (RateLimitMiddleware L N trusted rootToken next r)"
  unfolding RateLimitMiddleware_def by (intro keeps_rules keeps_reject)

lemma keeps_mountAll:
  "(\<And>m. ready = Some m \<Longrightarrow> keeps (db_rel Q) m) \<Longrightarrow> (\<And>r. keeps (db_rel Q) (handlers r)) \<Longrightarrow>
     keeps (db_rel Q) (mountAll ready handlers r)"
  unfolding mountAll_def by (cases ready) (auto intro!: keeps_rules)

end

section \<open>Buckets\<close>

lemma mask24_eq: "(a :: 32 word) AND mask24 = b AND mask24 \<longleftrightarrow> drop_bit 8 a = drop_bit 8 b"
proof -
  have m0: "mask24 = push_bit 8 (mask 24)" by (simp add: mask24_def mask_eq_exp_minus_1 push_bit_eq_mult)
  have m: "x AND mask24 = push_bit 8 (drop_bit 8 x)" for x :: "32 word"
    by (intro bit_word_eqI) (auto simp: m0 bit_simps)
  have "drop_bit 8 (push_bit 8 (drop_bit 8 x)) = drop_bit 8 x" for x :: "32 word"
    by (intro bit_word_eqI) (auto simp: bit_simps dest: bit_imp_le_length)
  with m show ?thesis by metis
qed

lemma mask64_eq: "(a :: 128 word) AND mask64 = b AND mask64 \<longleftrightarrow> drop_bit 64 a = drop_bit 64 b"
proof -
  have m0: "mask64 = push_bit 64 (mask 64)" by (simp add: mask64_def mask_eq_exp_minus_1)
  have m: "x AND mask64 = push_bit 64 (drop_bit 64 x)" for x :: "128 word"
    by (intro bit_word_eqI) (auto simp: m0 bit_simps)
  have "drop_bit 64 (push_bit 64 (drop_bit 64 x)) = drop_bit 64 x" for x :: "128 word"
    by (intro bit_word_eqI) (auto simp: bit_simps dest: bit_imp_le_length)
  with m show ?thesis by metis
qed


lemma limiter_call_total:
  assumes "\<And>l w. db (put l w) = db w"
  obtains v w' where "limiter_call L get put k w = (Inr v, w')" "db w' = db w"
proof -
  have "\<exists>v w'. limiter_call L get put k w = (Inr v, w') \<and> db w' = db w"
    using assms by (auto simp: limiter_call_def time_Now_def Let_def split: option.split Limiter.split prod.split)
  with that show thesis by blast
qed

lemma throttleHook_total:
  obtains w' where "throttleHook cx ev w = (Inr (), w')" "db w' = db w"
proof -
  have "\<exists>w'. throttleHook cx ev w = (Inr (), w') \<and> db w' = db w"
    by (simp add: throttleHook_def Record_def Let_def)
  with that show thesis by blast
qed

lemma root_report_total:
  obtains w' where "root_report p v w = (Inr (), w')" "db w' = db w"
proof -
  have "\<exists>w'. root_report p v w = (Inr (), w') \<and> db w' = db w"
    by (simp add: root_report_def debounce_def go_bind_cases time_Now_def Let_def rootAuthDebounce_allow_def
        throttleHook_def Record_def)
  with that show thesis by blast
qed

lemma reject_outcome:
  fixes allow :: "string \<Rightarrow> ('e, bool \<times> duration \<times> bool) wact"
  assumes "allow k w = (Inr (ok, retry, tr), w')" "db w' = db w"
  shows "\<exists>w''. db w'' = db w \<and> (ok \<longrightarrow> w'' = w') \<and>
    reject allow k gate pre w =
      (Inr (if ok then None
            else Some \<lparr>rs_Status = 429,
                   rs_RetryAfter = (if retry > 0 then Some (strconv_Itoa (retry_seconds retry)) else None), rs_Body = []\<rparr>), w'')"
proof -
  obtain w1 where "throttleHook None \<lparr>te_Gate = gate, te_IPPrefix = pre, te_PrincipalID = '''',
      te_AuthMethod = '''', te_Reason = ''rate_limited''\<rparr> w' = (Inr () :: 'e + unit, w1)" "db w1 = db w'"
    by (rule throttleHook_total)
  with assms show ?thesis by (auto simp: reject_def go_bind_cases)
qed

text \<open>C28: Gate A, for every request that carries no valid root token and is not the health probe: after
  the debounced report of a wrong root token it asks the global bucket and then the bucket of the client's network; when both admit it, the
  handlers run on the same tables; when one refuses, the answer is 429, the handlers do not run and
  the tables are unchanged.\<close>

theorem gate_a_decides:
  fixes nxt :: "http_request \<Rightarrow> (err, http_response) wact"
  assumes "rq_Path r \<noteq> ''/healthz''" "\<not> snd (CheckRoot (rq_Header r) root)"
  shows "\<exists>w0 okg rg tg w1. root_report (fst (CheckRoot (rq_Header r) root)) False w = (Inr () :: err + unit, w0) \<and>
     globalLimiter_Allow L ''global'' w0 = (Inr (okg, rg, tg) :: err + _, w1) \<and>
     db w1 = db w \<and>
     (if \<not> okg then \<exists>resp w2. RateLimitMiddleware L N trusted root nxt r w = (Inr resp, w2) \<and>
                 rs_Status resp = 429 \<and> db w2 = db w
      else \<exists>oki ri ti w2. ipLimiter_Allow L (''ip:'' @ ipKey N (clientIP N r trusted)) w1 =
                 (Inr (oki, ri, ti) :: err + _, w2) \<and> db w2 = db w \<and>
        (if \<not> oki then \<exists>resp w3. RateLimitMiddleware L N trusted root nxt r w = (Inr resp, w3) \<and>
                    rs_Status resp = 429 \<and> db w3 = db w
         else RateLimitMiddleware L N trusted root nxt r w = nxt r w2))"
proof -
  obtain pr where cr: "CheckRoot (rq_Header r) root = (pr, False)" using assms(2) by (cases "CheckRoot (rq_Header r) root") auto
  obtain w0 where w0: "root_report pr False w = (Inr () :: err + unit, w0)" "db w0 = db w" by (rule root_report_total)
  obtain vg w1 where g: "globalLimiter_Allow L ''global'' w0 = (Inr vg :: err + _, w1)" "db w1 = db w0"
    unfolding globalLimiter_Allow_def
    by (rule limiter_call_total [where put = "\<lambda>l w. w\<lparr>globalLim := l\<rparr>" and get = globalLim]) simp
  obtain okg rg tg where vg: "vg = (okg, rg, tg)" by (cases vg)
  let ?k = "''ip:'' @ ipKey N (clientIP N r trusted)"
  obtain vi w2 where i: "ipLimiter_Allow L ?k w1 = (Inr vi :: err + _, w2)" "db w2 = db w1"
    unfolding ipLimiter_Allow_def
    by (rule limiter_call_total [where put = "\<lambda>l w. w\<lparr>ipLim := l\<rparr>" and get = ipLim]) simp
  obtain oki ri ti where vi: "vi = (oki, ri, ti)" by (cases vi)
  from reject_outcome [where allow = "globalLimiter_Allow L" and k = "''global''", OF g(1) [unfolded vg] g(2), of "''global''" "''''"] obtain w3 where
    rg: "db w3 = db w0" "okg \<longrightarrow> w3 = w1" "reject (globalLimiter_Allow L) ''global'' ''global'' '''' w0 =
      (Inr (if okg then None else Some \<lparr>rs_Status = 429, rs_RetryAfter = (if rg > 0 then Some (strconv_Itoa (retry_seconds rg)) else None), rs_Body = []\<rparr>) :: err + _, w3)"
    by blast
  from reject_outcome [where allow = "ipLimiter_Allow L" and k = ?k, OF i(1) [unfolded vi] i(2), of "''ip''" "ipKey N (clientIP N r trusted)"] obtain w4 where
    ri: "db w4 = db w1" "oki \<longrightarrow> w4 = w2" "reject (ipLimiter_Allow L) ?k ''ip'' (ipKey N (clientIP N r trusted)) w1 =
      (Inr (if oki then None else Some \<lparr>rs_Status = 429, rs_RetryAfter = (if ri > 0 then Some (strconv_Itoa (retry_seconds ri)) else None), rs_Body = []\<rparr>) :: err + _, w4)"
    by blast
  have mw: "RateLimitMiddleware L N trusted root nxt r w =
      (if \<not> okg then (Inr \<lparr>rs_Status = 429, rs_RetryAfter = (if rg > 0 then Some (strconv_Itoa (retry_seconds rg)) else None), rs_Body = []\<rparr>, w3)
       else if \<not> oki then (Inr \<lparr>rs_Status = 429, rs_RetryAfter = (if ri > 0 then Some (strconv_Itoa (retry_seconds ri)) else None), rs_Body = []\<rparr>, w4)
       else nxt r w2)"
    using assms(1) cr w0 rg ri by (simp add: RateLimitMiddleware_def go_bind_cases Let_def)
  show ?thesis
  proof (rule exI [of _ w0], rule exI [of _ okg], rule exI [of _ rg], rule exI [of _ tg], rule exI [of _ w1], intro conjI)
    show "root_report (fst (CheckRoot (rq_Header r) root)) False w = (Inr () :: err + unit, w0)" using cr w0 by simp
    show "globalLimiter_Allow L ''global'' w0 = (Inr (okg, rg, tg) :: err + _, w1)" "db w1 = db w"
      using g vg w0 by simp_all
    have "ipLimiter_Allow L ?k w1 = (Inr (oki, ri, ti) :: err + _, w2) \<and> db w2 = db w"
      using i vi g w0 by simp
    then show "if \<not> okg then \<exists>resp w2. RateLimitMiddleware L N trusted root nxt r w = (Inr resp, w2) \<and>
                 rs_Status resp = 429 \<and> db w2 = db w
      else \<exists>oki ri ti w2. ipLimiter_Allow L ?k w1 = (Inr (oki, ri, ti) :: err + _, w2) \<and> db w2 = db w \<and>
        (if \<not> oki then \<exists>resp w3. RateLimitMiddleware L N trusted root nxt r w = (Inr resp, w3) \<and>
                    rs_Status resp = 429 \<and> db w3 = db w
         else RateLimitMiddleware L N trusted root nxt r w = nxt r w2)"
      using mw rg(1) ri(1) g(2) w0(2) by (cases okg; cases oki) (simp_all, blast+)
  qed
qed

end
