(* ===== verification/Migrate.thy ===== *)
theory Migrate
  imports World
begin

text \<open>
  \<open>internal/migrate/migrate.go\<close>: at start-up the embedded migration scripts that the ledger does
  not list are executed, each in a transaction with its ledger entry. The embedded directory is
  the argument \<open>files\<close> (names with contents), and whether PostgreSQL accepts a script on top of those
  executed so far is the parameter \<open>ddl_ok\<close>.
\<close>

type_synonym ddl_oracle = "string \<Rightarrow> string list \<Rightarrow> bool"

definition upSection :: "string \<Rightarrow> string" where
  "upSection s =
     (let up = ''-- +goose Up''; down = ''-- +goose Down''
      in case strings_Index s up of
           None \<Rightarrow> ''''
         | Some i \<Rightarrow>
             let rest = drop (i + length up) s;
                 rest' = (case strings_Index rest down of None \<Rightarrow> rest | Some j \<Rightarrow> take j rest)
             in strings_TrimSpace rest')"

definition q_EnsureLedger :: "database \<Rightarrow> err + unit \<times> database" where
  "q_EnsureLedger d =
     (case schema_migrations d of
        None \<Rightarrow> Inr ((), d\<lparr>schema_migrations := Some []\<rparr>)
      | Some l \<Rightarrow> Inr ((), d))"

definition ledger :: "database \<Rightarrow> string list" where
  "ledger d = (case schema_migrations d of None \<Rightarrow> [] | Some l \<Rightarrow> l)"

definition q_LedgerHas :: "string \<Rightarrow> database \<Rightarrow> err + bool \<times> database" where
  "q_LedgerHas name d =
     (case schema_migrations d of
        None \<Rightarrow> Inl (ErrText ''relation schema_migrations does not exist'')
      | Some l \<Rightarrow> Inr (name \<in> set l, d))"

definition q_Exec :: "ddl_oracle \<Rightarrow> string \<Rightarrow> database \<Rightarrow> err + unit \<times> database" where
  "q_Exec ddl_ok up d =
     (if ddl_ok up (executed_ddl d) then Inr ((), d\<lparr>executed_ddl := executed_ddl d @ [up]\<rparr>)
      else Inl (ErrText ''apply''))"

definition q_InsertLedger :: "string \<Rightarrow> database \<Rightarrow> err + unit \<times> database" where
  "q_InsertLedger name d =
     (case schema_migrations d of
        None \<Rightarrow> Inl (ErrText ''relation schema_migrations does not exist'')
      | Some l \<Rightarrow>
          if name \<in> set l then Inl UniqueViolation
          else Inr ((), d\<lparr>schema_migrations := Some (l @ [name])\<rparr>))"

definition migrate_tx :: "ddl_oracle \<Rightarrow> string \<Rightarrow> string \<Rightarrow> (err, unit) wact" where
  "migrate_tx ddl_ok name up =
     in_tx (go_bind (sql (q_Exec ddl_ok up)) (\<lambda>_. sql (q_InsertLedger name)))"

fun migrate_loop :: "ddl_oracle \<Rightarrow> (string \<rightharpoonup> string) \<Rightarrow> string list \<Rightarrow> (err, unit) wact" where
  "migrate_loop ddl_ok body [] = go_ret ()"
| "migrate_loop ddl_ok body (name # names) =
     go_bind (sql (q_LedgerHas name)) (\<lambda>present.
     if present then migrate_loop ddl_ok body names
     else
       case body name of
         None \<Rightarrow> go_fail (ErrText ''file does not exist'')
       | Some s \<Rightarrow>
           let up = upSection s
           in if up = '''' then go_fail (ErrText ''migration has no +goose Up section'')
              else go_bind (migrate_tx ddl_ok name up) (\<lambda>_. migrate_loop ddl_ok body names))"

definition migration_names :: "(string \<times> string) list \<Rightarrow> string list" where
  "migration_names files = sort_Strings (filter (\<lambda>n. strings_HasSuffix n ''.sql'') (map fst files))"

text \<open>The advisory lock is taken and given back on one connection; a failed release only closes that
  connection, so its result is dropped.\<close>

definition advisory_unlock :: "('e, unit) wact" where
  "advisory_unlock w = (Inr (), snd (sql_read (\<lambda>d. ()) w))"

definition migrate_body :: "ddl_oracle \<Rightarrow> (string \<times> string) list \<Rightarrow> (err, unit) wact" where
  "migrate_body ddl_ok files =
     go_bind (sql_read (\<lambda>d. ())) (\<lambda>_.
     go_bind (sql q_EnsureLedger) (\<lambda>_.
     migrate_loop ddl_ok (map_of files) (migration_names files)))"

definition migrate_Apply :: "ddl_oracle \<Rightarrow> (string \<times> string) list \<Rightarrow> (err, unit) wact" where
  "migrate_Apply ddl_ok files =
     go_bind (sql_read (\<lambda>d. ())) (\<lambda>_ w.
       case migrate_body ddl_ok files w of (r, w1) \<Rightarrow> (r, snd (advisory_unlock w1 :: (err + unit) \<times> world)))"

section \<open>The ledger and the schema agree\<close>

definition ledger_ok :: "(string \<times> string) list \<Rightarrow> database \<Rightarrow> bool" where
  "ledger_ok files d \<longleftrightarrow>
     distinct (ledger d) \<and> set (ledger d) \<subseteq> set (migration_names files) \<and>
     executed_ddl d = map (\<lambda>n. upSection (the (map_of files n))) (ledger d)"

lemma ledger_simps [simp]:
  "schema_migrations d = Some l \<Longrightarrow> ledger d = l" "schema_migrations d = None \<Longrightarrow> ledger d = []"
  by (simp_all add: ledger_def)

lemma EnsureLedger_InrD:
  assumes "sql q_EnsureLedger w = (Inr x, w')"
  shows "ledger (db w') = ledger (db w)" "schema_migrations (db w') \<noteq> None"
proof -
  from sql_InrD [OF assms] obtain d where d: "q_EnsureLedger (db w) = Inr (x, d)" and w': "db w' = d" by auto
  from d have "ledger d = ledger (db w) \<and> schema_migrations d \<noteq> None"
    by (auto simp: q_EnsureLedger_def ledger_def split: option.splits)
  then show "ledger (db w') = ledger (db w)" "schema_migrations (db w') \<noteq> None" by (simp_all add: w')
qed

lemma keeps_EnsureLedger: "keeps (db_rel (stays (ledger_ok files))) (sql q_EnsureLedger)"
proof (rule stays.keeps_sql)
  fix d x d'
  assume "q_EnsureLedger d = Inr (x, d')"
  then have "ledger d' = ledger d" "executed_ddl d' = executed_ddl d"
    by (auto simp: q_EnsureLedger_def ledger_def split: option.splits)
  then show "stays (ledger_ok files) d d'" by (simp add: stays_def ledger_ok_def)
qed

lemma migrate_tx_step:
  assumes "go_bind (sql (q_Exec ddl_ok up)) (\<lambda>_. sql (q_InsertLedger name)) w = (Inr u, w')"
  shows "name \<notin> set (ledger (db w)) \<and> ledger (db w') = ledger (db w) @ [name] \<and>
    executed_ddl (db w') = executed_ddl (db w) @ [up] \<and> ddl_ok up (executed_ddl (db w))"
proof -
  from assms obtain x w1 where ex: "sql (q_Exec ddl_ok up) w = (Inr x, w1)"
    and ins: "sql (q_InsertLedger name) w1 = (Inr u, w')" by (rule go_bind_InrD)
  have w1: "db w1 = (db w)\<lparr>executed_ddl := executed_ddl (db w) @ [up]\<rparr>" "ddl_ok up (executed_ddl (db w))"
    using sql_InrD [OF ex] by (auto simp: q_Exec_def split: if_splits)
  obtain l where "schema_migrations (db w1) = Some l" "name \<notin> set l"
    "db w' = (db w1)\<lparr>schema_migrations := Some (l @ [name])\<rparr>"
    using sql_InrD [OF ins] by (auto simp: q_InsertLedger_def split: if_splits option.splits)
  with w1 show ?thesis by (simp add: ledger_def)
qed

lemma keeps_migrate_tx:
  assumes "name \<in> set (migration_names files)" "map_of files name = Some s"
  shows "keeps (db_rel (stays (ledger_ok files))) (migrate_tx ddl_ok name (upSection s))"
proof (rule keepsI)
  fix w
  obtain r w' where run: "migrate_tx ddl_ok name (upSection s) w = (r, w')" by fastforce
  then have "ledger_ok files (db w) \<longrightarrow> ledger_ok files (db w')"
    unfolding migrate_tx_def
  proof (cases rule: in_tx_cases)
    case (committed w1 w2 x)
    with migrate_tx_step [OF committed(2)] assms show ?thesis by (auto simp: ledger_ok_def)
  qed simp
  then show "db_rel (stays (ledger_ok files)) w (snd (migrate_tx ddl_ok name (upSection s) w))"
    by (simp add: run db_rel_def stays_def)
qed

lemma keeps_LedgerHas: "keeps (db_rel (stays I)) (sql (q_LedgerHas name))"
  by (rule stays.keeps_sql) (auto simp: q_LedgerHas_def stays_def split: option.splits)

lemma keeps_migrate_loop:
  "set names \<subseteq> set (migration_names files) \<Longrightarrow>
     keeps (db_rel (stays (ledger_ok files))) (migrate_loop ddl_ok (map_of files) names)"
proof (induction names)
  case (Cons n ns)
  then have tail: "keeps (db_rel (stays (ledger_ok files))) (migrate_loop ddl_ok (map_of files) ns)" by simp
  have tx: "keeps (db_rel (stays (ledger_ok files))) (migrate_tx ddl_ok n (upSection s))"
    if "map_of files n = Some s" for s
    using Cons.prems that by (intro keeps_migrate_tx) auto
  show ?case
  proof (cases "map_of files n")
    case None
    then show ?thesis
      unfolding migrate_loop.simps Let_def None option.case by (intro keeps_rules keeps_LedgerHas tail)
  next
    case (Some s)
    then show ?thesis
      unfolding migrate_loop.simps Let_def Some option.case by (intro keeps_rules keeps_LedgerHas tx [OF Some] tail)
  qed
qed (simp add: keeps_rules)

lemma keeps_migrate_Apply: "keeps (db_rel (stays (ledger_ok files))) (migrate_Apply ddl_ok files)"
proof -
  have body: "keeps (db_rel (stays (ledger_ok files))) (migrate_body ddl_ok files)"
    unfolding migrate_body_def by (intro keeps_rules keeps_EnsureLedger keeps_migrate_loop) simp
  have unlock: "keeps (db_rel (stays (ledger_ok files))) (sql_read (\<lambda>d. ()))" by (rule keeps_rules)
  have tail: "keeps (db_rel (stays (ledger_ok files)))
      (\<lambda>w. case migrate_body ddl_ok files w of (r, w1) \<Rightarrow> (r, snd (advisory_unlock w1 :: (err + unit) \<times> world)))"
  proof (rule keepsI)
    fix w
    show "db_rel (stays (ledger_ok files)) w (snd (case migrate_body ddl_ok files w of
        (r, w1) \<Rightarrow> (r, snd (advisory_unlock w1 :: (err + unit) \<times> world))))"
      using keepsD [OF body, of w] keepsD [OF unlock, of "snd (migrate_body ddl_ok files w)"]
      by (auto simp: advisory_unlock_def db_rel_def stays_def split: prod.split)
  qed
  then show ?thesis unfolding migrate_Apply_def by (intro keeps_rules)
qed

text \<open>A loop that returns has every name in the ledger.\<close>

lemma migrate_loop_complete:
  "migrate_loop ddl_ok body names w = (Inr (), w') \<Longrightarrow>
     set (ledger (db w)) \<union> set names \<subseteq> set (ledger (db w'))"
proof (induction names arbitrary: w)
  case (Cons n ns)
  from Cons.prems obtain present w1 where has: "sql (q_LedgerHas n) w = (Inr present, w1)"
    and rest: "(if present then migrate_loop ddl_ok body ns else
       case body n of None \<Rightarrow> go_fail (ErrText ''file does not exist'')
       | Some s \<Rightarrow> let up = upSection s in
           if up = '''' then go_fail (ErrText ''migration has no +goose Up section'')
           else go_bind (migrate_tx ddl_ok n up) (\<lambda>_. migrate_loop ddl_ok body ns)) w1 = (Inr (), w')"
    by (auto elim: go_bind_InrD)
  have w1: "db w1 = db w" "present \<longleftrightarrow> n \<in> set (ledger (db w))"
    using sql_InrD [OF has] by (auto simp: q_LedgerHas_def split: option.splits)
  show ?case
  proof (cases present)
    case True
    with rest Cons.IH [of w1] w1 show ?thesis by auto
  next
    case False
    with rest obtain s where
      "go_bind (migrate_tx ddl_ok n (upSection s)) (\<lambda>_. migrate_loop ddl_ok body ns) w1 = (Inr (), w')"
      by (auto simp: Let_def split: option.splits if_splits)
    then obtain u w2 where tx: "migrate_tx ddl_ok n (upSection s) w1 = (Inr u, w2)"
      and loop: "migrate_loop ddl_ok body ns w2 = (Inr (), w')" by (rule go_bind_InrD)
    from in_tx_InrD [OF tx [unfolded migrate_tx_def]] migrate_tx_step
    have "ledger (db w2) = ledger (db w1) @ [n]" by fastforce
    with Cons.IH [OF loop] w1 show ?thesis by auto
  qed
qed simp

lemma migrate_body_complete:
  assumes "migrate_body ddl_ok files w = (Inr (), w')"
  shows "set (ledger (db w)) \<union> set (migration_names files) \<subseteq> set (ledger (db w'))"
proof -
  from assms obtain w1 u w2 v where lock: "sql_read (\<lambda>d. ()) w = (Inr u, w1)"
    and ens: "sql q_EnsureLedger w1 = (Inr v, w2)" and loop: "migrate_loop ddl_ok (map_of files) (migration_names files) w2 = (Inr (), w')"
    unfolding migrate_body_def by (elim go_bind_InrD)
  have "ledger (db w2) = ledger (db w)" using EnsureLedger_InrD(1) [OF ens] sql_read_InrD [OF lock] by simp
  with migrate_loop_complete [OF loop] show ?thesis by simp
qed

text \<open>With the database up, a loop whose names are all in the ledger changes nothing.\<close>

lemma migrate_loop_idle:
  "faults w = [] \<Longrightarrow> schema_migrations (db w) = Some l \<Longrightarrow> set names \<subseteq> set l \<Longrightarrow>
     migrate_loop ddl_ok body names w = (Inr (), w)"
proof (induction names)
  case (Cons n ns)
  have "sql (q_LedgerHas n) w = (Inr True, w)" using Cons.prems by (simp add: q_LedgerHas_def)
  with Cons show ?case by (simp add: go_bind_Inr)
qed simp

section \<open>Properties\<close>

lemma advisory_unlock_db [simp]: "db (snd (advisory_unlock w)) = db w"
proof -
  have "keeps (db_rel (=)) (sql_read (\<lambda>d. ()))" by (rule keeps_rules)
  then show ?thesis by (auto dest: keepsD [where w = w] simp: advisory_unlock_def db_rel_def)
qed

text \<open>C17: Migrations run exactly once, whatever the connection does: after any run, finished or not,
  the scripts that have taken effect are those of the ledger, in its order and none twice.\<close>

theorem migrations_exactly_once:
  assumes "ledger_ok files (db w)" and "migrate_Apply ddl_ok files w = (r, w')"
  shows "distinct (ledger (db w')) \<and>
         executed_ddl (db w') = map (\<lambda>n. upSection (the (map_of files n))) (ledger (db w'))"
proof -
  have "ledger_ok files (db w')"
    using keeps_staysD [OF keeps_migrate_Apply assms(1)] assms(2) by (metis snd_conv)
  then show ?thesis by (simp add: ledger_ok_def)
qed

lemma migrate_Apply_InrD:
  assumes "migrate_Apply ddl_ok files w = (Inr (), w')"
  obtains w1 w2 where "db w1 = db w" "migrate_body ddl_ok files w1 = (Inr (), w2)" "db w' = db w2"
proof -
  from assms obtain u w1 where lock: "sql_read (\<lambda>d. ()) w = (Inr u, w1)"
    and run: "(case migrate_body ddl_ok files w1 of (r, w2) \<Rightarrow> (r, snd (advisory_unlock w2 :: (err + unit) \<times> world))) =
      (Inr (), w')"
    unfolding migrate_Apply_def by (rule go_bind_InrD)
  obtain r w2 where "migrate_body ddl_ok files w1 = (r, w2)" by fastforce
  then show thesis using that [of w1 w2] sql_read_InrD [OF lock] run by (auto split: prod.splits)
qed

text \<open>C32: A start that reports success has the whole schema, and starting again changes nothing: every
  migration file is in the ledger, and a further run with the database up succeeds and leaves the
  tables as they are.\<close>

theorem migrations_complete_and_idempotent:
  assumes "migrate_Apply ddl_ok files w = (Inr (), w')"
    and "db w2 = db w'" "faults w2 = []"
  shows "set (migration_names files) \<subseteq> set (ledger (db w')) \<and>
         (\<exists>w3. migrate_Apply ddl_ok files w2 = (Inr (), w3) \<and> db w3 = db w')"
proof -
  from assms(1) obtain a b where ab: "db a = db w" "migrate_body ddl_ok files a = (Inr (), b)" "db w' = db b"
    by (rule migrate_Apply_InrD)
  from migrate_body_complete [OF ab(2)] ab(3)
  have all: "set (migration_names files) \<subseteq> set (ledger (db w'))" by simp
  have "\<exists>l. schema_migrations (db b) = Some l"
  proof -
    from ab(2) obtain u v w1 w4 where ens: "sql q_EnsureLedger w1 = (Inr v, w4)"
      and loop: "migrate_loop ddl_ok (map_of files) (migration_names files) w4 = (Inr (), b)"
      unfolding migrate_body_def by (elim go_bind_InrD)
    note EnsureLedger_InrD(2) [OF ens]
    moreover have "keeps (db_rel (stays (\<lambda>d. schema_migrations d \<noteq> None)))
        (migrate_loop ddl_ok (map_of files) names)" for names
    proof (induction names)
      case (Cons n ns)
      have "keeps (db_rel (stays (\<lambda>d. schema_migrations d \<noteq> None))) (migrate_tx ddl_ok n up)" for up
        unfolding migrate_tx_def
        by (intro keeps_rules stays.keeps_sql)
           (auto simp: q_Exec_def q_InsertLedger_def stays_def split: if_splits option.splits)
      with Cons show ?case by (auto simp: Let_def intro!: keeps_rules keeps_LedgerHas split: option.split)
    qed (simp add: keeps_rules)
    ultimately show ?thesis
      using keeps_staysD [where w = w4 and m = "migrate_loop ddl_ok (map_of files) (migration_names files)"
          and I = "\<lambda>d. schema_migrations d \<noteq> None"] loop by auto
  qed
  then obtain l where l: "schema_migrations (db w2) = Some l" using ab(3) assms(2) by auto
  have "migrate_body ddl_ok files w2 = (Inr (), w2)"
    using assms(2,3) l all by (simp add: migrate_body_def go_bind_Inr q_EnsureLedger_def migrate_loop_idle)
  then show ?thesis
    using all assms(2,3) by (simp add: migrate_Apply_def go_bind_Inr)
qed

end
