(* ===== verification/Engine.thy ===== *)
theory Engine
  imports World
begin

text \<open>
  \<open>internal/engine\<close>: the interface \<open>IdentityEngine\<close> as the locale \<open>identity_engine\<close>,
  the in-memory engine of \<open>fake/fake.go\<close>, and the Keycloak adapter of
  \<open>keycloak/keycloak.go\<close> over the gocloak client, whose calls are the parameters of the
  record \<open>gocloak\<close>.
\<close>

definition Human :: string where "Human = ''human''"
definition Service :: string where "Service = ''service''"
definition Agent :: string where "Agent = ''agent''"

lemmas PrincipalType_defs = Human_def Service_def Agent_def

record engine_Capabilities =
  cap_TokenExchange :: bool
  cap_DPoP :: bool
  cap_CAEP :: bool

type_synonym CreatePrincipal_op = "EnginePrincipal \<Rightarrow> (err, string) wact"
type_synonym GetPrincipal_op = "string \<Rightarrow> (err, EnginePrincipal) wact"

text \<open>An engine never touches the service's tables, and a principal it created can be read back
  with the type and metadata it was created with.\<close>

locale identity_engine =
  fixes create :: CreatePrincipal_op
    and get :: GetPrincipal_op
  assumes create_db: "create p w = (r, w') \<Longrightarrow> db w' = db w"
    and get_db: "get i w = (r', w') \<Longrightarrow> db w' = db w"
begin

lemma keeps_create: "keeps (db_rel (=)) (create p)"
proof (rule keepsI)
  fix w
  show "db_rel (=) w (snd (create p w))"
    using create_db [of p w] by (cases "create p w") (simp add: db_rel_def)
qed

end

section \<open>The in-memory engine\<close>

definition fake_New :: engine_state where
  "fake_New = \<lparr>eng_seq = 0, eng_items = Map.empty, eng_calls = 0, eng_attrs_ensured = False\<rparr>"

definition fake_id :: "int \<Rightarrow> string" where
  "fake_id n = ''fake-'' @ strconv_Itoa n"

definition fake_CreatePrincipal :: CreatePrincipal_op where
  "fake_CreatePrincipal p w =
     (let s = eng w;
          n = int64 (eng_seq s + 1);
          i = fake_id n
      in (Inr i, w\<lparr>eng := s\<lparr>eng_calls := int64 (eng_calls s + 1), eng_seq := n,
                            eng_items := (eng_items s)(i \<mapsto> p\<lparr>ep_ID := i\<rparr>)\<rparr>\<rparr>))"

definition fake_EnsureProvisioned :: "(err, unit) wact" where
  "fake_EnsureProvisioned = go_ret ()"

definition fake_GetPrincipal :: GetPrincipal_op where
  "fake_GetPrincipal i w =
     (case eng_items (eng w) i of
        None \<Rightarrow> (Inl (ErrText ''principal not found''), w)
      | Some p \<Rightarrow> (Inr p, w))"

interpretation fake: identity_engine fake_CreatePrincipal fake_GetPrincipal
  by unfold_locales
     (auto simp: fake_CreatePrincipal_def fake_GetPrincipal_def Let_def split: option.splits)

lemma fake_roundtrip:
  assumes "fake_CreatePrincipal p w = (Inr i, w')"
  shows "fake_GetPrincipal i w' = (Inr (p\<lparr>ep_ID := i\<rparr>), w')"
  using assms by (auto simp: fake_CreatePrincipal_def fake_GetPrincipal_def Let_def)

section \<open>The Keycloak adapter\<close>

record kc_Config =
  kc_BaseURL :: string
  kc_Realm :: string
  kc_AdminUser :: string
  kc_AdminPass :: string
  kc_LoginClientID :: string
  kc_LoginRedirectURIs :: "string list"
  kc_ServiceClientID :: string
  kc_ServiceClientSecret :: string

text \<open>What gocloak answers to a lookup that fails: an API error with its status, or another
  error.\<close>

datatype kc_lookup_error = APIError int | OtherError err

type_synonym attrs = "string \<rightharpoonup> string list"

record kc_user =
  u_Username :: "string option"
  u_Attributes :: "attrs option"

record kc_client =
  cl_ID :: "string option"
  cl_ClientID :: "string option"
  cl_ServiceAccountsEnabled :: "bool option"
  cl_StandardFlowEnabled :: "bool option"
  cl_DirectAccessGrantsEnabled :: "bool option"
  cl_PublicClient :: "bool option"
  cl_FullScopeAllowed :: "bool option"
  cl_Secret :: "string option"
  cl_RedirectURIs :: "string list option"
  cl_Attributes :: "(string \<rightharpoonup> string) option"

record kc_realm =
  rl_Realm :: string
  rl_Enabled :: bool
  rl_SslRequired :: string

text \<open>The gocloak calls the adapter makes. A raw HTTP response is its status code and, for the
  profile, the decoded JSON object.\<close>

record gocloak =
  gc_LoginAdmin :: "string \<Rightarrow> string \<Rightarrow> string \<Rightarrow> (err, string) wact"
  gc_GetProfile :: "string \<Rightarrow> string \<Rightarrow> (err, int \<times> (string \<rightharpoonup> string) option) wact"
  gc_PutProfile :: "string \<Rightarrow> string \<Rightarrow> (string \<rightharpoonup> string) \<Rightarrow> (err, int) wact"
  gc_CreateUser :: "string \<Rightarrow> string \<Rightarrow> string \<Rightarrow> attrs \<Rightarrow> (err, string) wact"
  gc_CreateClient :: "string \<Rightarrow> string \<Rightarrow> kc_client \<Rightarrow> (err, string) wact"
  gc_GetUserByID :: "string \<Rightarrow> string \<Rightarrow> string \<Rightarrow> (kc_lookup_error, kc_user option) wact"
  gc_GetClient :: "string \<Rightarrow> string \<Rightarrow> string \<Rightarrow> (err, kc_client) wact"
  gc_GetRealm :: "string \<Rightarrow> string \<Rightarrow> (err, unit) wact"
  gc_CreateRealm :: "string \<Rightarrow> kc_realm \<Rightarrow> (err, unit) wact"
  gc_GetClients :: "string \<Rightarrow> string \<Rightarrow> string \<Rightarrow> (err, kc_client list) wact"
  gc_UpdateClient :: "string \<Rightarrow> string \<Rightarrow> kc_client \<Rightarrow> (err, unit) wact"

definition kc_Capabilities :: engine_Capabilities where
  "kc_Capabilities = \<lparr>cap_TokenExchange = True, cap_DPoP = True, cap_CAEP = False\<rparr>"

definition kc_login :: "gocloak \<Rightarrow> kc_Config \<Rightarrow> (err, string) wact" where
  "kc_login G cfg = gc_LoginAdmin G (kc_AdminUser cfg) (kc_AdminPass cfg) ''master''"

text \<open>resty's \<open>Response.IsError\<close>.\<close>

definition resp_IsError :: "int \<Rightarrow> bool" where
  "resp_IsError status \<longleftrightarrow> status > 399"

definition get_attrs_ensured :: "('e, bool) wact" where
  "get_attrs_ensured w = (Inr (eng_attrs_ensured (eng w)), w)"

definition set_attrs_ensured :: "('e, unit) wact" where
  "set_attrs_ensured w = (Inr (), w\<lparr>eng := (eng w)\<lparr>eng_attrs_ensured := True\<rparr>\<rparr>)"

definition ensureUnmanagedUserAttributes :: "gocloak \<Rightarrow> kc_Config \<Rightarrow> string \<Rightarrow> (err, unit) wact" where
  "ensureUnmanagedUserAttributes G cfg token =
     go_bind get_attrs_ensured (\<lambda>ensured.
     if ensured then go_ret ()
     else
       let url = kc_BaseURL cfg @ ''/admin/realms/'' @ kc_Realm cfg @ ''/users/profile''
       in go_bind (gc_GetProfile G token url) (\<lambda>(status, body).
          if resp_IsError status then go_fail (ErrText ''get user profile config'')
          else
            let profile = (case body of None \<Rightarrow> Map.empty | Some m \<Rightarrow> m)
            in if profile ''unmanagedAttributePolicy'' = Some ''ENABLED''
               then set_attrs_ensured
               else go_bind (gc_PutProfile G token url (profile(''unmanagedAttributePolicy'' \<mapsto> ''ENABLED'')))
                      (\<lambda>put.
                         if resp_IsError put then go_fail (ErrText ''update user profile config'')
                         else set_attrs_ensured)))"

text \<open>The attributes of a principal: its type under \<open>bs_type\<close>, then the metadata under
  \<open>bs_\<close> keys, which may overwrite it.\<close>

definition bs_attrs :: "EnginePrincipal \<Rightarrow> string \<rightharpoonup> string" where
  "bs_attrs p =
     (\<lambda>k. case (if strings_HasPrefix k ''bs_'' then ep_Metadata p (drop 3 k) else None) of
            Some v \<Rightarrow> Some v
          | None \<Rightarrow> if k = ''bs_type'' then Some (ep_Type p) else None)"

definition kc_CreatePrincipal :: "gocloak \<Rightarrow> kc_Config \<Rightarrow> CreatePrincipal_op" where
  "kc_CreatePrincipal G cfg p =
     go_bind (kc_login G cfg) (\<lambda>tok.
     if ep_Type p = Human then
       go_bind (ensureUnmanagedUserAttributes G cfg tok) (\<lambda>_.
       gc_CreateUser G tok (kc_Realm cfg) (ep_DisplayName p) (\<lambda>k. map_option (\<lambda>v. [v]) (bs_attrs p k)))
     else if ep_Type p = Service \<or> ep_Type p = Agent then
       gc_CreateClient G tok (kc_Realm cfg)
         \<lparr>cl_ID = None, cl_ClientID = Some (''bs-'' @ ep_DisplayName p), cl_ServiceAccountsEnabled = Some True,
          cl_StandardFlowEnabled = Some False, cl_DirectAccessGrantsEnabled = None, cl_PublicClient = None,
          cl_FullScopeAllowed = None, cl_Secret = None, cl_RedirectURIs = None, cl_Attributes = Some (bs_attrs p)\<rparr>
     else go_fail (ErrText ''unsupported principal type''))"

definition attrsOf :: "attrs option \<Rightarrow> attrs" where
  "attrsOf m = (case m of None \<Rightarrow> Map.empty | Some a \<Rightarrow> a)"

definition attrsOfSingle :: "(string \<rightharpoonup> string) option \<Rightarrow> attrs" where
  "attrsOfSingle m = (case m of None \<Rightarrow> Map.empty | Some a \<Rightarrow> (\<lambda>k. map_option (\<lambda>v. [v]) (a k)))"

definition fromAttrs :: "string \<Rightarrow> string \<Rightarrow> attrs \<Rightarrow> EnginePrincipal" where
  "fromAttrs i name at =
     \<lparr>ep_ID = i,
      ep_Type = (case at ''bs_type'' of Some (v # vs) \<Rightarrow> v | _ \<Rightarrow> ''''),
      ep_DisplayName = name,
      ep_Metadata = (\<lambda>k. if k = '''' \<or> k = ''type'' then None
                         else case at (''bs_'' @ k) of Some (v # vs) \<Rightarrow> Some v | _ \<Rightarrow> None)\<rparr>"

definition PString :: "string option \<Rightarrow> string" where
  "PString v = (case v of None \<Rightarrow> '''' | Some s \<Rightarrow> s)"

definition kc_get_client :: "gocloak \<Rightarrow> kc_Config \<Rightarrow> string \<Rightarrow> GetPrincipal_op" where
  "kc_get_client G cfg tok i =
     go_bind (gc_GetClient G tok (kc_Realm cfg) i) (\<lambda>c.
     go_ret (fromAttrs i (PString (cl_ClientID c)) (attrsOfSingle (cl_Attributes c))))"

definition kc_GetPrincipal :: "gocloak \<Rightarrow> kc_Config \<Rightarrow> GetPrincipal_op" where
  "kc_GetPrincipal G cfg i =
     go_bind (kc_login G cfg) (\<lambda>tok.
     go_try (gc_GetUserByID G tok (kc_Realm cfg) i)
       (\<lambda>e. case e of
              APIError c \<Rightarrow> if c \<noteq> 404 then go_fail (ErrText ''get user'') else kc_get_client G cfg tok i
            | OtherError e' \<Rightarrow> go_fail e')
       (\<lambda>u. case u of
              Some v \<Rightarrow> go_ret (fromAttrs i (PString (u_Username v)) (attrsOf (u_Attributes v)))
            | None \<Rightarrow> kc_get_client G cfg tok i))"

section \<open>Provisioning\<close>

definition no_client :: kc_client where
  "no_client = \<lparr>cl_ID = None, cl_ClientID = None, cl_ServiceAccountsEnabled = None,
     cl_StandardFlowEnabled = None, cl_DirectAccessGrantsEnabled = None, cl_PublicClient = None,
     cl_FullScopeAllowed = None, cl_Secret = None, cl_RedirectURIs = None, cl_Attributes = None\<rparr>"

definition login_client :: "kc_Config \<Rightarrow> kc_client" where
  "login_client cfg = no_client\<lparr>cl_ClientID := Some (kc_LoginClientID cfg), cl_PublicClient := Some True,
     cl_StandardFlowEnabled := Some True, cl_DirectAccessGrantsEnabled := Some False,
     cl_RedirectURIs := Some (kc_LoginRedirectURIs cfg),
     cl_Attributes := Some [''pkce.code.challenge.method'' \<mapsto> ''S256'']\<rparr>"

definition service_client :: "kc_Config \<Rightarrow> kc_client" where
  "service_client cfg = no_client\<lparr>cl_ClientID := Some (kc_ServiceClientID cfg), cl_PublicClient := Some False,
     cl_StandardFlowEnabled := Some False, cl_DirectAccessGrantsEnabled := Some False,
     cl_ServiceAccountsEnabled := Some True, cl_FullScopeAllowed := Some False,
     cl_Secret := Some (kc_ServiceClientSecret cfg)\<rparr>"

definition ensureRealm :: "gocloak \<Rightarrow> kc_Config \<Rightarrow> string \<Rightarrow> (err, unit) wact" where
  "ensureRealm G cfg token =
     go_try (gc_GetRealm G token (kc_Realm cfg))
       (\<lambda>_. gc_CreateRealm G token \<lparr>rl_Realm = kc_Realm cfg, rl_Enabled = True, rl_SslRequired = ''none''\<rparr>)
       (\<lambda>_. go_ret ())"

definition upsertClient :: "gocloak \<Rightarrow> kc_Config \<Rightarrow> string \<Rightarrow> kc_client \<Rightarrow> (err, unit) wact" where
  "upsertClient G cfg token want =
     go_bind (gc_GetClients G token (kc_Realm cfg) (PString (cl_ClientID want))) (\<lambda>existing.
     case existing of
       [] \<Rightarrow> go_bind (gc_CreateClient G token (kc_Realm cfg) want) (\<lambda>_. go_ret ())
     | c # cs \<Rightarrow> gc_UpdateClient G token (kc_Realm cfg) (want\<lparr>cl_ID := cl_ID c\<rparr>))"

definition ensureClients :: "gocloak \<Rightarrow> kc_Config \<Rightarrow> string \<Rightarrow> (err, unit) wact" where
  "ensureClients G cfg token =
     go_bind (upsertClient G cfg token (login_client cfg)) (\<lambda>_.
     upsertClient G cfg token (service_client cfg))"

definition EnsureProvisioned :: "gocloak \<Rightarrow> kc_Config \<Rightarrow> (err, unit) wact" where
  "EnsureProvisioned G cfg =
     go_bind (kc_login G cfg) (\<lambda>tok.
     go_bind (ensureRealm G cfg tok) (\<lambda>_.
     ensureClients G cfg tok))"

record ClientStatus =
  cs_Public :: bool
  cs_StandardFlow :: bool
  cs_ServiceAccounts :: bool
  cs_DirectAccessGrants :: bool
  cs_PKCE :: string
  cs_RedirectURIs :: "string list"

record ProvisionState =
  ps_RealmExists :: bool
  ps_LoginClient :: ClientStatus
  ps_ServiceClient :: ClientStatus

definition no_status :: ClientStatus where
  "no_status = \<lparr>cs_Public = False, cs_StandardFlow = False, cs_ServiceAccounts = False,
     cs_DirectAccessGrants = False, cs_PKCE = '''', cs_RedirectURIs = []\<rparr>"

definition status_of_client :: "kc_client \<Rightarrow> ClientStatus" where
  "status_of_client c =
     \<lparr>cs_Public = (cl_PublicClient c = Some True),
      cs_StandardFlow = (cl_StandardFlowEnabled c = Some True),
      cs_ServiceAccounts = (cl_ServiceAccountsEnabled c = Some True),
      cs_DirectAccessGrants = (cl_DirectAccessGrantsEnabled c = Some True),
      cs_PKCE = (case cl_Attributes c of None \<Rightarrow> '''' | Some m \<Rightarrow> PString (m ''pkce.code.challenge.method'')),
      cs_RedirectURIs = (case cl_RedirectURIs c of None \<Rightarrow> [] | Some us \<Rightarrow> us)\<rparr>"

definition clientStatus :: "gocloak \<Rightarrow> kc_Config \<Rightarrow> string \<Rightarrow> string \<Rightarrow> (err, ClientStatus) wact" where
  "clientStatus G cfg token clientID =
     go_bind (gc_GetClients G token (kc_Realm cfg) clientID) (\<lambda>cs.
     case cs of [] \<Rightarrow> go_ret no_status | c # _ \<Rightarrow> go_ret (status_of_client c))"

definition ProvisionStatus :: "gocloak \<Rightarrow> kc_Config \<Rightarrow> (err, ProvisionState) wact" where
  "ProvisionStatus G cfg =
     go_bind (kc_login G cfg) (\<lambda>tok.
     go_bind (go_try (gc_GetRealm G tok (kc_Realm cfg)) (\<lambda>_. go_ret False) (\<lambda>_. go_ret True)) (\<lambda>realm.
     go_bind (go_try (clientStatus G cfg tok (kc_LoginClientID cfg)) (\<lambda>_. go_ret no_status) go_ret) (\<lambda>l.
     go_bind (go_try (clientStatus G cfg tok (kc_ServiceClientID cfg)) (\<lambda>_. go_ret no_status) go_ret) (\<lambda>s.
     go_ret \<lparr>ps_RealmExists = realm, ps_LoginClient = l, ps_ServiceClient = s\<rparr>))))"

section \<open>The attribute encoding\<close>

text \<open>Reading back the attributes written for a principal gives its type and metadata, provided
  no metadata key is empty or \<open>type\<close>; the service only writes \<open>owner\<close> and \<open>purpose\<close>.\<close>

lemma fromAttrs_bs_attrs:
  assumes "ep_Metadata p '''' = None" "ep_Metadata p ''type'' = None"
  shows "fromAttrs i n (attrsOfSingle (Some (bs_attrs p))) = p\<lparr>ep_ID := i, ep_DisplayName := n\<rparr>"
proof -
  have "(case attrsOfSingle (Some (bs_attrs p)) (''bs_'' @ k) of Some (v # vs) \<Rightarrow> Some v | _ \<Rightarrow> None) =
      ep_Metadata p k" if "k \<noteq> ''type''" for k
    using that by (auto simp: attrsOfSingle_def bs_attrs_def strings_HasPrefix_def split: option.split)
  then have "(\<lambda>k. if k = '''' \<or> k = ''type'' then None
      else case attrsOfSingle (Some (bs_attrs p)) (''bs_'' @ k) of Some (v # vs) \<Rightarrow> Some v | _ \<Rightarrow> None) =
      ep_Metadata p"
    using assms by (intro ext) auto
  moreover have "attrsOfSingle (Some (bs_attrs p)) ''bs_type'' = Some [ep_Type p]"
    using assms by (simp add: attrsOfSingle_def bs_attrs_def strings_HasPrefix_def)
  ultimately show ?thesis by (simp add: fromAttrs_def)
qed

end
