(* ===== verification/Signingkey.thy ===== *)
theory Signingkey
  imports Encoding World
begin

text \<open>
  \<open>internal/signingkey\<close>: the keys that sign delegation tokens. \<open>cipher.go\<close> seals private
  keys under the key-encryption key, \<open>key.go\<close> generates them, \<open>store.go\<close> keeps them in
  the table and rotates in one transaction, \<open>manager.go\<close> caches the decrypted keyset. AES-GCM,
  ECDSA, PKCS #8 and the JWK thumbprint are the parameters of the record \<open>key_crypto\<close>.
\<close>

record key_crypto =
  ec_Generate :: "bytes \<Rightarrow> bytes"
  ec_PublicKey :: "bytes \<Rightarrow> bytes"
  jwk_Thumbprint :: "bytes \<Rightarrow> bytes option"
  x509_MarshalPKCS8 :: "bytes \<Rightarrow> bytes option"
  x509_ParsePKCS8 :: "bytes \<Rightarrow> bytes option option"
  gcm_Seal :: "bytes \<Rightarrow> bytes \<Rightarrow> bytes \<Rightarrow> bytes \<Rightarrow> bytes"
  gcm_Open :: "bytes \<Rightarrow> bytes \<Rightarrow> bytes \<Rightarrow> bytes \<Rightarrow> bytes option"

text \<open>What the code relies on: opening what was sealed under the same key, nonce and additional
  data gives the plaintext, and parsing a marshalled private key gives that key.\<close>

definition key_crypto_ok :: "key_crypto \<Rightarrow> bool" where
  "key_crypto_ok C \<longleftrightarrow>
     (\<forall>k n p a. gcm_Open C k n (gcm_Seal C k n p a) a = Some p) \<and>
     (\<forall>p der. x509_MarshalPKCS8 C p = Some der \<longrightarrow> x509_ParsePKCS8 C der = Some (Some p))"

section \<open>Cipher\<close>

definition KEKFromEnv :: "string \<Rightarrow> err + bytes" where
  "KEKFromEnv v =
     (if v = '''' then Inl (ErrText ''BS_SIGNING_KEK is required'')
      else case StdEncoding_DecodeString v of
        None \<Rightarrow> Inl (ErrText ''BS_SIGNING_KEK not valid base64'')
      | Some kek \<Rightarrow>
          if length kek \<noteq> 32 then Inl (ErrText ''BS_SIGNING_KEK must decode to 32 bytes'')
          else Inr kek)"

text \<open>A cipher is its 32-byte key; \<open>aes.NewCipher\<close> and \<open>cipher.NewGCM\<close> accept every such key.\<close>

definition NewCipher :: "bytes \<Rightarrow> err + bytes" where
  "NewCipher kek = (if length kek \<noteq> 32 then Inl (ErrText ''KEK must be 32 bytes'') else Inr kek)"

definition NonceSize :: nat where
  "NonceSize = 12"

definition Seal :: "key_crypto \<Rightarrow> bytes \<Rightarrow> string \<Rightarrow> bytes \<Rightarrow> (err, bytes) wact" where
  "Seal C kek kid plaintext =
     go_bind (rand_Read NonceSize) (\<lambda>nonce.
     go_ret (nonce @ gcm_Seal C kek nonce plaintext (bytes_of kid)))"

definition Open :: "key_crypto \<Rightarrow> bytes \<Rightarrow> string \<Rightarrow> bytes \<Rightarrow> err + bytes" where
  "Open C kek kid blob =
     (if length blob < NonceSize then Inl (ErrText ''ciphertext too short'')
      else case gcm_Open C kek (take NonceSize blob) (drop NonceSize blob) (bytes_of kid) of
        None \<Rightarrow> Inl (ErrText ''cipher: message authentication failed'')
      | Some p \<Rightarrow> Inr p)"

section \<open>Keys\<close>

definition thumbprintKid :: "key_crypto \<Rightarrow> bytes \<Rightarrow> err + string" where
  "thumbprintKid C pub =
     (case jwk_Thumbprint C pub of
        None \<Rightarrow> Inl (ErrText ''thumbprint'')
      | Some tp \<Rightarrow> Inr (RawURLEncoding_EncodeToString tp))"

definition of_result :: "err + 'a \<Rightarrow> (err, 'a) wact" where
  "of_result r = (case r of Inl e \<Rightarrow> go_fail e | Inr x \<Rightarrow> go_ret x)"

definition GenerateKey :: "key_crypto \<Rightarrow> (err, Key) wact" where
  "GenerateKey C =
     go_bind (rand_Read 32) (\<lambda>seed.
     let priv = ec_Generate C seed
     in go_bind (of_result (thumbprintKid C (ec_PublicKey C priv))) (\<lambda>kid.
        go_ret \<lparr>key_Kid = kid, key_Priv = Some priv\<rparr>))"

definition MarshalPriv :: "key_crypto \<Rightarrow> bytes \<Rightarrow> err + bytes" where
  "MarshalPriv C priv =
     (case x509_MarshalPKCS8 C priv of None \<Rightarrow> Inl (ErrText ''marshal'') | Some der \<Rightarrow> Inr der)"

definition ParsePriv :: "key_crypto \<Rightarrow> bytes \<Rightarrow> err + bytes" where
  "ParsePriv C der =
     (case x509_ParsePKCS8 C der of
        None \<Rightarrow> Inl (ErrText ''parse'')
      | Some None \<Rightarrow> Inl (ErrText ''not an ECDSA private key'')
      | Some (Some priv) \<Rightarrow> Inr priv)"

section \<open>Queries and store\<close>

record KeyRow =
  kr_Kid :: string
  kr_Alg :: string
  kr_State :: string
  kr_PrivateEnc :: bytes
  kr_RetireAfter :: time

definition sk_ts :: "time \<Rightarrow> time option" where
  "sk_ts t = (if t = time_zero then None else Some (timestamptz t))"

definition active_keys :: "database \<Rightarrow> signing_key_row list" where
  "active_keys d = filter (\<lambda>k. sk_State k = ''active'') (signing_keys d)"

definition q_InsertSigningKey ::
  "time \<Rightarrow> string \<Rightarrow> string \<Rightarrow> bytes \<Rightarrow> string \<Rightarrow> time option \<Rightarrow> database \<Rightarrow> err + unit \<times> database" where
  "q_InsertSigningKey now kid alg enc state ra d =
     (if kid \<in> set (map sk_Kid (signing_keys d)) \<or> (state = ''active'' \<and> active_keys d \<noteq> [])
      then Inl UniqueViolation
      else Inr ((), d\<lparr>signing_keys := signing_keys d @
              [\<lparr>sk_Kid = kid, sk_Alg = alg, sk_PrivateEnc = enc, sk_State = state,
                sk_CreatedAt = timestamptz now, sk_RetireAfter = ra\<rparr>]\<rparr>))"

definition InsertSigningKey ::
  "string \<Rightarrow> string \<Rightarrow> bytes \<Rightarrow> string \<Rightarrow> time option \<Rightarrow> (err, unit) wact" where
  "InsertSigningKey kid alg enc state ra =
     go_bind time_Now (\<lambda>now. sql (q_InsertSigningKey now kid alg enc state ra))"

definition GetActiveSigningKey :: "(err, signing_key_row) wact" where
  "GetActiveSigningKey = sql_one (\<lambda>d. find (\<lambda>k. sk_State k = ''active'') (signing_keys d))"

definition live_keys :: "database \<Rightarrow> signing_key_row list" where
  "live_keys d =
     sort_key sk_CreatedAt (filter (\<lambda>k. sk_State k = ''active'' \<or> sk_State k = ''retiring'') (signing_keys d))"

definition ListLiveSigningKeys :: "(err, signing_key_row list) wact" where
  "ListLiveSigningKeys = sql_read live_keys"

definition q_DemoteActive :: "time option \<Rightarrow> database \<Rightarrow> err + unit \<times> database" where
  "q_DemoteActive ra d =
     Inr ((), d\<lparr>signing_keys :=
       map (\<lambda>k. if sk_State k = ''active'' then k\<lparr>sk_State := ''retiring'', sk_RetireAfter := ra\<rparr> else k)
         (signing_keys d)\<rparr>)"

definition DemoteActiveSigningKey :: "time option \<Rightarrow> (err, unit) wact" where
  "DemoteActiveSigningKey ra = sql (q_DemoteActive ra)"

definition key_expired :: "time \<Rightarrow> signing_key_row \<Rightarrow> bool" where
  "key_expired now k \<longleftrightarrow>
     sk_State k = ''retiring'' \<and> (case sk_RetireAfter k of None \<Rightarrow> False | Some t \<Rightarrow> t < timestamptz now)"

definition q_DeleteExpired :: "time \<Rightarrow> database \<Rightarrow> err + int \<times> database" where
  "q_DeleteExpired now d =
     Inr (int (length (filter (key_expired now) (signing_keys d))),
          d\<lparr>signing_keys := filter (\<lambda>k. \<not> key_expired now k) (signing_keys d)\<rparr>)"

definition DeleteExpiredSigningKeys :: "(err, int) wact" where
  "DeleteExpiredSigningKeys = go_bind time_Now (\<lambda>now. sql (q_DeleteExpired now))"

definition toKeyRow :: "signing_key_row \<Rightarrow> KeyRow" where
  "toKeyRow r =
     \<lparr>kr_Kid = sk_Kid r, kr_Alg = sk_Alg r, kr_State = sk_State r, kr_PrivateEnc = sk_PrivateEnc r,
      kr_RetireAfter = (case sk_RetireAfter r of None \<Rightarrow> time_zero | Some t \<Rightarrow> t)\<rparr>"

definition sk_Store_Insert :: "KeyRow \<Rightarrow> (err, unit) wact" where
  "sk_Store_Insert r =
     InsertSigningKey (kr_Kid r) (kr_Alg r) (kr_PrivateEnc r) (kr_State r) (sk_ts (kr_RetireAfter r))"

definition sk_Store_GetActive :: "(err, KeyRow) wact" where
  "sk_Store_GetActive =
     go_try GetActiveSigningKey
       (\<lambda>e. if e = ErrNoRows then go_fail ErrNoActive else go_fail e)
       (\<lambda>r. go_ret (toKeyRow r))"

definition sk_Store_ListLive :: "(err, KeyRow list) wact" where
  "sk_Store_ListLive = go_bind ListLiveSigningKeys (\<lambda>rs. go_ret (map toKeyRow rs))"

definition sk_Store_Rotate :: "KeyRow \<Rightarrow> time \<Rightarrow> (err, unit) wact" where
  "sk_Store_Rotate newActive retireAfter =
     in_tx (go_bind (DemoteActiveSigningKey (sk_ts retireAfter)) (\<lambda>_.
            InsertSigningKey (kr_Kid newActive) (kr_Alg newActive) (kr_PrivateEnc newActive) ''active''
              (sk_ts (kr_RetireAfter newActive))))"

definition sk_Store_RetireExpired :: "(err, int) wact" where
  "sk_Store_RetireExpired = DeleteExpiredSigningKeys"

section \<open>Manager\<close>

definition DefaultRetireWindow :: duration where
  "DefaultRetireWindow = 25 * 3600 * second"

definition DefaultCacheTTL :: duration where
  "DefaultCacheTTL = 30 * second"

record Options =
  opt_RetireWindow :: duration
  opt_CacheTTL :: duration

definition NewManagerWithOptions :: "Options \<Rightarrow> Options" where
  "NewManagerWithOptions opts =
     \<lparr>opt_RetireWindow = (if opt_RetireWindow opts = 0 then DefaultRetireWindow else opt_RetireWindow opts),
      opt_CacheTTL = (if opt_CacheTTL opts = 0 then DefaultCacheTTL else opt_CacheTTL opts)\<rparr>"

definition NewManager :: Options where
  "NewManager = NewManagerWithOptions \<lparr>opt_RetireWindow = 0, opt_CacheTTL = 0\<rparr>"

definition new_key_row :: "Key \<Rightarrow> bytes \<Rightarrow> KeyRow" where
  "new_key_row k enc =
     \<lparr>kr_Kid = key_Kid k, kr_Alg = ''ES256'', kr_State = ''active'', kr_PrivateEnc = enc,
      kr_RetireAfter = time_zero\<rparr>"

text \<open>The steps \<open>mint\<close> and \<open>Rotate\<close> share: generate, marshal, seal. A generated key's pointer is
  not nil.\<close>

definition generate_sealed :: "key_crypto \<Rightarrow> bytes \<Rightarrow> (err, Key \<times> bytes) wact" where
  "generate_sealed C kek =
     go_bind (GenerateKey C) (\<lambda>k.
     go_bind (of_result (MarshalPriv C (case key_Priv k of None \<Rightarrow> [] | Some p \<Rightarrow> p))) (\<lambda>der.
     go_bind (Seal C kek (key_Kid k) der) (\<lambda>enc.
     go_ret (k, enc))))"

definition mint :: "key_crypto \<Rightarrow> bytes \<Rightarrow> (err, unit) wact" where
  "mint C kek =
     go_bind (generate_sealed C kek) (\<lambda>(k, enc).
     go_try (sk_Store_Insert (new_key_row k enc))
       (\<lambda>e. if e = UniqueViolation then go_ret () else go_fail e)
       go_ret)"

definition add_key :: "bool \<Rightarrow> Key \<Rightarrow> Keyset \<Rightarrow> Keyset" where
  "add_key active key ks =
     (let ks1 = ks\<lparr>ks_All := ks_All ks @ [key]\<rparr>
      in if active then ks1\<lparr>ks_Active := key\<rparr> else ks1)"

fun load_keys :: "key_crypto \<Rightarrow> bytes \<Rightarrow> Keyset \<Rightarrow> KeyRow list \<Rightarrow> err + Keyset" where
  "load_keys C kek ks [] = Inr ks"
| "load_keys C kek ks (r # rs) =
     (case Open C kek (kr_Kid r) (kr_PrivateEnc r) of
        Inl e \<Rightarrow> Inl e
      | Inr der \<Rightarrow>
          (case ParsePriv C der of
             Inl e \<Rightarrow> Inl e
           | Inr priv \<Rightarrow>
               load_keys C kek
                 (add_key (kr_State r = ''active'') \<lparr>key_Kid = kr_Kid r, key_Priv = Some priv\<rparr> ks) rs))"

definition set_cached :: "Keyset \<Rightarrow> time \<Rightarrow> ('e, unit) wact" where
  "set_cached ks t w = (Inr (), w\<lparr>mgr_cached := ks, mgr_loadedAt := t\<rparr>)"

definition get_cached :: "('e, Keyset \<times> time) wact" where
  "get_cached w = (Inr (mgr_cached w, mgr_loadedAt w), w)"

definition sk_refresh :: "key_crypto \<Rightarrow> bytes \<Rightarrow> (err, unit) wact" where
  "sk_refresh C kek =
     go_bind sk_Store_ListLive (\<lambda>rows.
     go_bind (of_result (load_keys C kek no_keyset rows)) (\<lambda>ks.
     go_bind time_Now (\<lambda>t. set_cached ks t)))"

definition EnsureActive :: "key_crypto \<Rightarrow> bytes \<Rightarrow> (err, unit) wact" where
  "EnsureActive C kek =
     go_try sk_Store_GetActive
       (\<lambda>e. if e \<noteq> ErrNoActive then go_fail e
            else go_bind (mint C kek) (\<lambda>_. sk_refresh C kek))
       (\<lambda>_. sk_refresh C kek)"

definition Manager_Keyset :: "key_crypto \<Rightarrow> bytes \<Rightarrow> Options \<Rightarrow> ('e, Keyset) wact" where
  "Manager_Keyset C kek opt =
     go_bind time_Now (\<lambda>now.
     go_bind get_cached (\<lambda>(ks, loadedAt).
     if time_Sub now loadedAt \<le> opt_CacheTTL opt then go_ret ks
     else go_try (sk_refresh C kek)
            (\<lambda>_. go_bind get_cached (\<lambda>(ks', _). go_ret ks'))
            (\<lambda>_. go_bind get_cached (\<lambda>(ks', _). go_ret ks'))))"

definition Manager_Rotate :: "key_crypto \<Rightarrow> bytes \<Rightarrow> Options \<Rightarrow> (err, Key) wact" where
  "Manager_Rotate C kek opt =
     go_bind (generate_sealed C kek) (\<lambda>(k, enc).
     go_bind time_Now (\<lambda>now.
     go_bind (sk_Store_Rotate (new_key_row k enc) (time_Add now (opt_RetireWindow opt))) (\<lambda>_.
     go_bind sk_Store_RetireExpired (\<lambda>_.
     go_bind (sk_refresh C kek) (\<lambda>_.
     go_ret k)))))"

section \<open>What the operations leave alone\<close>

context db_order begin

lemma keeps_of_result [keeps_rules]: "keeps (db_rel Q) (of_result r)"
  unfolding of_result_def by (cases r) (simp_all add: keeps_rules del: go_ret_apply go_fail_apply)

lemma keeps_cache [keeps_rules]:
  "keeps (db_rel Q) (set_cached ks t)" "keeps (db_rel Q) get_cached"
  by (rule keeps_db_unchanged, simp add: set_cached_def get_cached_def)+

lemma keeps_generate_sealed [keeps_rules]: "keeps (db_rel Q) (generate_sealed C kek)"
  unfolding generate_sealed_def GenerateKey_def Seal_def by (intro keeps_rules)

lemma keeps_sk_reads [keeps_rules]:
  "keeps (db_rel Q) sk_Store_GetActive" "keeps (db_rel Q) sk_Store_ListLive"
  "keeps (db_rel Q) (sk_refresh C kek)"
  unfolding sk_Store_GetActive_def GetActiveSigningKey_def sk_Store_ListLive_def ListLiveSigningKeys_def
    sk_refresh_def
  by (intro keeps_rules)+

lemma keeps_Manager_Keyset [keeps_rules]: "keeps (db_rel Q) (Manager_Keyset C kek opt)"
  unfolding Manager_Keyset_def by (intro keeps_rules)

end

section \<open>Sealing\<close>

lemma Open_Seal:
  assumes "key_crypto_ok C" and "Seal C kek kid p w = (Inr blob, w')"
  shows "Open C kek kid blob = Inr p"
proof -
  obtain nonce where "length nonce = NonceSize"
    "blob = nonce @ gcm_Seal C kek nonce p (bytes_of kid)"
    using assms(2) unfolding Seal_def
    by (auto elim!: go_bind_InrD simp: rand_Read_def split: prod.splits fault.splits)
  with assms(1) show ?thesis by (auto simp: Open_def key_crypto_ok_def)
qed

lemma generate_sealed_InrD:
  assumes "key_crypto_ok C" and "generate_sealed C kek w = (Inr (k, enc), w')"
  shows "\<exists>der priv. key_Priv k = Some priv \<and> Open C kek (key_Kid k) enc = Inr der \<and> ParsePriv C der = Inr priv"
proof -
  from assms(2) obtain priv der w1 w2 where priv: "key_Priv k = Some priv"
    and der: "MarshalPriv C priv = Inr der" and seal: "Seal C kek (key_Kid k) der w1 = (Inr enc, w2)"
    unfolding generate_sealed_def GenerateKey_def
    by (auto elim!: go_bind_InrD simp: Let_def of_result_def split: sum.splits)
  have "ParsePriv C der = Inr priv"
    using der assms(1) by (auto simp: MarshalPriv_def ParsePriv_def key_crypto_ok_def split: option.splits)
  with priv Open_Seal [OF assms(1) seal] show ?thesis by auto
qed

section \<open>The single active key\<close>

lemma active_keys_append [simp]:
  "active_keys (d\<lparr>signing_keys := ks @ ls\<rparr>) =
     active_keys (d\<lparr>signing_keys := ks\<rparr>) @ filter (\<lambda>k. sk_State k = ''active'') ls"
  by (simp add: active_keys_def)

lemma filter_demoted [simp]:
  "filter (\<lambda>k. sk_State k = ''active'')
     (map (\<lambda>k. if sk_State k = ''active'' then k\<lparr>sk_State := ''retiring'', sk_RetireAfter := ra\<rparr> else k) ks) = []"
  by (induction ks) auto

definition demoted :: "time option \<Rightarrow> signing_key_row \<Rightarrow> signing_key_row" where
  "demoted ra k =
     (if sk_State k = ''active'' then k\<lparr>sk_State := ''retiring'', sk_RetireAfter := ra\<rparr> else k)"

text \<open>A rotation is atomic: whatever the connection does, the key table is as before, or every
  active key is retiring with the given deadline and the new key is the only active one.\<close>

lemma sk_Store_Rotate_outcome:
  assumes "sk_Store_Rotate row ra w = (r, w')"
  obtains (nothing) e where "r = Inl e" "db w' = db w"
    | (rotated) new where "sk_State new = ''active''" "sk_Kid new = kr_Kid row"
        "sk_PrivateEnc new = kr_PrivateEnc row" "kr_Kid row \<notin> set (map sk_Kid (signing_keys (db w)))"
        "db w' = (db w)\<lparr>signing_keys := map (demoted (sk_ts ra)) (signing_keys (db w)) @ [new]\<rparr>"
  using assms unfolding sk_Store_Rotate_def
proof (cases rule: in_tx_cases)
  case rolled_back
  then show thesis by (rule nothing)
next
  case (committed w1 w2 x)
  from committed(2) obtain u w3 where
    dem: "DemoteActiveSigningKey (sk_ts ra) w1 = (Inr u, w3)"
    and ins: "InsertSigningKey (kr_Kid row) (kr_Alg row) (kr_PrivateEnc row) ''active''
         (sk_ts (kr_RetireAfter row)) w3 = (Inr x, w2)"
    by (rule go_bind_InrD)
  have d3: "db w3 = (db w)\<lparr>signing_keys := map (demoted (sk_ts ra)) (signing_keys (db w))\<rparr>"
    using sql_InrD [OF dem [unfolded DemoteActiveSigningKey_def]] committed(1)
    by (simp add: q_DemoteActive_def demoted_def cong: map_cong)
  from ins obtain now w4 where now: "time_Now w3 = (Inr now :: err + time, w4)" and
    s: "sql (q_InsertSigningKey now (kr_Kid row) (kr_Alg row) (kr_PrivateEnc row) ''active''
         (sk_ts (kr_RetireAfter row))) w4 = (Inr x, w2)"
    unfolding InsertSigningKey_def by (rule go_bind_InrD)
  have d4: "db w4 = db w3" using time_Now_InrD [OF now] by simp
  have kids: "map sk_Kid (map (demoted (sk_ts ra)) (signing_keys (db w))) = map sk_Kid (signing_keys (db w))"
    by (simp add: demoted_def)
  define new where "new = \<lparr>sk_Kid = kr_Kid row, sk_Alg = kr_Alg row, sk_PrivateEnc = kr_PrivateEnc row,
    sk_State = ''active'', sk_CreatedAt = timestamptz now, sk_RetireAfter = sk_ts (kr_RetireAfter row)\<rparr>"
  have free: "kr_Kid row \<notin> set (map sk_Kid (signing_keys (db w3)))"
    and d2: "db w2 = (db w3)\<lparr>signing_keys := signing_keys (db w3) @ [new]\<rparr>"
    using sql_InrD [OF s] d4 by (auto simp: q_InsertSigningKey_def new_def split: if_splits)
  show thesis
    by (rule rotated [of new]) (use free d2 d3 committed(3) kids in \<open>simp_all add: new_def\<close>)
qed

lemma active_keys_rotated:
  "sk_State new = ''active'' \<Longrightarrow>
     active_keys (d\<lparr>signing_keys := map (demoted ra) (signing_keys d) @ [new]\<rparr>) = [new]"
  unfolding demoted_def by (simp add: active_keys_def cong: map_cong)

text \<open>A key that is not past its deadline survives the clean-up.\<close>

lemma q_DeleteExpired_keeps:
  assumes "q_DeleteExpired now d = Inr (n, d')" "k \<in> set (signing_keys d)"
    and "\<And>t. sk_RetireAfter k = Some t \<Longrightarrow> timestamptz now \<le> t"
  shows "k \<in> set (signing_keys d')"
  using assms by (fastforce simp: q_DeleteExpired_def key_expired_def split: option.splits)

section \<open>The cached keyset\<close>

definition keyset_ok :: "Keyset \<Rightarrow> bool" where
  "keyset_ok ks \<longleftrightarrow>
     (\<forall>k \<in> set (ks_All ks). key_Priv k \<noteq> None) \<and>
     (ks_Active ks = no_key \<or> ks_Active ks \<in> set (ks_All ks))"

lemma keyset_ok_empty [simp]: "keyset_ok no_keyset"
  by (simp add: keyset_ok_def no_keyset_def)

lemma load_keys_Cons_InrD:
  assumes "load_keys C kek ks (r # rs) = Inr ks'"
  obtains key der priv where "key = \<lparr>key_Kid = kr_Kid r, key_Priv = Some priv\<rparr>"
    "Open C kek (kr_Kid r) (kr_PrivateEnc r) = Inr der" "ParsePriv C der = Inr priv"
    "load_keys C kek (add_key (kr_State r = ''active'') key ks) rs = Inr ks'"
  using assms that by (auto split: sum.splits)

lemma add_key_sel [simp]:
  "ks_All (add_key b key ks) = ks_All ks @ [key]"
  "ks_Active (add_key b key ks) = (if b then key else ks_Active ks)"
  by (simp_all add: add_key_def Let_def)

lemma load_keys_ok: "load_keys C kek ks rs = Inr ks' \<Longrightarrow> keyset_ok ks \<Longrightarrow> keyset_ok ks'"
proof (induction rs arbitrary: ks)
  case (Cons r rs)
  from Cons.prems(1) show ?case
  proof (rule load_keys_Cons_InrD)
    fix key priv assume k: "key = \<lparr>key_Kid = kr_Kid r, key_Priv = Some priv\<rparr>"
      and l: "load_keys C kek (add_key (kr_State r = ''active'') key ks) rs = Inr ks'"
    have "keyset_ok (add_key (kr_State r = ''active'') key ks)"
      using k Cons.prems(2) by (auto simp: keyset_ok_def)
    with Cons.IH [OF l] show ?thesis .
  qed
qed simp

lemma load_keys_kids:
  "load_keys C kek ks rs = Inr ks' \<Longrightarrow> map key_Kid (ks_All ks') = map key_Kid (ks_All ks) @ map kr_Kid rs"
proof (induction rs arbitrary: ks)
  case (Cons r rs)
  from Cons.prems show ?case
    by (rule load_keys_Cons_InrD) (simp add: Cons.IH)
qed simp

lemma load_keys_active_unchanged:
  "load_keys C kek ks rs = Inr ks' \<Longrightarrow> \<forall>r \<in> set rs. kr_State r \<noteq> ''active'' \<Longrightarrow> ks_Active ks' = ks_Active ks"
proof (induction rs arbitrary: ks)
  case (Cons r rs)
  from Cons.prems(1) show ?case
    by (rule load_keys_Cons_InrD) (use Cons in simp)
qed simp

lemma load_keys_active:
  "load_keys C kek ks rs = Inr ks' \<Longrightarrow> \<exists>r \<in> set rs. kr_State r = ''active'' \<Longrightarrow>
     \<exists>r \<in> set rs. kr_State r = ''active'' \<and> (\<exists>der priv.
       Open C kek (kr_Kid r) (kr_PrivateEnc r) = Inr der \<and> ParsePriv C der = Inr priv \<and>
       ks_Active ks' = \<lparr>key_Kid = kr_Kid r, key_Priv = Some priv\<rparr>)"
proof (induction rs arbitrary: ks)
  case (Cons r rs)
  from Cons.prems(1) show ?case
  proof (rule load_keys_Cons_InrD)
    fix key der priv assume k: "key = \<lparr>key_Kid = kr_Kid r, key_Priv = Some priv\<rparr>"
        "Open C kek (kr_Kid r) (kr_PrivateEnc r) = Inr der" "ParsePriv C der = Inr priv"
      and l: "load_keys C kek (add_key (kr_State r = ''active'') key ks) rs = Inr ks'"
    show ?thesis
    proof (cases "\<exists>r \<in> set rs. kr_State r = ''active''")
      case True
      with Cons.IH [OF l] show ?thesis by auto
    next
      case False
      with load_keys_active_unchanged [OF l] Cons.prems(2) k show ?thesis by auto
    qed
  qed
qed simp

lemma clk_of_result [keeps_rules]: "keeps clock_rel (of_result r)"
  unfolding of_result_def by (cases r) (simp_all add: keeps_rules)

lemma clk_cache [keeps_rules]: "keeps clock_rel (set_cached ks t)" "keeps clock_rel get_cached"
  by (rule keepsI, simp add: set_cached_def get_cached_def clock_rel_def)+

lemma clk_generate_sealed: "keeps clock_rel (generate_sealed C kek)"
  unfolding generate_sealed_def GenerateKey_def Seal_def by (intro keeps_rules)

lemma clk_Store_Rotate: "keeps clock_rel (sk_Store_Rotate row ra)"
  unfolding sk_Store_Rotate_def DemoteActiveSigningKey_def InsertSigningKey_def by (intro keeps_rules)

lemma clk_refresh: "keeps clock_rel (sk_refresh C kek)"
  unfolding sk_refresh_def sk_Store_ListLive_def ListLiveSigningKeys_def by (intro keeps_rules)

lemma sk_refresh_InrD:
  assumes "sk_refresh C kek w = (Inr x, w')"
  shows "load_keys C kek no_keyset (map toKeyRow (live_keys (db w))) = Inr (mgr_cached w') \<and> db w' = db w"
proof -
  have "db w' = db w" by (rule keeps_sameD [OF same_db.keeps_sk_reads(3) assms])
  with assms show ?thesis
    unfolding sk_refresh_def sk_Store_ListLive_def ListLiveSigningKeys_def
    by (auto elim!: go_bind_InrD dest!: sql_read_InrD simp: of_result_def set_cached_def split: sum.splits)
qed

lemma DeleteExpired_InrD:
  assumes "sk_Store_RetireExpired w = (Inr n, w')"
  shows "\<exists>now \<le> clock w'. q_DeleteExpired now (db w) = Inr (n, db w')"
proof -
  from assms obtain now w1 where t: "time_Now w = (Inr now :: err + time, w1)"
    and s: "sql (q_DeleteExpired now) w1 = (Inr n, w')"
    unfolding sk_Store_RetireExpired_def DeleteExpiredSigningKeys_def by (rule go_bind_InrD)
  have "db w1 = db w" "clock w1 = now" using time_Now_InrD [OF t] by auto
  moreover have "clock w1 \<le> clock w'" by (rule keeps_clkD [OF clk_sql s])
  ultimately show ?thesis using sql_InrD [OF s] by (intro exI [of _ now]) simp
qed

text \<open>What a completed rotation did, step by step.\<close>

lemma Manager_Rotate_InrD:
  assumes crypto: "key_crypto_ok C" and run: "Manager_Rotate C kek opt w = (Inr k, w')"
  obtains new der priv now now2 n d1 where
    "sk_State new = ''active''" "sk_Kid new = key_Kid k" "key_Priv k = Some priv"
    "Open C kek (sk_Kid new) (sk_PrivateEnc new) = Inr der" "ParsePriv C der = Inr priv"
    "d1 = (db w)\<lparr>signing_keys := map (demoted (sk_ts (time_Add now (opt_RetireWindow opt)))) (signing_keys (db w)) @ [new]\<rparr>"
    "key_Kid k \<notin> set (map sk_Kid (signing_keys (db w)))"
    "clock w \<le> now" "now2 \<le> clock w'" "q_DeleteExpired now2 d1 = Inr (n, db w')"
    "load_keys C kek no_keyset (map toKeyRow (live_keys (db w'))) = Inr (mgr_cached w')"
proof -
  from run obtain enc w1 now w2 u w3 n w4 v where
    gen: "generate_sealed C kek w = (Inr (k, enc), w1)"
    and now: "time_Now w1 = (Inr now :: err + time, w2)"
    and rot: "sk_Store_Rotate (new_key_row k enc) (time_Add now (opt_RetireWindow opt)) w2 = (Inr u, w3)"
    and del: "sk_Store_RetireExpired w3 = (Inr n, w4)"
    and ref: "sk_refresh C kek w4 = (Inr v, w')"
    unfolding Manager_Rotate_def by (auto elim!: go_bind_InrD)
  have db1: "db w2 = db w"
    using keeps_sameD [OF same_db.keeps_generate_sealed gen] time_Now_InrD [OF now] by simp
  have clk1: "clock w \<le> now"
    using keeps_clkD [OF clk_generate_sealed gen] time_Now_InrD [OF now] by simp
  obtain der priv where seal: "key_Priv k = Some priv" "Open C kek (key_Kid k) enc = Inr der"
    "ParsePriv C der = Inr priv"
    using generate_sealed_InrD [OF crypto gen] by auto
  from rot obtain new where new: "sk_State new = ''active''" "sk_Kid new = key_Kid k"
    "sk_PrivateEnc new = enc" "key_Kid k \<notin> set (map sk_Kid (signing_keys (db w)))"
    "db w3 = (db w)\<lparr>signing_keys :=
        map (demoted (sk_ts (time_Add now (opt_RetireWindow opt)))) (signing_keys (db w)) @ [new]\<rparr>"
    by (rule sk_Store_Rotate_outcome) (auto simp: new_key_row_def db1)
  obtain now2 where now2: "now2 \<le> clock w4" "q_DeleteExpired now2 (db w3) = Inr (n, db w4)"
    using DeleteExpired_InrD [OF del] by auto
  have "clock w4 \<le> clock w'" by (rule keeps_clkD [OF clk_refresh ref])
  with sk_refresh_InrD [OF ref] new seal now2 clk1 show thesis
    by (intro that [of new priv der "db w3" now now2 n]) auto
qed

lemma live_keys_set:
  "set (live_keys d) = {k \<in> set (signing_keys d). sk_State k = ''active'' \<or> sk_State k = ''retiring''}"
  by (auto simp: live_keys_def)

text \<open>C23: A completed rotation leaves exactly one active key, the new one; the keyset in memory signs
  with it and verifies with it.\<close>

theorem rotate_installs_new_key:
  assumes "key_crypto_ok C" and "Manager_Rotate C kek opt w = (Inr k, w')"
  shows "(\<exists>new. active_keys (db w') = [new] \<and> sk_Kid new = key_Kid k) \<and>
         ks_Active (mgr_cached w') = k \<and> k \<in> set (ks_All (mgr_cached w'))"
  using assms
proof (rule Manager_Rotate_InrD)
  fix new der priv now now2 n d1
  assume new: "sk_State new = ''active''" "sk_Kid new = key_Kid k" "key_Priv k = Some priv"
      "Open C kek (sk_Kid new) (sk_PrivateEnc new) = Inr der" "ParsePriv C der = Inr priv"
    and d1: "d1 = (db w)\<lparr>signing_keys := map (demoted (sk_ts (time_Add now (opt_RetireWindow opt)))) (signing_keys (db w)) @ [new]\<rparr>"
    and del: "q_DeleteExpired now2 d1 = Inr (n, db w')"
    and load: "load_keys C kek no_keyset (map toKeyRow (live_keys (db w'))) = Inr (mgr_cached w')"
  have "db w' = d1\<lparr>signing_keys := filter (\<lambda>k. \<not> key_expired now2 k) (signing_keys d1)\<rparr>"
    using del by (simp add: q_DeleteExpired_def)
  then have "active_keys (db w') = filter (\<lambda>k. \<not> key_expired now2 k) (active_keys d1)"
    by (simp add: active_keys_def conj_commute)
  also have "active_keys d1 = [new]" unfolding d1 by (rule active_keys_rotated [OF new(1)])
  finally have act: "active_keys (db w') = [new]" using new(1) by (simp add: key_expired_def)
  have actives: "x = new" if "x \<in> set (signing_keys (db w'))" "sk_State x = ''active''" for x
  proof -
    have "x \<in> set (active_keys (db w'))" using that by (simp add: active_keys_def)
    with act show ?thesis by simp
  qed
  have "new \<in> set (active_keys (db w'))" using act by simp
  then have "new \<in> set (live_keys (db w'))" by (auto simp: live_keys_set active_keys_def)
  with new(1) have ex: "\<exists>r \<in> set (map toKeyRow (live_keys (db w'))). kr_State r = ''active''"
    by (auto simp: toKeyRow_def)
  obtain r der' priv' where r: "r \<in> set (map toKeyRow (live_keys (db w')))" "kr_State r = ''active''"
    "Open C kek (kr_Kid r) (kr_PrivateEnc r) = Inr der'" "ParsePriv C der' = Inr priv'"
    "ks_Active (mgr_cached w') = \<lparr>key_Kid = kr_Kid r, key_Priv = Some priv'\<rparr>"
    using load_keys_active [OF load ex] by auto
  then have "r = toKeyRow new" using actives by (auto simp: live_keys_set toKeyRow_def)
  with r new have "ks_Active (mgr_cached w') = k" by (auto simp: toKeyRow_def)
  moreover have "keyset_ok (mgr_cached w')" using load_keys_ok [OF load] by simp
  ultimately show ?thesis using act new by (auto simp: keyset_ok_def no_key_def)
qed

text \<open>C24: Rotation does not orphan tokens: a key that was active before a rotation that completes
  within the retirement window is still in the keyset that verifies tokens.\<close>

theorem rotate_keeps_old_key:
  assumes "key_crypto_ok C" and "Manager_Rotate C kek opt w = (Inr k, w')"
    and old: "old \<in> set (active_keys (db w))" and window: "clock w' \<le> clock w + opt_RetireWindow opt"
  shows "sk_Kid old \<in> set (map key_Kid (ks_All (mgr_cached w')))"
  using assms(1,2)
proof (rule Manager_Rotate_InrD)
  fix new der priv now now2 n d1
  let ?ra = "sk_ts (time_Add now (opt_RetireWindow opt))"
  assume d1: "d1 = (db w)\<lparr>signing_keys := map (demoted ?ra) (signing_keys (db w)) @ [new]\<rparr>"
    and t: "clock w \<le> now" "now2 \<le> clock w'"
    and del: "q_DeleteExpired now2 d1 = Inr (n, db w')"
    and load: "load_keys C kek no_keyset (map toKeyRow (live_keys (db w'))) = Inr (mgr_cached w')"
  have "demoted ?ra old \<in> set (signing_keys d1)"
    using old d1 by (auto simp: active_keys_def)
  moreover have "timestamptz now2 \<le> s" if "sk_RetireAfter (demoted ?ra old) = Some s" for s
    using that old t window
    by (auto simp: demoted_def active_keys_def sk_ts_def timestamptz_def time_Add_def
        intro: truncate_us_mono split: if_splits)
  ultimately have "demoted ?ra old \<in> set (signing_keys (db w'))"
    using q_DeleteExpired_keeps [OF del] by blast
  then have "demoted ?ra old \<in> set (live_keys (db w'))"
    using old by (auto simp: live_keys_set demoted_def active_keys_def)
  then have "sk_Kid (demoted ?ra old) \<in> set (map kr_Kid (map toKeyRow (live_keys (db w'))))"
    by (force simp: toKeyRow_def)
  then show ?thesis
    using load_keys_kids [OF load] by (simp add: no_keyset_def demoted_def split: if_splits)
qed

text \<open>An existing active key is never replaced by start-up: when the table holds an active key,
  \<open>EnsureActive\<close> leaves the tables alone, in particular under a wrong key-encryption key.\<close>

lemma EnsureActive_never_remints:
  assumes "active_keys (db w) \<noteq> []"
  shows "db (snd (EnsureActive C kek w)) = db w"
proof -
  obtain r w1 where g: "sk_Store_GetActive w = (r, w1)" by fastforce
  have d1: "db w1 = db w" by (rule keeps_sameD [OF same_db.keeps_sk_reads(1) g])
  have "find (\<lambda>k. sk_State k = ''active'') (signing_keys (db w)) \<noteq> None"
    using assms by (auto simp: find_None_iff active_keys_def filter_empty_conv)
  then have "r \<noteq> Inl ErrNoActive"
    using g by (auto simp: sk_Store_GetActive_def GetActiveSigningKey_def sql_one_def sql_def go_try_def
        split: prod.splits fault.splits sum.splits option.splits if_splits)
  moreover have "db (snd (sk_refresh C kek w1)) = db w1"
    using keeps_sameD [OF same_db.keeps_sk_reads(3)] by (metis prod.collapse)
  ultimately show ?thesis
    using g d1 by (cases r) (auto simp: EnsureActive_def go_try_def)
qed

end
