(* ===== verification/Principal.thy ===== *)
theory Principal
  imports Engine Audit_Log
begin

text \<open>
  \<open>internal/principal\<close>: principals are created in the identity engine first and then
  recorded locally under the engine's id; agents carry an owner, the other types no agent-only
  field. The service is the provider of the interface \<open>PrincipalTyper\<close> (the locale
  \<open>principal_typer\<close>) of the delegation package.
\<close>

record Principal =
  pr_ID :: string
  pr_Type :: string
  pr_DisplayName :: string
  pr_OwnerPrincipalID :: string
  pr_Capabilities :: "string list"
  pr_Purpose :: string
  pr_OnBehalfOf :: string

record NewInput =
  ni_Type :: string
  ni_DisplayName :: string
  ni_OwnerPrincipalID :: string
  ni_Capabilities :: "string list"
  ni_Purpose :: string

definition Validate :: "NewInput \<Rightarrow> err option" where
  "Validate i =
     (if ni_Type i \<notin> {Human, Service, Agent} then Some (ErrInvalidInput PPrincipal)
      else if ni_DisplayName i = '''' then Some (ErrInvalidInput PPrincipal)
      else
        let isAgent = (ni_Type i = Agent)
        in if isAgent \<and> ni_OwnerPrincipalID i = '''' then Some (ErrInvalidInput PPrincipal)
           else if \<not> isAgent \<and> (ni_OwnerPrincipalID i \<noteq> '''' \<or> ni_Purpose i \<noteq> '''' \<or>
                               length (ni_Capabilities i) > 0)
           then Some (ErrInvalidInput PPrincipal)
           else None)"

section \<open>Queries and store\<close>

definition q_InsertPrincipal :: "time \<Rightarrow> principal_row \<Rightarrow> database \<Rightarrow> err + unit \<times> database" where
  "q_InsertPrincipal now r d =
     (if p_Type r \<notin> {''human'', ''service'', ''agent''} then Inl CheckViolation
      else if p_ID r \<in> set (map p_ID (principals d)) then Inl UniqueViolation
      else Inr ((), d\<lparr>principals := principals d @ [r\<lparr>p_CreatedAt := timestamptz now\<rparr>]\<rparr>))"

definition InsertPrincipal :: "principal_row \<Rightarrow> (err, unit) wact" where
  "InsertPrincipal r = go_bind time_Now (\<lambda>now. sql (q_InsertPrincipal now r))"

definition q_GetPrincipal :: "string \<Rightarrow> (err, principal_row) wact" where
  "q_GetPrincipal i = sql_one (\<lambda>d. find (\<lambda>r. p_ID r = i) (principals d))"

definition pgText :: "string \<Rightarrow> string option" where
  "pgText s = (if s \<noteq> '''' then Some s else None)"

definition principal_Store_Insert :: "Principal \<Rightarrow> (err, unit) wact" where
  "principal_Store_Insert p =
     InsertPrincipal
       \<lparr>p_ID = pr_ID p, p_Type = pr_Type p, p_DisplayName = pr_DisplayName p,
        p_OwnerPrincipalID = pgText (pr_OwnerPrincipalID p), p_Capabilities = pr_Capabilities p,
        p_Purpose = pr_Purpose p, p_OnBehalfOf = pr_OnBehalfOf p, p_CreatedAt = time_zero\<rparr>"

definition principal_of_row :: "principal_row \<Rightarrow> Principal" where
  "principal_of_row r =
     \<lparr>pr_ID = p_ID r, pr_Type = p_Type r, pr_DisplayName = p_DisplayName r,
      pr_OwnerPrincipalID = (case p_OwnerPrincipalID r of None \<Rightarrow> '''' | Some s \<Rightarrow> s),
      pr_Capabilities = p_Capabilities r, pr_Purpose = p_Purpose r, pr_OnBehalfOf = p_OnBehalfOf r\<rparr>"

definition principal_Store_Get :: "string \<Rightarrow> (err, Principal) wact" where
  "principal_Store_Get i =
     go_try (q_GetPrincipal i)
       (\<lambda>e. if e = ErrNoRows then go_fail (ErrNotFound PPrincipal) else go_fail e)
       (\<lambda>r. go_ret (principal_of_row r))"

section \<open>Service\<close>

definition create_meta :: "NewInput \<Rightarrow> string \<rightharpoonup> string" where
  "create_meta i =
     (let m = (if ni_OwnerPrincipalID i \<noteq> '''' then [''owner'' \<mapsto> ni_OwnerPrincipalID i] else Map.empty)
      in if ni_Purpose i \<noteq> '''' then m(''purpose'' \<mapsto> ni_Purpose i) else m)"

definition principal_Service_Create :: "CreatePrincipal_op \<Rightarrow> NewInput \<Rightarrow> (err, Principal) wact" where
  "principal_Service_Create create i =
     (case Validate i of
        Some e \<Rightarrow> go_fail e
      | None \<Rightarrow>
          go_bind (create \<lparr>ep_ID = '''', ep_Type = ni_Type i, ep_DisplayName = ni_DisplayName i,
                           ep_Metadata = create_meta i\<rparr>) (\<lambda>pid.
          let p = \<lparr>pr_ID = pid, pr_Type = ni_Type i, pr_DisplayName = ni_DisplayName i,
                   pr_OwnerPrincipalID = ni_OwnerPrincipalID i, pr_Capabilities = ni_Capabilities i,
                   pr_Purpose = ni_Purpose i, pr_OnBehalfOf = ''''\<rparr>
          in go_bind (principal_Store_Insert p) (\<lambda>_. go_ret p)))"

definition principal_Service_Get :: "string \<Rightarrow> (err, Principal) wact" where
  "principal_Service_Get i = principal_Store_Get i"

definition TypeOf :: "string \<Rightarrow> (err, string) wact" where
  "TypeOf i = go_bind (principal_Store_Get i) (\<lambda>p. go_ret (pr_Type p))"

section \<open>Handler\<close>

datatype PrincipalType =
    PRINCIPAL_TYPE_UNSPECIFIED | PRINCIPAL_TYPE_HUMAN | PRINCIPAL_TYPE_SERVICE | PRINCIPAL_TYPE_AGENT

definition typeToProto :: "string \<Rightarrow> PrincipalType" where
  "typeToProto t =
     (if t = Human then PRINCIPAL_TYPE_HUMAN
      else if t = Service then PRINCIPAL_TYPE_SERVICE
      else if t = Agent then PRINCIPAL_TYPE_AGENT
      else PRINCIPAL_TYPE_UNSPECIFIED)"

fun protoToType :: "PrincipalType \<Rightarrow> string" where
  "protoToType PRINCIPAL_TYPE_HUMAN = Human"
| "protoToType PRINCIPAL_TYPE_SERVICE = Service"
| "protoToType PRINCIPAL_TYPE_AGENT = Agent"
| "protoToType PRINCIPAL_TYPE_UNSPECIFIED = ''''"

record PrincipalMsg =
  pm_Id :: string
  pm_Type :: PrincipalType
  pm_DisplayName :: string
  pm_OwnerPrincipalId :: string
  pm_Capabilities :: "string list"
  pm_Purpose :: string
  pm_OnBehalfOf :: string

definition toProto :: "Principal \<Rightarrow> PrincipalMsg" where
  "toProto p =
     \<lparr>pm_Id = pr_ID p, pm_Type = typeToProto (pr_Type p), pm_DisplayName = pr_DisplayName p,
      pm_OwnerPrincipalId = pr_OwnerPrincipalID p, pm_Capabilities = pr_Capabilities p,
      pm_Purpose = pr_Purpose p, pm_OnBehalfOf = pr_OnBehalfOf p\<rparr>"

record CreatePrincipalRequest =
  cp_Type :: PrincipalType
  cp_DisplayName :: string
  cp_OwnerPrincipalId :: string
  cp_Capabilities :: "string list"
  cp_Purpose :: string

definition principal_Handler_CreatePrincipal ::
  "CreatePrincipal_op \<Rightarrow> ctx \<Rightarrow> CreatePrincipalRequest \<Rightarrow> (rpc_error, PrincipalMsg) wact" where
  "principal_Handler_CreatePrincipal create cx m =
     go_bind (RequireSystemAdmin cx) (\<lambda>_.
     go_try (principal_Service_Create create
               \<lparr>ni_Type = protoToType (cp_Type m), ni_DisplayName = cp_DisplayName m,
                ni_OwnerPrincipalID = cp_OwnerPrincipalId m, ni_Capabilities = cp_Capabilities m,
                ni_Purpose = cp_Purpose m\<rparr>)
       (\<lambda>e. if e = ErrInvalidInput PPrincipal then go_fail (NewError CodeInvalidArgument)
            else go_fail (NewError CodeInternal)) (\<lambda>p.
     go_bind (Record cx (actor_event cx ''principal.create'' ''principal'' (pr_ID p) '''' OutcomeSuccess
                (Some [''display_name'' \<mapsto> pr_DisplayName p]))) (\<lambda>_.
     go_ret (toProto p))))"

definition principal_Handler_GetPrincipal :: "string \<Rightarrow> (rpc_error, PrincipalMsg) wact" where
  "principal_Handler_GetPrincipal i =
     go_try (principal_Service_Get i)
       (\<lambda>e. if e = ErrNotFound PPrincipal then go_fail (NewError CodeNotFound)
            else go_fail (NewError CodeInternal))
       (\<lambda>p. go_ret (toProto p))"

section \<open>Reads and the type interface\<close>

context db_order begin

lemma keeps_principal_reads [keeps_rules]:
  "keeps (db_rel Q) (principal_Store_Get i)" "keeps (db_rel Q) (principal_Service_Get i)"
  "keeps (db_rel Q) (TypeOf i)" "keeps (db_rel Q) (principal_Handler_GetPrincipal i)"
  unfolding principal_Handler_GetPrincipal_def TypeOf_def principal_Service_Get_def
    principal_Store_Get_def q_GetPrincipal_def
  by (intro keeps_rules)+

end

text \<open>\<open>delegation.PrincipalTyper\<close>: the type of a principal as the tables record it.\<close>

type_synonym TypeOf_op = "string \<Rightarrow> (err, string) wact"

locale principal_typer =
  fixes typeOf :: TypeOf_op
    and type_in :: "database \<Rightarrow> string \<Rightarrow> string option"
  assumes typeOf_reads: "typeOf i w = (r, w') \<Longrightarrow> db w' = db w"
    and typeOf_ok: "typeOf i w = (Inr t, w') \<Longrightarrow> type_in (db w) i = Some t"
    and typeOf_up: "faults w = [] \<Longrightarrow>
      typeOf i w = ((case type_in (db w) i of None \<Rightarrow> Inl (ErrNotFound PPrincipal) | Some t \<Rightarrow> Inr t), w)"
begin

lemma typeOf_keeps: "keeps (db_rel (=)) (typeOf i)"
proof (rule keepsI)
  fix w
  show "db_rel (=) w (snd (typeOf i w))"
    using typeOf_reads [of i w] by (cases "typeOf i w") (simp add: db_rel_def)
qed

end

definition type_of_principal :: "database \<Rightarrow> string \<Rightarrow> string option" where
  "type_of_principal d i = map_option p_Type (find (\<lambda>r. p_ID r = i) (principals d))"

interpretation types: principal_typer TypeOf type_of_principal
proof
  fix i and w w' :: world and r
  assume "TypeOf i w = (r, w')"
  then show "db w' = db w" by (rule keeps_sameD [OF same_db.keeps_principal_reads(3)])
next
  fix i and w w' :: world and t
  assume "TypeOf i w = (Inr t, w')"
  then show "type_of_principal (db w) i = Some t"
    unfolding TypeOf_def principal_Store_Get_def q_GetPrincipal_def
    by (auto elim!: go_bind_InrD dest!: sql_one_InrD simp: go_try_def type_of_principal_def
        principal_of_row_def split: prod.splits sum.splits if_splits)
next
  fix i and w :: world
  assume "faults w = []"
  then show "TypeOf i w =
      ((case type_of_principal (db w) i of None \<Rightarrow> Inl (ErrNotFound PPrincipal) | Some t \<Rightarrow> Inr t), w)"
    by (simp add: TypeOf_def principal_Store_Get_def q_GetPrincipal_def go_try_def go_bind_cases
        type_of_principal_def principal_of_row_def split: option.split)
qed

section \<open>Agents have an owner\<close>

definition agents_ok :: "database \<Rightarrow> bool" where
  "agents_ok d \<longleftrightarrow>
     (\<forall>p \<in> set (principals d).
        (p_Type p = ''agent'' \<longrightarrow> (\<exists>s. p_OwnerPrincipalID p = Some s \<and> s \<noteq> '''')) \<and>
        (p_Type p \<noteq> ''agent'' \<longrightarrow>
           p_OwnerPrincipalID p = None \<and> p_Capabilities p = [] \<and> p_Purpose p = ''''))"

lemma Validate_None_iff:
  "Validate i = None \<longleftrightarrow>
     ni_Type i \<in> {Human, Service, Agent} \<and> ni_DisplayName i \<noteq> '''' \<and>
     (if ni_Type i = Agent then ni_OwnerPrincipalID i \<noteq> ''''
      else ni_OwnerPrincipalID i = '''' \<and> ni_Purpose i = '''' \<and> ni_Capabilities i = [])"
  by (auto simp: Validate_def Let_def)

lemma typeToProto_inverse: "protoToType t \<in> {Human, Service, Agent} \<Longrightarrow> typeToProto (protoToType t) = t"
  by (cases t) (simp_all add: typeToProto_def PrincipalType_defs)

text \<open>C37: A principal that was created is returned unchanged by a later lookup of its id, for every type
  and every combination of optional fields, as long as the connection works.\<close>

theorem create_then_get_principal:
  assumes "\<And>ep. keeps (db_rel (=)) (create ep)"
    and "principal_Handler_CreatePrincipal create cx m w = (Inr msg, w1)"
    and "db w2 = db w1" "faults w2 = []"
  shows "principal_Handler_GetPrincipal (pm_Id msg) w2 = (Inr msg, w2) \<and>
         pm_Type msg = cp_Type m \<and> pm_DisplayName msg = cp_DisplayName m"
proof -
  let ?i = "\<lparr>ni_Type = protoToType (cp_Type m), ni_DisplayName = cp_DisplayName m,
     ni_OwnerPrincipalID = cp_OwnerPrincipalId m, ni_Capabilities = cp_Capabilities m, ni_Purpose = cp_Purpose m\<rparr>"
  from assms(2) obtain p w3 w4 where run: "principal_Service_Create create ?i w3 = (Inr p, w4)"
    and msg: "msg = toProto p" "db w1 = db w4"
    unfolding principal_Handler_CreatePrincipal_def
    by (auto elim!: go_bind_InrD go_try_cases split: if_splits dest: Record_InrD)
  from run have v: "Validate ?i = None" by (auto simp: principal_Service_Create_def split: option.splits)
  obtain pid w5 where p: "p = \<lparr>pr_ID = pid, pr_Type = protoToType (cp_Type m), pr_DisplayName = cp_DisplayName m,
        pr_OwnerPrincipalID = cp_OwnerPrincipalId m, pr_Capabilities = cp_Capabilities m,
        pr_Purpose = cp_Purpose m, pr_OnBehalfOf = ''''\<rparr>"
    and ins: "principal_Store_Insert p w5 = (Inr (), w4)"
    using run v by (auto simp: principal_Service_Create_def Let_def elim!: go_bind_InrD)
  let ?row = "\<lparr>p_ID = pid, p_Type = protoToType (cp_Type m), p_DisplayName = cp_DisplayName m,
     p_OwnerPrincipalID = pgText (cp_OwnerPrincipalId m), p_Capabilities = cp_Capabilities m,
     p_Purpose = cp_Purpose m, p_OnBehalfOf = '''', p_CreatedAt = time_zero\<rparr>"
  from ins obtain now w6 where s: "sql (q_InsertPrincipal now ?row) w6 = (Inr (), w4)" and d6: "db w6 = db w5"
    unfolding principal_Store_Insert_def InsertPrincipal_def p by (auto elim!: go_bind_InrD dest: time_Now_InrD)
  define r where "r = ?row\<lparr>p_CreatedAt := timestamptz now\<rparr>"
  have r: "p_ID r = pid" "principal_of_row r = p"
    by (simp_all add: r_def p principal_of_row_def pgText_def)
  from sql_InrD [OF s] d6 obtain d where q: "q_InsertPrincipal now ?row (db w5) = Inr ((), d)" and d: "db w4 = d"
    by auto
  from q have new: "pid \<notin> set (map p_ID (principals (db w5)))" and "principals d = principals (db w5) @ [r]"
    by (auto simp: q_InsertPrincipal_def r_def split: if_splits)
  then have grown: "principals (db w4) = principals (db w5) @ [r]" by (simp add: d)
  have "find (\<lambda>r. p_ID r = pid) (principals (db w5)) = None" using new by (auto simp: find_None_iff)
  then have "find (\<lambda>x. p_ID x = pm_Id msg) (principals (db w2)) = Some r"
    using r(1) grown assms(3) msg by (simp add: find_append_None toProto_def p)
  with assms(4) r(2) msg have "principal_Handler_GetPrincipal (pm_Id msg) w2 = (Inr msg, w2)"
    by (simp add: principal_Handler_GetPrincipal_def principal_Service_Get_def principal_Store_Get_def q_GetPrincipal_def go_try_def)
  moreover have "typeToProto (protoToType (cp_Type m)) = cp_Type m"
    using v by (intro typeToProto_inverse) (simp add: Validate_None_iff)
  ultimately show ?thesis using msg(1) p by (simp add: toProto_def)
qed

end
