(* ===== verification/Delegation.thy ===== *)
theory Delegation
  imports Signingkey Principal Authz
begin

text \<open>
  \<open>internal/delegation\<close>: a principal lends part of its authority to an agent. The service
  issues a record and a signed token, the signer verifies tokens against the live keyset, the
  checker intersects the record's scope with the delegator's current permissions, and DPoP proofs
  bind a token to a key. The JOSE library is the parameter \<open>jose\<close>.
\<close>

record Delegation =
  dg_ID :: string
  dg_AgentID :: string
  dg_DelegatorID :: string
  dg_OrgID :: string
  dg_Scope :: "string list"
  dg_ExpiresAt :: time
  dg_Revoked :: bool
  dg_CnfJkt :: string

section \<open>Queries and store\<close>

definition q_InsertDelegation ::
  "uuid \<Rightarrow> time \<Rightarrow> string \<Rightarrow> string \<Rightarrow> uuid \<Rightarrow> string list \<Rightarrow> string \<Rightarrow> time \<Rightarrow> database \<Rightarrow> err + uuid \<times> database" where
  "q_InsertDelegation u now agent delegator oid scope jkt expires d =
     (if u \<in> set (map d_ID (delegations d)) then Inl UniqueViolation
      else if \<not> org_exists d oid then Inl ForeignKeyViolation
      else Inr (u, d\<lparr>delegations := delegations d @
              [\<lparr>d_ID = u, d_AgentPrincipalID = agent, d_DelegatorPrincipalID = delegator, d_OrgID = oid,
                d_Scope = scope, d_CnfJkt = jkt, d_ParentDelegationID = None,
                d_ExpiresAt = timestamptz expires, d_Revoked = False, d_CreatedAt = timestamptz now\<rparr>]\<rparr>))"

definition InsertDelegation ::
  "string \<Rightarrow> string \<Rightarrow> uuid \<Rightarrow> string list \<Rightarrow> string \<Rightarrow> time \<Rightarrow> (err, uuid) wact" where
  "InsertDelegation agent delegator oid scope jkt expires =
     go_bind gen_random_uuid (\<lambda>u. go_bind time_Now (\<lambda>now.
       sql (q_InsertDelegation u now agent delegator oid scope jkt expires)))"

definition GetDelegation :: "uuid \<Rightarrow> (err, delegation_row) wact" where
  "GetDelegation u = sql_one (\<lambda>d. find (\<lambda>r. d_ID r = u) (delegations d))"

definition q_RevokeDelegation :: "uuid \<Rightarrow> database \<Rightarrow> err + int \<times> database" where
  "q_RevokeDelegation u d =
     Inr (int (length (filter (\<lambda>r. d_ID r = u) (delegations d))),
          d\<lparr>delegations := map (\<lambda>r. if d_ID r = u then r\<lparr>d_Revoked := True\<rparr> else r) (delegations d)\<rparr>)"

definition RevokeDelegation :: "uuid \<Rightarrow> (err, int) wact" where
  "RevokeDelegation u = sql (q_RevokeDelegation u)"

definition dg_Store_Insert :: "pgtype \<Rightarrow> Delegation \<Rightarrow> (err, string) wact" where
  "dg_Store_Insert E d =
     (case uuid_Scan E (dg_OrgID d) of
        None \<Rightarrow> go_fail ErrBadUUID
      | Some oid \<Rightarrow>
          go_bind (InsertDelegation (dg_AgentID d) (dg_DelegatorID d) oid (dg_Scope d) (dg_CnfJkt d) (dg_ExpiresAt d))
            (\<lambda>u. go_ret (uuid_String E u)))"

definition dg_of_row :: "pgtype \<Rightarrow> delegation_row \<Rightarrow> Delegation" where
  "dg_of_row E r =
     \<lparr>dg_ID = uuid_String E (d_ID r), dg_AgentID = d_AgentPrincipalID r,
      dg_DelegatorID = d_DelegatorPrincipalID r, dg_OrgID = uuid_String E (d_OrgID r),
      dg_Scope = d_Scope r, dg_ExpiresAt = d_ExpiresAt r, dg_Revoked = d_Revoked r, dg_CnfJkt = d_CnfJkt r\<rparr>"

definition dg_Store_Get :: "pgtype \<Rightarrow> string \<Rightarrow> (err, Delegation) wact" where
  "dg_Store_Get E s =
     (case uuid_Scan E s of
        None \<Rightarrow> go_fail (ErrNotFound PDelegation)
      | Some u \<Rightarrow> go_try (GetDelegation u)
                   (\<lambda>e. if e = ErrNoRows then go_fail (ErrNotFound PDelegation) else go_fail e)
                   (\<lambda>r. go_ret (dg_of_row E r)))"

definition dg_Store_Revoke :: "pgtype \<Rightarrow> string \<Rightarrow> (err, unit) wact" where
  "dg_Store_Revoke E s =
     (case uuid_Scan E s of
        None \<Rightarrow> go_fail (ErrNotFound PDelegation)
      | Some u \<Rightarrow> go_bind (RevokeDelegation u) (\<lambda>n.
                   if n = 0 then go_fail (ErrNotFound PDelegation) else go_ret ()))"

section \<open>Signer\<close>

record Claims =
  cl_Subject :: string
  cl_Delegator :: string
  cl_DelegationID :: string
  cl_Scope :: "string list"
  cl_OrgID :: string
  cl_CnfJkt :: string
  cl_IssuedAt :: time
  cl_ExpiresAt :: time

record tokenClaims =
  tc_Iss :: string
  tc_Sub :: string
  tc_Exp :: int
  tc_Iat :: int
  tc_ActSub :: string
  tc_DID :: string
  tc_Scope :: "string list"
  tc_Org :: string
  tc_CnfJkt :: "string option"

record dpopPayload =
  dp_Htm :: string
  dp_Htu :: string
  dp_Iat :: int
  dp_Jti :: string
  dp_Ath :: string

text \<open>What a parsed proof carries: the number of signatures, the \<open>typ\<close> header where it is a
  string, and the embedded key where there is one.\<close>

record jws_proof =
  jp_Signatures :: nat
  jp_Typ :: "string option"
  jp_JWK :: "bytes option"

text \<open>The JOSE calls: signing claims with a key and \<open>kid\<close>, parsing a token to the \<open>kid\<close> of its
  first header, checking a token's signature and decoding its claims; the same for proofs; and the
  JSON document of a key set. SHA-256 is beside them.\<close>

record jose =
  jwt_Signed :: "bytes \<Rightarrow> string \<Rightarrow> tokenClaims \<Rightarrow> string option"
  jwt_ParseSigned :: "string \<Rightarrow> string option option"
  jwt_Claims :: "string \<Rightarrow> bytes \<Rightarrow> tokenClaims option"
  jws_ParseSigned :: "string \<Rightarrow> jws_proof option"
  jws_Verify :: "string \<Rightarrow> bytes \<Rightarrow> bytes option"
  dpop_Unmarshal :: "bytes \<Rightarrow> dpopPayload option"
  jwks_Marshal :: "(string \<times> bytes) list \<Rightarrow> bytes"
  sha256_Sum :: "bytes \<Rightarrow> bytes"

text \<open>What the code relies on: a signed token parses to its \<open>kid\<close> and verifies under the public
  key with the claims that were signed.\<close>

definition jose_ok :: "jose \<Rightarrow> key_crypto \<Rightarrow> bool" where
  "jose_ok J C \<longleftrightarrow>
     (\<forall>p kid tc t. jwt_Signed J p kid tc = Some t \<longrightarrow>
        jwt_ParseSigned J t = Some (Some kid) \<and> jwt_Claims J t (ec_PublicKey C p) = Some tc)"

text \<open>\<open>time.Unix(sec, 0)\<close>: seconds are counted from year 1 in 64 bits.\<close>

definition time_OfUnix :: "int \<Rightarrow> time" where
  "time_OfUnix s = (int64 (s + 62135596800) - 62135596800) * 1000000000"

type_synonym keyset_op = "(err, Keyset) wact"

definition token_claims :: "string \<Rightarrow> Claims \<Rightarrow> tokenClaims" where
  "token_claims issuer c =
     \<lparr>tc_Iss = issuer, tc_Sub = cl_Subject c, tc_Exp = time_Unix (cl_ExpiresAt c),
      tc_Iat = time_Unix (cl_IssuedAt c), tc_ActSub = cl_Delegator c, tc_DID = cl_DelegationID c,
      tc_Scope = cl_Scope c, tc_Org = cl_OrgID c,
      tc_CnfJkt = (if cl_CnfJkt c \<noteq> '''' then Some (cl_CnfJkt c) else None)\<rparr>"

definition Sign :: "jose \<Rightarrow> string \<Rightarrow> keyset_op \<Rightarrow> Claims \<Rightarrow> (err, string) wact" where
  "Sign J issuer keyset c =
     go_bind keyset (\<lambda>ks.
     case key_Priv (ks_Active ks) of
       None \<Rightarrow> go_fail (ErrText ''no active signing key'')
     | Some priv \<Rightarrow>
         (case jwt_Signed J priv (key_Kid (ks_Active ks)) (token_claims issuer c) of
            None \<Rightarrow> go_fail (ErrText ''sign'')
          | Some tok \<Rightarrow> go_ret tok))"

definition publicFor :: "key_crypto \<Rightarrow> string option \<Rightarrow> Keyset \<Rightarrow> err + bytes" where
  "publicFor C hdr ks =
     (let kid = (case hdr of None \<Rightarrow> '''' | Some s \<Rightarrow> s)
      in case find (\<lambda>k. key_Kid k = kid) (ks_All ks) of
           None \<Rightarrow> Inl (ErrText ''no signing key for kid'')
         | Some k \<Rightarrow> Inr (ec_PublicKey C (case key_Priv k of None \<Rightarrow> [] | Some p \<Rightarrow> p)))"

definition claims_of_token :: "tokenClaims \<Rightarrow> Claims" where
  "claims_of_token tc =
     \<lparr>cl_Subject = tc_Sub tc, cl_Delegator = tc_ActSub tc, cl_DelegationID = tc_DID tc,
      cl_Scope = tc_Scope tc, cl_OrgID = tc_Org tc,
      cl_CnfJkt = (case tc_CnfJkt tc of None \<Rightarrow> '''' | Some j \<Rightarrow> j),
      cl_IssuedAt = time_OfUnix (tc_Iat tc), cl_ExpiresAt = time_OfUnix (tc_Exp tc)\<rparr>"

definition Signer_Verify :: "jose \<Rightarrow> key_crypto \<Rightarrow> string \<Rightarrow> keyset_op \<Rightarrow> string \<Rightarrow> (err, Claims) wact" where
  "Signer_Verify J C issuer keyset token =
     (case jwt_ParseSigned J token of
        None \<Rightarrow> go_fail (ErrText ''parse'')
      | Some hdr \<Rightarrow>
          go_bind keyset (\<lambda>ks.
          go_bind (of_result (publicFor C hdr ks)) (\<lambda>pub.
          case jwt_Claims J token pub of
            None \<Rightarrow> go_fail (ErrText ''signature'')
          | Some tc \<Rightarrow>
              go_bind time_Now (\<lambda>now.
              if time_Unix now \<ge> tc_Exp tc then go_fail (ErrText ''delegation token expired'')
              else if tc_Iss tc \<noteq> issuer then go_fail (ErrText ''unexpected issuer'')
              else go_ret (claims_of_token tc)))))"

definition JWKS :: "jose \<Rightarrow> key_crypto \<Rightarrow> keyset_op \<Rightarrow> (err, bytes) wact" where
  "JWKS J C keyset =
     go_bind keyset (\<lambda>ks.
     go_ret (jwks_Marshal J (map (\<lambda>k. (key_Kid k, ec_PublicKey C (case key_Priv k of None \<Rightarrow> [] | Some p \<Rightarrow> p)))
       (ks_All ks))))"

text \<open>The handler of \<open>/.well-known/jwks.json\<close>: the headers it sets and the body.\<close>

definition JWKSHandler_serve ::
  "jose \<Rightarrow> key_crypto \<Rightarrow> keyset_op \<Rightarrow> (err, (string \<times> string) list \<times> bytes) wact" where
  "JWKSHandler_serve J C keyset =
     go_bind (JWKS J C keyset) (\<lambda>b.
     go_ret ([(''Content-Type'', ''application/json''), (''Cache-Control'', ''max-age=60'')], b))"

section \<open>DPoP\<close>

definition dpopFreshnessWindow :: duration where
  "dpopFreshnessWindow = 60 * second"

definition ATH :: "jose \<Rightarrow> string \<Rightarrow> string" where
  "ATH J accessToken = RawURLEncoding_EncodeToString (sha256_Sum J (bytes_of accessToken))"

definition parseDPoPProof :: "jose \<Rightarrow> string \<Rightarrow> err + bytes \<times> dpopPayload" where
  "parseDPoPProof J proof =
     (case jws_ParseSigned J proof of
        None \<Rightarrow> Inl (ErrText ''dpop: parse proof'')
      | Some jws \<Rightarrow>
          if jp_Signatures jws \<noteq> 1 then Inl (ErrText ''dpop: expected exactly one signature'')
          else if (case jp_Typ jws of None \<Rightarrow> '''' | Some t \<Rightarrow> t) \<noteq> ''dpop+jwt''
          then Inl (ErrText ''dpop: unexpected typ'')
          else case jp_JWK jws of
            None \<Rightarrow> Inl (ErrText ''dpop: missing embedded jwk header'')
          | Some jwk \<Rightarrow>
              (case jws_Verify J proof jwk of
                 None \<Rightarrow> Inl (ErrText ''dpop: signature verification failed'')
               | Some payload \<Rightarrow>
                   (case dpop_Unmarshal J payload of
                      None \<Rightarrow> Inl (ErrText ''dpop: invalid payload'')
                    | Some p \<Rightarrow> Inr (jwk, p))))"

definition jktFromJWK :: "key_crypto \<Rightarrow> bytes \<Rightarrow> err + string" where
  "jktFromJWK C jwk =
     (case jwk_Thumbprint C jwk of
        None \<Rightarrow> Inl (ErrText ''dpop: jwk thumbprint'')
      | Some tp \<Rightarrow> Inr (RawURLEncoding_EncodeToString tp))"

definition JKTFromProof :: "jose \<Rightarrow> key_crypto \<Rightarrow> string \<Rightarrow> err + string" where
  "JKTFromProof J C proof =
     (case parseDPoPProof J proof of Inl e \<Rightarrow> Inl e | Inr (jwk, p) \<Rightarrow> jktFromJWK C jwk)"

text \<open>The age of a proof; Go negates a 64-bit duration with wrap-around.\<close>

definition dpop_age :: "time \<Rightarrow> int \<Rightarrow> duration" where
  "dpop_age now iat =
     (let age = time_Sub now (time_OfUnix iat) in if age < 0 then int64 (- age) else age)"

definition VerifyDPoP ::
  "jose \<Rightarrow> key_crypto \<Rightarrow> string \<Rightarrow> string \<Rightarrow> string \<Rightarrow> string \<Rightarrow> string \<Rightarrow> (err, unit) wact" where
  "VerifyDPoP J C proof expectedJkt htm htu ath =
     go_bind (of_result (parseDPoPProof J proof)) (\<lambda>(jwk, p).
     go_bind (of_result (jktFromJWK C jwk)) (\<lambda>jkt.
     if jkt \<noteq> expectedJkt then go_fail (ErrText ''dpop: jkt mismatch'')
     else if dp_Htm p \<noteq> htm then go_fail (ErrText ''dpop: htm mismatch'')
     else if dp_Htu p \<noteq> htu then go_fail (ErrText ''dpop: htu mismatch'')
     else if ath \<noteq> '''' \<and> dp_Ath p \<noteq> ath then go_fail (ErrText ''dpop: ath mismatch'')
     else if dp_Iat p = 0 then go_fail (ErrText ''dpop: missing iat'')
     else go_bind time_Now (\<lambda>now.
       if dpop_age now (dp_Iat p) > dpopFreshnessWindow then go_fail (ErrText ''dpop: proof is not fresh'')
       else go_ret ())))"

section \<open>Service\<close>

definition MaxTTLSeconds :: int where
  "MaxTTLSeconds = 86400"

record IssueInput =
  ii_AgentID :: string
  ii_DelegatorID :: string
  ii_OrgID :: string
  ii_Scope :: "string list"
  ii_TTLSeconds :: int
  ii_CnfJkt :: string

definition dg_Service_Issue ::
  "pgtype \<Rightarrow> jose \<Rightarrow> string \<Rightarrow> keyset_op \<Rightarrow> TypeOf_op \<Rightarrow> IssueInput \<Rightarrow> (err, string \<times> string) wact" where
  "dg_Service_Issue E J issuer keyset typeOf i =
     (if ii_AgentID i = '''' \<or> ii_DelegatorID i = '''' \<or> ii_OrgID i = '''' \<or> ii_Scope i = [] \<or>
         ii_TTLSeconds i \<le> 0
      then go_fail (ErrInvalidInput PDelegation)
      else
        go_bind (typeOf (ii_DelegatorID i)) (\<lambda>dt.
        if dt = Agent then go_fail (ErrInvalidInput PDelegation)
        else if ii_TTLSeconds i > MaxTTLSeconds then go_fail (ErrInvalidInput PDelegation)
        else
          go_bind time_Now (\<lambda>now.
          let exp = time_Add now (dur_mul (ii_TTLSeconds i) second)
          in go_bind (dg_Store_Insert E
               \<lparr>dg_ID = '''', dg_AgentID = ii_AgentID i, dg_DelegatorID = ii_DelegatorID i,
                dg_OrgID = ii_OrgID i, dg_Scope = ii_Scope i, dg_ExpiresAt = exp, dg_Revoked = False,
                dg_CnfJkt = ii_CnfJkt i\<rparr>) (\<lambda>did.
             go_bind time_Now (\<lambda>iat.
             go_bind (Sign J issuer keyset
               \<lparr>cl_Subject = ii_AgentID i, cl_Delegator = ii_DelegatorID i, cl_DelegationID = did,
                cl_Scope = ii_Scope i, cl_OrgID = ii_OrgID i, cl_CnfJkt = ii_CnfJkt i,
                cl_IssuedAt = iat, cl_ExpiresAt = exp\<rparr>) (\<lambda>tok.
             go_ret (tok, did)))))))"

definition dg_Service_Get :: "pgtype \<Rightarrow> string \<Rightarrow> (err, Delegation) wact" where
  "dg_Service_Get E s = dg_Store_Get E s"

definition dg_Service_Revoke :: "pgtype \<Rightarrow> string \<Rightarrow> (err, unit) wact" where
  "dg_Service_Revoke E s = (if s = '''' then go_fail (ErrInvalidInput PDelegation) else dg_Store_Revoke E s)"

section \<open>Checker\<close>

definition contains :: "string list \<Rightarrow> string \<Rightarrow> bool" where
  "contains xs x \<longleftrightarrow> x \<in> set xs"

definition CheckDelegatedDPoP ::
  "pgtype \<Rightarrow> jose \<Rightarrow> key_crypto \<Rightarrow> string \<Rightarrow> keyset_op \<Rightarrow> Check_op \<Rightarrow>
   string \<Rightarrow> string \<Rightarrow> Resource \<Rightarrow> string \<Rightarrow> string \<Rightarrow> string \<Rightarrow> (err, bool) wact" where
  "CheckDelegatedDPoP E J C issuer keyset check token action res proof htm htu =
     go_try (Signer_Verify J C issuer keyset token) (\<lambda>_. go_ret False) (\<lambda>claims.
     go_try (if proof \<noteq> '''' \<and> htm \<noteq> '''' \<and> htu \<noteq> ''''
             then VerifyDPoP J C proof (cl_CnfJkt claims) htm htu (ATH J token) else go_ret ())
       (\<lambda>_. go_ret False) (\<lambda>_.
     go_try (dg_Store_Get E (cl_DelegationID claims)) (\<lambda>_. go_ret False) (\<lambda>d.
     if dg_Revoked d then go_ret False
     else go_bind time_Now (\<lambda>now.
       if now > dg_ExpiresAt d then go_ret False
       else if res_OrgID res \<noteq> dg_OrgID d then go_ret False
       else if \<not> contains (dg_Scope d) action then go_ret False
       else check (dg_DelegatorID d) action res))))"

definition CheckDelegated ::
  "pgtype \<Rightarrow> jose \<Rightarrow> key_crypto \<Rightarrow> string \<Rightarrow> keyset_op \<Rightarrow> Check_op \<Rightarrow>
   string \<Rightarrow> string \<Rightarrow> Resource \<Rightarrow> (err, bool) wact" where
  "CheckDelegated E J C issuer keyset check token action res =
     CheckDelegatedDPoP E J C issuer keyset check token action res '''' '''' ''''"

section \<open>Handler\<close>

definition dg_code :: "err \<Rightarrow> rpc_error" where
  "dg_code e =
     (if e = ErrInvalidInput PDelegation then NewError CodeInvalidArgument
      else if e = ErrNotFound PDelegation then NewError CodeNotFound
      else NewError CodeInternal)"

definition dg_Handler_Issue ::
  "pgtype \<Rightarrow> jose \<Rightarrow> string \<Rightarrow> keyset_op \<Rightarrow> TypeOf_op \<Rightarrow> ctx \<Rightarrow> IssueInput \<Rightarrow> (rpc_error, string \<times> string) wact" where
  "dg_Handler_Issue E J issuer keyset typeOf cx m =
     (case CallerFromContext cx of
        None \<Rightarrow> go_fail (NewError CodeUnauthenticated)
      | Some c \<Rightarrow>
          if \<not> c_SystemAdmin c \<and> c_PrincipalID c \<noteq> ii_DelegatorID m
          then go_fail (NewError CodePermissionDenied)
          else
            go_try (dg_Service_Issue E J issuer keyset typeOf m) (\<lambda>e. go_fail (dg_code e)) (\<lambda>(tok, did).
            go_bind (Record cx (actor_event cx ''delegation.issue'' ''delegation'' did (ii_OrgID m) OutcomeSuccess
                       (Some [''agent'' \<mapsto> ii_AgentID m, ''delegator'' \<mapsto> ii_DelegatorID m,
                              ''scope_count'' \<mapsto> strconv_Itoa (int (length (ii_Scope m)))]))) (\<lambda>_.
            go_ret (tok, did))))"

definition dg_Handler_Revoke :: "pgtype \<Rightarrow> ctx \<Rightarrow> string \<Rightarrow> (rpc_error, unit) wact" where
  "dg_Handler_Revoke E cx delegationId =
     (case CallerFromContext cx of
        None \<Rightarrow> go_fail (NewError CodeUnauthenticated)
      | Some c \<Rightarrow>
          go_try (dg_Service_Get E delegationId) (\<lambda>e. go_fail (dg_code e)) (\<lambda>d.
          if \<not> c_SystemAdmin c \<and> c_PrincipalID c \<noteq> dg_DelegatorID d
          then go_fail (NewError CodePermissionDenied)
          else
            go_try (dg_Service_Revoke E delegationId) (\<lambda>e. go_fail (dg_code e)) (\<lambda>_.
            Record cx (actor_event cx ''delegation.revoke'' ''delegation'' delegationId (dg_OrgID d)
              OutcomeSuccess None))))"

record CheckDelegatedRequest =
  cd_Token :: string
  cd_Action :: string
  cd_ResourceType :: string
  cd_ResourceId :: string
  cd_OrgId :: string
  cd_TeamId :: string
  cd_DpopProof :: string
  cd_HttpMethod :: string
  cd_HttpUri :: string

definition dg_Handler_CheckDelegated ::
  "pgtype \<Rightarrow> jose \<Rightarrow> key_crypto \<Rightarrow> string \<Rightarrow> keyset_op \<Rightarrow> Check_op \<Rightarrow> ctx \<Rightarrow> CheckDelegatedRequest \<Rightarrow>
   (rpc_error, bool) wact" where
  "dg_Handler_CheckDelegated E J C issuer keyset check cx m =
     go_try (CheckDelegatedDPoP E J C issuer keyset check (cd_Token m) (cd_Action m)
               \<lparr>res_Type = cd_ResourceType m, res_ID = cd_ResourceId m, res_OrgID = cd_OrgId m,
                res_TeamID = cd_TeamId m\<rparr> (cd_DpopProof m) (cd_HttpMethod m) (cd_HttpUri m))
       (\<lambda>e. go_fail (dg_code e)) (\<lambda>allowed.
     go_bind (Record cx (actor_event cx ''authz.decision'' (cd_ResourceType m) (cd_ResourceId m) (cd_OrgId m)
                (if allowed then OutcomeSuccess else OutcomeDenied)
                (Some [''action'' \<mapsto> cd_Action m, ''via'' \<mapsto> ''delegation'', ''allowed'' \<mapsto> boolStr allowed]))) (\<lambda>_.
     go_ret allowed))"

section \<open>What the operations leave alone\<close>

context db_order begin

lemma keeps_dg_reads [keeps_rules]:
  "keeps (db_rel Q) (dg_Store_Get E s)" "keeps (db_rel Q) (dg_Service_Get E s)"
  "keeps (db_rel Q) (VerifyDPoP J C proof jkt htm htu ath)"
  unfolding dg_Service_Get_def dg_Store_Get_def GetDelegation_def VerifyDPoP_def
  by (intro keeps_rules)+

lemma keeps_signer [keeps_rules]:
  assumes "keeps (db_rel Q) keyset"
  shows "keeps (db_rel Q) (Sign J issuer keyset c)" "keeps (db_rel Q) (Signer_Verify J C issuer keyset t)"
    "keeps (db_rel Q) (JWKS J C keyset)"
  unfolding Sign_def Signer_Verify_def JWKS_def by (intro keeps_rules assms)+

lemma keeps_CheckDelegatedDPoP [keeps_rules]:
  assumes "keeps (db_rel Q) keyset" "\<And>s a r. keeps (db_rel Q) (check s a r)"
  shows "keeps (db_rel Q) (CheckDelegatedDPoP E J C issuer keyset check t a res proof htm htu)"
  unfolding CheckDelegatedDPoP_def by (intro keeps_rules assms)

lemma keeps_dg_Handler_CheckDelegated [keeps_rules]:
  assumes "keeps (db_rel Q) keyset" "\<And>s a r. keeps (db_rel Q) (check s a r)"
  shows "keeps (db_rel Q) (dg_Handler_CheckDelegated E J C issuer keyset check cx m)"
  unfolding dg_Handler_CheckDelegated_def by (intro keeps_rules assms)

end

section \<open>The verdict of a delegated check\<close>

lemma dg_Store_Get_InrD:
  assumes "dg_Store_Get E s w = (Inr d, w')"
  obtains r where "r \<in> set (delegations (db w))" "uuid_Scan E s = Some (d_ID r)" "d = dg_of_row E r"
    "find (\<lambda>x. d_ID x = d_ID r) (delegations (db w)) = Some r" "db w' = db w"
proof -
  from assms obtain u r where "uuid_Scan E s = Some u"
    "find (\<lambda>r. d_ID r = u) (delegations (db w)) = Some r" "d = dg_of_row E r" "db w' = db w"
    by (auto simp: dg_Store_Get_def GetDelegation_def go_try_def
        split: option.splits prod.splits sum.splits if_splits dest!: sql_one_InrD)
  with find_SomeD [of "\<lambda>r. d_ID r = u" "delegations (db w)" r] that [of r] show thesis by auto
qed

text \<open>A token that verifies is signed by a key of the keyset.\<close>

lemma Signer_Verify_InrD:
  assumes "Signer_Verify J C issuer keyset t w = (Inr c, w')"
  obtains pub tc where "jwt_Claims J t pub = Some tc" "c = claims_of_token tc" "tc_Iss tc = issuer"
  using assms
  by (auto simp: Signer_Verify_def split: option.splits if_splits elim!: go_bind_InrD)

context authz_checker begin

text \<open>An accepted delegated request rests on a record that is neither revoked nor expired, is for
  the organisation asked about, has the action in its scope, and whose delegator is permitted the
  action now. The agent's own roles do not enter.\<close>

lemma delegated_sound:
  assumes keys: "keeps (db_rel (=)) keyset" and kclk: "keeps clock_rel keyset"
    and run: "CheckDelegatedDPoP E J C issuer keyset check token action res proof htm htu w = (Inr True, w')"
  shows "\<exists>tc pub. \<exists>r \<in> set (delegations (db w)).
     jwt_Claims J token pub = Some tc \<and> tc_Iss tc = issuer \<and> uuid_Scan E (tc_DID tc) = Some (d_ID r) \<and>
     \<not> d_Revoked r \<and> clock w \<le> d_ExpiresAt r \<and> uuid_String E (d_OrgID r) = res_OrgID res \<and>
     action \<in> set (d_Scope r) \<and> spec (db w) (d_DelegatorPrincipalID r) action res = Some True"
proof -
  let ?dpop = "\<lambda>c. if proof \<noteq> '''' \<and> htm \<noteq> '''' \<and> htu \<noteq> ''''
      then VerifyDPoP J C proof (cl_CnfJkt c) htm htu (ATH J token) else go_ret ()"
  from run obtain c w1 u w2 d w3 now w4 where
    ver: "Signer_Verify J C issuer keyset token w = (Inr c, w1)"
    and dpop: "?dpop c w1 = (Inr u, w2)"
    and get: "dg_Store_Get E (cl_DelegationID c) w2 = (Inr d, w3)"
    and now: "time_Now w3 = (Inr now :: err + time, w4)"
    and ok: "\<not> dg_Revoked d" "\<not> now > dg_ExpiresAt d" "res_OrgID res = dg_OrgID d" "contains (dg_Scope d) action"
    and chk: "check (dg_DelegatorID d) action res w4 = (Inr True, w')"
    unfolding CheckDelegatedDPoP_def
    by (auto elim!: go_try_cases go_bind_InrD split: if_splits)
  have kd: "keeps (db_rel (=)) (?dpop c)" "keeps clock_rel (?dpop c)"
    unfolding VerifyDPoP_def by (intro keeps_rules)+
  have kv: "keeps clock_rel (Signer_Verify J C issuer keyset token)"
    unfolding Signer_Verify_def by (intro keeps_rules kclk)
  have kg: "keeps clock_rel (dg_Store_Get E (cl_DelegationID c))"
    unfolding dg_Store_Get_def GetDelegation_def by (intro keeps_rules)
  have d: "db w2 = db w"
    using keeps_sameD [OF same_db.keeps_signer(2) [OF keys] ver] keeps_sameD [OF kd(1) dpop] by simp
  have t: "clock w \<le> now"
    using keeps_clkD [OF kv ver] keeps_clkD [OF kd(2) dpop] keeps_clkD [OF kg get] time_Now_InrD [OF now]
    by simp
  from get obtain r where r: "r \<in> set (delegations (db w2))" "uuid_Scan E (cl_DelegationID c) = Some (d_ID r)"
    "d = dg_of_row E r" "db w3 = db w2" by (rule dg_Store_Get_InrD)
  from ver obtain pub tc where tc: "jwt_Claims J token pub = Some tc" "c = claims_of_token tc" "tc_Iss tc = issuer"
    by (rule Signer_Verify_InrD)
  have "spec (db w4) (dg_DelegatorID d) action res = Some True" by (rule check_sound [OF chk])
  moreover have "db w4 = db w" using time_Now_InrD [OF now] r(4) d by simp
  ultimately show ?thesis
    using r tc ok t d
    by (intro exI [of _ tc] exI [of _ pub] bexI [of _ r])
       (auto simp: dg_of_row_def claims_of_token_def contains_def)
qed

end

lemma clk_Manager_Keyset: "keeps clock_rel (Manager_Keyset C kek opt)"
  unfolding Manager_Keyset_def by (intro keeps_rules clk_refresh)

lemmas keyset_keeps = same_db.keeps_Manager_Keyset clk_Manager_Keyset

text \<open>C3: Attenuation. When a delegated check answers yes, the token names a delegation record that
  is not revoked, not expired, of the organisation asked about and with the action in its scope, and
  the delegator itself is permitted the action by the current tables.\<close>

theorem delegated_check_attenuates:
  assumes "CheckDelegatedDPoP E J C issuer (Manager_Keyset C kek opt) (authz_Service_Check E)
             token action res proof htm htu w = (Inr True, w')"
  shows "\<exists>tc pub. \<exists>r \<in> set (delegations (db w)).
     jwt_Claims J token pub = Some tc \<and> tc_Iss tc = issuer \<and> uuid_Scan E (tc_DID tc) = Some (d_ID r) \<and>
     \<not> d_Revoked r \<and> clock w \<le> d_ExpiresAt r \<and> uuid_String E (d_OrgID r) = res_OrgID res \<and>
     action \<in> set (d_Scope r) \<and> check_spec E (db w) (d_DelegatorPrincipalID r) action res = Some True"
  by (rule rbac.delegated_sound [OF keyset_keeps assms])

section \<open>Issuing\<close>

lemma InsertDelegation_outcome:
  assumes "InsertDelegation agent delegator oid scope jkt expires w = (r, w')"
  shows "(db w' = db w \<and> (\<forall>u. r \<noteq> Inr u)) \<or>
    (\<exists>x. db w' = (db w)\<lparr>delegations := delegations (db w) @ [x]\<rparr> \<and> (\<forall>u. r = Inr u \<longrightarrow> u = d_ID x) \<and>
       d_AgentPrincipalID x = agent \<and> d_DelegatorPrincipalID x = delegator \<and> d_OrgID x = oid \<and>
       d_Scope x = scope \<and> d_CnfJkt x = jkt \<and> d_ExpiresAt x = timestamptz expires \<and> \<not> d_Revoked x \<and>
       d_ParentDelegationID x = None \<and> org_exists (db w) oid \<and> d_ID x \<notin> set (map d_ID (delegations (db w))))"
proof -
  obtain u w1 where u: "gen_random_uuid w = (Inr u :: err + uuid, w1)" "db w1 = db w"
    by (rule gen_random_uuid_total)
  obtain now w2 where t: "time_Now w1 = (Inr now :: err + time, w2)" "db w2 = db w1"
    by (rule time_Now_total)
  define x where "x = \<lparr>d_ID = u, d_AgentPrincipalID = agent, d_DelegatorPrincipalID = delegator, d_OrgID = oid,
      d_Scope = scope, d_CnfJkt = jkt, d_ParentDelegationID = None, d_ExpiresAt = timestamptz expires,
      d_Revoked = False, d_CreatedAt = timestamptz now\<rparr>"
  have s: "sql (q_InsertDelegation u now agent delegator oid scope jkt expires) w2 = (r, w')"
    using assms u(1) t(1) by (simp add: InsertDelegation_def go_bind_cases)
  have q: "q_InsertDelegation u now agent delegator oid scope jkt expires (db w) =
      (if u \<in> set (map d_ID (delegations (db w))) then Inl UniqueViolation
       else if \<not> org_exists (db w) oid then Inl ForeignKeyViolation
       else Inr (u, (db w)\<lparr>delegations := delegations (db w) @ [x]\<rparr>))"
    by (simp add: q_InsertDelegation_def x_def)
  have "(db w' = db w \<and> (\<forall>u. r \<noteq> Inr u)) \<or>
      u \<notin> set (map d_ID (delegations (db w))) \<and> org_exists (db w) oid \<and> (\<forall>v. r = Inr v \<longrightarrow> v = u) \<and>
      db w' = (db w)\<lparr>delegations := delegations (db w) @ [x]\<rparr>"
    using s u(2) t(2) unfolding sql_def
    by (auto simp: q split: prod.splits fault.splits if_splits)
  then show ?thesis by (auto simp: x_def)
qed

text \<open>Whatever happens, issuing adds nothing or one record as the request describes it, within the
  maximal lifetime and from a delegator that is not an agent.\<close>

lemma dg_Service_Issue_outcome:
  assumes run: "dg_Service_Issue E J issuer keyset TypeOf i w = (r, w')"
    and keys: "keeps (db_rel (=)) keyset" "keeps clock_rel keyset"
  shows "(db w' = db w \<and> (\<forall>x. r \<noteq> Inr x)) \<or>
    (\<exists>x t. db w' = (db w)\<lparr>delegations := delegations (db w) @ [x]\<rparr> \<and>
       (\<forall>tok did. r = Inr (tok, did) \<longrightarrow> did = uuid_String E (d_ID x)) \<and>
       d_AgentPrincipalID x = ii_AgentID i \<and> d_DelegatorPrincipalID x = ii_DelegatorID i \<and>
       uuid_Scan E (ii_OrgID i) = Some (d_OrgID x) \<and> d_Scope x = ii_Scope i \<and> ii_Scope i \<noteq> [] \<and>
       d_CnfJkt x = ii_CnfJkt i \<and> \<not> d_Revoked x \<and> d_ParentDelegationID x = None \<and>
       org_exists (db w) (d_OrgID x) \<and> d_ID x \<notin> set (map d_ID (delegations (db w))) \<and>
       d_ExpiresAt x \<le> clock w' + MaxTTLSeconds * second \<and>
       type_of_principal (db w) (ii_DelegatorID i) = Some t \<and> t \<noteq> Agent)"
proof -
  obtain r1 w1 where ty: "TypeOf (ii_DelegatorID i) w = (r1, w1)" by fastforce
  have d1: "db w1 = db w" by (rule types.typeOf_reads [OF ty])
  show ?thesis
  proof (cases "(ii_AgentID i = '''' \<or> ii_DelegatorID i = '''' \<or> ii_OrgID i = '''' \<or> ii_Scope i = [] \<or>
         ii_TTLSeconds i \<le> 0) \<or> (\<exists>e. r1 = Inl e) \<or> r1 = Inr Agent \<or> MaxTTLSeconds < ii_TTLSeconds i \<or>
         uuid_Scan E (ii_OrgID i) = None")
    case True
    then have "db w' = db w \<and> (\<exists>e. r = Inl e)"
      using run ty d1 time_Now_InrD [where 'a = err]
      by (cases r1) (auto simp: dg_Service_Issue_def go_bind_cases dg_Store_Insert_def Let_def
          split: if_splits prod.splits sum.splits)
    then show ?thesis by auto
  next
    case False
    then obtain dt oid where dt: "r1 = Inr dt" "dt \<noteq> Agent" and oid: "uuid_Scan E (ii_OrgID i) = Some oid"
      by (cases r1) auto
    obtain now w2 where now: "time_Now w1 = (Inr now :: err + time, w2)" "clock w2 = now" "db w2 = db w1"
      by (rule time_Now_total)
    define exp where "exp = time_Add now (dur_mul (ii_TTLSeconds i) second)"
    obtain r3 w3 where ins: "InsertDelegation (ii_AgentID i) (ii_DelegatorID i) oid (ii_Scope i) (ii_CnfJkt i) exp w2
        = (r3, w3)" by fastforce
    define rest where "rest = (\<lambda>u. go_bind time_Now (\<lambda>iat. go_bind (Sign J issuer keyset
               \<lparr>cl_Subject = ii_AgentID i, cl_Delegator = ii_DelegatorID i, cl_DelegationID = uuid_String E u,
                cl_Scope = ii_Scope i, cl_OrgID = ii_OrgID i, cl_CnfJkt = ii_CnfJkt i,
                cl_IssuedAt = iat, cl_ExpiresAt = exp\<rparr>) (\<lambda>tok. go_ret (tok, uuid_String E u))))"
    have krest: "keeps (db_rel (=)) (rest u)" "keeps clock_rel (rest u)" for u
      unfolding rest_def Sign_def by (intro keeps_rules keys)+
    have cont: "(case r3 of Inl e \<Rightarrow> (Inl e, w3) | Inr u \<Rightarrow> rest u w3) = (r, w')"
      using run False ty dt oid now(1) ins
      by (simp add: dg_Service_Issue_def go_bind_cases dg_Store_Insert_def Let_def exp_def rest_def
          split: sum.splits)
    have d': "db w' = db w3 \<and> clock w3 \<le> clock w'"
      using cont keeps_sameD [OF krest(1)] keeps_clkD [OF krest(2)] by (cases r3) auto
    have "keeps clock_rel (InsertDelegation (ii_AgentID i) (ii_DelegatorID i) oid (ii_Scope i) (ii_CnfJkt i) exp)"
      unfolding InsertDelegation_def by (intro keeps_rules)
    from keeps_clkD [OF this ins] have clk: "now \<le> clock w'" using d' now(2) by simp
    have "dur_mul (ii_TTLSeconds i) second = ii_TTLSeconds i * second"
      unfolding dur_mul_def using False by (intro int64_id) (auto simp: second_def MaxTTLSeconds_def)
    moreover have "timestamptz exp \<le> exp" by (simp add: timestamptz_def truncate_us_le)
    ultimately have bound: "timestamptz exp \<le> clock w' + MaxTTLSeconds * second"
      using False clk by (auto simp: exp_def time_Add_def second_def)
    have did: "did = uuid_String E u" if "r = Inr (tok, did)" "r3 = Inr u" for tok did u
      using cont that by (auto simp: rest_def elim!: go_bind_InrD)
    have fail: "\<forall>x. r \<noteq> Inr x" if "\<forall>u. r3 \<noteq> Inr u" using cont that by (cases r3) auto
    from InsertDelegation_outcome [OF ins] show ?thesis
    proof (elim disjE exE conjE)
      assume "db w3 = db w2" "\<forall>u. r3 \<noteq> Inr u"
      then show ?thesis using d' now(3) d1 fail by simp
    next
      fix x
      assume x: "db w3 = (db w2)\<lparr>delegations := delegations (db w2) @ [x]\<rparr>" "\<forall>u. r3 = Inr u \<longrightarrow> u = d_ID x"
        "d_AgentPrincipalID x = ii_AgentID i" "d_DelegatorPrincipalID x = ii_DelegatorID i" "d_OrgID x = oid"
        "d_Scope x = ii_Scope i" "d_CnfJkt x = ii_CnfJkt i" "d_ExpiresAt x = timestamptz exp" "\<not> d_Revoked x"
        "d_ParentDelegationID x = None" "org_exists (db w2) oid" "d_ID x \<notin> set (map d_ID (delegations (db w2)))"
      have "r = Inr (tok, did) \<Longrightarrow> did = uuid_String E (d_ID x)" for tok did
        using did x(2) cont by (cases r3) auto
      then show ?thesis
        using x d' now(3) d1 dt types.typeOf_ok [of "ii_DelegatorID i" w dt w1] ty oid bound False
        by (intro disjI2 exI [of _ x] exI [of _ dt]) auto
    qed
  qed
qed

text \<open>C22: An issued delegation is bounded: a success adds exactly one record, unrevoked, for the
  requested agent, delegator, organisation and scope, expiring within 24 hours, and its delegator is
  a recorded principal that is not an agent.\<close>

theorem issued_delegation_bounded:
  assumes "dg_Service_Issue E J issuer (Manager_Keyset C kek opt) TypeOf i w = (Inr (tok, did), w')"
  shows "\<exists>x t. db w' = (db w)\<lparr>delegations := delegations (db w) @ [x]\<rparr> \<and> did = uuid_String E (d_ID x) \<and>
       d_AgentPrincipalID x = ii_AgentID i \<and> d_DelegatorPrincipalID x = ii_DelegatorID i \<and>
       uuid_Scan E (ii_OrgID i) = Some (d_OrgID x) \<and> d_Scope x = ii_Scope i \<and> ii_Scope i \<noteq> [] \<and>
       \<not> d_Revoked x \<and> d_ExpiresAt x \<le> clock w' + 24 * 3600 * second \<and>
       type_of_principal (db w) (ii_DelegatorID i) = Some t \<and> t \<noteq> Agent"
  using dg_Service_Issue_outcome [OF assms keyset_keeps] by (auto simp: MaxTTLSeconds_def)

section \<open>Proofs of possession\<close>

lemma dpop_age_abs:
  assumes "now - time_OfUnix iat < 2 ^ 63" "time_OfUnix iat - now < 2 ^ 63"
  shows "dpop_age now iat = \<bar>now - time_OfUnix iat\<bar>"
  using assms by (auto simp: dpop_age_def time_Sub_def Let_def int64_id)

text \<open>C36: An accepted proof is signed by the embedded key whose thumbprint is the one bound into the
  token, names this method, URI and token, and, when its timestamp is within 292 years of the clock,
  was made at most 60 seconds from it.\<close>

theorem VerifyDPoP_sound:
  assumes "VerifyDPoP J C proof expectedJkt htm htu ath w = (Inr u, w')"
  shows "\<exists>jwk p payload. jws_Verify J proof jwk = Some payload \<and> dpop_Unmarshal J payload = Some p \<and>
     jktFromJWK C jwk = Inr expectedJkt \<and> dp_Htm p = htm \<and> dp_Htu p = htu \<and>
     (ath \<noteq> '''' \<longrightarrow> dp_Ath p = ath) \<and> dp_Iat p \<noteq> 0 \<and>
     (\<bar>clock w' - time_OfUnix (dp_Iat p)\<bar> < 2 ^ 63 \<longrightarrow> \<bar>clock w' - time_OfUnix (dp_Iat p)\<bar> \<le> 60 * second)"
proof -
  from assms obtain jwk p now w1 where parse: "parseDPoPProof J proof = Inr (jwk, p)"
    and jkt: "jktFromJWK C jwk = Inr expectedJkt"
    and claims: "dp_Htm p = htm" "dp_Htu p = htu" "ath \<noteq> '''' \<longrightarrow> dp_Ath p = ath" "dp_Iat p \<noteq> 0"
    and now: "time_Now w1 = (Inr now :: err + time, w')" and age: "dpop_age now (dp_Iat p) \<le> dpopFreshnessWindow"
    unfolding VerifyDPoP_def
    by (auto elim!: go_bind_InrD simp: of_result_def split: sum.splits if_splits)
  have "\<exists>payload. jws_Verify J proof jwk = Some payload \<and> dpop_Unmarshal J payload = Some p"
    using parse by (auto simp: parseDPoPProof_def split: option.splits if_splits)
  moreover have "clock w' = now" using time_Now_InrD [OF now] by simp
  moreover have "\<bar>now - time_OfUnix (dp_Iat p)\<bar> < 2 ^ 63 \<Longrightarrow> \<bar>now - time_OfUnix (dp_Iat p)\<bar> \<le> 60 * second"
    using dpop_age_abs [of now "dp_Iat p"] age by (simp add: dpopFreshnessWindow_def)
  ultimately show ?thesis using jkt claims by blast
qed

text \<open>C40: The freshness check does not hold for every timestamp: a proof dated more than 292 years
  ahead saturates the subtraction, its negation wraps to a negative age, and the proof is accepted
  however long ago it was made.\<close>

theorem VerifyDPoP_accepts_far_future:
  assumes "parseDPoPProof J proof = Inr (jwk, p)" "jktFromJWK C jwk = Inr expectedJkt"
    and "dp_Htm p = htm" "dp_Htu p = htu" "ath = '''' \<or> dp_Ath p = ath" "dp_Iat p \<noteq> 0"
    and "ticks w = []" "clock w + 2 ^ 63 \<le> time_OfUnix (dp_Iat p)"
  shows "fst (VerifyDPoP J C proof expectedJkt htm htu ath w) = Inr ()"
proof -
  have "time_Sub (clock w) (time_OfUnix (dp_Iat p)) = - (2 ^ 63)"
    using assms(8) by (simp add: time_Sub_def)
  then have "dpop_age (clock w) (dp_Iat p) = - (2 ^ 63)"
    by (simp add: dpop_age_def int64_def)
  then show ?thesis
    using assms by (auto simp: VerifyDPoP_def go_bind_cases of_result_def time_Now_def
        dpopFreshnessWindow_def second_def)
qed

end
