(* ===== verification/Audit_Chain.thy ===== *)
theory Audit_Chain
  imports Audit_Log
begin

text \<open>
  The hash chain of \<open>internal/audit/store.go\<close>: what \<open>Append\<close> adds is what \<open>Verify\<close>
  accepts, one chain's appends leave the other chains alone, a failed append adds nothing or
  the whole batch, and two accepted chains with the same length and last hash carry the same
  events unless the hash collides.
\<close>

section \<open>Verification of concatenated chains\<close>

definition end_hash :: "bytes \<Rightarrow> audit_row list \<Rightarrow> bytes" where
  "end_hash prev rs = (if rs = [] then prev else au_Hash (last rs))"

definition end_seq :: "int \<Rightarrow> audit_row list \<Rightarrow> int" where
  "end_seq n rs = (if rs = [] then n else au_Seq (last rs))"

definition accepted :: "audit_codec \<Rightarrow> bytes \<Rightarrow> int \<Rightarrow> audit_row list \<Rightarrow> bool" where
  "accepted C prev n rs \<longleftrightarrow> fst (verify_loop C prev n rs)"

lemma end_Nil [simp]: "end_hash prev [] = prev" "end_seq n [] = n"
  by (simp_all add: end_hash_def end_seq_def)

lemma end_Cons [simp]:
  "end_hash prev (r # rs) = end_hash (au_Hash r) rs" "end_seq n (r # rs) = end_seq (au_Seq r) rs"
  by (simp_all add: end_hash_def end_seq_def)

lemma accepted_Nil [simp]: "accepted C prev n []"
  by (simp add: accepted_def)

lemma accepted_Cons:
  "accepted C prev n (r # rs) \<longleftrightarrow>
     au_Seq r = int64 (n + 1) \<and> row_hash C r prev = au_Hash r \<and> au_PrevHash r = prev \<and>
     accepted C (au_Hash r) (au_Seq r) rs"
  by (auto simp: accepted_def Let_def)

lemma accepted_append:
  "accepted C prev n (xs @ ys) \<longleftrightarrow>
     accepted C prev n xs \<and> accepted C (end_hash prev xs) (end_seq n xs) ys"
  by (induction xs arbitrary: prev n) (auto simp: accepted_Cons)

lemma verify_loop_accepted: "accepted C prev n rs \<Longrightarrow> verify_loop C prev n rs = (True, 0)"
  by (induction rs arbitrary: prev n) (auto simp: accepted_def Let_def split: if_splits)

text \<open>An accepted chain numbers its rows from the start without gaps.\<close>

lemma accepted_seq:
  "accepted C prev n rs \<Longrightarrow> 0 \<le> n \<Longrightarrow> n + int (length rs) < 2 ^ 63 \<Longrightarrow>
     map au_Seq rs = map (\<lambda>i. n + 1 + int i) [0..<length rs]"
proof (induction rs arbitrary: prev n)
  case (Cons r rs)
  have seq: "au_Seq r = n + 1"
    using Cons.prems by (simp add: accepted_Cons int64_id)
  have "map au_Seq rs = map (\<lambda>i. n + 2 + int i) [0..<length rs]"
    using Cons.IH [of "au_Hash r" "n + 1"] Cons.prems seq by (simp add: accepted_Cons)
  then show ?case
    using seq by (simp add: upt_conv_Cons map_Suc_upt [symmetric] del: upt_Suc)
qed simp

lemma accepted_end_seq:
  assumes "accepted C prev 0 rs" "int (length rs) < 2 ^ 63"
  shows "end_seq 0 rs = int (length rs)"
proof (cases "rs = []")
  case False
  have "au_Seq (last rs) = last (map au_Seq rs)" using False by (simp add: last_map)
  also have "\<dots> = int (length rs)"
    using accepted_seq [OF assms(1)] assms(2) False
    by (simp add: last_map of_nat_diff Suc_leI)
  finally show ?thesis using False by (simp add: end_seq_def)
qed simp

section \<open>What an append inserts\<close>

definition audit_grows :: "database \<Rightarrow> audit_row list \<Rightarrow> database \<Rightarrow> bool" where
  "audit_grows d rows d' \<longleftrightarrow> d' = d\<lparr>audit_events := audit_events d @ rows\<rparr>"

definition redacted :: "audit_event \<Rightarrow> audit_event" where
  "redacted e = e\<lparr>ev_Detail := Redact (ev_Detail e)\<rparr>"

lemma audit_grows_refl [simp]: "audit_grows d [] d"
  by (simp add: audit_grows_def)

lemma audit_grows_trans:
  "audit_grows a xs b \<Longrightarrow> audit_grows b ys c \<Longrightarrow> audit_grows a (xs @ ys) c"
  by (simp add: audit_grows_def)

lemma InsertAuditEvent_InrD:
  assumes "InsertAuditEvent C r w = (Inr (), w')"
  shows "\<exists>j. jsonb C (au_Detail r) = Some j \<and> audit_grows (db w) [r\<lparr>au_Detail := j\<rparr>] (db w')"
  using sql_InrD [OF assms [unfolded InsertAuditEvent_def]]
  by (auto simp: q_InsertAuditEvent_def audit_grows_def split: option.splits if_splits)

lemma stored_row_accepted:
  assumes "json_codec C" and "jsonb C (json_Marshal C (ev_Detail e)) = Some j"
    and h: "h = canonicalHash C seq (int64 (truncate_us t)) e prev"
  shows "row_hash C ((event_row C chain seq (truncate_us t) e prev h)\<lparr>au_Detail := j\<rparr>) prev = h"
    and "row_event C ((event_row C chain seq (truncate_us t) e prev h)\<lparr>au_Detail := j\<rparr>) = e"
proof -
  have "json_Unmarshal C j = ev_Detail e" using assms(1,2) by (auto simp: json_codec_def)
  then show ev: "row_event C ((event_row C chain seq (truncate_us t) e prev h)\<lparr>au_Detail := j\<rparr>) = e"
    by (cases e) (simp add: row_event_def event_row_def)
  show "row_hash C ((event_row C chain seq (truncate_us t) e prev h)\<lparr>au_Detail := j\<rparr>) prev = h"
    using ev by (simp add: row_hash_def event_row_def h timestamptz_def)
qed

lemma append_loop_InrD:
  assumes "json_codec C" and "append_loop C chain seq prev es w = (Inr (), w')"
  shows "\<exists>rows. audit_grows (db w) rows (db w') \<and> length rows = length es \<and>
           (\<forall>r \<in> set rows. au_Chain r = chain) \<and> accepted C prev seq rows \<and>
           map (row_event C) rows = map redacted es"
  using assms(2)
proof (induction es arbitrary: seq prev w)
  case Nil
  then show ?case by (intro exI [of _ "[]"]) simp
next
  case (Cons e es)
  define e' where "e' = e\<lparr>ev_Detail := Redact (ev_Detail e)\<rparr>"
  obtain t w1 where t: "time_Now w = (Inr t :: err + time, w1)" and d1: "db w1 = db w"
    by (rule time_Now_total)
  define h where "h = canonicalHash C (int64 (seq + 1)) (int64 (truncate_us t)) e' prev"
  define r where "r = event_row C chain (int64 (seq + 1)) (truncate_us t) e' prev h"
  from Cons.prems have "go_bind (InsertAuditEvent C r) (\<lambda>_. append_loop C chain (int64 (seq + 1)) h es) w1
      = (Inr (), w')"
    by (simp add: go_bind_cases [of time_Now] t Let_def e'_def h_def r_def)
  then obtain u w2 where ins: "InsertAuditEvent C r w1 = (Inr (), w2)"
    and rest: "append_loop C chain (int64 (seq + 1)) h es w2 = (Inr (), w')"
    by (rule go_bind_InrD) auto
  from InsertAuditEvent_InrD [OF ins] obtain j where
    j: "jsonb C (au_Detail r) = Some j" and g: "audit_grows (db w1) [r\<lparr>au_Detail := j\<rparr>] (db w2)"
    by auto
  from Cons.IH [OF rest] obtain rows where
    rows: "audit_grows (db w2) rows (db w')" "length rows = length es"
      "\<forall>r \<in> set rows. au_Chain r = chain" "accepted C h (int64 (seq + 1)) rows"
      "map (row_event C) rows = map redacted es"
    by auto
  have jd: "jsonb C (json_Marshal C (ev_Detail e')) = Some j" using j by (simp add: r_def event_row_def)
  note stored = stored_row_accepted [OF assms(1) jd h_def, of chain, folded r_def]
  then have "accepted C prev seq (r\<lparr>au_Detail := j\<rparr> # rows)"
    using rows(4) by (simp add: accepted_Cons r_def event_row_def)
  moreover have "audit_grows (db w) (r\<lparr>au_Detail := j\<rparr> # rows) (db w')"
    using audit_grows_trans [OF g rows(1)] d1 by simp
  moreover have "au_Chain (r\<lparr>au_Detail := j\<rparr>) = chain" by (simp add: r_def event_row_def)
  ultimately show ?case
    using rows(2,3,5) stored(2)
    by (intro exI [of _ "r\<lparr>au_Detail := j\<rparr> # rows"]) (auto simp: redacted_def e'_def)
qed

section \<open>Append and Verify\<close>

lemma insort_key_append_above:
  "(\<And>y. y \<in> set ys \<Longrightarrow> f x \<le> f y) \<Longrightarrow> insort_key f x (zs @ ys) = insort_key f x zs @ ys"
  by (induction zs) (cases ys, auto)

lemma sort_key_append_above:
  "sorted (map f ys) \<Longrightarrow> (\<And>x y. x \<in> set xs \<Longrightarrow> y \<in> set ys \<Longrightarrow> f x \<le> f y) \<Longrightarrow>
     sort_key f (xs @ ys) = sort_key f xs @ ys"
  by (induction xs) (auto simp: insort_key_append_above sort_key_id_if_sorted)

lemma chain_rows_grows:
  assumes "audit_grows d rows d'" "\<forall>r \<in> set rows. au_Chain r = chain" "sorted (map au_Seq rows)"
    and "\<And>x y. x \<in> set (chain_rows chain d) \<Longrightarrow> y \<in> set rows \<Longrightarrow> au_Seq x \<le> au_Seq y"
  shows "chain_rows chain d' = chain_rows chain d @ rows"
proof -
  have "filter (\<lambda>r. au_Chain r = chain) rows = rows" using assms(2) by simp
  then show ?thesis
    using assms(1) sort_key_append_above [OF assms(3), of "filter (\<lambda>r. au_Chain r = chain) (audit_events d)"]
      assms(4)
    by (simp add: audit_grows_def chain_rows_def)
qed

lemma chain_rows_grows_other:
  assumes "audit_grows d rows d'" "\<forall>r \<in> set rows. au_Chain r = chain" "chain' \<noteq> chain"
  shows "chain_rows chain' d' = chain_rows chain' d"
proof -
  have "filter (\<lambda>r. au_Chain r = chain') rows = []" using assms(2,3) by (simp add: filter_empty_conv)
  then show ?thesis using assms(1) by (simp add: audit_grows_def chain_rows_def)
qed

lemma AuditChainHead_InrD:
  "AuditChainHead chain w = (Inr (seq, h), w') \<Longrightarrow>
     seq = end_seq 0 (chain_rows chain (db w)) \<and> h = end_hash genesis (chain_rows chain (db w)) \<and>
     db w' = db w"
  unfolding AuditChainHead_def
  by (auto dest!: sql_one_InrD split: list.splits simp: end_seq_def end_hash_def last_rev
      simp flip: rev_swap)

lemma AuditChainHead_NoRowsD:
  assumes "AuditChainHead chain w = (Inl ErrNoRows, w')"
  shows "chain_rows chain (db w) = [] \<and> db w' = db w"
proof -
  have "db w' = db w" by (rule keeps_sameD [OF same_db.keeps_AuditChainHead assms])
  with assms show ?thesis
    by (auto simp: AuditChainHead_def sql_one_def sql_def split: prod.splits fault.splits sum.splits
        list.splits option.splits)
qed

text \<open>A completed transaction body extends the chain from its head.\<close>

lemma append_tx_InrD:
  assumes "json_codec C" and "append_tx C chain es w = (Inr (), w')"
  shows "\<exists>rows. audit_grows (db w) rows (db w') \<and> length rows = length es \<and>
           (\<forall>r \<in> set rows. au_Chain r = chain) \<and>
           accepted C (end_hash genesis (chain_rows chain (db w))) (end_seq 0 (chain_rows chain (db w))) rows \<and>
           map (row_event C) rows = map redacted es"
proof -
  from assms(2) obtain u w1 where lock: "advisory_lock chain w = (Inr u, w1)"
    and rest: "go_try (AuditChainHead chain)
          (\<lambda>e. if e = ErrNoRows then append_loop C chain 0 genesis es else go_fail e)
          (\<lambda>(seq, hash). append_loop C chain seq hash es) w1 = (Inr (), w')"
    unfolding append_tx_def by (rule go_bind_InrD)
  have d1: "db w1 = db w" using lock by (auto simp: advisory_lock_def dest: sql_read_InrD)
  from rest show ?thesis
  proof (cases rule: go_try_cases)
    case (err e w2)
    then have "e = ErrNoRows" and loop: "append_loop C chain 0 genesis es w2 = (Inr (), w')"
      by (auto split: if_splits)
    with AuditChainHead_NoRowsD [of chain w1 w2] err(1) d1
    have "chain_rows chain (db w) = []" "db w2 = db w" by simp_all
    with append_loop_InrD [OF assms(1) loop] show ?thesis by simp
  next
    case (ok x w2)
    obtain seq h where x: "x = (seq, h)" by (cases x)
    have loop: "append_loop C chain seq h es w2 = (Inr (), w')" using ok(2) x by simp
    have "seq = end_seq 0 (chain_rows chain (db w))" "h = end_hash genesis (chain_rows chain (db w))"
      "db w2 = db w"
      using AuditChainHead_InrD [of chain w1 seq h w2] ok(1) x d1 by simp_all
    with append_loop_InrD [OF assms(1) loop] show ?thesis by simp
  qed
qed

text \<open>Whatever the connection does, the tables are as before or the whole batch is in; a reported
  success means the latter.\<close>

lemma Append_outcome:
  assumes "json_codec C" and "Append C chain es w = (r, w')"
  obtains (nothing) e where "r = Inl e" "db w' = db w"
    | (all) rows where "audit_grows (db w) rows (db w')" "length rows = length es"
        "\<forall>r \<in> set rows. au_Chain r = chain"
        "accepted C (end_hash genesis (chain_rows chain (db w))) (end_seq 0 (chain_rows chain (db w))) rows"
        "map (row_event C) rows = map redacted es"
proof (cases "es = []")
  case True
  with assms(2) all [of "[]"] show thesis by (simp add: Append_def)
next
  case False
  with assms(2) have "in_tx (append_tx C chain es) w = (r, w')" by (simp add: Append_def)
  then show thesis
  proof (cases rule: in_tx_cases)
    case rolled_back
    then show thesis by (rule nothing)
  next
    case (committed w1 w2 x)
    with append_tx_InrD [OF assms(1), of chain es w1 w2] all show thesis by (cases x) auto
  qed
qed

section \<open>Properties\<close>

lemma accepted_bounds:
  assumes "accepted C prev n rows" "0 \<le> n" "n + int (length rows) < 2 ^ 63"
  shows "sorted (map au_Seq rows)" and "\<And>r. r \<in> set rows \<Longrightarrow> n < au_Seq r \<and> au_Seq r \<le> n + int (length rows)"
proof -
  note seqs = accepted_seq [OF assms]
  show "sorted (map au_Seq rows)"
    by (simp add: seqs sorted_iff_nth_mono)
  fix r assume "r \<in> set rows"
  then have "au_Seq r \<in> set (map (\<lambda>i. n + 1 + int i) [0..<length rows])"
    unfolding seqs [symmetric] by simp
  then show "n < au_Seq r \<and> au_Seq r \<le> n + int (length rows)" by auto
qed

lemma chain_grown:
  assumes ok: "accepted C genesis 0 (chain_rows chain d)"
    and g: "audit_grows d rows d'" and c: "\<forall>r \<in> set rows. au_Chain r = chain"
    and acc: "accepted C (end_hash genesis (chain_rows chain d)) (end_seq 0 (chain_rows chain d)) rows"
    and len: "int (length (chain_rows chain d)) + int (length rows) < 2 ^ 63"
  shows "chain_rows chain d' = chain_rows chain d @ rows" and "accepted C genesis 0 (chain_rows chain d')"
proof -
  let ?old = "chain_rows chain d"
  have n: "end_seq 0 ?old = int (length ?old)" using accepted_end_seq [OF ok] len by simp
  have new: "sorted (map au_Seq rows)" "\<And>r. r \<in> set rows \<Longrightarrow> int (length ?old) < au_Seq r"
    using accepted_bounds [OF acc] len by (auto simp: n)
  have old: "\<And>r. r \<in> set ?old \<Longrightarrow> au_Seq r \<le> int (length ?old)"
    using accepted_bounds(2) [OF ok] len by auto
  show "chain_rows chain d' = ?old @ rows"
    by (rule chain_rows_grows [OF g c new(1)]) (use new(2) old in force)
  then show "accepted C genesis 0 (chain_rows chain d')" using ok acc by (simp add: accepted_append)
qed

lemma Append_grows:
  assumes "json_codec C"
    and ok: "accepted C genesis 0 (chain_rows chain (db w))"
    and len: "int (length (chain_rows chain (db w))) + int (length es) < 2 ^ 63"
    and app: "Append C chain es w = (Inr (), w')"
  shows "\<exists>rows. chain_rows chain (db w') = chain_rows chain (db w) @ rows \<and> length rows = length es \<and>
           accepted C genesis 0 (chain_rows chain (db w')) \<and> map (row_event C) rows = map redacted es \<and>
           (\<forall>chain'. chain' \<noteq> chain \<longrightarrow> chain_rows chain' (db w') = chain_rows chain' (db w))"
  using assms(1) app
proof (cases rule: Append_outcome)
  case (all rows)
  with chain_grown [OF ok all(1,3,4)] len chain_rows_grows_other [OF all(1,3)] show ?thesis
    by (intro exI [of _ rows]) simp
qed simp

text \<open>C12: After an append that reports success, \<open>Verify\<close> accepts the chain, which has grown by
  exactly the appended events in their order, with sensitive details removed; every other chain is
  untouched.\<close>

theorem append_then_verify:
  assumes "json_codec C"
    and "accepted C genesis 0 (chain_rows chain (db w))"
    and "int (length (chain_rows chain (db w))) + int (length es) < 2 ^ 63"
    and "Append C chain es w = (Inr (), w')"
  shows "verify_loop C genesis 0 (chain_rows chain (db w')) = (True, 0) \<and>
         (\<exists>rows. chain_rows chain (db w') = chain_rows chain (db w) @ rows \<and>
            map (row_event C) rows = map redacted es) \<and>
         (\<forall>chain'. chain' \<noteq> chain \<longrightarrow> chain_rows chain' (db w') = chain_rows chain' (db w))"
  using Append_grows [OF assms] verify_loop_accepted by blast

text \<open>C33: An append is atomic: whatever the connection does, the tables are unchanged or the whole
  batch has been added.\<close>

theorem append_atomic:
  assumes "json_codec C" and "Append C chain es w = (r, w')"
  shows "(db w' = db w \<and> r \<noteq> Inr ()) \<or>
         (\<exists>rows. audit_grows (db w) rows (db w') \<and> length rows = length es)"
  using assms by (rule Append_outcome) auto

definition event_of_row :: "audit_codec \<Rightarrow> audit_row \<Rightarrow> canonicalRecord" where
  "event_of_row C r = canonical (au_Seq r) (int64 (truncate_us (au_Ts r))) (row_event C r)"

text \<open>Two chains that exhibit a hash collision: at some position different inputs carry the same
  hash.\<close>

definition chains_collide :: "audit_codec \<Rightarrow> audit_row list \<Rightarrow> audit_row list \<Rightarrow> bool" where
  "chains_collide C xs ys \<longleftrightarrow>
     (\<exists>i < length xs.
        (event_of_row C (xs ! i), au_PrevHash (xs ! i)) \<noteq> (event_of_row C (ys ! i), au_PrevHash (ys ! i)) \<and>
        sha256 C (json_record C (event_of_row C (xs ! i)) @ au_PrevHash (xs ! i)) =
        sha256 C (json_record C (event_of_row C (ys ! i)) @ au_PrevHash (ys ! i)))"

lemma chains_collide_Cons:
  "chains_collide C (x # xs) (y # ys) \<longleftrightarrow>
     (event_of_row C x, au_PrevHash x) \<noteq> (event_of_row C y, au_PrevHash y) \<and>
     sha256 C (json_record C (event_of_row C x) @ au_PrevHash x) =
     sha256 C (json_record C (event_of_row C y) @ au_PrevHash y) \<or> chains_collide C xs ys"
  unfolding chains_collide_def by (auto simp: less_Suc_eq_0_disj)

lemma row_hash_event: "row_hash C r p = sha256 C (json_record C (event_of_row C r) @ p)"
  by (simp add: row_hash_def event_of_row_def canonicalHash_def)

lemma tamper_evident_aux:
  "length xs = length ys \<Longrightarrow> accepted C p n xs \<Longrightarrow> accepted C p' n' ys \<Longrightarrow>
     end_hash p xs = end_hash p' ys \<Longrightarrow> \<not> chains_collide C xs ys \<Longrightarrow>
     map (event_of_row C) xs = map (event_of_row C) ys \<and> p = p'"
proof (induction xs ys arbitrary: p p' n n' rule: list_induct2)
  case (Cons x xs y ys)
  have tail: "map (event_of_row C) xs = map (event_of_row C) ys \<and> au_Hash x = au_Hash y"
    using Cons by (auto simp: accepted_Cons chains_collide_Cons)
  have "row_hash C x p = row_hash C y p'" using Cons.prems tail by (simp add: accepted_Cons)
  then have "(event_of_row C x, p) = (event_of_row C y, p')"
    using Cons.prems by (auto simp: accepted_Cons chains_collide_Cons row_hash_event)
  with tail show ?case by simp
qed simp



end
