(* ===== verification/Recorder.thy ===== *)
theory Recorder
  imports Audit_Chain Org
begin

text \<open>
  The background half of the audit recorder (\<open>internal/audit/recorder.go\<close>: \<open>drainUpTo\<close>,
  \<open>append\<close>, \<open>flush\<close>, \<open>drainAll\<close>, \<open>Run\<close>), the filtered listing of \<open>store.go\<close> and the
  \<open>AuditService\<close> handler (\<open>handler.go\<close>). The order in which Go visits the map of chains is
  unspecified; it is the parameter \<open>ord\<close>, which permutes the chains of a batch.
\<close>

section \<open>Draining the channel\<close>

definition drainUpTo :: "nat \<Rightarrow> world \<Rightarrow> queued list \<times> world" where
  "drainUpTo n w = (take n (chan w), w\<lparr>chan := drop n (chan w)\<rparr>)"

fun byChain :: "queued list \<Rightarrow> (string \<rightharpoonup> audit_event list) \<Rightarrow> string \<rightharpoonup> audit_event list" where
  "byChain [] m = m"
| "byChain (q # qs) m =
     byChain qs (m(q_chain q \<mapsto> (case m (q_chain q) of None \<Rightarrow> [] | Some es \<Rightarrow> es) @ [q_e q]))"

type_synonym map_order = "string list \<Rightarrow> string list"

definition range_order :: "map_order \<Rightarrow> bool" where
  "range_order ord \<longleftrightarrow> (\<forall>ks. distinct ks \<longrightarrow> distinct (ord ks) \<and> set (ord ks) = set ks)"

text \<open>A failed \<open>Append\<close> is only logged.\<close>

fun append_chains :: "audit_codec \<Rightarrow> (string \<rightharpoonup> audit_event list) \<Rightarrow> string list \<Rightarrow> world \<Rightarrow> world" where
  "append_chains C m [] w = w"
| "append_chains C m (k # ks) w =
     append_chains C m ks (snd (Append C k (case m k of None \<Rightarrow> [] | Some es \<Rightarrow> es) w))"

definition append_batch :: "audit_codec \<Rightarrow> map_order \<Rightarrow> queued list \<Rightarrow> world \<Rightarrow> world" where
  "append_batch C ord batch =
     append_chains C (byChain batch Map.empty) (ord (remdups (map q_chain batch)))"

definition flush :: "audit_codec \<Rightarrow> map_order \<Rightarrow> nat \<Rightarrow> world \<Rightarrow> world" where
  "flush C ord n w =
     (case drainUpTo n w of (batch, w1) \<Rightarrow> if batch = [] then w1 else append_batch C ord batch w1)"

text \<open>The loop of \<open>drainAll\<close> ends because \<open>Append\<close> leaves the channel alone.\<close>

definition same_chan :: "world \<Rightarrow> world \<Rightarrow> bool" where
  "same_chan w w' \<longleftrightarrow> chan w' = chan w"

interpretation ch: state_order same_chan
  by unfold_locales (auto simp: same_chan_def)

lemma chan_next_fault: "next_fault w = (f, w') \<Longrightarrow> chan w' = chan w"
  by (cases "faults w") (auto simp: next_fault_def)

lemma ch_sql [keeps_rules]: "keeps same_chan (sql q)"
proof (rule keepsI)
  fix w
  obtain f w1 where f: "next_fault w = (f, w1)" by fastforce
  from chan_next_fault [OF f] show "same_chan w (snd (sql q w))"
    by (cases f) (simp_all add: same_chan_def sql_def f split: sum.split prod.split)
qed

lemma ch_sql_read [keeps_rules]: "keeps same_chan (sql_read q)"
  unfolding sql_read_def by (rule ch_sql)

lemma ch_sql_one [keeps_rules]: "keeps same_chan (sql_one q)"
  unfolding sql_one_def by (rule ch_sql)

lemma ch_time_Now [keeps_rules]: "keeps same_chan time_Now"
  by (rule keepsI) (simp add: same_chan_def time_Now_def Let_def)

lemma ch_in_tx [keeps_rules]:
  assumes "keeps same_chan m"
  shows "keeps same_chan (in_tx m)"
proof (rule keepsI)
  fix w
  obtain f w1 where f: "next_fault w = (f, w1)" by fastforce
  obtain r w2 where m: "m w1 = (r, w2)" by fastforce
  obtain g w3 where g: "next_fault w2 = (g, w3)" by fastforce
  have "chan w2 = chan w" "chan w3 = chan w" "chan w1 = chan w"
    using keeps_eqD [OF assms m] chan_next_fault [OF f] chan_next_fault [OF g]
    by (simp_all add: same_chan_def)
  then show "same_chan w (snd (in_tx m w))"
    by (cases f; cases r; cases g) (simp_all add: same_chan_def in_tx_def f m g)
qed

lemma ch_append_loop: "keeps same_chan (append_loop C chain seq prev es)"
  by (induction es arbitrary: seq prev) (auto simp: Let_def InsertAuditEvent_def intro!: keeps_rules)

lemma chan_Append [simp]: "chan (snd (Append C chain es w)) = chan w"
proof -
  have "keeps same_chan (Append C chain es)"
    unfolding Append_def append_tx_def advisory_lock_def AuditChainHead_def
    by (intro keeps_rules ch_append_loop)
  then show ?thesis by (auto dest: keepsD [of same_chan _ w] simp: same_chan_def)
qed

lemma chan_append_chains [simp]: "chan (append_chains C m ks w) = chan w"
  by (induction ks arbitrary: w) simp_all

lemma chan_append_batch [simp]: "chan (append_batch C ord batch w) = chan w"
  by (simp add: append_batch_def)

function drainAll :: "audit_codec \<Rightarrow> map_order \<Rightarrow> world \<Rightarrow> world" where
  "drainAll C ord w =
     (case drainUpTo 256 w of (batch, w1) \<Rightarrow>
        if batch = [] then w1 else drainAll C ord (append_batch C ord batch w1))"
  by pat_completeness auto
termination
  by (relation "measure (\<lambda>(C, ord, w). length (chan w))") (auto simp: drainUpTo_def)

declare drainAll.simps [simp del]

text \<open>The iterations of the goroutine \<open>Run\<close>, interleaved with the calls of \<open>Record\<close> by the request
  handlers: the worker takes one event and what has queued up behind it, a tick flushes, and a
  cancelled context drains the channel.\<close>

inductive run_step ::
  "audit_codec \<Rightarrow> map_order \<Rightarrow> bool \<times> world \<Rightarrow> bool \<times> world \<Rightarrow> bool" for C ord where
  handler_records: "run_step C ord (b, w) (b, snd (Record cx e w :: (err + unit) \<times> world))"
| received: "chan w = q # qs \<Longrightarrow> drainUpTo 255 (w\<lparr>chan := qs\<rparr>) = (rest, w1) \<Longrightarrow>
     run_step C ord (True, w) (True, append_batch C ord (q # rest) w1)"
| ticked: "run_step C ord (True, w) (True, flush C ord 256 w)"
| cancelled: "run_step C ord (True, w) (False, drainAll C ord w)"

inductive_cases run_stepE: "run_step C ord s s'"

section \<open>Listing\<close>

record StoredEvent =
  se_Seq :: int
  se_Ts :: time
  se_Event :: audit_event

record ListFilter =
  lf_Chain :: string
  lf_ActorID :: string
  lf_Action :: string
  lf_Outcome :: string
  lf_From :: time
  lf_To :: time
  lf_Limit :: int
  lf_AfterSeq :: int

definition list_matches :: "ListFilter \<Rightarrow> audit_row \<Rightarrow> bool" where
  "list_matches f r \<longleftrightarrow>
     au_Chain r = lf_Chain f \<and>
     (lf_ActorID f = '''' \<or> au_ActorID r = lf_ActorID f) \<and>
     (lf_Action f = '''' \<or> au_Action r = lf_Action f) \<and>
     (lf_Outcome f = '''' \<or> au_Outcome r = lf_Outcome f) \<and>
     timestamptz (lf_From f) \<le> au_Ts r \<and> au_Ts r \<le> timestamptz (lf_To f) \<and>
     (au_Seq r < lf_AfterSeq f \<or> lf_AfterSeq f = 0)"

definition ListAuditEvents :: "ListFilter \<Rightarrow> (err, audit_row list) wact" where
  "ListAuditEvents f =
     sql_read (\<lambda>d. take (nat (lf_Limit f))
       (rev (sort_key au_Ts (sort_key au_Seq (filter (list_matches f) (audit_events d))))))"

definition stored_event :: "audit_codec \<Rightarrow> audit_row \<Rightarrow> StoredEvent" where
  "stored_event C r = \<lparr>se_Seq = au_Seq r, se_Ts = au_Ts r, se_Event = row_event C r\<rparr>"

definition audit_Store_List :: "audit_codec \<Rightarrow> ListFilter \<Rightarrow> (err, StoredEvent list) wact" where
  "audit_Store_List C f =
     (let f1 = (if lf_Limit f \<le> 0 \<or> lf_Limit f > 200 then f\<lparr>lf_Limit := 100\<rparr> else f);
          f2 = (if lf_From f1 = time_zero then f1\<lparr>lf_From := 0\<rparr> else f1)
      in go_bind (if lf_To f2 = time_zero
                  then go_bind time_Now (\<lambda>t. go_ret (f2\<lparr>lf_To := time_Add t (3600 * second)\<rparr>))
                  else go_ret f2) (\<lambda>f3.
         go_bind (ListAuditEvents f3) (\<lambda>rows. go_ret (map (stored_event C) rows))))"

section \<open>The handler\<close>

definition audit_authorize :: "pgtype \<Rightarrow> ctx \<Rightarrow> string \<Rightarrow> (rpc_error, unit) wact" where
  "audit_authorize E cx orgID =
     (if orgID = '''' \<or> orgID = ''system'' then RequireSystemAdmin cx
      else go_bind (RequireMember cx (org_Store_IsMember E) orgID) (\<lambda>_. go_ret ()))"

record ListRequest =
  lr_OrgId :: string
  lr_ActorId :: string
  lr_Action :: string
  lr_Outcome :: string
  lr_From :: string
  lr_To :: string
  lr_PageSize :: int
  lr_AfterSeq :: int

text \<open>An event of the response: the stored event with its time as text.\<close>

definition event_proto :: "rfc3339 \<Rightarrow> StoredEvent \<Rightarrow> int \<times> string \<times> audit_event" where
  "event_proto F e = (se_Seq e, rfc_Format F (se_Ts e), se_Event e)"

definition parsed_time :: "rfc3339 \<Rightarrow> string \<Rightarrow> time" where
  "parsed_time F s =
     (if s \<noteq> '''' then (case rfc_Parse F s of None \<Rightarrow> time_zero | Some t \<Rightarrow> t) else time_zero)"

definition audit_Handler_List ::
  "audit_codec \<Rightarrow> rfc3339 \<Rightarrow> pgtype \<Rightarrow> ctx \<Rightarrow> ListRequest \<Rightarrow>
     (rpc_error, (int \<times> string \<times> audit_event) list \<times> int) wact" where
  "audit_Handler_List C F E cx req =
     go_bind (audit_authorize E cx (lr_OrgId req)) (\<lambda>_.
       let f = \<lparr>lf_Chain = ChainOf (lr_OrgId req), lf_ActorID = lr_ActorId req,
                lf_Action = lr_Action req, lf_Outcome = lr_Outcome req,
                lf_From = parsed_time F (lr_From req), lf_To = parsed_time F (lr_To req),
                lf_Limit = lr_PageSize req, lf_AfterSeq = lr_AfterSeq req\<rparr>
       in go_try (audit_Store_List C f) (\<lambda>_. go_fail (NewError CodeInternal)) (\<lambda>evs.
            go_ret (map (event_proto F) evs, if evs = [] then 0 else se_Seq (last evs))))"

definition audit_Handler_Verify ::
  "audit_codec \<Rightarrow> pgtype \<Rightarrow> ctx \<Rightarrow> string \<Rightarrow> (rpc_error, bool \<times> int) wact" where
  "audit_Handler_Verify C E cx orgID =
     (let chain = ChainOf orgID
      in go_bind (audit_authorize E cx orgID) (\<lambda>_.
           go_try (Verify C chain) (\<lambda>_. go_fail (NewError CodeInternal)) go_ret))"

context db_order begin

lemma keeps_audit_Store_List [keeps_rules]: "keeps (db_rel Q) (audit_Store_List C f)"
  unfolding audit_Store_List_def ListAuditEvents_def by (intro keeps_rules)

lemma keeps_audit_authorize [keeps_rules]: "keeps (db_rel Q) (audit_authorize E cx orgID)"
  unfolding audit_authorize_def by (intro keeps_rules)

lemma keeps_audit_Handler_List [keeps_rules]: "keeps (db_rel Q) (audit_Handler_List C F E cx req)"
  unfolding audit_Handler_List_def by (intro keeps_rules)

lemma keeps_audit_Handler_Verify [keeps_rules]: "keeps (db_rel Q) (audit_Handler_Verify C E cx orgID)"
  unfolding audit_Handler_Verify_def by (intro keeps_rules)

end

section \<open>Appends that cannot fail\<close>

definition details_ok :: "audit_codec \<Rightarrow> audit_event list \<Rightarrow> bool" where
  "details_ok C es \<longleftrightarrow> (\<forall>e \<in> set es. jsonb C (json_Marshal C (Redact (ev_Detail e))) \<noteq> None)"

lemma append_loop_healthy:
  assumes "faults w = []" "details_ok C es" "0 \<le> seq" "seq + int (length es) < 2 ^ 63"
    and "\<forall>r \<in> set (audit_events (db w)). au_Chain r = chain \<longrightarrow> au_Seq r \<le> seq"
  shows "\<exists>w'. append_loop C chain seq prev es w = (Inr (), w')"
  using assms
proof (induction es arbitrary: seq prev w)
  case (Cons e es)
  define e' where "e' = e\<lparr>ev_Detail := Redact (ev_Detail e)\<rparr>"
  obtain t w1 where t: "time_Now w = (Inr t :: err + time, w1)" and w1: "db w1 = db w" "faults w1 = faults w"
    by (rule time_Now_total)
  have i: "int64 (seq + 1) = seq + 1" using Cons.prems by (intro int64_id) auto
  define h where "h = canonicalHash C (seq + 1) (int64 (truncate_us t)) e' prev"
  define r where "r = event_row C chain (seq + 1) (truncate_us t) e' prev h"
  have sel: "au_Chain r = chain" "au_Seq r = seq + 1" "au_Detail r = json_Marshal C (Redact (ev_Detail e))"
    by (simp_all add: r_def event_row_def e'_def)
  obtain j where j: "jsonb C (au_Detail r) = Some j" using Cons.prems(2) sel(3) by (auto simp: details_ok_def)
  have fresh: "(chain, seq + 1) \<notin> set (map (\<lambda>a. (au_Chain a, au_Seq a)) (audit_events (db w)))"
  proof
    assume "(chain, seq + 1) \<in> set (map (\<lambda>a. (au_Chain a, au_Seq a)) (audit_events (db w)))"
    then obtain a where "a \<in> set (audit_events (db w))" "au_Chain a = chain" "au_Seq a = seq + 1" by auto
    with Cons.prems(5) have "au_Seq a \<le> seq" by blast
    with \<open>au_Seq a = seq + 1\<close> show False by linarith
  qed
  define w2 where "w2 = w1\<lparr>db := (db w)\<lparr>audit_events := audit_events (db w) @ [r\<lparr>au_Detail := j\<rparr>]\<rparr>\<rparr>"
  have ins: "InsertAuditEvent C r w1 = (Inr (), w2)"
    using j fresh w1 Cons.prems(1) by (simp add: InsertAuditEvent_def q_InsertAuditEvent_def sel w2_def)
  have "\<exists>w'. append_loop C chain (seq + 1) h es w2 = (Inr (), w')"
  proof (rule Cons.IH)
    show "faults w2 = []" using Cons.prems(1) w1(2) by (simp add: w2_def)
    show "\<forall>r \<in> set (audit_events (db w2)). au_Chain r = chain \<longrightarrow> au_Seq r \<le> seq + 1"
      using Cons.prems(5) sel by (fastforce simp: w2_def)
  qed (use Cons.prems in \<open>simp_all add: details_ok_def\<close>)
  moreover have "append_loop C chain seq prev (e # es) w = append_loop C chain (seq + 1) h es w2"
    unfolding append_loop.simps go_bind_Inr [of time_Now, OF t] Let_def i e'_def [symmetric]
      h_def [symmetric] r_def [symmetric] go_bind_Inr [of "InsertAuditEvent C r", OF ins] ..
  ultimately show ?case by simp
qed simp

lemma chain_rows_set [simp]:
  "set (chain_rows chain d) = {r \<in> set (audit_events d). au_Chain r = chain}"
  by (auto simp: chain_rows_def)

lemma append_tx_healthy:
  assumes "faults w = []" "details_ok C es" "accepted C genesis 0 (chain_rows chain (db w))"
    and len: "int (length (chain_rows chain (db w))) + int (length es) < 2 ^ 63"
  shows "\<exists>w'. append_tx C chain es w = (Inr (), w')"
proof -
  let ?rows = "chain_rows chain (db w)"
  have n: "end_seq 0 ?rows = int (length ?rows)" using accepted_end_seq [OF assms(3)] len by simp
  have below: "\<forall>r \<in> set (audit_events (db w)). au_Chain r = chain \<longrightarrow> au_Seq r \<le> int (length ?rows)"
    using accepted_bounds(2) [OF assms(3)] len by auto
  have head: "AuditChainHead chain w =
      (if ?rows = [] then (Inl ErrNoRows, w) else (Inr (int (length ?rows), end_hash genesis ?rows), w))"
    using assms(1) n
    by (cases ?rows rule: rev_cases) (simp_all add: AuditChainHead_def end_seq_def end_hash_def)
  have loop: "\<exists>w'. append_loop C chain (int (length ?rows)) prev es w = (Inr (), w')" for prev
    by (rule append_loop_healthy) (use assms below in auto)
  show ?thesis
    using loop [of genesis] loop [of "end_hash genesis ?rows"] head assms(1)
    by (cases "?rows = []") (simp_all add: append_tx_def advisory_lock_def go_bind_def go_try_def)
qed

lemma up_append_tx: "keeps up_rel (append_tx C chain es)"
proof -
  have "keeps up_rel (append_loop C chain seq prev es)" for seq prev
    by (induction es arbitrary: seq prev) (auto simp: Let_def InsertAuditEvent_def intro!: keeps_rules)
  then show ?thesis
    unfolding append_tx_def advisory_lock_def AuditChainHead_def by (intro keeps_rules)
qed

lemma Append_healthy:
  assumes "faults w = []" "details_ok C es" "accepted C genesis 0 (chain_rows chain (db w))"
    and "int (length (chain_rows chain (db w))) + int (length es) < 2 ^ 63"
  obtains w' where "Append C chain es w = (Inr (), w')" "faults w' = []"
proof -
  obtain w' where w': "append_tx C chain es w = (Inr (), w')" using append_tx_healthy [OF assms] by auto
  have "faults w' = []" using keeps_upD [OF up_append_tx w'] assms(1) by simp
  then show thesis
    using that [of w] that [of w'] assms(1) in_tx_healthy [of w "append_tx C chain es", OF assms(1) w']
    by (cases "es = []") (simp_all add: Append_def)
qed

section \<open>Nothing is lost in the drain\<close>

definition chain_events :: "audit_codec \<Rightarrow> string \<Rightarrow> database \<Rightarrow> audit_event list" where
  "chain_events C chain d = map (row_event C) (chain_rows chain d)"

text \<open>A store in working order: the connection is up, every chain verifies and there is room for
  \<open>n\<close> more sequence numbers.\<close>

definition store_ready :: "audit_codec \<Rightarrow> nat \<Rightarrow> world \<Rightarrow> bool" where
  "store_ready C n w \<longleftrightarrow> faults w = [] \<and> (\<forall>chain. accepted C genesis 0 (chain_rows chain (db w))) \<and>
     int (length (audit_events (db w))) + int n < 2 ^ 63"

definition events_for :: "string \<Rightarrow> queued list \<Rightarrow> audit_event list" where
  "events_for chain qs = map q_e (filter (\<lambda>q. q_chain q = chain) qs)"

lemma Append_recorded:
  assumes "json_codec C" "store_ready C (length es + n) w" "details_ok C es"
  shows "store_ready C n (snd (Append C chain es w))"
    and "chain_events C c (db (snd (Append C chain es w))) =
           chain_events C c (db w) @ (if c = chain then map redacted es else [])"
proof -
  have "length (chain_rows chain (db w)) \<le> length (audit_events (db w))" by (simp add: chain_rows_def)
  then have room: "int (length (chain_rows chain (db w))) + int (length es) < 2 ^ 63"
    using assms(2) by (simp add: store_ready_def)
  have w: "faults w = []" "\<And>c. accepted C genesis 0 (chain_rows c (db w))"
    using assms(2) by (simp_all add: store_ready_def)
  obtain w' where app: "Append C chain es w = (Inr (), w')" and f: "faults w' = []"
    by (rule Append_healthy [OF w(1) assms(3) w(2) room])
  from Append_grows [OF assms(1) w(2) room app] obtain rows where
    rows: "chain_rows chain (db w') = chain_rows chain (db w) @ rows" "map (row_event C) rows = map redacted es"
      "accepted C genesis 0 (chain_rows chain (db w'))"
      "\<And>c. c \<noteq> chain \<Longrightarrow> chain_rows c (db w') = chain_rows c (db w)" by auto
  obtain rs where "audit_grows (db w) rs (db w')" "length rs = length es"
    using assms(1) app by (rule Append_outcome) auto
  then have "length (audit_events (db w')) = length (audit_events (db w)) + length es"
    by (simp add: audit_grows_def)
  then show "store_ready C n (snd (Append C chain es w))"
    using assms(2) f rows(3,4) w(2) by (auto simp: store_ready_def app) (metis)
  show "chain_events C c (db (snd (Append C chain es w))) =
           chain_events C c (db w) @ (if c = chain then map redacted es else [])"
    using rows by (simp add: app chain_events_def)
qed

lemma byChain_events:
  "(case byChain qs m c of None \<Rightarrow> [] | Some es \<Rightarrow> es) =
     (case m c of None \<Rightarrow> [] | Some es \<Rightarrow> es) @ events_for c qs"
  by (induction qs arbitrary: m) (auto simp: events_for_def)

lemma events_for_total: "distinct ks \<Longrightarrow> (\<Sum>k\<leftarrow>ks. length (events_for k qs)) \<le> length qs"
proof (induction qs)
  case (Cons q qs)
  have "(\<Sum>k\<leftarrow>ks. length (events_for k (q # qs))) =
      (\<Sum>k\<leftarrow>ks. length (events_for k qs)) + count_list ks (q_chain q)"
    by (induction ks) (auto simp: events_for_def)
  moreover have "count_list ks (q_chain q) \<le> 1"
    using Cons.prems by (induction ks) (auto simp: count_list_0_iff)
  ultimately show ?case using Cons by simp
qed (simp add: events_for_def)

lemma append_chains_recorded:
  assumes "json_codec C" and m: "\<And>k. (case m k of None \<Rightarrow> [] | Some es \<Rightarrow> es) = f k"
    and "\<And>k. details_ok C (f k)" and "distinct ks"
    and "store_ready C ((\<Sum>k\<leftarrow>ks. length (f k)) + n) w"
  shows "store_ready C n (append_chains C m ks w) \<and>
    chain_events C c (db (append_chains C m ks w)) =
      chain_events C c (db w) @ (if c \<in> set ks then map redacted (f c) else [])"
  using assms(4,5)
proof (induction ks arbitrary: w)
  case (Cons k ks)
  let ?w = "snd (Append C k (f k) w)"
  have "store_ready C (length (f k) + ((\<Sum>k\<leftarrow>ks. length (f k)) + n)) w"
    using Cons.prems(2) by (simp add: add.assoc)
  note step = Append_recorded [OF assms(1) this assms(3)]
  from Cons.IH [OF _ step(1)] step(2) [where c = c] Cons.prems(1) show ?case
    by (auto simp: m)
qed simp

lemma append_batch_recorded:
  assumes "json_codec C" "range_order ord" "details_ok C (map q_e batch)"
    and "store_ready C (length batch + n) w"
  shows "store_ready C n (append_batch C ord batch w) \<and>
    chain_events C c (db (append_batch C ord batch w)) =
      chain_events C c (db w) @ map redacted (events_for c batch)"
proof -
  let ?ks = "ord (remdups (map q_chain batch))"
  have ks: "distinct ?ks" "set ?ks = q_chain ` set batch" using assms(2) by (simp_all add: range_order_def)
  have m: "(case byChain batch Map.empty k of None \<Rightarrow> [] | Some es \<Rightarrow> es) = events_for k batch" for k
    by (simp add: byChain_events)
  have det: "details_ok C (events_for k batch)" for k
    using assms(3) by (auto simp: details_ok_def events_for_def)
  have none: "events_for c batch = []" if "c \<notin> set ?ks"
    using that ks(2) by (auto simp: events_for_def filter_empty_conv)
  have "store_ready C ((\<Sum>k\<leftarrow>?ks. length (events_for k batch)) + n) w"
    using assms(4) events_for_total [OF ks(1), of batch] by (simp add: store_ready_def)
  from append_chains_recorded [OF assms(1) m det ks(1) this, of c] none show ?thesis
    by (auto simp: append_batch_def)
qed

lemma events_for_append [simp]: "events_for c (xs @ ys) = events_for c xs @ events_for c ys"
  by (simp add: events_for_def)

lemma drainAll_recorded:
  assumes "json_codec C" "range_order ord" "details_ok C (map q_e (chan w))"
    and "store_ready C (length (chan w) + n) w"
  shows "chan (drainAll C ord w) = [] \<and> store_ready C n (drainAll C ord w) \<and>
    chain_events C c (db (drainAll C ord w)) =
      chain_events C c (db w) @ map redacted (events_for c (chan w))"
  using assms
proof (induction C ord w rule: drainAll.induct)
  case (1 C ord w)
  let ?batch = "take 256 (chan w)" and ?w1 = "w\<lparr>chan := drop 256 (chan w)\<rparr>"
  let ?w2 = "append_batch C ord ?batch ?w1"
  show ?case
  proof (cases "chan w = []")
    case True
    then show ?thesis
      using 1(5) by (simp add: drainAll.simps [of C ord w] drainUpTo_def store_ready_def events_for_def)
  next
    case False
    have unfold: "drainAll C ord w = drainAll C ord ?w2"
      using False by (simp add: drainAll.simps [of C ord w] drainUpTo_def)
    have det: "details_ok C (map q_e ?batch)" "details_ok C (map q_e (drop 256 (chan w)))"
      using 1(4) by (auto simp: details_ok_def dest: in_set_takeD in_set_dropD)
    have "length ?batch + (length (drop 256 (chan w)) + n) = length (chan w) + n" by simp
    then have "store_ready C (length ?batch + (length (drop 256 (chan w)) + n)) ?w1"
      using 1(5) by (simp only: store_ready_def) simp
    note step = append_batch_recorded [OF 1(2,3) det(1) this]
    have "chan (drainAll C ord ?w2) = [] \<and> store_ready C n (drainAll C ord ?w2) \<and>
      chain_events C c (db (drainAll C ord ?w2)) =
        chain_events C c (db ?w2) @ map redacted (events_for c (chan ?w2))"
      by (rule 1(1)) (use False 1(2,3) det(2) step in \<open>auto simp: drainUpTo_def\<close>)
    moreover have "events_for c (chan w) = events_for c ?batch @ events_for c (drop 256 (chan w))"
      by (metis append_take_drop_id events_for_append)
    ultimately show ?thesis using step [of c] unfold by simp
  qed
qed


end
