(* ===== verification/Startup.thy ===== *)
theory Startup
  imports Server Migrate Engine Delegation Recorder
begin

text \<open>
  \<open>internal/config\<close> and \<open>cmd/base-servers/main.go\<close>: configuration from the environment, the
  start-up sequence with its refusals (\<open>log.Fatalf\<close> is an error of the action), the key-rotation
  command and the readiness probe. The environment is a function from names to values, with the
  empty string for an unset variable as \<open>os.Getenv\<close> has it. Everything outside the repository
  that start-up and requests call is collected in the record \<open>libs\<close>.
\<close>

section \<open>Configuration\<close>

record Config =
  HTTPAddr :: string
  DatabaseURL :: string
  KeycloakURL :: string
  KeycloakRealm :: string
  KeycloakAdminUser :: string
  KeycloakAdminPass :: string
  DelegationIssuer :: string
  OIDCLoginClientID :: string
  OIDCLoginRedirectURIs :: "string list"
  OIDCServiceClientID :: string
  OIDCServiceClientSecret :: string
  PublicIssuer :: string
  RootToken :: string
  AuditBuffer :: int
  APIKeyPepper :: string
  APIKeyMaxTTLSeconds :: int
  APIKeyAllowNeverExpire :: bool
  RateLimitEnabled :: bool
  RateLimitIPRPS :: float64
  RateLimitIPBurst :: int
  RateLimitGlobalRPS :: float64
  RateLimitGlobalBurst :: int
  RateLimitPrincipalRPS :: float64
  RateLimitPrincipalBurst :: int
  RateLimitTrustedProxyCIDRs :: string
  RateLimitMaxKeys :: int

type_synonym environ = "string \<Rightarrow> string"

definition env :: "environ \<Rightarrow> string \<Rightarrow> string \<Rightarrow> string" where
  "env getenv key def = (if getenv key \<noteq> '''' then getenv key else def)"

text \<open>\<open>strconv.Atoi\<close>: an optional sign and decimal digits, within 64 bits.\<close>

fun digits_value :: "nat \<Rightarrow> string \<Rightarrow> nat option" where
  "digits_value acc [] = Some acc"
| "digits_value acc (c # cs) =
     (let n = (of_char c :: nat) in if 48 \<le> n \<and> n \<le> 57 then digits_value (10 * acc + (n - 48)) cs else None)"

definition unsigned_value :: "string \<Rightarrow> nat option" where
  "unsigned_value s = (if s = [] then None else digits_value 0 s)"

definition strconv_Atoi :: "string \<Rightarrow> int option" where
  "strconv_Atoi s =
     (let v = (case s of
                 [] \<Rightarrow> None
               | c # cs \<Rightarrow> if c = CHR ''-'' then map_option (\<lambda>n. - int n) (unsigned_value cs)
                           else if c = CHR ''+'' then map_option int (unsigned_value cs)
                           else map_option int (unsigned_value s))
      in case v of None \<Rightarrow> None | Some i \<Rightarrow> if - (2 ^ 63) \<le> i \<and> i < 2 ^ 63 then Some i else None)"

definition envInt :: "environ \<Rightarrow> string \<Rightarrow> int \<Rightarrow> int" where
  "envInt getenv key def =
     (if getenv key = '''' then def
      else case strconv_Atoi (getenv key) of None \<Rightarrow> def | Some n \<Rightarrow> n)"

text \<open>\<open>strconv.ParseFloat\<close> is the argument \<open>pf\<close>; a float is its IEEE bit pattern.\<close>

definition envFloat :: "(string \<Rightarrow> float64 option) \<Rightarrow> environ \<Rightarrow> string \<Rightarrow> float64 \<Rightarrow> float64" where
  "envFloat pf getenv key def =
     (if getenv key = '''' then def
      else case pf (getenv key) of None \<Rightarrow> def | Some n \<Rightarrow> n)"

definition splitCSV :: "string \<Rightarrow> string list" where
  "splitCSV s =
     (if s = '''' then []
      else filter (\<lambda>p. p \<noteq> '''') (map strings_TrimSpace (strings_Split (CHR '','') s)))"

definition Load :: "(string \<Rightarrow> float64 option) \<Rightarrow> environ \<Rightarrow> err + Config" where
  "Load pf getenv =
     (let c = \<lparr>
        HTTPAddr = env getenv ''HTTP_ADDR'' '':8081'',
        DatabaseURL = getenv ''DATABASE_URL'',
        KeycloakURL = getenv ''KEYCLOAK_URL'',
        KeycloakRealm = env getenv ''KEYCLOAK_REALM'' ''base-servers'',
        KeycloakAdminUser = env getenv ''KEYCLOAK_ADMIN_USER'' ''admin'',
        KeycloakAdminPass = env getenv ''KEYCLOAK_ADMIN_PASS'' ''admin'',
        DelegationIssuer = env getenv ''DELEGATION_ISSUER'' ''base-servers'',
        OIDCLoginClientID = env getenv ''OIDC_LOGIN_CLIENT_ID'' ''base-servers-login'',
        OIDCLoginRedirectURIs = splitCSV (getenv ''OIDC_LOGIN_REDIRECT_URIS''),
        OIDCServiceClientID = env getenv ''OIDC_SERVICE_CLIENT_ID'' ''base-servers-service'',
        OIDCServiceClientSecret = getenv ''BS_SERVICE_CLIENT_SECRET'',
        PublicIssuer = getenv ''BS_PUBLIC_ISSUER'',
        RootToken = getenv ''BS_ROOT_TOKEN'',
        AuditBuffer = envInt getenv ''AUDIT_BUFFER'' 4096,
        APIKeyPepper = getenv ''BS_APIKEY_PEPPER'',
        APIKeyMaxTTLSeconds = envInt getenv ''BS_APIKEY_MAX_TTL_SECONDS'' 7776000,
        APIKeyAllowNeverExpire = (getenv ''BS_APIKEY_ALLOW_NEVER_EXPIRE'' = ''true''),
        RateLimitEnabled = (getenv ''BS_RATELIMIT_ENABLED'' \<noteq> ''false''),
        RateLimitIPRPS = envFloat pf getenv ''BS_RATELIMIT_IP_RPS'' 0x4034000000000000,
        RateLimitIPBurst = envInt getenv ''BS_RATELIMIT_IP_BURST'' 40,
        RateLimitGlobalRPS = envFloat pf getenv ''BS_RATELIMIT_GLOBAL_RPS'' 0x407F400000000000,
        RateLimitGlobalBurst = envInt getenv ''BS_RATELIMIT_GLOBAL_BURST'' 1000,
        RateLimitPrincipalRPS = envFloat pf getenv ''BS_RATELIMIT_PRINCIPAL_RPS'' 0x4024000000000000,
        RateLimitPrincipalBurst = envInt getenv ''BS_RATELIMIT_PRINCIPAL_BURST'' 20,
        RateLimitTrustedProxyCIDRs =
          env getenv ''BS_RATELIMIT_TRUSTED_PROXY_CIDRS'' ''127.0.0.0/8,::1/128,172.16.0.0/12'',
        RateLimitMaxKeys = envInt getenv ''BS_RATELIMIT_MAX_KEYS'' 4096\<rparr>
      in if DatabaseURL c = '''' then Inl (ErrText ''DATABASE_URL is required'')
         else if KeycloakURL c = '''' then Inl (ErrText ''KEYCLOAK_URL is required'')
         else Inr c)"

section \<open>Start-up\<close>

record libs =
  lib_ParseFloat :: "string \<Rightarrow> float64 option"
  lib_pool :: "string \<Rightarrow> (err, unit) wact"
  lib_ping :: "(err, unit) wact"
  lib_realm_status :: "string \<Rightarrow> (err, int) wact"
  lib_ddl :: ddl_oracle
  lib_files :: "(string \<times> string) list"
  lib_pg :: pgtype
  lib_crypto :: key_crypto
  lib_jose :: jose
  lib_oidc :: oidc_jose
  lib_hmac :: hmac_op
  lib_codec :: audit_codec
  lib_rfc :: rfc3339
  lib_rate :: rate_lib
  lib_net :: net_lib
  lib_gocloak :: gocloak

record base_server =
  srv_cfg :: Config
  srv_kek :: bytes
  srv_opt :: Options
  srv_kc :: kc_Config
  srv_verifier :: Verifier
  srv_pepper :: bytes
  srv_policy :: apikey_policy
  srv_trusted :: "IPNet list"

definition parseCIDRs :: "net_lib \<Rightarrow> string \<Rightarrow> IPNet list" where
  "parseCIDRs N csv =
     concat (map (\<lambda>s. let t = strings_TrimSpace s
                      in if t = '''' then []
                         else case net_ParseCIDR N t of None \<Rightarrow> [] | Some n \<Rightarrow> [n])
       (strings_Split (CHR '','') csv))"

definition kc_config_of :: "Config \<Rightarrow> kc_Config" where
  "kc_config_of cfg =
     \<lparr>kc_BaseURL = KeycloakURL cfg, kc_Realm = KeycloakRealm cfg,
      kc_AdminUser = KeycloakAdminUser cfg, kc_AdminPass = KeycloakAdminPass cfg,
      kc_LoginClientID = OIDCLoginClientID cfg, kc_LoginRedirectURIs = OIDCLoginRedirectURIs cfg,
      kc_ServiceClientID = OIDCServiceClientID cfg, kc_ServiceClientSecret = OIDCServiceClientSecret cfg\<rparr>"

definition limiter_of :: "bool \<Rightarrow> float64 \<Rightarrow> int \<Rightarrow> int \<Rightarrow> Limiter" where
  "limiter_of enabled rps burst maxKeys =
     (if enabled then Memory (NewMemoryClock rps burst maxKeys (60 * second)) else AllowAll)"

definition key_policy :: "Config \<Rightarrow> apikey_policy" where
  "key_policy cfg =
     \<lparr>pol_maxTTL = dur_mul (APIKeyMaxTTLSeconds cfg) second,
      pol_allowNeverExpire = APIKeyAllowNeverExpire cfg, pol_keyCap = 50\<rparr>"

text \<open>The process starts with an empty keyset cache, an empty channel and empty buckets.\<close>

definition fresh_process :: "Config \<Rightarrow> world \<Rightarrow> world" where
  "fresh_process cfg w =
     w\<lparr>chan := [], chan_cap := NewRecorder_cap (AuditBuffer cfg), dropped := 0,
       unkCount := 0, unkLastFlush := time_zero,
       ipLim := Some (limiter_of (RateLimitEnabled cfg) (RateLimitIPRPS cfg) (RateLimitIPBurst cfg) (RateLimitMaxKeys cfg)),
       globalLim := Some (limiter_of (RateLimitEnabled cfg) (RateLimitGlobalRPS cfg) (RateLimitGlobalBurst cfg) (RateLimitMaxKeys cfg)),
       prLim := Some (limiter_of (RateLimitEnabled cfg) (RateLimitPrincipalRPS cfg) (RateLimitPrincipalBurst cfg) (RateLimitMaxKeys cfg)),
       rootLastEmit := time_zero, kc_keys := Map.empty, kc_fetched := time_zero,
       kc_lastRefreshAttempt := time_zero\<rparr>"

definition new_manager :: "('e, unit) wact" where
  "new_manager w = (Inr (), w\<lparr>mgr_cached := no_keyset, mgr_loadedAt := time_zero\<rparr>)"

definition require :: "bool \<Rightarrow> string \<Rightarrow> (err, unit) wact" where
  "require b msg = (if b then go_ret () else go_fail (ErrText msg))"

definition runServer :: "libs \<Rightarrow> environ \<Rightarrow> (err, base_server) wact" where
  "runServer L getenv =
     go_bind (of_result (Load (lib_ParseFloat L) getenv)) (\<lambda>cfg.
     go_bind (of_result (KEKFromEnv (getenv ''BS_SIGNING_KEK''))) (\<lambda>kek.
     go_bind (of_result (NewCipher kek)) (\<lambda>cipher.
     go_bind (lib_pool L (DatabaseURL cfg)) (\<lambda>_.
     go_bind (migrate_Apply (lib_ddl L) (lib_files L)) (\<lambda>_.
     go_bind new_manager (\<lambda>_.
     go_bind (EnsureActive (lib_crypto L) cipher) (\<lambda>_.
     go_bind (require (OIDCServiceClientSecret cfg \<noteq> '''') ''BS_SERVICE_CLIENT_SECRET is required'') (\<lambda>_.
     go_bind (EnsureProvisioned (lib_gocloak L) (kc_config_of cfg)) (\<lambda>_.
     go_bind (require (PublicIssuer cfg \<noteq> '''') ''BS_PUBLIC_ISSUER is required'') (\<lambda>_.
     go_bind (of_result (LoadPepper (APIKeyPepper cfg))) (\<lambda>pepper.
     go_bind (of_result (NewHasher pepper)) (\<lambda>hasher w.
       (Inr \<lparr>srv_cfg = cfg, srv_kek = cipher, srv_opt = NewManager, srv_kc = kc_config_of cfg,
             srv_verifier = NewVerifier (KeycloakURL cfg @ ''/realms/'' @ KeycloakRealm cfg @ ''/protocol/openid-connect/certs'')
               (PublicIssuer cfg) [OIDCLoginClientID cfg, OIDCServiceClientID cfg],
             srv_pepper = hasher, srv_policy = key_policy cfg,
             srv_trusted = parseCIDRs (lib_net L) (RateLimitTrustedProxyCIDRs cfg)\<rparr>,
        fresh_process cfg w)))))))))))))"

definition runRotate :: "libs \<Rightarrow> environ \<Rightarrow> (err, Key) wact" where
  "runRotate L getenv =
     go_bind (of_result (Load (lib_ParseFloat L) getenv)) (\<lambda>cfg.
     go_bind (of_result (KEKFromEnv (getenv ''BS_SIGNING_KEK''))) (\<lambda>kek.
     go_bind (of_result (NewCipher kek)) (\<lambda>cipher.
     go_bind (lib_pool L (DatabaseURL cfg)) (\<lambda>_.
     go_bind new_manager (\<lambda>_.
     go_bind (EnsureActive (lib_crypto L) cipher) (\<lambda>_.
     Manager_Rotate (lib_crypto L) cipher NewManager))))))"

definition keycloakReachable :: "libs \<Rightarrow> Config \<Rightarrow> (err, unit) wact" where
  "keycloakReachable L cfg =
     go_bind (lib_realm_status L (KeycloakURL cfg @ ''/realms/'' @ KeycloakRealm cfg)) (\<lambda>status.
     if status \<ge> 500 then go_fail (ErrText ''http: Server closed'') else go_ret ())"

definition ready_probe :: "libs \<Rightarrow> Config \<Rightarrow> (err, unit) wact" where
  "ready_probe L cfg = go_bind (lib_ping L) (\<lambda>_. keycloakReachable L cfg)"

text \<open>The command line of the process, and the container's health check: one request to the readiness
  path of the local server, whose HTTP client is the parameter \<open>get\<close>; the result is the exit code.\<close>

datatype command = RotateSigningKey | Healthcheck | Serve

definition main_command :: "string list \<Rightarrow> command" where
  "main_command args =
     (if length args > 1 \<and> args ! 1 = ''rotate-signing-key'' then RotateSigningKey
      else if length args > 1 \<and> args ! 1 = ''healthcheck'' then Healthcheck
      else Serve)"

definition runHealthcheck :: "(string \<Rightarrow> (err, int) wact) \<Rightarrow> environ \<Rightarrow> (err, int) wact" where
  "runHealthcheck get getenv =
     (let addr = (if getenv ''HTTP_ADDR'' = '''' then '':8081'' else getenv ''HTTP_ADDR'')
      in go_try (get (''http://localhost'' @ addr @ ''/readyz'')) (\<lambda>_. go_ret 1) (\<lambda>status.
           go_ret (if status \<noteq> 200 then 1 else 0)))"

text \<open>Shutdown: the HTTP server has stopped, so no handler records any more; the recorder then drains
  the channel before the pool closes.\<close>

definition shutdown :: "libs \<Rightarrow> map_order \<Rightarrow> world \<Rightarrow> world" where
  "shutdown L ord = drainAll (lib_codec L) ord"

lemma of_result_InrD: "of_result r w = (Inr x, w') \<Longrightarrow> r = Inr x \<and> w' = w"
  by (cases r) (simp_all add: of_result_def)

lemma require_InrD: "require b m w = (Inr x, w') \<Longrightarrow> b"
  by (simp add: require_def split: if_splits)

text \<open>C29: The service starts only when it is configured to be secure: a 32-byte key-encryption key, a
  pepper of at least 32 bytes, and none of the database, identity provider, client secret and
  issuer settings missing; in every other case start-up ends with an error.\<close>

theorem startup_fails_closed:
  assumes "runServer L getenv w = (Inr S, w')"
  shows "length (srv_kek S) = 32 \<and> 32 \<le> length (srv_pepper S) \<and>
    StdEncoding_DecodeString (getenv ''BS_SIGNING_KEK'') = Some (srv_kek S) \<and>
    StdEncoding_DecodeString (getenv ''BS_APIKEY_PEPPER'') = Some (srv_pepper S) \<and>
    getenv ''DATABASE_URL'' \<noteq> '''' \<and> getenv ''KEYCLOAK_URL'' \<noteq> '''' \<and>
    getenv ''BS_SERVICE_CLIENT_SECRET'' \<noteq> '''' \<and> getenv ''BS_PUBLIC_ISSUER'' \<noteq> '''' \<and>
    ve_issuer (srv_verifier S) = getenv ''BS_PUBLIC_ISSUER''"
proof -
  from assms obtain cfg kek cipher pepper where
    cfg: "Load (lib_ParseFloat L) getenv = Inr cfg" "KEKFromEnv (getenv ''BS_SIGNING_KEK'') = Inr kek"
      "NewCipher kek = Inr cipher" "LoadPepper (APIKeyPepper cfg) = Inr pepper"
      "OIDCServiceClientSecret cfg \<noteq> ''''" "PublicIssuer cfg \<noteq> ''''" "NewHasher pepper = Inr (srv_pepper S)"
    and S: "srv_kek S = cipher" "srv_verifier S = NewVerifier (KeycloakURL cfg @ ''/realms/'' @ KeycloakRealm cfg @ ''/protocol/openid-connect/certs'')
      (PublicIssuer cfg) [OIDCLoginClientID cfg, OIDCServiceClientID cfg]"
    unfolding runServer_def by (auto elim!: go_bind_InrD dest!: of_result_InrD require_InrD)
  have c: "DatabaseURL cfg = getenv ''DATABASE_URL''" "KeycloakURL cfg = getenv ''KEYCLOAK_URL''"
    "OIDCServiceClientSecret cfg = getenv ''BS_SERVICE_CLIENT_SECRET''" "PublicIssuer cfg = getenv ''BS_PUBLIC_ISSUER''"
    "APIKeyPepper cfg = getenv ''BS_APIKEY_PEPPER''" "DatabaseURL cfg \<noteq> ''''" "KeycloakURL cfg \<noteq> ''''"
    using cfg(1) by (auto simp: Load_def Let_def split: if_splits)
  show ?thesis
    using cfg(2-) S c
    by (auto simp: KEKFromEnv_def NewCipher_def LoadPepper_def NewHasher_def NewVerifier_def split: if_splits option.splits)
qed

end
