(* ===== verification/System.thy ===== *)
theory System
  imports Startup
begin

text \<open>
  The assembled service: the handlers of \<open>gen/baseservers/v1/baseserversv1connect\<close> that route a
  procedure to its implementation, the mux with the authentication interceptor in front of every
  procedure and Gate A in front of the mux (as \<open>runServer\<close> wires them), and the steps of the
  running process: requests, the audit worker, key rotation by an operator, and the environment.
  The Connect library is the parameter \<open>connect_lib\<close>: it refuses an HTTP request or decodes it to
  the message of its procedure, and chooses the HTTP status and body of an outcome.
\<close>

section \<open>Procedures\<close>

datatype PrincipalServiceMsg = CreatePrincipalReq CreatePrincipalRequest | GetPrincipalReq string

datatype OrgServiceMsg =
    CreateOrganizationReq string
  | CreateTeamReq string string
  | AddMemberReq string string
  | AddTeamMemberReq string string

datatype RoleServiceMsg =
    CreateRoleReq string string "string list"
  | AssignRoleReq string string string string

datatype AuthzServiceMsg = CheckReq CheckRequest | RegisterOwnershipReq string string string string

datatype DelegationServiceMsg =
    IssueDelegationReq IssueInput
  | RevokeDelegationReq string
  | CheckDelegatedReq CheckDelegatedRequest

datatype AuditServiceMsg = ListAuditReq ListRequest | VerifyAuditReq string

datatype ApiKeyServiceMsg =
    IssueApiKeyReq IssueApiKeyRequest
  | RevokeApiKeyReq string
  | ListApiKeysReq string int string

datatype rpc_request =
    PrincipalService PrincipalServiceMsg
  | OrgService OrgServiceMsg
  | RoleService RoleServiceMsg
  | AuthzService AuthzServiceMsg
  | DelegationService DelegationServiceMsg
  | AuditService AuditServiceMsg
  | ApiKeyService ApiKeyServiceMsg

datatype rpc_response =
    PrincipalResp PrincipalMsg
  | OrganizationResp Organization
  | TeamResp Team
  | RoleResp Role
  | AllowedResp bool
  | DelegationResp string string
  | AuditEventsResp "(int \<times> string \<times> audit_event) list" int
  | VerifyResp bool int
  | ApiKeyResp IssueApiKeyResponse
  | ApiKeysResp "ApiKeyMeta list" string
  | EmptyResp

definition respond :: "('a \<Rightarrow> rpc_response) \<Rightarrow> (rpc_error, 'a) wact \<Rightarrow> (rpc_error, rpc_response) wact" where
  "respond f m = go_bind m (\<lambda>x. go_ret (f x))"

fun PrincipalServiceProcedure :: "PrincipalServiceMsg \<Rightarrow> string" where
  "PrincipalServiceProcedure (CreatePrincipalReq m) = ''/baseservers.v1.PrincipalService/CreatePrincipal''"
| "PrincipalServiceProcedure (GetPrincipalReq i) = ''/baseservers.v1.PrincipalService/GetPrincipal''"

fun OrgServiceProcedure :: "OrgServiceMsg \<Rightarrow> string" where
  "OrgServiceProcedure (CreateOrganizationReq n) = ''/baseservers.v1.OrgService/CreateOrganization''"
| "OrgServiceProcedure (CreateTeamReq u n) = ''/baseservers.v1.OrgService/CreateTeam''"
| "OrgServiceProcedure (AddMemberReq p u) = ''/baseservers.v1.OrgService/AddMember''"
| "OrgServiceProcedure (AddTeamMemberReq p t) = ''/baseservers.v1.OrgService/AddTeamMember''"

fun RoleServiceProcedure :: "RoleServiceMsg \<Rightarrow> string" where
  "RoleServiceProcedure (CreateRoleReq u n ps) = ''/baseservers.v1.RoleService/CreateRole''"
| "RoleServiceProcedure (AssignRoleReq p r st s) = ''/baseservers.v1.RoleService/AssignRole''"

fun AuthzServiceProcedure :: "AuthzServiceMsg \<Rightarrow> string" where
  "AuthzServiceProcedure (CheckReq m) = ''/baseservers.v1.AuthzService/Check''"
| "AuthzServiceProcedure (RegisterOwnershipReq t i p u) = ''/baseservers.v1.AuthzService/RegisterOwnership''"

fun DelegationServiceProcedure :: "DelegationServiceMsg \<Rightarrow> string" where
  "DelegationServiceProcedure (IssueDelegationReq m) = ''/baseservers.v1.DelegationService/Issue''"
| "DelegationServiceProcedure (RevokeDelegationReq i) = ''/baseservers.v1.DelegationService/Revoke''"
| "DelegationServiceProcedure (CheckDelegatedReq m) = ''/baseservers.v1.DelegationService/CheckDelegated''"

fun AuditServiceProcedure :: "AuditServiceMsg \<Rightarrow> string" where
  "AuditServiceProcedure (ListAuditReq m) = ''/baseservers.v1.AuditService/List''"
| "AuditServiceProcedure (VerifyAuditReq u) = ''/baseservers.v1.AuditService/Verify''"

fun ApiKeyServiceProcedure :: "ApiKeyServiceMsg \<Rightarrow> string" where
  "ApiKeyServiceProcedure (IssueApiKeyReq m) = ''/baseservers.v1.ApiKeyService/Issue''"
| "ApiKeyServiceProcedure (RevokeApiKeyReq i) = ''/baseservers.v1.ApiKeyService/Revoke''"
| "ApiKeyServiceProcedure (ListApiKeysReq p n t) = ''/baseservers.v1.ApiKeyService/List''"

fun procedure :: "rpc_request \<Rightarrow> string" where
  "procedure (PrincipalService m) = PrincipalServiceProcedure m"
| "procedure (OrgService m) = OrgServiceProcedure m"
| "procedure (RoleService m) = RoleServiceProcedure m"
| "procedure (AuthzService m) = AuthzServiceProcedure m"
| "procedure (DelegationService m) = DelegationServiceProcedure m"
| "procedure (AuditService m) = AuditServiceProcedure m"
| "procedure (ApiKeyService m) = ApiKeyServiceProcedure m"

section \<open>Routing to the handlers\<close>

text \<open>The dependencies each handler was constructed with in \<open>runServer\<close>.\<close>

definition keysetOf :: "libs \<Rightarrow> base_server \<Rightarrow> keyset_op" where
  "keysetOf L S = Manager_Keyset (lib_crypto L) (srv_kek S) (srv_opt S)"

definition issuerOf :: "base_server \<Rightarrow> string" where
  "issuerOf S = DelegationIssuer (srv_cfg S)"

fun NewPrincipalServiceHandler ::
  "libs \<Rightarrow> base_server \<Rightarrow> PrincipalServiceMsg \<Rightarrow> ctx \<Rightarrow> (rpc_error, rpc_response) wact" where
  "NewPrincipalServiceHandler L S (CreatePrincipalReq m) cx =
     respond PrincipalResp (principal_Handler_CreatePrincipal (kc_CreatePrincipal (lib_gocloak L) (srv_kc S)) cx m)"
| "NewPrincipalServiceHandler L S (GetPrincipalReq i) cx =
     respond PrincipalResp (principal_Handler_GetPrincipal i)"

fun NewOrgServiceHandler ::
  "libs \<Rightarrow> base_server \<Rightarrow> OrgServiceMsg \<Rightarrow> ctx \<Rightarrow> (rpc_error, rpc_response) wact" where
  "NewOrgServiceHandler L S (CreateOrganizationReq n) cx =
     respond OrganizationResp
       (org_Handler_CreateOrganization (lib_pg L) (role_Store_SeedDefaults (lib_pg L)) cx n)"
| "NewOrgServiceHandler L S (CreateTeamReq u n) cx = respond TeamResp (org_Handler_CreateTeam (lib_pg L) cx u n)"
| "NewOrgServiceHandler L S (AddMemberReq p u) cx = respond (\<lambda>_. EmptyResp) (org_Handler_AddMember (lib_pg L) cx p u)"
| "NewOrgServiceHandler L S (AddTeamMemberReq p t) cx =
     respond (\<lambda>_. EmptyResp) (org_Handler_AddTeamMember (lib_pg L) cx p t)"

fun NewRoleServiceHandler ::
  "libs \<Rightarrow> base_server \<Rightarrow> RoleServiceMsg \<Rightarrow> ctx \<Rightarrow> (rpc_error, rpc_response) wact" where
  "NewRoleServiceHandler L S (CreateRoleReq u n ps) cx =
     respond RoleResp (role_Handler_CreateRole (lib_pg L) (org_Store_IsMember (lib_pg L)) cx u n ps)"
| "NewRoleServiceHandler L S (AssignRoleReq p r st s) cx =
     respond (\<lambda>_. EmptyResp) (role_Handler_AssignRole (lib_pg L) (org_Store_IsMember (lib_pg L)) cx p r st s)"

fun NewAuthzServiceHandler ::
  "libs \<Rightarrow> base_server \<Rightarrow> AuthzServiceMsg \<Rightarrow> ctx \<Rightarrow> (rpc_error, rpc_response) wact" where
  "NewAuthzServiceHandler L S (CheckReq m) cx =
     respond AllowedResp (authz_Handler_Check (lib_pg L) (org_Store_IsMember (lib_pg L)) cx m)"
| "NewAuthzServiceHandler L S (RegisterOwnershipReq t i p u) cx =
     respond (\<lambda>_. EmptyResp)
       (authz_Handler_RegisterOwnership (lib_pg L) (org_Store_IsMember (lib_pg L)) cx t i p u)"

fun NewDelegationServiceHandler ::
  "libs \<Rightarrow> base_server \<Rightarrow> DelegationServiceMsg \<Rightarrow> ctx \<Rightarrow> (rpc_error, rpc_response) wact" where
  "NewDelegationServiceHandler L S (IssueDelegationReq m) cx =
     respond (\<lambda>(tok, did). DelegationResp tok did)
       (dg_Handler_Issue (lib_pg L) (lib_jose L) (issuerOf S) (keysetOf L S) TypeOf cx m)"
| "NewDelegationServiceHandler L S (RevokeDelegationReq i) cx =
     respond (\<lambda>_. EmptyResp) (dg_Handler_Revoke (lib_pg L) cx i)"
| "NewDelegationServiceHandler L S (CheckDelegatedReq m) cx =
     respond AllowedResp (dg_Handler_CheckDelegated (lib_pg L) (lib_jose L) (lib_crypto L) (issuerOf S)
       (keysetOf L S) (authz_Service_Check (lib_pg L)) cx m)"

fun NewAuditServiceHandler ::
  "libs \<Rightarrow> base_server \<Rightarrow> AuditServiceMsg \<Rightarrow> ctx \<Rightarrow> (rpc_error, rpc_response) wact" where
  "NewAuditServiceHandler L S (ListAuditReq m) cx =
     respond (\<lambda>(es, n). AuditEventsResp es n) (audit_Handler_List (lib_codec L) (lib_rfc L) (lib_pg L) cx m)"
| "NewAuditServiceHandler L S (VerifyAuditReq u) cx =
     respond (\<lambda>(ok, n). VerifyResp ok n) (audit_Handler_Verify (lib_codec L) (lib_pg L) cx u)"

fun NewApiKeyServiceHandler ::
  "libs \<Rightarrow> base_server \<Rightarrow> ApiKeyServiceMsg \<Rightarrow> ctx \<Rightarrow> (rpc_error, rpc_response) wact" where
  "NewApiKeyServiceHandler L S (IssueApiKeyReq m) cx =
     respond ApiKeyResp (ak_Handler_Issue (lib_hmac L) (srv_pepper S) (srv_policy S)
       (org_Store_IsMember (lib_pg L)) cx m)"
| "NewApiKeyServiceHandler L S (RevokeApiKeyReq i) cx =
     respond (\<lambda>_. EmptyResp) (ak_Handler_Revoke (authz_Service_Check (lib_pg L)) cx i)"
| "NewApiKeyServiceHandler L S (ListApiKeysReq p n t) cx =
     respond (\<lambda>(ks, nx). ApiKeysResp ks nx) (ak_Handler_List (lib_rfc L) cx p n t)"

fun dispatch :: "libs \<Rightarrow> base_server \<Rightarrow> rpc_request \<Rightarrow> ctx \<Rightarrow> (rpc_error, rpc_response) wact" where
  "dispatch L S (PrincipalService m) = NewPrincipalServiceHandler L S m"
| "dispatch L S (OrgService m) = NewOrgServiceHandler L S m"
| "dispatch L S (RoleService m) = NewRoleServiceHandler L S m"
| "dispatch L S (AuthzService m) = NewAuthzServiceHandler L S m"
| "dispatch L S (DelegationService m) = NewDelegationServiceHandler L S m"
| "dispatch L S (AuditService m) = NewAuditServiceHandler L S m"
| "dispatch L S (ApiKeyService m) = NewApiKeyServiceHandler L S m"

text \<open>A procedure behind the interceptor.\<close>

definition rpc :: "libs \<Rightarrow> base_server \<Rightarrow> rpc_request \<Rightarrow> header \<Rightarrow> (rpc_error, rpc_response) wact" where
  "rpc L S req h =
     WrapUnary (lib_oidc L) (Some (srv_verifier S)) (Some (ak_Verify (lib_hmac L) (srv_pepper S)))
       (RootToken (srv_cfg S)) (lib_rate L) (dispatch L S req) (procedure req) None h"

record connect_lib =
  cn_Decode :: "http_request \<Rightarrow> http_response + rpc_request"
  cn_Status :: "code \<Rightarrow> int"
  cn_Encode :: "rpc_error + rpc_response \<Rightarrow> bytes"

text \<open>The library decodes a request for a procedure to a message of that procedure.\<close>

definition decodes_own :: "connect_lib \<Rightarrow> bool" where
  "decodes_own K \<longleftrightarrow> (\<forall>r req. cn_Decode K r = Inr req \<longrightarrow> procedure req = rq_Path r)"

definition procedures :: "string list" where
  "procedures =
     [''/baseservers.v1.PrincipalService/CreatePrincipal'', ''/baseservers.v1.PrincipalService/GetPrincipal'',
      ''/baseservers.v1.OrgService/CreateOrganization'', ''/baseservers.v1.OrgService/CreateTeam'',
      ''/baseservers.v1.OrgService/AddMember'', ''/baseservers.v1.OrgService/AddTeamMember'',
      ''/baseservers.v1.RoleService/CreateRole'', ''/baseservers.v1.RoleService/AssignRole'',
      ''/baseservers.v1.AuthzService/Check'', ''/baseservers.v1.AuthzService/RegisterOwnership'',
      ''/baseservers.v1.DelegationService/Issue'', ''/baseservers.v1.DelegationService/Revoke'',
      ''/baseservers.v1.DelegationService/CheckDelegated'',
      ''/baseservers.v1.AuditService/List'', ''/baseservers.v1.AuditService/Verify'',
      ''/baseservers.v1.ApiKeyService/Issue'', ''/baseservers.v1.ApiKeyService/Revoke'',
      ''/baseservers.v1.ApiKeyService/List'']"

definition unary_response :: "connect_lib \<Rightarrow> rpc_error + rpc_response \<Rightarrow> http_response" where
  "unary_response K r =
     (case r of
        Inl e \<Rightarrow> \<lparr>rs_Status = cn_Status K (rpc_code e), rs_RetryAfter = rpc_retry_after e, rs_Body = cn_Encode K r\<rparr>
      | Inr x \<Rightarrow> \<lparr>rs_Status = 200, rs_RetryAfter = None, rs_Body = cn_Encode K r\<rparr>)"

definition serve_rpc ::
  "libs \<Rightarrow> connect_lib \<Rightarrow> base_server \<Rightarrow> http_request \<Rightarrow> ('e, http_response) wact" where
  "serve_rpc L K S r =
     (if rq_Path r \<notin> set procedures then go_ret (plain 404 ''404 page not found'')
      else case cn_Decode K r of
        Inl resp \<Rightarrow> go_ret resp
      | Inr req \<Rightarrow>
          go_try (rpc L S req (rq_Header r))
            (\<lambda>e. go_ret (unary_response K (Inl e))) (\<lambda>x. go_ret (unary_response K (Inr x))))"

definition serve_jwks :: "libs \<Rightarrow> base_server \<Rightarrow> ('e, http_response) wact" where
  "serve_jwks L S =
     go_try (JWKSHandler_serve (lib_jose L) (lib_crypto L) (keysetOf L S))
       (\<lambda>_. go_ret (plain 500 ''jwks error''))
       (\<lambda>(hdrs, b). go_ret \<lparr>rs_Status = 200, rs_RetryAfter = None, rs_Body = b\<rparr>)"

definition service_paths :: "string list" where
  "service_paths =
     [''/baseservers.v1.PrincipalService/'', ''/baseservers.v1.OrgService/'', ''/baseservers.v1.RoleService/'',
      ''/baseservers.v1.AuthzService/'', ''/baseservers.v1.DelegationService/'', ''/baseservers.v1.AuditService/'',
      ''/baseservers.v1.ApiKeyService/'']"

definition mux_handlers ::
  "libs \<Rightarrow> connect_lib \<Rightarrow> base_server \<Rightarrow> http_request \<Rightarrow> ('e, http_response) wact" where
  "mux_handlers L K S r =
     (if rq_Path r = ''/.well-known/jwks.json'' then serve_jwks L S
      else if list_ex (strings_HasPrefix (rq_Path r)) service_paths then serve_rpc L K S r
      else go_ret (plain 404 ''404 page not found''))"

definition serve ::
  "libs \<Rightarrow> connect_lib \<Rightarrow> base_server \<Rightarrow> http_request \<Rightarrow> ('e, http_response) wact" where
  "serve L K S =
     RateLimitMiddleware (lib_rate L) (lib_net L) (srv_trusted S) (RootToken (srv_cfg S))
       (mountAll (Some (ready_probe L (srv_cfg S))) (mux_handlers L K S))"

section \<open>The running process\<close>

text \<open>A step: a request is served, the audit worker takes a batch, an operator rotates the signing
  key or another replica starts (other processes, which share only the database), or the environment
  moves on (time passes, connections fail and recover, the identity provider changes its keys)
  without touching the tables.\<close>

inductive sys_step :: "libs \<Rightarrow> connect_lib \<Rightarrow> base_server \<Rightarrow> world \<Rightarrow> world \<Rightarrow> bool" for L K S where
  request: "sys_step L K S w (snd (serve L K S r w :: (err + http_response) \<times> world))"
| worker: "run_step (lib_codec L) ord (True, w) (b, w') \<Longrightarrow> sys_step L K S w w'"
| rotation: "sys_step L K S w (w\<lparr>db := db (snd (runRotate L getenv w))\<rparr>)"
| replica: "sys_step L K S w (w\<lparr>db := db (snd (runServer L getenv w))\<rparr>)"
| environment: "db w' = db w \<Longrightarrow> sys_step L K S w w'"

text \<open>The states of a process that was started on an empty database, or started again later,
  possibly with another configuration.\<close>

inductive reachable :: "libs \<Rightarrow> connect_lib \<Rightarrow> base_server \<Rightarrow> world \<Rightarrow> bool" for L K where
  started: "db w0 = empty_db \<Longrightarrow> runServer L getenv w0 = (Inr S, w) \<Longrightarrow> reachable L K S w"
| restarted: "reachable L K S w \<Longrightarrow> runServer L getenv w = (Inr S', w') \<Longrightarrow> reachable L K S' w'"
| stepped: "reachable L K S w \<Longrightarrow> sys_step L K S w w' \<Longrightarrow> reachable L K S w'"

inductive_cases sys_stepE: "sys_step L K S w w'"

lemma procedure_known: "procedure req \<in> set procedures"
proof (cases req)
  case (PrincipalService m)
  then show ?thesis by (cases m) (simp_all add: procedures_def)
next
  case (OrgService m)
  then show ?thesis by (cases m) (simp_all add: procedures_def)
next
  case (RoleService m)
  then show ?thesis by (cases m) (simp_all add: procedures_def)
next
  case (AuthzService m)
  then show ?thesis by (cases m) (simp_all add: procedures_def)
next
  case (DelegationService m)
  then show ?thesis by (cases m) (simp_all add: procedures_def)
next
  case (AuditService m)
  then show ?thesis by (cases m) (simp_all add: procedures_def)
next
  case (ApiKeyService m)
  then show ?thesis by (cases m) (simp_all add: procedures_def)
qed

end
