(* ===== verification/Invariants.thy ===== *)
theory Invariants
  imports System
begin

text \<open>
  What every step of the running service does to the tables. The locale \<open>table_writes\<close> is the
  interface between the statements that write and the service built on them: a reflexive and
  transitive relation between databases that every writing statement respects is respected by every
  handler, every request, the audit worker, start-up and key rotation. It is interpreted for the
  schema's and the service's invariants, for verifiable audit chains, for the append-only histories of
  the audit log and the API keys, and for that of the delegations.
\<close>

section \<open>Libraries that leave the tables alone\<close>

definition gocloak_apart :: "gocloak \<Rightarrow> bool" where
  "gocloak_apart G \<longleftrightarrow>
     (\<forall>u p r. keeps (db_rel (=)) (gc_LoginAdmin G u p r)) \<and>
     (\<forall>t u. keeps (db_rel (=)) (gc_GetProfile G t u)) \<and>
     (\<forall>t u b. keeps (db_rel (=)) (gc_PutProfile G t u b)) \<and>
     (\<forall>t r n a. keeps (db_rel (=)) (gc_CreateUser G t r n a)) \<and>
     (\<forall>t r c. keeps (db_rel (=)) (gc_CreateClient G t r c)) \<and>
     (\<forall>t r. keeps (db_rel (=)) (gc_GetRealm G t r)) \<and>
     (\<forall>t r. keeps (db_rel (=)) (gc_CreateRealm G t r)) \<and>
     (\<forall>t r c. keeps (db_rel (=)) (gc_GetClients G t r c)) \<and>
     (\<forall>t r c. keeps (db_rel (=)) (gc_UpdateClient G t r c))"

text \<open>The calls of the identity provider and of the connection pool do not write the service's
  tables, the text form of an id parses back, and a detail map survives its column.\<close>

definition libs_ok :: "libs \<Rightarrow> bool" where
  "libs_ok L \<longleftrightarrow>
     uuid_codec (lib_pg L) \<and> json_codec (lib_codec L) \<and> gocloak_apart (lib_gocloak L) \<and>
     (\<forall>s. keeps (db_rel (=)) (lib_pool L s)) \<and> keeps (db_rel (=)) (lib_ping L) \<and>
     (\<forall>u. keeps (db_rel (=)) (lib_realm_status L u))"

context db_order begin

lemma keeps_gocloak:
  assumes "gocloak_apart G"
  shows "keeps (db_rel Q) (gc_LoginAdmin G u p r)" "keeps (db_rel Q) (gc_GetProfile G t u)"
    "keeps (db_rel Q) (gc_PutProfile G t u b)" "keeps (db_rel Q) (gc_CreateUser G t r n a)"
    "keeps (db_rel Q) (gc_CreateClient G t r c)" "keeps (db_rel Q) (gc_GetRealm G t r)"
    "keeps (db_rel Q) (gc_CreateRealm G t rl)" "keeps (db_rel Q) (gc_GetClients G t r i)"
    "keeps (db_rel Q) (gc_UpdateClient G t r c)"
  using assms by (auto simp: gocloak_apart_def intro!: keeps_of_same)

lemma keeps_attrs_ensured [keeps_rules]:
  "keeps (db_rel Q) get_attrs_ensured" "keeps (db_rel Q) set_attrs_ensured"
  by (rule keeps_db_unchanged, simp add: get_attrs_ensured_def set_attrs_ensured_def)+

lemma keeps_kc_CreatePrincipal:
  "gocloak_apart G \<Longrightarrow> keeps (db_rel Q) (kc_CreatePrincipal G cfg p)"
  unfolding kc_CreatePrincipal_def ensureUnmanagedUserAttributes_def kc_login_def
  by (intro keeps_rules keeps_gocloak)

lemma keeps_EnsureProvisioned:
  assumes "gocloak_apart G"
  shows "keeps (db_rel Q) (EnsureProvisioned G cfg)"
proof -
  have "keeps (db_rel Q) (upsertClient G cfg t want)" for t want
  proof -
    have "keeps (db_rel Q) (case cs of
        [] \<Rightarrow> go_bind (gc_CreateClient G t (kc_Realm cfg) want) (\<lambda>_. go_ret ())
      | c # cs \<Rightarrow> gc_UpdateClient G t (kc_Realm cfg) (want\<lparr>cl_ID := cl_ID c\<rparr>))" for cs
      by (cases cs) (simp_all, intro keeps_rules keeps_gocloak assms, rule keeps_gocloak(9) [OF assms])
    then show ?thesis unfolding upsertClient_def by (intro keeps_rules keeps_gocloak(8) [OF assms])
  qed
  then show ?thesis
    unfolding EnsureProvisioned_def kc_login_def ensureRealm_def ensureClients_def
    by (intro keeps_rules keeps_gocloak assms)
qed

lemma keeps_process [keeps_rules]: "keeps (db_rel Q) new_manager" "keeps (db_rel Q) (require b m)"
  unfolding require_def
  by (rule keeps_db_unchanged, simp add: new_manager_def, intro keeps_rules)

lemma keeps_fresh_process: "keeps (db_rel Q) (\<lambda>w. (r, fresh_process cfg w))"
  by (rule keeps_db_unchanged) (simp add: fresh_process_def)

end

context db_order begin

text \<open>Creating an organisation respects what its statements respect.\<close>

lemma keeps_org_create:
  assumes "\<And>u now n d x d'. q_CreateOrg u now n d = Inr (x, d') \<Longrightarrow> Q d d'"
    and "\<And>u d x d'. q_DeleteOrg u d = Inr (x, d') \<Longrightarrow> Q d d'"
    and "\<And>u oid n perms d x d'. q_CreateRole u oid n perms d = Inr (x, d') \<Longrightarrow> Q d d'"
  shows "keeps (db_rel Q) (org_Service_CreateOrg E (role_Store_SeedDefaults E) name)"
proof -
  have "keeps (db_rel Q) (role_Store_CreateRole E s n perms)" for s n perms
    unfolding role_Store_CreateRole_def role_q_CreateRole_def by (intro keeps_rules keeps_sql) (erule assms)
  then have "keeps (db_rel Q) (seed_loop E s ds)" for s ds
    by (induction ds) (auto intro!: keeps_rules)
  then have "keeps (db_rel Q) (role_Store_SeedDefaults E s)" for s by (simp add: role_Store_SeedDefaults_def)
  then show ?thesis
    unfolding org_Service_CreateOrg_def org_Store_CreateOrg_def org_q_CreateOrg_def org_Store_DeleteOrg_def
      org_q_DeleteOrg_def
    by (intro keeps_rules keeps_sql) (assumption | erule assms)+
qed

end

section \<open>From statements to the service\<close>

locale table_writes = db_order Q for Q :: "database \<Rightarrow> database \<Rightarrow> bool" +
  fixes C :: audit_codec
  assumes w_OrgCreate: "uuid_codec E \<Longrightarrow> keeps (db_rel Q) (org_Service_CreateOrg E (role_Store_SeedDefaults E) n)"
    and w_CreateTeam: "q_CreateTeam u oid n d = Inr (x3, d') \<Longrightarrow> Q d d'"
    and w_AddMember: "q_AddMember p oid d = Inr (x4, d') \<Longrightarrow> Q d d'"
    and w_AddTeamMember: "q_AddTeamMember p tid d = Inr (x5, d') \<Longrightarrow> Q d d'"
    and w_CreateRole: "q_CreateRole u oid n perms d = Inr (x6, d') \<Longrightarrow> Q d d'"
    and w_AssignRole: "uuid_codec E \<Longrightarrow> keeps (db_rel Q) (role_Service_AssignRole E p rid st sid)"
    and w_Create: "(\<And>ep. keeps (db_rel (=)) (create ep)) \<Longrightarrow> keeps (db_rel Q) (principal_Service_Create create i)"
    and w_RegisterOwnership: "q_RegisterOwnership ty rid ow oid d = Inr (x7, d') \<Longrightarrow> Q d d'"
    and w_InsertDelegation: "q_InsertDelegation u now ag de oid sc jkt ex d = Inr (x8, d') \<Longrightarrow> Q d d'"
    and w_RevokeDelegation: "q_RevokeDelegation u d = Inr (x9, d') \<Longrightarrow> Q d d'"
    and w_InsertSigningKey: "q_InsertSigningKey now kid alg enc stt ra d = Inr (x10, d') \<Longrightarrow> Q d d'"
    and w_DemoteActive: "q_DemoteActive ra d = Inr (x11, d') \<Longrightarrow> Q d d'"
    and w_DeleteExpired: "q_DeleteExpired now d = Inr (x12, d') \<Longrightarrow> Q d d'"
    and w_Append: "json_codec C \<Longrightarrow> keeps (db_rel Q) (Append C chain es)"
    and w_InsertApiKey: "q_InsertApiKey now k d = Inr (x14, d') \<Longrightarrow> Q d d'"
    and w_RevokeApiKey: "q_RevokeApiKey kid d = Inr (x15, d') \<Longrightarrow> Q d d'"
    and w_TouchLastUsed: "q_TouchLastUsed now kid d = Inr (x16, d') \<Longrightarrow> Q d d'"
    and w_EnsureLedger: "q_EnsureLedger d = Inr (x17, d') \<Longrightarrow> Q d d'"
    and w_Exec: "q_Exec ddl up d = Inr (x18, d') \<Longrightarrow> Q d d'"
    and w_InsertLedger: "q_InsertLedger n d = Inr (x19, d') \<Longrightarrow> Q d d'"
begin

lemma writes [keeps_rules]:
  "keeps (db_rel Q) (sql (q_CreateTeam u oid n))" "keeps (db_rel Q) (sql (q_AddMember p oid))"
  "keeps (db_rel Q) (sql (q_AddTeamMember p tid))" "keeps (db_rel Q) (sql (q_CreateRole u oid n perms))"
  "keeps (db_rel Q) (sql (q_RegisterOwnership ty rid ow oid))"
  "keeps (db_rel Q) (sql (q_InsertDelegation u now ag de oid sc jkt ex))"
  "keeps (db_rel Q) (sql (q_RevokeDelegation u))"
  "keeps (db_rel Q) (sql (q_InsertSigningKey now kid alg enc stt ra))"
  "keeps (db_rel Q) (sql (q_DemoteActive ra))" "keeps (db_rel Q) (sql (q_DeleteExpired now))"
  "keeps (db_rel Q) (sql (q_InsertApiKey now k))"
  "keeps (db_rel Q) (sql (q_RevokeApiKey kid))" "keeps (db_rel Q) (sql (q_TouchLastUsed now kid))"
  "keeps (db_rel Q) (sql q_EnsureLedger)" "keeps (db_rel Q) (sql (q_Exec ddl up))"
  "keeps (db_rel Q) (sql (q_InsertLedger nm))"
  by (rule keeps_sql, erule w_CreateTeam w_AddMember w_AddTeamMember w_CreateRole
      w_RegisterOwnership w_InsertDelegation w_RevokeDelegation w_InsertSigningKey w_DemoteActive
      w_DeleteExpired w_InsertApiKey w_RevokeApiKey w_TouchLastUsed w_EnsureLedger
      w_Exec w_InsertLedger)+

lemma reads_LedgerHas [keeps_rules]: "keeps (db_rel Q) (sql (q_LedgerHas n))"
  by (rule keeps_sql) (auto simp: q_LedgerHas_def intro: db_refl split: option.splits)

lemma keeps_touch [keeps_rules]: "keeps (db_rel Q) (TouchLastUsed kid)"
  unfolding TouchLastUsed_def TouchApiKeyLastUsed_def by (intro keeps_rules)

lemma keeps_verify [keeps_rules]: "keeps (db_rel Q) (ak_Verify hmac pepper cx token)"
  by (intro keeps_ak_Verify keeps_rules)

lemma keeps_org_create_handler:
  "uuid_codec E \<Longrightarrow> keeps (db_rel Q) (org_Handler_CreateOrganization E (role_Store_SeedDefaults E) cx n)"
  unfolding org_Handler_CreateOrganization_def by (intro keeps_rules w_OrgCreate)

lemma keeps_org_handlers:
  "keeps (db_rel Q) (org_Handler_CreateTeam E cx u n)"
  "keeps (db_rel Q) (org_Handler_AddMember E cx p u)"
  "keeps (db_rel Q) (org_Handler_AddTeamMember E cx p u)"
  unfolding org_Handler_CreateTeam_def org_Service_CreateTeam_def org_Store_CreateTeam_def org_q_CreateTeam_def
    org_Handler_AddMember_def org_Service_AddMember_def org_Store_AddMember_def org_q_AddMember_def
    org_Handler_AddTeamMember_def org_Service_AddTeamMember_def org_Store_AddTeamMember_def
    org_q_AddTeamMember_def
  by (intro keeps_rules)+

lemma keeps_role_handlers:
  assumes "uuid_codec E"
  shows "keeps (db_rel Q) (role_Handler_CreateRole E (org_Store_IsMember E) cx u n ps)"
    "keeps (db_rel Q) (role_Handler_AssignRole E (org_Store_IsMember E) cx p r st s)"
  unfolding role_Handler_CreateRole_def role_Service_CreateRole_def role_Store_CreateRole_def
    role_q_CreateRole_def role_Handler_AssignRole_def
  by (intro keeps_rules w_AssignRole assms)+

lemma keeps_principal_handler:
  "gocloak_apart G \<Longrightarrow> keeps (db_rel Q) (principal_Handler_CreatePrincipal (kc_CreatePrincipal G cfg) cx m)"
  unfolding principal_Handler_CreatePrincipal_def
  by (intro keeps_rules w_Create same_db.keeps_kc_CreatePrincipal)

lemma keeps_ownership_handler:
  "keeps (db_rel Q) (authz_Handler_RegisterOwnership E (org_Store_IsMember E) cx t i p u)"
  unfolding authz_Handler_RegisterOwnership_def authz_Store_RegisterOwnership_def
    authz_q_RegisterOwnership_def
  by (intro keeps_rules)

lemma keeps_delegation_handlers:
  assumes "keeps (db_rel Q) keyset"
  shows "keeps (db_rel Q) (dg_Handler_Issue E J iss keyset TypeOf cx m)"
    "keeps (db_rel Q) (dg_Handler_Revoke E cx i)"
  unfolding dg_Handler_Issue_def dg_Service_Issue_def dg_Store_Insert_def InsertDelegation_def
    dg_Handler_Revoke_def dg_Service_Revoke_def dg_Store_Revoke_def RevokeDelegation_def
  by (intro keeps_rules assms)+

lemma keeps_apikey_handlers:
  "keeps (db_rel Q) (ak_Handler_Issue hmac pepper pol (org_Store_IsMember E) cx m)"
  "keeps (db_rel Q) (ak_Handler_Revoke (authz_Service_Check E) cx i)"
  unfolding ak_Handler_Issue_def issue_guard_def ak_Store_Insert_def InsertApiKey_def
    ak_Handler_Revoke_def ak_Store_Revoke_def RevokeApiKey_def
  by (intro keeps_rules)+

lemma keeps_respond: "keeps (db_rel Q) m \<Longrightarrow> keeps (db_rel Q) (respond f m)"
  unfolding respond_def by (intro keeps_rules)

lemma keeps_keysetOf [keeps_rules]: "keeps (db_rel Q) (keysetOf L S)"
  unfolding keysetOf_def by (intro keeps_rules)

lemma keeps_dispatch:
  assumes "libs_ok L"
  shows "keeps (db_rel Q) (dispatch L S req cx)"
proof -
  have E: "uuid_codec (lib_pg L)" and G: "gocloak_apart (lib_gocloak L)"
    using assms by (simp_all add: libs_ok_def)
  show ?thesis
  proof (cases req)
    case (PrincipalService m)
    then show ?thesis by (cases m) (auto intro!: keeps_respond keeps_principal_handler [OF G] keeps_rules)
  next
    case (OrgService m)
    then show ?thesis by (cases m) (auto intro!: keeps_respond keeps_org_create_handler [OF E] keeps_org_handlers)
  next
    case (RoleService m)
    then show ?thesis by (cases m) (auto intro!: keeps_respond keeps_role_handlers [OF E])
  next
    case (AuthzService m)
    then show ?thesis by (cases m) (auto intro!: keeps_respond keeps_ownership_handler keeps_rules)
  next
    case (DelegationService m)
    then show ?thesis by (cases m) (auto intro!: keeps_respond keeps_delegation_handlers keeps_rules)
  next
    case (AuditService m)
    then show ?thesis by (cases m) (auto intro!: keeps_respond keeps_rules)
  next
    case (ApiKeyService m)
    then show ?thesis by (cases m) (auto intro!: keeps_respond keeps_apikey_handlers keeps_rules)
  qed
qed

lemma keeps_rpc: "libs_ok L \<Longrightarrow> keeps (db_rel Q) (rpc L S req h)"
  unfolding rpc_def by (intro keeps_WrapUnary keeps_dispatch) (auto intro: keeps_verify)

lemma keeps_serve:
  assumes "libs_ok L"
  shows "keeps (db_rel Q) (serve L K S r)"
proof -
  have jwks: "keeps (db_rel Q) (serve_jwks L S)"
    unfolding serve_jwks_def JWKSHandler_serve_def by (intro keeps_rules)
  have rpcs: "keeps (db_rel Q) (serve_rpc L K S r)" for r
    by (cases "cn_Decode K r") (auto simp: serve_rpc_def intro!: keeps_rules keeps_rpc assms)
  have probe: "keeps (db_rel Q) (ready_probe L cfg)" for cfg
    using assms unfolding ready_probe_def keycloakReachable_def
    by (intro keeps_rules) (auto simp: libs_ok_def intro: keeps_of_same)
  show ?thesis
    unfolding serve_def
    by (intro keeps_RateLimitMiddleware keeps_mountAll)
       (auto simp: mux_handlers_def intro!: keeps_rules jwks rpcs probe)
qed

lemma append_chains_writes:
  assumes "json_codec C"
  shows "Q (db w) (db (append_chains C m ks w))"
proof (induction ks arbitrary: w)
  case (Cons k ks)
  let ?w = "snd (Append C k (case m k of None \<Rightarrow> [] | Some es \<Rightarrow> es) w)"
  from keepsD [OF w_Append [OF assms]] have "Q (db w) (db ?w)" by (simp add: db_rel_def)
  moreover have "Q (db ?w) (db (append_chains C m ks ?w))" by (rule Cons.IH)
  ultimately show ?case by (simp add: db_trans [of "db w" "db ?w"])
qed (simp add: db_refl)

lemma append_batch_writes: "json_codec C \<Longrightarrow> db w1 = db w \<Longrightarrow> Q (db w) (db (append_batch C ord b w1))"
  using append_chains_writes [of w1] by (simp add: append_batch_def)

lemma drainAll_writes:
  assumes "json_codec C"
  shows "Q (db w) (db (drainAll C ord w))"
proof (induction "length (chan w)" arbitrary: w rule: less_induct)
  case less
  obtain b w1 where b: "drainUpTo 256 w = (b, w1)" by fastforce
  then have d: "db w1 = db w" by (auto simp: drainUpTo_def)
  show ?case
  proof (cases "b = []")
    case True
    with b d show ?thesis by (simp add: drainAll.simps [of C ord w] db_refl)
  next
    case False
    have "Q (db (append_batch C ord b w1)) (db (drainAll C ord (append_batch C ord b w1)))"
      using less b False by (auto simp: drainUpTo_def)
    with b d False db_trans [OF append_batch_writes [OF assms d]] show ?thesis
      by (simp add: drainAll.simps [of C ord w])
  qed
qed

lemma worker_writes: "json_codec C \<Longrightarrow> run_step C ord (b, w) (b', w') \<Longrightarrow> Q (db w) (db w')"
  by (erule run_stepE)
     (auto simp: Record_def Let_def db_refl drainUpTo_def flush_def intro!: append_batch_writes drainAll_writes)

lemma keeps_migrate: "keeps (db_rel Q) (migrate_Apply ddl files)"
proof -
  have loop: "keeps (db_rel Q) (migrate_loop ddl body names)" for body names
    by (induction names) (auto simp: migrate_tx_def Let_def intro!: keeps_rules split: option.split)
  have body: "keeps (db_rel Q) (migrate_body ddl files)"
    unfolding migrate_body_def by (intro keeps_rules loop)
  have unlock: "keeps (db_rel Q) (sql_read (\<lambda>d. ()))" by (rule keeps_rules)
  have "keeps (db_rel Q) (\<lambda>w. case migrate_body ddl files w of
      (r, w1) \<Rightarrow> (r, snd (advisory_unlock w1 :: (err + unit) \<times> world)))"
  proof (rule keepsI)
    fix w
    show "db_rel Q w (snd (case migrate_body ddl files w of
        (r, w1) \<Rightarrow> (r, snd (advisory_unlock w1 :: (err + unit) \<times> world))))"
      using keepsD [OF body, of w] keepsD [OF unlock, of "snd (migrate_body ddl files w)"]
      by (auto simp: db_rel_def advisory_unlock_def split: prod.split intro: db_trans)
  qed
  then show ?thesis unfolding migrate_Apply_def by (intro keeps_rules)
qed

lemma keeps_EnsureActive: "keeps (db_rel Q) (EnsureActive Cr kek)"
  unfolding EnsureActive_def mint_def sk_Store_Insert_def InsertSigningKey_def by (intro keeps_rules)

lemma keeps_runServer:
  assumes "libs_ok L"
  shows "keeps (db_rel Q) (runServer L getenv)"
proof -
  have "keeps (db_rel Q) (lib_pool L s)" for s using assms by (simp add: libs_ok_def keeps_of_same)
  moreover have "gocloak_apart (lib_gocloak L)" using assms by (simp add: libs_ok_def)
  ultimately show ?thesis
    unfolding runServer_def
    by (intro keeps_rules keeps_migrate keeps_EnsureActive keeps_EnsureProvisioned keeps_fresh_process)
qed

lemma keeps_runRotate:
  assumes "libs_ok L"
  shows "keeps (db_rel Q) (runRotate L getenv)"
proof -
  have "keeps (db_rel Q) (lib_pool L s)" for s using assms by (simp add: libs_ok_def keeps_of_same)
  then show ?thesis
    unfolding runRotate_def Manager_Rotate_def sk_Store_Rotate_def DemoteActiveSigningKey_def
      InsertSigningKey_def sk_Store_RetireExpired_def DeleteExpiredSigningKeys_def
    by (intro keeps_rules keeps_EnsureActive)
qed

lemma step_writes:
  assumes "libs_ok L" "lib_codec L = C" "sys_step L K S w w'"
  shows "Q (db w) (db w')"
  using assms(3)
proof cases
  case (request r)
  then show ?thesis using keepsD [OF keeps_serve [OF assms(1)], of w K S r] by (simp add: db_rel_def)
next
  case (worker ord b)
  with assms(1,2) show ?thesis by (auto simp: libs_ok_def intro: worker_writes)
next
  case (rotation getenv)
  then show ?thesis using keepsD [OF keeps_runRotate [OF assms(1)], of w getenv] by (simp add: db_rel_def)
next
  case (replica getenv)
  then show ?thesis using keepsD [OF keeps_runServer [OF assms(1)], of w getenv] by (simp add: db_rel_def)
qed (simp add: db_refl)

lemma steps_write:
  assumes "libs_ok L" "lib_codec L = C" "(sys_step L K S)\<^sup>*\<^sup>* w w'"
  shows "Q (db w) (db w')"
  using assms(3) by (induction rule: rtranclp_induct) (auto intro: db_refl db_trans step_writes [OF assms(1,2)])

lemma reachable_writes:
  assumes "libs_ok L" "lib_codec L = C" "reachable L K S w"
  shows "Q empty_db (db w)"
  using assms(3)
proof (induction rule: reachable.induct)
  case (started w0 getenv S w)
  then show ?case using keeps_eqD [OF keeps_runServer [OF assms(1)] started(2)] by (simp add: db_rel_def)
next
  case (restarted S w getenv S' w')
  then show ?case
    using keeps_eqD [OF keeps_runServer [OF assms(1)] restarted(2)] by (auto simp: db_rel_def intro: db_trans)
next
  case (stepped S w w')
  then show ?case using step_writes [OF assms(1,2)] db_trans by blast
qed

end

end
