(* ===== verification/Table_Invariants.thy ===== *)
theory Table_Invariants
  imports Invariants
begin

text \<open>
  The invariant of the tables: the constraints of \<open>db/migrations\<close>, every role assignment inside
  the organisation of its role, and agents with an owner. Each writing statement keeps it, so the
  service does (the interpretation \<open>ok\<close> of \<open>table_writes\<close>).
\<close>

section \<open>The invariants of the tables\<close>

text \<open>The schema's constraints, every role assignment inside its role's organisation, and agents
  with an owner.\<close>

definition system_ok :: "database \<Rightarrow> bool" where
  "system_ok d \<longleftrightarrow> db_ok d \<and> scopes_ok d \<and> agents_ok d"

text \<open>An update of the rows that satisfy a condition, in a column that the key does not use.\<close>

lemma map_key_update:
  "(\<And>x. P x \<Longrightarrow> key (g x) = key x) \<Longrightarrow> map key (map (\<lambda>x. if P x then g x else x) xs) = map key xs"
  by (induction xs) auto

lemma ok_staysI:
  assumes "keys_ok d \<Longrightarrow> keys_ok d'" "refs_ok d \<Longrightarrow> refs_ok d'" "checks_ok d \<Longrightarrow> checks_ok d'"
    and "scopes_ok d \<Longrightarrow> refs_ok d \<Longrightarrow> keys_ok d \<Longrightarrow> scopes_ok d'" "agents_ok d \<Longrightarrow> agents_ok d'"
  shows "stays system_ok d d'"
  using assms by (simp add: stays_def system_ok_def db_ok_def)

lemma scopes_mono:
  assumes "scopes_ok d" "set (role_assignments d') \<subseteq> set (role_assignments d)"
    "set (roles d) \<subseteq> set (roles d')" "set (teams d) \<subseteq> set (teams d')"
  shows "scopes_ok d'"
  using assms unfolding scopes_ok_def scope_in_org_def by (meson subsetD)

lemma row_eta [simp]:
  "\<lparr>mb_PrincipalID = mb_PrincipalID m, mb_OrgID = mb_OrgID m\<rparr> = m"
  "\<lparr>tmb_PrincipalID = tmb_PrincipalID t, tmb_TeamID = tmb_TeamID t\<rparr> = t"
  by simp_all

lemmas exists_defs = org_exists_def team_exists_def role_exists_def

lemma refs_grow:
  assumes "refs_ok d"
    and "\<And>u. org_exists d u \<Longrightarrow> org_exists d' u" "\<And>u. team_exists d u \<Longrightarrow> team_exists d' u"
    and "\<And>u. role_exists d u \<Longrightarrow> role_exists d' u" "set (map d_ID (delegations d)) \<subseteq> set (map d_ID (delegations d'))"
    and "\<And>t. t \<in> set (teams d') \<Longrightarrow> t \<in> set (teams d) \<or> org_exists d' (tm_OrgID t)"
    and "\<And>t. t \<in> set (memberships d') \<Longrightarrow> t \<in> set (memberships d) \<or> org_exists d' (mb_OrgID t)"
    and "\<And>t. t \<in> set (team_memberships d') \<Longrightarrow> t \<in> set (team_memberships d) \<or> team_exists d' (tmb_TeamID t)"
    and "\<And>t. t \<in> set (roles d') \<Longrightarrow> t \<in> set (roles d) \<or> org_exists d' (r_OrgID t)"
    and "\<And>t. t \<in> set (role_assignments d') \<Longrightarrow> t \<in> set (role_assignments d) \<or> role_exists d' (ra_RoleID t)"
    and "\<And>t. t \<in> set (ownership d') \<Longrightarrow> t \<in> set (ownership d) \<or> org_exists d' (ow_OrgID t)"
    and "\<And>t. t \<in> set (delegations d') \<Longrightarrow>
           t \<in> set (delegations d) \<or> org_exists d' (d_OrgID t) \<and> d_ParentDelegationID t = None"
    and "\<And>t. t \<in> set (organizations d') \<Longrightarrow> t \<in> set (organizations d) \<or> o_ParentID t = None"
  shows "refs_ok d'"
  unfolding refs_ok_def
proof (intro conjI ballI allI impI)
  note r = assms(1) [unfolded refs_ok_def]
  show "org_exists d' (tm_OrgID t)" if "t \<in> set (teams d')" for t using assms(2,6) r that by blast
  show "org_exists d' (mb_OrgID t)" if "t \<in> set (memberships d')" for t using assms(2,7) r that by blast
  show "team_exists d' (tmb_TeamID t)" if "t \<in> set (team_memberships d')" for t using assms(3,8) r that by blast
  show "org_exists d' (r_OrgID t)" if "t \<in> set (roles d')" for t using assms(2,9) r that by blast
  show "role_exists d' (ra_RoleID t)" if "t \<in> set (role_assignments d')" for t using assms(4,10) r that by blast
  show "org_exists d' (ow_OrgID t)" if "t \<in> set (ownership d')" for t using assms(2,11) r that by blast
  show "org_exists d' (d_OrgID t)" if "t \<in> set (delegations d')" for t using assms(2,12) r that by blast
  show "org_exists d' u" if "t \<in> set (organizations d')" "o_ParentID t = Some u" for t u
    using assms(2) assms(13) [OF that(1)] r that(2) by auto
  show "u \<in> set (map d_ID (delegations d'))" if "t \<in> set (delegations d')" "d_ParentDelegationID t = Some u" for t u
    using assms(5) assms(12) [OF that(1)] r that(2) by auto
qed

lemma ok_CreateOrg: "q_CreateOrg u now n d = Inr (x, d') \<Longrightarrow> stays system_ok d d'"
  by (rule ok_staysI,
      (auto simp: q_CreateOrg_def Let_def keys_ok_def exists_defs split: if_splits)[1],
      (erule refs_grow; auto simp: q_CreateOrg_def Let_def exists_defs split: if_splits)[1],
      (auto simp: q_CreateOrg_def Let_def checks_ok_def split: if_splits)[1],
      (erule scopes_mono; auto simp: q_CreateOrg_def Let_def split: if_splits)[1],
      (auto simp: q_CreateOrg_def Let_def agents_ok_def split: if_splits)[1])

lemma ok_CreateTeam: "q_CreateTeam u oid n d = Inr (x, d') \<Longrightarrow> stays system_ok d d'"
  by (rule ok_staysI,
      (auto simp: q_CreateTeam_def Let_def keys_ok_def exists_defs split: if_splits)[1],
      (erule refs_grow; auto simp: q_CreateTeam_def Let_def exists_defs split: if_splits)[1],
      (auto simp: q_CreateTeam_def Let_def checks_ok_def split: if_splits)[1],
      (erule scopes_mono; auto simp: q_CreateTeam_def Let_def split: if_splits)[1],
      (auto simp: q_CreateTeam_def Let_def agents_ok_def split: if_splits)[1])

lemma ok_AddMember: "q_AddMember p oid d = Inr (x, d') \<Longrightarrow> stays system_ok d d'"
  by (rule ok_staysI,
      (auto simp: q_AddMember_def Let_def keys_ok_def exists_defs split: if_splits)[1],
      (erule refs_grow; auto simp: q_AddMember_def Let_def exists_defs split: if_splits)[1],
      (auto simp: q_AddMember_def Let_def checks_ok_def split: if_splits)[1],
      (erule scopes_mono; auto simp: q_AddMember_def Let_def split: if_splits)[1],
      (auto simp: q_AddMember_def Let_def agents_ok_def split: if_splits)[1])

lemma ok_AddTeamMember: "q_AddTeamMember p tid d = Inr (x, d') \<Longrightarrow> stays system_ok d d'"
  by (rule ok_staysI,
      (auto simp: q_AddTeamMember_def Let_def keys_ok_def exists_defs split: if_splits)[1],
      (erule refs_grow; auto simp: q_AddTeamMember_def Let_def exists_defs split: if_splits)[1],
      (auto simp: q_AddTeamMember_def Let_def checks_ok_def split: if_splits)[1],
      (erule scopes_mono; auto simp: q_AddTeamMember_def Let_def split: if_splits)[1],
      (auto simp: q_AddTeamMember_def Let_def agents_ok_def split: if_splits)[1])

lemma ok_CreateRole: "q_CreateRole u oid n perms d = Inr (x, d') \<Longrightarrow> stays system_ok d d'"
  by (rule ok_staysI,
      (auto simp: q_CreateRole_def Let_def keys_ok_def exists_defs split: if_splits)[1],
      (erule refs_grow; auto simp: q_CreateRole_def Let_def exists_defs split: if_splits)[1],
      (auto simp: q_CreateRole_def Let_def checks_ok_def split: if_splits)[1],
      (erule scopes_mono; auto simp: q_CreateRole_def Let_def split: if_splits)[1],
      (auto simp: q_CreateRole_def Let_def agents_ok_def split: if_splits)[1])

lemma ok_InsertDelegation: "q_InsertDelegation u now ag de oid sc jkt ex d = Inr (x, d') \<Longrightarrow> stays system_ok d d'"
  by (rule ok_staysI,
      (auto simp: q_InsertDelegation_def Let_def keys_ok_def exists_defs split: if_splits)[1],
      (erule refs_grow; auto simp: q_InsertDelegation_def Let_def exists_defs split: if_splits)[1],
      (auto simp: q_InsertDelegation_def Let_def checks_ok_def split: if_splits)[1],
      (erule scopes_mono; auto simp: q_InsertDelegation_def Let_def split: if_splits)[1],
      (auto simp: q_InsertDelegation_def Let_def agents_ok_def split: if_splits)[1])

lemma ok_RevokeDelegation: "q_RevokeDelegation u d = Inr (x, d') \<Longrightarrow> stays system_ok d d'"
proof (rule ok_staysI)
  assume q: "q_RevokeDelegation u d = Inr (x, d')"
  have ids: "map d_ID (delegations d') = map d_ID (delegations d)"
    using q by (auto simp: q_RevokeDelegation_def map_key_update simp del: map_map)
  show "keys_ok d'" if "keys_ok d" using that q ids
    by (auto simp: q_RevokeDelegation_def keys_ok_def simp del: map_map)
  have "d_ID ` set (delegations d') = d_ID ` set (delegations d)" using ids by (metis list.set_map)
  then show "refs_ok d'" if "refs_ok d" using that q
    by (auto simp: q_RevokeDelegation_def refs_ok_def exists_defs)
  show "scopes_ok d'" if "scopes_ok d" using that q by (elim scopes_mono) (auto simp: q_RevokeDelegation_def)
qed (auto simp: q_RevokeDelegation_def checks_ok_def agents_ok_def)

lemma ok_RegisterOwnership: "q_RegisterOwnership ty rid ow oid d = Inr (x, d') \<Longrightarrow> stays system_ok d d'"
proof (rule ok_staysI)
  assume q: "q_RegisterOwnership ty rid ow oid d = Inr (x, d')"
  show "keys_ok d'" if "keys_ok d" using that q
    by (auto simp: q_RegisterOwnership_def keys_ok_def map_key_update Let_def list_ex_iff
        split: if_splits simp del: map_map)
  show "refs_ok d'" if "refs_ok d" using that q
    by (auto simp: q_RegisterOwnership_def refs_ok_def exists_defs Let_def split: if_splits)
  show "scopes_ok d'" if "scopes_ok d" using that q
    by (elim scopes_mono) (auto simp: q_RegisterOwnership_def Let_def split: if_splits)
qed (auto simp: q_RegisterOwnership_def checks_ok_def agents_ok_def Let_def split: if_splits)

text \<open>Tables that no other table refers to.\<close>

lemma ok_leaf_tables:
  assumes "d' = d\<lparr>signing_keys := sk, audit_events := au, api_keys := ak, schema_migrations := sm, executed_ddl := ex\<rparr>"
    and "keys_ok d \<Longrightarrow> distinct (map sk_Kid sk) \<and> distinct (map (\<lambda>a. (au_Chain a, au_Seq a)) au) \<and>
           distinct (map k_KeyID ak)"
    and "checks_ok d \<Longrightarrow> length (filter (\<lambda>k. sk_State k = ''active'') sk) \<le> 1"
  shows "stays system_ok d d'"
proof (rule ok_staysI)
  show "keys_ok d'" if "keys_ok d" using assms(2) [OF that] that by (simp add: assms(1) keys_ok_def)
  show "checks_ok d'" if "checks_ok d" using assms(3) [OF that] that by (simp add: assms(1) checks_ok_def)
  show "refs_ok d'" if "refs_ok d" using that by (simp add: assms(1) refs_ok_def exists_defs)
  show "agents_ok d'" if "agents_ok d" using that by (simp add: assms(1) agents_ok_def)
  show "scopes_ok d'" if "scopes_ok d" using that by (rule scopes_mono) (simp_all add: assms(1))
qed

lemma ok_InsertAuditEvent: "q_InsertAuditEvent C r d = Inr (x, d') \<Longrightarrow> stays system_ok d d'"
  by (rule ok_leaf_tables [where sk = "signing_keys d" and ak = "api_keys d" and sm = "schema_migrations d"
        and ex = "executed_ddl d" and au = "audit_events d'"])
     (auto simp: q_InsertAuditEvent_def keys_ok_def checks_ok_def split: option.splits if_splits)

lemma ok_Append: "json_codec C \<Longrightarrow> keeps (db_rel (stays system_ok)) (Append C chain es)"
  by (rule stays.keeps_Append, unfold InsertAuditEvent_def, rule stays.keeps_sql, erule ok_InsertAuditEvent)

lemma ok_InsertApiKey: "q_InsertApiKey now k d = Inr (x, d') \<Longrightarrow> stays system_ok d d'"
  by (rule ok_leaf_tables [where sk = "signing_keys d" and ak = "api_keys d'" and sm = "schema_migrations d"
        and ex = "executed_ddl d" and au = "audit_events d"])
     (auto simp: q_InsertApiKey_def keys_ok_def checks_ok_def split: if_splits)

lemma ok_RevokeApiKey: "q_RevokeApiKey kid d = Inr (x, d') \<Longrightarrow> stays system_ok d d'"
  by (rule ok_leaf_tables [where sk = "signing_keys d" and ak = "api_keys d'" and sm = "schema_migrations d"
        and ex = "executed_ddl d" and au = "audit_events d"])
     (auto simp: q_RevokeApiKey_def keys_ok_def checks_ok_def map_key_update split: option.splits simp del: map_map)

lemma ok_TouchLastUsed: "q_TouchLastUsed now kid d = Inr (x, d') \<Longrightarrow> stays system_ok d d'"
  by (rule ok_leaf_tables [where sk = "signing_keys d" and ak = "api_keys d'" and sm = "schema_migrations d"
        and ex = "executed_ddl d" and au = "audit_events d"])
     (auto simp: q_TouchLastUsed_def keys_ok_def checks_ok_def map_key_update simp del: map_map)

lemma ok_ledger:
  "q_EnsureLedger d = Inr (x, d') \<Longrightarrow> stays system_ok d d'" "q_Exec ddl up d = Inr (y, d') \<Longrightarrow> stays system_ok d d'"
  "q_InsertLedger n d = Inr (z, d') \<Longrightarrow> stays system_ok d d'"
  by (rule ok_leaf_tables [where sk = "signing_keys d" and ak = "api_keys d" and sm = "schema_migrations d'"
        and ex = "executed_ddl d'" and au = "audit_events d"],
      auto simp: q_EnsureLedger_def q_Exec_def q_InsertLedger_def keys_ok_def checks_ok_def
        split: option.splits if_splits)+

lemma ok_InsertSigningKey:
  "q_InsertSigningKey now kid alg enc stt ra d = Inr (x, d') \<Longrightarrow> stays system_ok d d'"
  by (rule ok_leaf_tables [where sk = "signing_keys d'" and ak = "api_keys d" and sm = "schema_migrations d"
        and ex = "executed_ddl d" and au = "audit_events d"])
     (auto simp: q_InsertSigningKey_def active_keys_def keys_ok_def checks_ok_def split: if_splits)

lemma ok_DemoteActive: "q_DemoteActive ra d = Inr (x, d') \<Longrightarrow> stays system_ok d d'"
  by (rule ok_leaf_tables [where sk = "signing_keys d'" and ak = "api_keys d" and sm = "schema_migrations d"
        and ex = "executed_ddl d" and au = "audit_events d"])
     (auto simp: q_DemoteActive_def keys_ok_def checks_ok_def filter_map comp_def filter_empty_conv map_key_update
       simp del: map_map)

lemma ok_DeleteExpired: "q_DeleteExpired now d = Inr (x, d') \<Longrightarrow> stays system_ok d d'"
proof (rule ok_leaf_tables [where sk = "signing_keys d'" and ak = "api_keys d" and sm = "schema_migrations d"
        and ex = "executed_ddl d" and au = "audit_events d"])
  have "length (filter P (filter R ks)) \<le> length (filter P ks)" for P R and ks :: "signing_key_row list"
    by (induction ks) auto
  from le_trans [OF this] show "length (filter (\<lambda>k. sk_State k = ''active'') (signing_keys d')) \<le> 1"
    if "q_DeleteExpired now d = Inr (x, d')" "checks_ok d"
    using that by (auto simp: q_DeleteExpired_def checks_ok_def simp del: filter_filter)
qed (auto simp: q_DeleteExpired_def keys_ok_def distinct_map_filter)

lemma ok_DeleteOrg:
  assumes "q_DeleteOrg u d = Inr (x, d')"
  shows "stays system_ok d d'"
proof (rule ok_staysI)
  have nb: "\<not> delete_blocked u d" and d': "d' = delete_cascade u d"
    using assms by (auto simp: q_DeleteOrg_def split: if_splits)
  show "keys_ok d'" if "keys_ok d"
    using that by (simp add: d' delete_cascade_def keys_ok_def Let_def distinct_map_filter)
  show "checks_ok d'" if "checks_ok d" using that by (simp add: d' delete_cascade_def checks_ok_def Let_def)
  show "agents_ok d'" if "agents_ok d" using that by (simp add: d' delete_cascade_def agents_ok_def Let_def)
  show "scopes_ok d'" if "scopes_ok d"
    unfolding scopes_ok_def
  proof
    fix a
    assume a: "a \<in> set (role_assignments d')"
    with that obtain r where r: "r \<in> set (roles d)" "r_ID r = ra_RoleID a" "scope_in_org d a (r_OrgID r)"
      by (auto simp: scopes_ok_def d' delete_cascade_def Let_def)
    moreover have "r_OrgID r \<noteq> u" using a r by (auto simp: d' delete_cascade_def Let_def image_iff)
    ultimately show "\<exists>r \<in> set (roles d'). r_ID r = ra_RoleID a \<and> scope_in_org d' a (r_OrgID r)"
      by (intro bexI [of _ r]) (auto simp: d' delete_cascade_def Let_def scope_in_org_def)
  qed
  show "refs_ok d'" if "refs_ok d"
    unfolding refs_ok_def
  proof (intro conjI ballI allI impI)
    note r = that [unfolded refs_ok_def]
    have org: "org_exists d' v" if "org_exists d v" "v \<noteq> u" for v
      using that by (auto simp: d' delete_cascade_def Let_def exists_defs)
    note here = d' delete_cascade_def Let_def
    show "org_exists d' (tm_OrgID t)" if "t \<in> set (teams d')" for t
      using that r by (intro org) (auto simp: here)
    show "org_exists d' (mb_OrgID t)" if "t \<in> set (memberships d')" for t
      using that r by (intro org) (auto simp: here)
    show "org_exists d' (r_OrgID t)" if "t \<in> set (roles d')" for t
      using that r by (intro org) (auto simp: here)
    show "org_exists d' (ow_OrgID t)" if "t \<in> set (ownership d')" for t
      using that r by (intro org) (auto simp: here)
    show "org_exists d' (d_OrgID t)" if "t \<in> set (delegations d')" for t
      using that r by (intro org) (auto simp: here)
    show "org_exists d' v" if "t \<in> set (organizations d')" "o_ParentID t = Some v" for t v
      using that r nb by (intro org) (auto simp: here delete_blocked_def)
    show "team_exists d' (tmb_TeamID m)" if "m \<in> set (team_memberships d')" for m
    proof -
      from that r have "tmb_TeamID m \<in> tm_ID ` set (teams d)" by (simp add: here exists_defs)
      with that show ?thesis by (auto simp: here exists_defs)
    qed
    show "role_exists d' (ra_RoleID a)" if "a \<in> set (role_assignments d')" for a
    proof -
      from that r have "ra_RoleID a \<in> r_ID ` set (roles d)" by (simp add: here exists_defs)
      with that show ?thesis by (auto simp: here exists_defs)
    qed
    show "v \<in> set (map d_ID (delegations d'))" if "x \<in> set (delegations d')" "d_ParentDelegationID x = Some v" for x v
    proof -
      from that have "x \<in> set (delegations d)" by (simp add: here)
      with that(2) r have "v \<in> set (map d_ID (delegations d))" by blast
      then obtain y where y: "y \<in> set (delegations d)" "v = d_ID y" by auto
      with that nb have "d_OrgID y \<noteq> u" by (auto simp: here delete_blocked_def)
      with y show ?thesis by (auto simp: here)
    qed
  qed
qed

lemma ok_InsertPrincipal:
  assumes "q_InsertPrincipal now r d = Inr (x, d')"
    and "p_Type r = ''agent'' \<Longrightarrow> \<exists>s. p_OwnerPrincipalID r = Some s \<and> s \<noteq> ''''"
    and "p_Type r \<noteq> ''agent'' \<Longrightarrow> p_OwnerPrincipalID r = None \<and> p_Capabilities r = [] \<and> p_Purpose r = ''''"
  shows "stays system_ok d d'"
proof (rule ok_staysI)
  have new: "p_Type r \<in> {''human'', ''service'', ''agent''}" "p_ID r \<notin> set (map p_ID (principals d))"
    and d': "d' = d\<lparr>principals := principals d @ [r\<lparr>p_CreatedAt := timestamptz now\<rparr>]\<rparr>"
    using assms(1) by (simp_all add: q_InsertPrincipal_def split: if_splits)
  show "keys_ok d'" if "keys_ok d" using that new by (simp add: d' keys_ok_def)
  show "checks_ok d'" if "checks_ok d" using that new by (simp add: d' checks_ok_def)
  show "refs_ok d'" if "refs_ok d" using that by (simp add: d' refs_ok_def exists_defs)
  show "agents_ok d'" if "agents_ok d" using that assms(2,3) by (simp add: d' agents_ok_def)
  show "scopes_ok d'" if "scopes_ok d" using that by (rule scopes_mono) (simp_all add: d')
qed

lemma ok_Create:
  assumes "\<And>ep. keeps (db_rel (=)) (create ep)"
  shows "keeps (db_rel (stays system_ok)) (principal_Service_Create create i)"
proof (cases "Validate i")
  case None
  then have v: "ni_Type i = Agent \<Longrightarrow> ni_OwnerPrincipalID i \<noteq> ''''"
    "ni_Type i \<noteq> Agent \<Longrightarrow> ni_OwnerPrincipalID i = '''' \<and> ni_Purpose i = '''' \<and> ni_Capabilities i = []"
    by (auto simp: Validate_None_iff split: if_splits)
  show ?thesis
    unfolding principal_Service_Create_def None option.case Let_def principal_Store_Insert_def InsertPrincipal_def
    by (intro keeps_rules stays.keeps_of_same assms stays.keeps_sql, erule ok_InsertPrincipal)
       (use v in \<open>auto simp: pgText_def Agent_def\<close>)
qed (simp add: principal_Service_Create_def keeps_rules)

lemma ok_AssignRole:
  assumes "uuid_codec E"
  shows "keeps (db_rel (stays system_ok)) (role_Service_AssignRole E p roleID st scopeID)"
proof (rule keepsI)
  fix w
  obtain r w' where run: "role_Service_AssignRole E p roleID st scopeID w = (r, w')" by fastforce
  have "stays system_ok (db w) (db w')"
  proof (cases "db w' = db w")
    case False
    then obtain a x where a: "x \<in> set (roles (db w))" "r_ID x = ra_RoleID a"
        "scope_in_org (db w) a (r_OrgID x)" "a \<notin> set (role_assignments (db w))"
      and d': "db w' = (db w)\<lparr>role_assignments := role_assignments (db w) @ [a]\<rparr>"
      using role_Service_AssignRole_outcome [OF assms run] by blast
    have eta: "b = a" if "ra_PrincipalID b = ra_PrincipalID a" "ra_RoleID b = ra_RoleID a"
      "ra_ScopeType b = ra_ScopeType a" "ra_ScopeID b = ra_ScopeID a" for b
      using that by simp
    show ?thesis
    proof (rule ok_staysI)
      let ?t = "\<lambda>a. (ra_PrincipalID a, ra_RoleID a, ra_ScopeType a, ra_ScopeID a)"
      have "?t a \<notin> ?t ` set (role_assignments (db w))"
      proof
        assume "?t a \<in> ?t ` set (role_assignments (db w))"
        then obtain b where b: "b \<in> set (role_assignments (db w))" "?t a = ?t b" by (rule imageE)
        then have "b = a" by (intro eta) simp_all
        with b(1) a(4) show False by blast
      qed
      then show "keys_ok (db w')" if "keys_ok (db w)" using that by (simp add: d' keys_ok_def)
      have "role_exists (db w) (ra_RoleID a)" using a(1,2) by (force simp: role_exists_def)
      then show "refs_ok (db w')" if "refs_ok (db w)" using that by (simp add: d' refs_ok_def exists_defs)
      show "checks_ok (db w')" if "checks_ok (db w)" using that a(3) by (auto simp: d' checks_ok_def scope_in_org_def)
      show "agents_ok (db w')" if "agents_ok (db w)" using that by (simp add: d' agents_ok_def)
      show "scopes_ok (db w')" if "scopes_ok (db w)"
        using that a(1-3) by (auto simp: d' scopes_ok_def scope_in_org_def)
    qed
  qed (simp add: stays_def)
  with run show "db_rel (stays system_ok) w (snd (role_Service_AssignRole E p roleID st scopeID w))"
    by (simp add: db_rel_def)
qed

lemma ok_OrgCreate: "keeps (db_rel (stays system_ok)) (org_Service_CreateOrg E (role_Store_SeedDefaults E) n)"
  by (rule stays.keeps_org_create) (fact ok_CreateOrg ok_DeleteOrg ok_CreateRole)+

interpretation ok: table_writes "stays system_ok" C for C
  by unfold_locales
     (rule ok_OrgCreate | fact ok_CreateTeam ok_AddMember ok_AddTeamMember ok_CreateRole ok_AssignRole
       ok_Create ok_RegisterOwnership ok_InsertDelegation ok_RevokeDelegation ok_InsertSigningKey
       ok_DemoteActive ok_DeleteExpired ok_Append ok_InsertApiKey ok_RevokeApiKey
       ok_TouchLastUsed ok_ledger)+

end
