(* ===== verification/Running.thy ===== *)
theory Running
  imports Table_Invariants
begin

text \<open>
  What holds of the running service, over all reachable states and all sequences of steps: the
  invariant of the tables, verifiable audit chains, an append-only audit log, and issued API keys
  whose only changes are the last-use stamp and a revocation that is never undone.
\<close>

section \<open>Statements that write neither the audit log nor the API keys\<close>

definition leaves_logs :: "database \<Rightarrow> database \<Rightarrow> bool" where
  "leaves_logs d d' \<longleftrightarrow> audit_events d' = audit_events d \<and> api_keys d' = api_keys d"

interpretation quiet: db_order leaves_logs
  by unfold_locales (auto simp: leaves_logs_def)

lemma quiet_statements:
  "q_CreateOrg u now n d = Inr (x1, d') \<Longrightarrow> leaves_logs d d'"
  "q_DeleteOrg u d = Inr (x2, d') \<Longrightarrow> leaves_logs d d'"
  "q_CreateTeam u oid n d = Inr (x3, d') \<Longrightarrow> leaves_logs d d'"
  "q_AddMember p oid d = Inr (x4, d') \<Longrightarrow> leaves_logs d d'"
  "q_AddTeamMember p tid d = Inr (x5, d') \<Longrightarrow> leaves_logs d d'"
  "q_CreateRole u oid n perms d = Inr (x6, d') \<Longrightarrow> leaves_logs d d'"
  "q_RegisterOwnership ty rid ow oid d = Inr (x7, d') \<Longrightarrow> leaves_logs d d'"
  "q_InsertDelegation u now ag de oid sc jkt ex d = Inr (x8, d') \<Longrightarrow> leaves_logs d d'"
  "q_RevokeDelegation u d = Inr (x9, d') \<Longrightarrow> leaves_logs d d'"
  "q_InsertSigningKey now kid alg enc stt ra d = Inr (x10, d') \<Longrightarrow> leaves_logs d d'"
  "q_DemoteActive ra d = Inr (x11, d') \<Longrightarrow> leaves_logs d d'"
  "q_DeleteExpired now d = Inr (x12, d') \<Longrightarrow> leaves_logs d d'"
  "q_EnsureLedger d = Inr (x17, d') \<Longrightarrow> leaves_logs d d'"
  "q_Exec ddl up d = Inr (x18, d') \<Longrightarrow> leaves_logs d d'"
  "q_InsertLedger n d = Inr (x19, d') \<Longrightarrow> leaves_logs d d'"
  "q_AssignRole p r1 st sid d = Inr (x20, d') \<Longrightarrow> leaves_logs d d'"
  "q_InsertPrincipal now r d = Inr (x21, d') \<Longrightarrow> leaves_logs d d'"
  by (auto simp: q_CreateOrg_def leaves_logs_def Let_def split: if_splits)
     (auto simp: q_DeleteOrg_def delete_cascade_def q_CreateTeam_def q_AddMember_def q_AddTeamMember_def
       q_CreateRole_def q_RegisterOwnership_def q_InsertDelegation_def q_RevokeDelegation_def
       q_InsertSigningKey_def q_DemoteActive_def q_DeleteExpired_def q_EnsureLedger_def q_Exec_def
       q_InsertLedger_def q_AssignRole_def q_InsertPrincipal_def leaves_logs_def Let_def
       split: if_splits option.splits)

lemma quiet_AssignRole: "keeps (db_rel leaves_logs) (role_Service_AssignRole E p rid st sid)"
  unfolding role_Service_AssignRole_def role_Store_AssignRole_def role_q_AssignRole_def
  by (intro keeps_rules quiet.keeps_sql) (erule quiet_statements)

lemma quiet_OrgCreate: "keeps (db_rel leaves_logs) (org_Service_CreateOrg E (role_Store_SeedDefaults E) n)"
  by (rule quiet.keeps_org_create) (fact quiet_statements(1,2,6))+

lemma quiet_Create:
  assumes "\<And>ep. keeps (db_rel (=)) (create ep)"
  shows "keeps (db_rel leaves_logs) (principal_Service_Create create i)"
proof -
  have "keeps (db_rel leaves_logs) (create ep)" for ep using assms by (rule quiet.keeps_of_same)
  then show ?thesis
    unfolding principal_Service_Create_def principal_Store_Insert_def InsertPrincipal_def
    by (intro keeps_rules quiet.keeps_sql) (assumption | erule quiet_statements)+
qed

text \<open>A relation that only looks at those two tables.\<close>

locale log_relation = db_order Q for Q :: "database \<Rightarrow> database \<Rightarrow> bool" +
  fixes C :: audit_codec
  assumes q_quiet: "leaves_logs d d' \<Longrightarrow> Q d d'"
    and q_Append: "json_codec C \<Longrightarrow> keeps (db_rel Q) (Append C chain es)"
    and q_InsertApiKey: "q_InsertApiKey now k d = Inr (x, d') \<Longrightarrow> Q d d'"
    and q_RevokeApiKey: "q_RevokeApiKey kid d = Inr (y, d') \<Longrightarrow> Q d d'"
    and q_TouchLastUsed: "q_TouchLastUsed now kid d = Inr (x, d') \<Longrightarrow> Q d d'"
begin

lemma keeps_quiet: "keeps (db_rel leaves_logs) m \<Longrightarrow> keeps (db_rel Q) m"
  by (auto simp: keeps_def db_rel_def intro: q_quiet)

end

sublocale log_relation \<subseteq> table_writes Q C
  by unfold_locales
     (rule keeps_quiet [OF quiet_OrgCreate]
      | erule q_quiet [OF quiet_statements(3)]
        q_quiet [OF quiet_statements(4)] q_quiet [OF quiet_statements(5)] q_quiet [OF quiet_statements(6)]
        q_quiet [OF quiet_statements(7)] q_quiet [OF quiet_statements(8)] q_quiet [OF quiet_statements(9)]
        q_quiet [OF quiet_statements(10)] q_quiet [OF quiet_statements(11)] q_quiet [OF quiet_statements(12)]
        q_quiet [OF quiet_statements(13)] q_quiet [OF quiet_statements(14)] q_quiet [OF quiet_statements(15)]
        keeps_quiet [OF quiet_Create] q_Append q_InsertApiKey q_RevokeApiKey q_TouchLastUsed
      | rule keeps_quiet [OF quiet_AssignRole])+

section \<open>Verifiable chains\<close>

text \<open>Sequence numbers are 64-bit; below that bound every chain is one that \<open>Verify\<close> accepts.\<close>

definition chains_ok :: "audit_codec \<Rightarrow> database \<Rightarrow> bool" where
  "chains_ok C d \<longleftrightarrow>
     (int (length (audit_events d)) < 2 ^ 63 \<longrightarrow> (\<forall>chain. accepted C genesis 0 (chain_rows chain d)))"

lemma chains_Append:
  assumes "json_codec C"
  shows "keeps (db_rel (stays (chains_ok C))) (Append C chain es)"
proof (rule keepsI)
  fix w
  obtain r w' where run: "Append C chain es w = (r, w')" by fastforce
  have "chains_ok C (db w')" if ok: "chains_ok C (db w)"
    using assms run
  proof (cases rule: Append_outcome)
    case nothing
    with ok show ?thesis by simp
  next
    case (all rows)
    show ?thesis
      unfolding chains_ok_def
    proof (intro impI allI)
      fix chain'
      assume len: "int (length (audit_events (db w'))) < 2 ^ 63"
      then have small: "int (length (audit_events (db w))) + int (length rows) < 2 ^ 63"
        using all(1) by (simp add: audit_grows_def)
      with ok have old: "accepted C genesis 0 (chain_rows c (db w))" for c by (simp add: chains_ok_def)
      have "length (chain_rows c (db w)) \<le> length (audit_events (db w))" for c
        by (simp add: chain_rows_def)
      with small have "int (length (chain_rows chain (db w))) + int (length rows) < 2 ^ 63"
        by (smt (verit) of_nat_mono)
      from chain_grown(2) [OF old all(1,3,4) this] chain_rows_grows_other [OF all(1,3)] old
      show "accepted C genesis 0 (chain_rows chain' (db w'))" by (cases "chain' = chain") auto
    qed
  qed
  with run show "db_rel (stays (chains_ok C)) w (snd (Append C chain es w))"
    by (simp add: db_rel_def stays_def)
qed

interpretation chains: log_relation "stays (chains_ok C)" C for C
  by unfold_locales
     (auto simp: stays_def chains_ok_def chain_rows_def leaves_logs_def q_InsertApiKey_def q_RevokeApiKey_def
       q_TouchLastUsed_def intro: chains_Append split: if_splits option.splits)

section \<open>Append-only history\<close>

text \<open>Rows that are never removed and only change in a given way, with new rows after them.\<close>

definition grown :: "('r \<Rightarrow> 'r \<Rightarrow> bool) \<Rightarrow> 'r list \<Rightarrow> 'r list \<Rightarrow> bool" where
  "grown later xs ys \<longleftrightarrow> (\<exists>zs new. ys = zs @ new \<and> list_all2 later xs zs)"

locale row_evolution =
  fixes later :: "'r \<Rightarrow> 'r \<Rightarrow> bool"
  assumes later_refl: "later r r"
    and later_trans: "later r s \<Longrightarrow> later s t \<Longrightarrow> later r t"
begin

lemma grown_append: "grown later xs (xs @ new)"
  unfolding grown_def using list_all2_refl [of later xs] later_refl by blast

lemma grown_refl: "grown later xs xs"
  using grown_append [of xs "[]"] by simp

lemma grown_update: "(\<And>r. P r \<Longrightarrow> later r (g r)) \<Longrightarrow> grown later xs (map (\<lambda>r. if P r then g r else r) xs)"
proof -
  assume "\<And>r. P r \<Longrightarrow> later r (g r)"
  then have "list_all2 later xs (map (\<lambda>r. if P r then g r else r) xs)"
    by (induction xs) (auto simp: later_refl)
  then show ?thesis unfolding grown_def by (metis append_Nil2)
qed

lemma grown_trans:
  assumes "grown later xs ys" "grown later ys zs"
  shows "grown later xs zs"
proof -
  from assms obtain y1 n1 z1 n2 where y: "ys = y1 @ n1" "list_all2 later xs y1"
    and z: "zs = z1 @ n2" "list_all2 later (y1 @ n1) z1" by (auto simp: grown_def)
  from z(2) obtain u1 u2 where u: "z1 = u1 @ u2" "list_all2 later y1 u1" by (auto simp: list_all2_append1)
  have "list_all2 later xs u1" by (rule list_all2_trans [OF _ y(2) u(2)]) (rule later_trans)
  with z(1) u(1) show ?thesis unfolding grown_def by (intro exI [of _ u1] exI [of _ "u2 @ n2"]) simp
qed

lemma grown_member:
  assumes "grown later xs ys" "r \<in> set xs"
  obtains s where "s \<in> set ys" "later r s"
proof -
  from assms obtain zs new where zs: "ys = zs @ new" "list_all2 later xs zs" by (auto simp: grown_def)
  from assms(2) obtain i where "i < length xs" "xs ! i = r" by (auto simp: in_set_conv_nth)
  with zs that [of "zs ! i"] show thesis by (auto simp: list_all2_conv_all_nth)
qed

end

text \<open>A key as it may look later: only the stamp and the revocation flag differ, and a revocation
  stays.\<close>

definition key_later :: "api_key_row \<Rightarrow> api_key_row \<Rightarrow> bool" where
  "key_later k k' \<longleftrightarrow>
     k' = k\<lparr>k_Revoked := k_Revoked k', k_LastUsedAt := k_LastUsedAt k'\<rparr> \<and> (k_Revoked k \<longrightarrow> k_Revoked k')"

lemma key_later_id: "key_later k k' \<Longrightarrow> k_KeyID k' = k_KeyID k"
  unfolding key_later_def by (cases k; cases k') simp

interpretation key_rows: row_evolution key_later
proof unfold_locales
  show "key_later k k" for k by (simp add: key_later_def)
  show "key_later a c" if "key_later a b" "key_later b c" for a b c
    using that unfolding key_later_def by (cases a; cases b; cases c) simp
qed

definition history_kept :: "database \<Rightarrow> database \<Rightarrow> bool" where
  "history_kept d d' \<longleftrightarrow>
     (\<exists>rows. audit_events d' = audit_events d @ rows) \<and> grown key_later (api_keys d) (api_keys d')"

lemma history_refl: "history_kept d d"
  by (simp add: history_kept_def key_rows.grown_refl)

lemma history_trans: "history_kept a b \<Longrightarrow> history_kept b c \<Longrightarrow> history_kept a c"
  by (auto simp: history_kept_def intro: key_rows.grown_trans)

interpretation history: log_relation history_kept C for C
proof unfold_locales
  fix a b c :: database
  show "history_kept a a" by (rule history_refl)
  assume "history_kept a b" "history_kept b c"
  then show "history_kept a c" by (rule history_trans)
next
  fix d d' :: database
  assume "leaves_logs d d'"
  then show "history_kept d d'" by (simp add: history_kept_def leaves_logs_def key_rows.grown_refl)
next
  fix chain es
  show "keeps (db_rel history_kept) (Append C chain es)" if "json_codec C"
  proof (rule keepsI)
    fix w
    obtain r w' where run: "Append C chain es w = (r, w')" by fastforce
    with that have "history_kept (db w) (db w')"
      by (rule Append_outcome) (auto simp: history_kept_def audit_grows_def key_rows.grown_refl)
    with run show "db_rel history_kept w (snd (Append C chain es w))" by (simp add: db_rel_def)
  qed
next
  fix now k d x and d' :: database
  assume "q_InsertApiKey now k d = Inr (x, d')"
  then show "history_kept d d'"
    by (auto simp: q_InsertApiKey_def history_kept_def intro: key_rows.grown_append split: if_splits)
next
  fix kid d y and d' :: database
  assume "q_RevokeApiKey kid d = Inr (y, d')"
  then show "history_kept d d'"
    by (auto simp: q_RevokeApiKey_def history_kept_def key_later_def intro!: key_rows.grown_update split: option.splits)
next
  fix now kid d x and d' :: database
  assume "q_TouchLastUsed now kid d = Inr (x, d')"
  then show "history_kept d d'"
    by (auto simp: q_TouchLastUsed_def history_kept_def key_later_def intro!: key_rows.grown_update)
qed

section \<open>Properties\<close>

lemma reachable_ok: "libs_ok L \<Longrightarrow> reachable L K S w \<Longrightarrow> system_ok (db w)"
  using ok.reachable_writes [OF _ refl, of L K S w] db_ok_empty
  by (simp add: stays_def system_ok_def scopes_ok_def agents_ok_def empty_db_def)

text \<open>C4: In every state the service can reach, whatever requests, faults, restarts and rotations led
  there, the tables satisfy the schema's constraints (keys unique, references resolved, at most one
  active signing key), every role assignment lies in the organisation of its role, and exactly the
  agents have an owner.\<close>

theorem reachable_tables_ok:
  assumes "libs_ok L" "reachable L K S w"
  shows "db_ok (db w) \<and> scopes_ok (db w) \<and> agents_ok (db w)"
  using reachable_ok [OF assms] by (simp add: system_ok_def)

text \<open>C5: In every reachable state with fewer than $2^{63}$ audit rows, \<open>Verify\<close> of any chain that
  reaches the database answers that the chain is intact.\<close>

theorem reachable_chains_verify:
  assumes "libs_ok L" "reachable L K S w" "int (length (audit_events (db w))) < 2 ^ 63"
    and "Verify (lib_codec L) chain w = (Inr v, w')"
  shows "v = (True, 0)"
proof -
  have "chains_ok (lib_codec L) empty_db" by (simp add: chains_ok_def chain_rows_def empty_db_def)
  with chains.reachable_writes [OF assms(1) refl assms(2)] assms(3)
  have "accepted (lib_codec L) genesis 0 (chain_rows chain (db w))"
    by (simp add: stays_def chains_ok_def)
  from verify_loop_accepted [OF this] assms(4) show ?thesis
    unfolding Verify_def ScanAuditChain_def by (auto elim!: go_bind_InrD dest!: sql_read_InrD)
qed

text \<open>C8: The audit log is append-only: no request, worker step, rotation or restart of a replica ever
  changes or removes a stored row.\<close>

theorem audit_log_append_only:
  assumes "libs_ok L" "(sys_step L K S)\<^sup>*\<^sup>* w w'"
  shows "\<exists>rows. audit_events (db w') = audit_events (db w) @ rows"
  using history.steps_write [OF assms(1) refl assms(2)] by (simp add: history_kept_def)

lemma revoked_key_stays:
  assumes "history_kept d d'" "keys_ok d'" "k \<in> set (api_keys d)" "k_Revoked k"
    and "k' \<in> set (api_keys d')" "k_KeyID k' = k_KeyID k"
  shows "k_Revoked k'"
proof -
  from assms(1) have "grown key_later (api_keys d) (api_keys d')" by (simp add: history_kept_def)
  then obtain s where s: "s \<in> set (api_keys d')" "key_later k s" using assms(3) by (rule key_rows.grown_member)
  with key_later_id assms(2,5,6) have "s = k'" by (auto simp: keys_ok_def distinct_map inj_on_def)
  with s(2) assms(4) show ?thesis by (simp add: key_later_def)
qed

text \<open>C9: Revocation of an API key is permanent: once a key is revoked, no later request that presents
  it and no root token is served, whatever happened in between; it is refused as unauthenticated
  and changes no table but, at most, a last-use stamp. (The tables satisfy their invariant, as they
  do in every reachable state.)\<close>

theorem apikey_revocation_permanent:
  assumes "libs_ok L" "system_ok (db w)" "k \<in> set (api_keys (db w))" "k_Revoked k"
    and "(sys_step L K S)\<^sup>*\<^sup>* w w'"
    and "h ''Authorization'' = ''Bearer '' @ tok" "Parse tok = Some (k_KeyID k, secret)"
    and "\<not> snd (CheckRoot h (RootToken (srv_cfg S)))"
  shows "\<exists>w''. rpc L S req h w' = (Inl (NewError CodeUnauthenticated), w'') \<and> same_unstamped (db w') (db w'')"
proof -
  let ?v = "ak_Verify (lib_hmac L) (srv_pepper S) None tok"
  have ok: "system_ok (db w')" using ok.steps_write [OF assms(1) refl assms(5)] assms(2) by (simp add: stays_def)
  have pre: "strings_HasPrefix tok apikeyPrefix"
    using assms(7) by (auto simp: Parse_def Prefix_def apikeyPrefix_def split: if_splits)
  obtain r w'' where v: "?v w' = (r, w'')" by fastforce
  have "\<exists>e. r = Inl e"
  proof (rule ccontr)
    assume "\<nexists>e. r = Inl e"
    then obtain p ro where "r = Inr (p, ro)" by (metis sum.exhaust surj_pair)
    with v ak_Verify_InrD obtain k' where k': "k' \<in> set (api_keys (db w'))"
        "key_matches (lib_hmac L) (srv_pepper S) (clock w') tok k'" by blast
    then have "k_KeyID k' = k_KeyID k" "\<not> k_Revoked k'" using assms(7) by (auto simp: key_matches_def)
    moreover have "keys_ok (db w')" using ok by (simp add: system_ok_def db_ok_def)
    ultimately show False
      using revoked_key_stays [OF history.steps_write [OF assms(1) refl assms(5)]] assms(3,4) k'(1) by blast
  qed
  with v have "rpc L S req h w' = (Inl (NewError CodeUnauthenticated), w'')"
    using authenticate_apikey [OF assms(6) pre assms(8), where J = "lib_oidc L" and v = "Some (srv_verifier S)" and cx = None]
    by (auto simp: rpc_def WrapUnary_def go_bind_cases go_try_def)
  moreover have "same_unstamped (db w') (db w'')"
    using keeps_eqD [OF stamped.keeps_ak_Verify [OF touch_stamped] v] by (simp add: db_rel_def)
  ultimately show ?thesis by blast
qed

end
