(* ===== verification/Access.thy ===== *)
theory Access
  imports Running
begin

text \<open>
  Who may do what through the assembled service: a procedure needs a credential, a read-only
  credential never writes, and a caller outside an organisation cannot change it.
\<close>

section \<open>Credentials\<close>

text \<open>The procedures a read-only credential may call leave the tables alone.\<close>

lemma read_safe_reads:
  assumes "IsReadSafe (procedure req)"
  shows "keeps (db_rel (=)) (dispatch L S req cx)"
proof -
  have k: "keeps (db_rel (=)) (keysetOf L S)" unfolding keysetOf_def by (intro keeps_rules)
  show ?thesis
  proof (cases req)
    case (PrincipalService m)
    with assms show ?thesis
      by (cases m) (auto simp: IsReadSafe_def readSafeProcedures_def respond_def intro!: keeps_rules)
  next
    case (OrgService m)
    with assms show ?thesis by (cases m) (simp_all add: IsReadSafe_def readSafeProcedures_def)
  next
    case (RoleService m)
    with assms show ?thesis by (cases m) (simp_all add: IsReadSafe_def readSafeProcedures_def)
  next
    case (AuthzService m)
    with assms show ?thesis
      by (cases m) (auto simp: IsReadSafe_def readSafeProcedures_def respond_def intro!: keeps_rules)
  next
    case (DelegationService m)
    with assms k show ?thesis
      by (cases m) (auto simp: IsReadSafe_def readSafeProcedures_def respond_def intro!: keeps_rules)
  next
    case (AuditService m)
    with assms show ?thesis
      by (cases m) (auto simp: IsReadSafe_def readSafeProcedures_def respond_def intro!: keeps_rules)
  next
    case (ApiKeyService m)
    with assms show ?thesis
      by (cases m) (auto simp: IsReadSafe_def readSafeProcedures_def respond_def intro!: keeps_rules)
  qed
qed

abbreviation credential :: "libs \<Rightarrow> base_server \<Rightarrow> header \<Rightarrow> (rpc_error, Caller) wact" where
  "credential L S h \<equiv>
     authenticate (lib_oidc L) (Some (srv_verifier S)) (Some (ak_Verify (lib_hmac L) (srv_pepper S)))
       (RootToken (srv_cfg S)) None h"

lemma credential_stamps: "keeps (db_rel same_unstamped) (credential L S h)"
  by (rule stamped.keeps_authenticate) (auto intro: stamped.keeps_ak_Verify touch_stamped)

text \<open>C7: A request made with a read-only credential never changes a table, apart from the last-use stamp
  of the API key, whatever procedure it names and whatever its message is.\<close>

theorem readonly_credential_never_writes:
  assumes "credential L S h w = (Inr c, w1)" "c_ReadOnly c"
  shows "same_unstamped (db w) (db (snd (rpc L S req h w)))"
proof -
  have d1: "same_unstamped (db w) (db w1)"
    using keeps_eqD [OF credential_stamps assms(1)] by (simp add: db_rel_def)
  have "keeps (db_rel (=)) (go_bind (gateB (lib_rate L) None c) (\<lambda>_.
      if c_ReadOnly c \<and> \<not> IsReadSafe (procedure req) then go_fail (NewError CodePermissionDenied)
      else dispatch L S req (WithCaller None c)))"
    using assms(2) by (intro keeps_rules read_safe_reads) simp
  from keepsD [OF this, of w1] have "db (snd (rpc L S req h w)) = db w1"
    using assms(1) by (simp add: rpc_def WrapUnary_def go_bind_cases [of "credential L S h"] db_rel_def)
  with d1 show ?thesis by simp
qed

lemma time_Unix_mono: "s \<le> t \<Longrightarrow> time_Unix s \<le> time_Unix t"
  unfolding time_Unix_def by (rule zdiv_mono1) simp_all

lemma keeps_kc_clock: "keeps clock_rel (keyFor v kid)"
proof -
  have prims: "keeps clock_rel http_fetch_jwks" "keeps clock_rel (kc_key kid :: (err, bytes option) wact)"
    "keeps clock_rel (kc_since t :: (err, duration) wact)" "keeps clock_rel (set_lastRefreshAttempt now :: (err, unit) wact)"
    "keeps clock_rel (need_key k)" for t now k
    by (rule keepsI, auto simp: clock_rel_def http_fetch_jwks_def kc_key_def kc_since_def set_lastRefreshAttempt_def need_key_def
        time_Now_def Let_def split: list.split option.split)+
  have "keeps clock_rel kc_refresh"
    unfolding kc_refresh_def by (intro keeps_rules prims keepsI) (simp_all add: clock_rel_def)
  then show ?thesis unfolding keyFor_def by (intro keeps_rules prims)
qed

definition bearer_accepted :: "oidc_jose \<Rightarrow> Verifier \<Rightarrow> time \<Rightarrow> string \<Rightarrow> string \<Rightarrow> bool" where
  "bearer_accepted J v now tok sub \<longleftrightarrow>
     (\<exists>kid pub cl. rs_ParseSigned J tok = Some (Some kid) \<and> rs_Claims J tok pub = Some cl \<and>
        kc_Iss cl = ve_issuer v \<and> kc_Azp cl \<in> set (ve_allowedAzp v) \<and> kc_Typ cl \<notin> {''ID'', ''id''} \<and>
        time_Unix now < kc_Exp cl \<and> kc_Sub cl = sub \<and> sub \<noteq> '''')"

lemma kc_Verify_InrD:
  assumes "kc_Verify J v tok w = (Inr c, w')"
  shows "bearer_accepted J v (clock w) tok (c_PrincipalID c) \<and> \<not> c_SystemAdmin c \<and> \<not> c_ReadOnly c"
proof -
  from assms obtain kid pub w1 cl w2 now where
    a: "rs_ParseSigned J tok = Some (Some kid)" "keyFor v kid w = (Inr pub, w1)" "rs_Claims J tok pub = Some cl"
      "kc_Iss cl = ve_issuer v" "kc_Azp cl \<in> set (ve_allowedAzp v)" "kc_Typ cl \<notin> {''ID'', ''id''}"
      "time_Now w1 = (Inr now :: err + time, w2)" "time_Unix now < kc_Exp cl" "kc_Sub cl \<noteq> ''''"
    and c: "c = \<lparr>c_PrincipalID = kc_Sub cl, c_SystemAdmin = False, c_AuthMethod = '''', c_ReadOnly = False\<rparr>"
    by (auto simp: kc_Verify_def not_le elim!: go_bind_InrD split: option.splits if_splits)
  have "clock w \<le> clock w1" by (rule keeps_clkD [OF keeps_kc_clock a(2)])
  also have "\<dots> \<le> now" using time_Now_InrD [OF a(7)] by simp
  finally have "time_Unix (clock w) < kc_Exp cl" using a(8) time_Unix_mono by fastforce
  with a c show ?thesis by (auto simp: bearer_accepted_def)
qed


end
