(* ===== verification/Tenancy.thy ===== *)
theory Tenancy
  imports Access
begin

text \<open>
  What a caller outside an organisation can do to it: nothing. Every handler that writes the tables
  of an organisation stands behind the membership guard of \<open>authn/guard.go\<close>, and the id the guard
  checks is the id of the organisation the handler writes to.
\<close>


section \<open>Tenant isolation\<close>

text \<open>What belongs to an organisation: its row, teams, members and roles, the members of its teams and
  the assignments of its roles.\<close>

record org_slice =
  os_org :: "organization_row list"
  os_teams :: "team_row list"
  os_members :: "membership_row list"
  os_roles :: "role_row list"
  os_team_members :: "team_membership_row list"
  os_assignments :: "role_assignment_row list"

definition tenant :: "uuid \<Rightarrow> database \<Rightarrow> org_slice" where
  "tenant u d =
     \<lparr>os_org = filter (\<lambda>r. o_ID r = u) (organizations d),
      os_teams = filter (\<lambda>t. tm_OrgID t = u) (teams d),
      os_members = filter (\<lambda>m. mb_OrgID m = u) (memberships d),
      os_roles = filter (\<lambda>r. r_OrgID r = u) (roles d),
      os_team_members =
        filter (\<lambda>m. \<exists>t \<in> set (teams d). tm_OrgID t = u \<and> tm_ID t = tmb_TeamID m) (team_memberships d),
      os_assignments =
        filter (\<lambda>a. \<exists>r \<in> set (roles d). r_OrgID r = u \<and> r_ID r = ra_RoleID a) (role_assignments d)\<rparr>"

definition same_slice :: "uuid \<Rightarrow> database \<Rightarrow> database \<Rightarrow> bool" where
  "same_slice u d d' \<longleftrightarrow> tenant u d' = tenant u d"

interpretation sl: db_order "same_slice u" for u
  by unfold_locales (auto simp: same_slice_def)

lemma slice_other_tables [simp]:
  "tenant u (d\<lparr>ownership := a\<rparr>) = tenant u d" "tenant u (d\<lparr>delegations := b\<rparr>) = tenant u d"
  "tenant u (d\<lparr>api_keys := c\<rparr>) = tenant u d" "tenant u (d\<lparr>principals := e\<rparr>) = tenant u d"
  by (simp_all add: tenant_def)

lemma isolated_org_writes:
  assumes "uuid_Scan E s = Some v" "v \<noteq> u"
  shows "keeps (db_rel (same_slice u)) (org_Service_CreateTeam E s n)"
    "keeps (db_rel (same_slice u)) (org_Service_AddMember E p s)"
    "keeps (db_rel (same_slice u)) (role_Service_CreateRole E s n perms)"
proof -
  have team: "same_slice u d d'" if "q_CreateTeam i v n d = Inr (x, d')" for i n d x d'
    using that assms(2) by (auto simp: q_CreateTeam_def same_slice_def tenant_def Let_def split: if_splits)
  have memb: "same_slice u d d'" if "q_AddMember p v d = Inr (x, d')" for p d x d'
    using that assms(2) by (auto simp: q_AddMember_def same_slice_def tenant_def Let_def split: if_splits)
  have role: "same_slice u d d'" if "q_CreateRole i v n perms d = Inr (x, d')" for i n perms d x d'
    using that assms(2) by (auto simp: q_CreateRole_def same_slice_def tenant_def Let_def split: if_splits)
  show "keeps (db_rel (same_slice u)) (org_Service_CreateTeam E s n)"
    unfolding org_Service_CreateTeam_def org_Store_CreateTeam_def org_q_CreateTeam_def assms(1) option.case
    by (intro keeps_rules sl.keeps_sql) (erule team)
  show "keeps (db_rel (same_slice u)) (org_Service_AddMember E p s)"
    unfolding org_Service_AddMember_def org_Store_AddMember_def org_q_AddMember_def assms(1) option.case
    by (intro keeps_rules sl.keeps_sql) (erule memb)
  show "keeps (db_rel (same_slice u)) (role_Service_CreateRole E s n perms)"
    unfolding role_Service_CreateRole_def role_Store_CreateRole_def role_q_CreateRole_def assms(1) option.case
    by (intro keeps_rules sl.keeps_sql) (erule role)
qed

text \<open>A handler behind the membership guard only goes on for an organisation of the caller.\<close>

lemma guarded_slice:
  assumes "\<not> c_SystemAdmin c" "\<lparr>mb_PrincipalID = c_PrincipalID c, mb_OrgID = u\<rparr> \<notin> set (memberships (db w))"
    and "\<And>v w1. uuid_Scan E s = Some v \<Longrightarrow> v \<noteq> u \<Longrightarrow> db w1 = db w \<Longrightarrow> same_slice u (db w1) (db (snd (f c w1)))"
  shows "same_slice u (db w) (db (snd (go_bind (RequireMember (Some c) (org_Store_IsMember E) s) f w)))"
proof -
  obtain r w1 where g: "RequireMember (Some c) (org_Store_IsMember E) s w = (r, w1)" by fastforce
  have d: "db w1 = db w" by (rule org_members.require_reads [OF g])
  show ?thesis
  proof (cases r)
    case (Inl e)
    with g d show ?thesis by (simp add: go_bind_cases same_slice_def)
  next
    case (Inr c')
    with g org_members.require_sound assms(1) have "c' = c" "is_member E (db w) (c_PrincipalID c) s"
      by (metis option.inject)+
    then obtain v where "uuid_Scan E s = Some v" "v \<noteq> u"
      using assms(2) by (auto simp: is_member_def split: option.splits)
    with assms(3) [OF this d] d g Inr \<open>c' = c\<close> show ?thesis by (simp add: go_bind_cases)
  qed
qed

lemma slice_try_Record:
  assumes "keeps (db_rel (same_slice u)) m"
  shows "same_slice u (db w) (db (snd (go_try m (\<lambda>e. go_fail (g e)) (\<lambda>x. go_bind (Record cx (ev x)) (\<lambda>_. go_ret (h x))) w)))"
    "same_slice u (db w) (db (snd (go_try m (\<lambda>e. go_fail (g e)) (\<lambda>x. Record cx (ev x)) w)))"
proof -
  have "keeps (db_rel (same_slice u)) (go_try m (\<lambda>e. go_fail (g e)) (\<lambda>x. go_bind (Record cx (ev x)) (\<lambda>_. go_ret (h x))))"
    "keeps (db_rel (same_slice u)) (go_try m (\<lambda>e. go_fail (g e)) (\<lambda>x. Record cx (ev x)))"
    by (intro keeps_rules assms)+
  from this [THEN keepsD, of w]
  show "same_slice u (db w) (db (snd (go_try m (\<lambda>e. go_fail (g e)) (\<lambda>x. go_bind (Record cx (ev x)) (\<lambda>_. go_ret (h x))) w)))"
    "same_slice u (db w) (db (snd (go_try m (\<lambda>e. go_fail (g e)) (\<lambda>x. Record cx (ev x)) w)))"
    by (simp_all add: db_rel_def)
qed

lemma slice_lookup:
  assumes "keeps (db_rel (=)) m" "\<And>e. keeps (db_rel (=)) (h e)"
    and "\<And>x w1. m w = (Inr x, w1) \<Longrightarrow> db w1 = db w \<Longrightarrow> same_slice u (db w1) (db (snd (f x w1)))"
  shows "same_slice u (db w) (db (snd (go_try m h f w)))"
proof -
  obtain r w1 where m: "m w = (r, w1)" by fastforce
  have d: "db w1 = db w" by (rule keeps_sameD [OF assms(1) m])
  show ?thesis
  proof (cases r)
    case (Inl e)
    with m d keepsD [OF assms(2), of w1 e] show ?thesis by (simp add: go_try_def same_slice_def db_rel_def)
  next
    case (Inr x)
    with assms(3) m d show ?thesis by (simp add: go_try_def)
  qed
qed

lemma slice_write_Record:
  assumes "\<And>r w1. m w = (r, w1) \<Longrightarrow> same_slice u (db w) (db w1)"
  shows "same_slice u (db w) (db (snd (go_try m (\<lambda>e. go_fail (g e)) (\<lambda>x. Record cx (ev x)) w)))"
  using assms by (cases "m w") (auto simp: go_try_def Record_def Let_def split: sum.split)

lemma org_Store_TeamOrg_InrD:
  "org_Store_TeamOrg E s w = (Inr x, w') \<Longrightarrow>
     \<exists>t \<in> set (teams (db w)). uuid_Scan E s = Some (tm_ID t) \<and> x = uuid_String E (tm_OrgID t)"
  unfolding org_Store_TeamOrg_def org_q_GetTeamOrg_def
  by (auto simp: go_try_def split: option.splits prod.splits sum.splits if_splits
      dest!: sql_one_InrD find_SomeD)

lemma isolated_team_member:
  assumes "keys_ok (db w)" "t \<in> set (teams (db w))" "tm_OrgID t \<noteq> u" "uuid_Scan E s = Some (tm_ID t)"
    and "org_Service_AddTeamMember E p s w = (r, w1)"
  shows "same_slice u (db w) (db w1)"
proof -
  have "t' = t" if "t' \<in> set (teams (db w))" "tm_ID t' = tm_ID t" for t'
    using that assms(1,2) by (auto simp: keys_ok_def distinct_map inj_on_def)
  then have q: "same_slice u (db w) d'" if "q_AddTeamMember p (tm_ID t) (db w) = Inr (x, d')" for x d'
    using that assms(3) by (fastforce simp: q_AddTeamMember_def same_slice_def tenant_def Let_def split: if_splits)
  show ?thesis using assms(4,5) q
    by (auto simp: org_Service_AddTeamMember_def org_Store_AddTeamMember_def org_q_AddTeamMember_def same_slice_def
        split: if_splits dest!: sql_outcome)
qed

lemma isolated_assignment:
  assumes "uuid_codec E" "keys_ok (db w)" "x \<in> set (roles (db w))" "r_OrgID x \<noteq> u" "uuid_Scan E s = Some (r_ID x)"
    and "role_Service_AssignRole E p s st sid w = (r, w1)"
  shows "same_slice u (db w) (db w1)"
proof -
  have "x' = x" if "x' \<in> set (roles (db w))" "r_ID x' = r_ID x" for x'
    using that assms(2,3) by (auto simp: keys_ok_def distinct_map inj_on_def)
  with role_Service_AssignRole_outcome [OF assms(1,6)] assms(4,5) show ?thesis
    by (fastforce simp: same_slice_def tenant_def)
qed

lemma isolated_org_handlers:
  assumes "uuid_codec E" "keys_ok (db w)" "\<not> c_SystemAdmin c"
    and out: "\<lparr>mb_PrincipalID = c_PrincipalID c, mb_OrgID = u\<rparr> \<notin> set (memberships (db w))"
  shows "same_slice u (db w) (db (snd (org_Handler_CreateTeam E (Some c) s n w)))"
    "same_slice u (db w) (db (snd (org_Handler_AddMember E (Some c) p s w)))"
    "same_slice u (db w) (db (snd (org_Handler_AddTeamMember E (Some c) p s w)))"
proof -
  show "same_slice u (db w) (db (snd (org_Handler_CreateTeam E (Some c) s n w)))"
    unfolding org_Handler_CreateTeam_def
    by (rule guarded_slice [OF assms(3) out]) (rule slice_try_Record(1), rule isolated_org_writes(1))
  show "same_slice u (db w) (db (snd (org_Handler_AddMember E (Some c) p s w)))"
    unfolding org_Handler_AddMember_def
    by (rule guarded_slice [OF assms(3) out]) (rule slice_try_Record(2), rule isolated_org_writes(2))
  show "same_slice u (db w) (db (snd (org_Handler_AddTeamMember E (Some c) p s w)))"
    unfolding org_Handler_AddTeamMember_def
  proof (rule slice_lookup)
    fix x w1 assume x: "org_Store_TeamOrg E s w = (Inr x, w1)" and d: "db w1 = db w"
    from org_Store_TeamOrg_InrD [OF x] obtain t where
      t: "t \<in> set (teams (db w))" "uuid_Scan E s = Some (tm_ID t)" "x = uuid_String E (tm_OrgID t)" by blast
    show "same_slice u (db w1) (db (snd (go_bind (RequireMember (Some c) (org_Store_IsMember E) x) (\<lambda>_.
        go_try (org_Service_AddTeamMember E p s) (\<lambda>e. go_fail (org_errCode e)) (\<lambda>_.
        Record (Some c) (actor_event (Some c) ''team.member.add'' ''principal'' p x OutcomeSuccess
          (Some [''team_id'' \<mapsto> s])))) w1)))"
    proof (rule guarded_slice [OF assms(3) out [folded d]])
      fix v and w2 :: world assume "uuid_Scan E x = Some v" "v \<noteq> u" and e: "db w2 = db w1"
      with t assms(1) have "tm_OrgID t \<noteq> u" by (simp add: uuid_codec_def)
      with d e t assms(2)
      show "same_slice u (db w2) (db (snd (go_try (org_Service_AddTeamMember E p s) (\<lambda>e. go_fail (org_errCode e)) (\<lambda>_.
        Record (Some c) (actor_event (Some c) ''team.member.add'' ''principal'' p x OutcomeSuccess
          (Some [''team_id'' \<mapsto> s]))) w2)))"
        by (intro slice_write_Record isolated_team_member) auto
    qed
  qed (intro keeps_rules)+
qed

lemma isolated_role_handlers:
  assumes "uuid_codec E" "keys_ok (db w)" "\<not> c_SystemAdmin c"
    and out: "\<lparr>mb_PrincipalID = c_PrincipalID c, mb_OrgID = u\<rparr> \<notin> set (memberships (db w))"
  shows "same_slice u (db w) (db (snd (role_Handler_CreateRole E (org_Store_IsMember E) (Some c) s n ps w)))"
    "same_slice u (db w) (db (snd (role_Handler_AssignRole E (org_Store_IsMember E) (Some c) p s st sid w)))"
proof -
  show "same_slice u (db w) (db (snd (role_Handler_CreateRole E (org_Store_IsMember E) (Some c) s n ps w)))"
    unfolding role_Handler_CreateRole_def
    by (rule guarded_slice [OF assms(3) out]) (rule slice_try_Record(1), rule isolated_org_writes(3))
  show "same_slice u (db w) (db (snd (role_Handler_AssignRole E (org_Store_IsMember E) (Some c) p s st sid w)))"
    unfolding role_Handler_AssignRole_def
  proof (rule slice_lookup)
    fix x w1 assume x: "role_Service_RoleOrg E s w = (Inr x, w1)" and d: "db w1 = db w"
    from role_Store_RoleOrg_InrD [OF x [unfolded role_Service_RoleOrg_def]] obtain r where
      r: "r \<in> set (roles (db w))" "uuid_Scan E s = Some (r_ID r)" "x = uuid_String E (r_OrgID r)" by blast
    show "same_slice u (db w1) (db (snd (go_bind (RequireMember (Some c) (org_Store_IsMember E) x) (\<lambda>_.
        go_try (role_Service_AssignRole E p s st sid) (\<lambda>e. go_fail (role_code e)) (\<lambda>_.
        Record (Some c) (actor_event (Some c) ''role.assign'' ''principal'' p x OutcomeSuccess
          (Some [''role_id'' \<mapsto> s])))) w1)))"
    proof (rule guarded_slice [OF assms(3) out [folded d]])
      fix v and w2 :: world assume "uuid_Scan E x = Some v" "v \<noteq> u" and e: "db w2 = db w1"
      with r assms(1) have "r_OrgID r \<noteq> u" by (simp add: uuid_codec_def)
      with d e r assms(1,2)
      show "same_slice u (db w2) (db (snd (go_try (role_Service_AssignRole E p s st sid) (\<lambda>e. go_fail (role_code e)) (\<lambda>_.
        Record (Some c) (actor_event (Some c) ''role.assign'' ''principal'' p x OutcomeSuccess
          (Some [''role_id'' \<mapsto> s]))) w2)))"
        by (intro slice_write_Record isolated_assignment) auto
    qed
  qed (intro keeps_rules)+
qed

lemma slice_other_writes:
  "q_RegisterOwnership ty rid ow oid d = Inr (x1, d') \<Longrightarrow> same_slice u d d'"
  "q_InsertDelegation i now ag de oid sc jkt ex d = Inr (x2, d') \<Longrightarrow> same_slice u d d'"
  "q_RevokeDelegation i d = Inr (x3, d') \<Longrightarrow> same_slice u d d'"
  "q_InsertApiKey now k d = Inr (x4, d') \<Longrightarrow> same_slice u d d'"
  "q_RevokeApiKey kid d = Inr (x5, d') \<Longrightarrow> same_slice u d d'"
  by (auto simp: same_slice_def q_RegisterOwnership_def q_InsertDelegation_def q_RevokeDelegation_def q_InsertApiKey_def
      q_RevokeApiKey_def Let_def split: if_splits option.splits)

lemma slice_other_handlers:
  "keeps (db_rel (same_slice u)) (authz_Handler_RegisterOwnership E (org_Store_IsMember E) cx t i p s)"
  "keeps (db_rel (same_slice u)) (dg_Handler_Issue E J iss (keysetOf L S) TypeOf cx m)"
  "keeps (db_rel (same_slice u)) (dg_Handler_Revoke E cx i)"
  "keeps (db_rel (same_slice u)) (ak_Handler_Issue hmac pepper pol (org_Store_IsMember E) cx ki)"
  "keeps (db_rel (same_slice u)) (ak_Handler_Revoke (authz_Service_Check E) cx i)"
  unfolding authz_Handler_RegisterOwnership_def authz_Store_RegisterOwnership_def authz_q_RegisterOwnership_def
    dg_Handler_Issue_def dg_Service_Issue_def dg_Store_Insert_def InsertDelegation_def keysetOf_def
    dg_Handler_Revoke_def dg_Service_Revoke_def dg_Store_Revoke_def RevokeDelegation_def
    ak_Handler_Issue_def issue_guard_def ak_Store_Insert_def InsertApiKey_def
    ak_Handler_Revoke_def ak_Store_Revoke_def RevokeApiKey_def
  by (intro keeps_rules sl.keeps_sql, erule slice_other_writes)+

lemma slice_respond: "same_slice u (db w) (db (snd (m w))) \<Longrightarrow> same_slice u (db w) (db (snd (respond f m w)))"
  by (cases "m w") (auto simp: respond_def go_bind_cases split: sum.split)

lemma slice_keeps: "keeps (db_rel (same_slice u)) m \<Longrightarrow> same_slice u (db w) (db (snd (respond f m w)))"
  by (rule slice_respond, drule keepsD) (simp add: db_rel_def)

lemma admin_only_denied:
  assumes "\<not> c_SystemAdmin c"
  shows "same_slice u (db w) (db (snd (principal_Handler_CreatePrincipal cr (Some c) m w)))"
    "same_slice u (db w) (db (snd (org_Handler_CreateOrganization E seed (Some c) n w)))"
  using assms
  by (simp_all add: principal_Handler_CreatePrincipal_def org_Handler_CreateOrganization_def RequireSystemAdmin_def go_bind_cases
      same_slice_def)

lemma dispatch_isolated:
  assumes "uuid_codec (lib_pg L)" "keys_ok (db w)" "\<not> c_SystemAdmin c"
    and "\<lparr>mb_PrincipalID = c_PrincipalID c, mb_OrgID = u\<rparr> \<notin> set (memberships (db w))"
  shows "tenant u (db (snd (dispatch L S req (Some c) w))) = tenant u (db w)"
proof -
  have keyset: "keeps (db_rel (same_slice u)) (keysetOf L S)" unfolding keysetOf_def by (intro keeps_rules)
  have "same_slice u (db w) (db (snd (dispatch L S req (Some c) w)))"
  proof (cases req)
    case (PrincipalService m)
    with admin_only_denied [OF assms(3)] show ?thesis
      by (cases m) (auto intro: slice_respond slice_keeps keeps_rules)
  next
    case (OrgService m)
    with isolated_org_handlers [OF assms] admin_only_denied [OF assms(3)] show ?thesis
      by (cases m) (auto intro!: slice_respond)
  next
    case (RoleService m)
    with isolated_role_handlers [OF assms] show ?thesis by (cases m) (auto intro!: slice_respond)
  next
    case (AuthzService m)
    then show ?thesis by (cases m) (auto intro!: slice_keeps slice_other_handlers keeps_rules)
  next
    case (DelegationService m)
    then show ?thesis by (cases m) (auto intro!: slice_keeps slice_other_handlers keeps_rules keyset)
  next
    case (AuditService m)
    then show ?thesis by (cases m) (auto intro!: slice_keeps keeps_rules)
  next
    case (ApiKeyService m)
    then show ?thesis by (cases m) (auto intro!: slice_keeps slice_other_handlers keeps_rules)
  qed
  then show ?thesis by (simp add: same_slice_def)
qed

lemma unstamped_tenant:
  assumes "same_unstamped d d'"
  shows "tenant u d' = tenant u d" "memberships d' = memberships d" "keys_ok d' = keys_ok d"
proof -
  have e: "d'\<lparr>api_keys := map (\<lambda>k. k\<lparr>k_LastUsedAt := None\<rparr>) (api_keys d')\<rparr> =
      d\<lparr>api_keys := map (\<lambda>k. k\<lparr>k_LastUsedAt := None\<rparr>) (api_keys d)\<rparr>"
    using assms by (simp add: same_unstamped_def unstamped_def)
  have keys: "keys_ok (x\<lparr>api_keys := map (\<lambda>k. k\<lparr>k_LastUsedAt := None\<rparr>) (api_keys x)\<rparr>) = keys_ok x" for x
    by (simp add: keys_ok_def o_def)
  show "tenant u d' = tenant u d" "memberships d' = memberships d" "keys_ok d' = keys_ok d"
    using arg_cong [OF e, of "tenant u"] arg_cong [OF e, of memberships] arg_cong [OF e, of keys_ok] keys
    by simp_all
qed

text \<open>C1: Tenant isolation: a caller who is no system administrator and no member of an organisation cannot,
  with any procedure and any message, change that organisation, its teams, members and roles, the
  members of its teams or the assignments of its roles.\<close>

theorem tenant_isolation:
  assumes "uuid_codec (lib_pg L)" "keys_ok (db w)" "credential L S h w = (Inr c, w1)" "\<not> c_SystemAdmin c"
    and "\<lparr>mb_PrincipalID = c_PrincipalID c, mb_OrgID = u\<rparr> \<notin> set (memberships (db w))"
  shows "tenant u (db (snd (rpc L S req h w))) = tenant u (db w)"
proof -
  have d1: "same_unstamped (db w) (db w1)"
    using keeps_eqD [OF credential_stamps assms(3)] by (simp add: db_rel_def)
  obtain r w2 where g: "gateB (lib_rate L) None c w1 = (r, w2)" by fastforce
  have "keeps (db_rel (=)) (gateB (lib_rate L) None c)" by (intro keeps_rules)
  from keeps_sameD [OF this g] have d2: "db w2 = db w1" .
  have "tenant u (db (snd (dispatch L S req (Some c) w2))) = tenant u (db w2)"
    using assms d1 d2 by (intro dispatch_isolated) (simp_all add: unstamped_tenant(2,3) [OF d1])
  then have "tenant u (db (snd (rpc L S req h w))) = tenant u (db w1)"
    using assms(3) g d2
    by (cases r) (auto simp: rpc_def WrapUnary_def WithCaller_def go_bind_cases [of "credential L S h"]
        go_bind_cases [of "gateB (lib_rate L) None c"])
  then show ?thesis by (simp add: unstamped_tenant(1) [OF d1])
qed

end
