(* ===== verification/Audit_Paging.thy ===== *)
theory Audit_Paging
  imports Recorder
begin

text \<open>
  The paged listing of the audit log (\<open>audit/handler.go\<close>, \<open>audit/store.go\<close>): the query orders by
  timestamp and the cursor is a sequence number. A client that follows the cursor gets the whole
  listing as long as the timestamps follow the sequence numbers, and may miss events otherwise.
\<close>


section \<open>Walking the pages\<close>

text \<open>A client that follows the cursor: it asks for a page, stops at an empty one and otherwise goes on
  after the last sequence number of the page. The number bounds the pages it asks for.\<close>

fun list_pages :: "nat \<Rightarrow> audit_codec \<Rightarrow> ListFilter \<Rightarrow> (err, StoredEvent list) wact" where
  "list_pages 0 C f = go_ret []"
| "list_pages (Suc n) C f =
     go_bind (audit_Store_List C f) (\<lambda>es.
       if es = [] then go_ret []
       else go_bind (list_pages n C (f\<lparr>lf_AfterSeq := se_Seq (last es)\<rparr>)) (\<lambda>rest. go_ret (es @ rest)))"

definition newest_first :: "audit_row list \<Rightarrow> audit_row list" where
  "newest_first rs = rev (sort_key au_Seq rs)"

text \<open>The stamps of a chain follow its sequence numbers, which are distinct and positive.\<close>

definition stamps_ordered :: "audit_row list \<Rightarrow> bool" where
  "stamps_ordered rs \<longleftrightarrow>
     distinct (map au_Seq rs) \<and> (\<forall>r \<in> set rs. 0 < au_Seq r) \<and>
     (\<forall>r \<in> set rs. \<forall>s \<in> set rs. au_Seq r < au_Seq s \<longrightarrow> au_Ts r \<le> au_Ts s)"

lemma stamps_ordered_filter: "stamps_ordered rs \<Longrightarrow> stamps_ordered (filter P rs)"
  by (auto simp: stamps_ordered_def distinct_map_filter)

lemma stamps_ordered_sort [simp]: "stamps_ordered (sort_key au_Seq rs) = stamps_ordered rs"
  by (simp add: stamps_ordered_def distinct_map)

lemma sequence_increasing:
  assumes "stamps_ordered rs"
  shows "sorted_wrt (\<lambda>r s. au_Seq r < au_Seq s) (sort_key au_Seq rs)"
proof -
  have "sorted_wrt (<) (map au_Seq (sort_key au_Seq rs))"
    using assms unfolding stamps_ordered_sort [of rs, symmetric]
    by (auto simp only: strict_sorted_iff sorted_sort_key stamps_ordered_def)
  then show ?thesis by (simp add: sorted_wrt_map)
qed

lemma query_order:
  assumes "stamps_ordered rs"
  shows "rev (sort_key au_Ts (sort_key au_Seq rs)) = newest_first rs"
proof -
  have "sorted_wrt (\<lambda>r s. au_Ts r \<le> au_Ts s) (sort_key au_Seq rs)"
    by (rule sorted_wrt_mono_rel [OF _ sequence_increasing [OF assms]])
       (use assms in \<open>auto simp: stamps_ordered_def\<close>)
  then have "sort_key au_Ts (sort_key au_Seq rs) = sort_key au_Seq rs"
    by (intro sort_key_id_if_sorted) (simp add: sorted_map)
  then show ?thesis by (simp add: newest_first_def)
qed

lemma newest_first_decreasing: "stamps_ordered rs \<Longrightarrow> sorted_wrt (\<lambda>r s. au_Seq s < au_Seq r) (newest_first rs)"
  unfolding newest_first_def sorted_wrt_rev by (rule sequence_increasing)

lemma newest_first_filter: "newest_first (filter P rs) = filter P (newest_first rs)"
  by (simp add: newest_first_def filter_sort flip: rev_filter)

lemma newest_first_set [simp]: "set (newest_first rs) = set rs" "length (newest_first rs) = length rs"
  by (simp_all add: newest_first_def)

text \<open>What is left after a page is what comes after its last row.\<close>

lemma after_page:
  assumes "sorted_wrt (\<lambda>r s. au_Seq s < au_Seq r) ys" "take n ys \<noteq> []"
  shows "filter (\<lambda>r. au_Seq r < au_Seq (last (take n ys))) ys = drop n ys"
proof -
  let ?l = "last (take n ys)"
  have sw: "sorted_wrt (\<lambda>r s. au_Seq s < au_Seq r) (take n ys @ drop n ys)" using assms(1) by simp
  have later: "\<forall>r \<in> set (drop n ys). au_Seq r < au_Seq ?l"
    using sw [unfolded sorted_wrt_append] last_in_set [OF assms(2)] by blast
  have "sorted_wrt (\<lambda>r s. au_Seq s < au_Seq r) (butlast (take n ys) @ [?l])"
    using sw assms(2) by (simp add: sorted_wrt_append)
  then have earlier: "\<forall>r \<in> set (butlast (take n ys) @ [?l]). \<not> au_Seq r < au_Seq ?l"
    by (fastforce simp: sorted_wrt_append)
  have "filter (\<lambda>r. au_Seq r < au_Seq ?l) (take n ys) = []"
    using earlier unfolding append_butlast_last_id [OF assms(2)] by (simp add: filter_empty_conv)
  moreover have "filter (\<lambda>r. au_Seq r < au_Seq ?l) (drop n ys) = drop n ys" using later by simp
  ultimately show ?thesis by (metis append_take_drop_id filter_append self_append_conv2)
qed

definition page_limit :: "ListFilter \<Rightarrow> nat" where
  "page_limit f = (if lf_Limit f \<le> 0 \<or> lf_Limit f > 200 then 100 else nat (lf_Limit f))"

lemma page_limit_pos: "0 < page_limit f"
  by (auto simp: page_limit_def)

lemma audit_page:
  assumes "faults w = []" "lf_From f \<noteq> time_zero" "lf_To f \<noteq> time_zero"
    and "stamps_ordered (chain_rows (lf_Chain f) (db w))"
  shows "audit_Store_List C f w =
    (Inr (map (stored_event C) (take (page_limit f) (newest_first (filter (list_matches f) (audit_events (db w)))))), w)"
proof -
  have m: "list_matches (f\<lparr>lf_Limit := n\<rparr>) = list_matches f" for n by (simp add: list_matches_def fun_eq_iff)
  have "stamps_ordered (filter (list_matches f) (audit_events (db w)))"
    using stamps_ordered_filter [OF assms(4), of "list_matches f"]
    by (simp add: chain_rows_def filter_sort filter_filter list_matches_def [abs_def] cong: conj_cong)
  from query_order [OF this] assms show ?thesis
    by (simp add: audit_Store_List_def Let_def go_bind_cases ListAuditEvents_def page_limit_def m)
qed

lemma page_nonempty: "take (page_limit f) ys = [] \<longleftrightarrow> ys = []"
  using page_limit_pos [of f] by auto

text \<open>The rows that match after the cursor has moved to a row of the listing.\<close>

lemma matches_after:
  assumes "l \<in> set rs" "list_matches f l" "0 < au_Seq l"
  shows "filter (list_matches (f\<lparr>lf_AfterSeq := au_Seq l\<rparr>)) rs =
    filter (\<lambda>r. au_Seq r < au_Seq l) (filter (list_matches f) rs)"
  using assms by (auto simp: list_matches_def intro: filter_cong)

lemma listed_ordered:
  "stamps_ordered (chain_rows (lf_Chain f) d) \<Longrightarrow> stamps_ordered (filter (list_matches f) (audit_events d))"
  by (drule stamps_ordered_filter [of _ "list_matches f"])
     (simp add: chain_rows_def filter_sort list_matches_def [abs_def] cong: conj_cong)

text \<open>The next request lists what the page left.\<close>

lemma next_page:
  assumes ord: "stamps_ordered (chain_rows (lf_Chain f) d)"
    and ys: "ys = newest_first (filter (list_matches f) (audit_events d))" "ys \<noteq> []"
    and l: "l = last (take (page_limit f) ys)"
  shows "newest_first (filter (list_matches (f\<lparr>lf_AfterSeq := au_Seq l\<rparr>)) (audit_events d)) = drop (page_limit f) ys"
proof -
  have ne: "take (page_limit f) ys \<noteq> []" using ys(2) by (simp only: page_nonempty not_False_eq_True)
  then have "l \<in> set ys" unfolding l by (meson in_set_takeD last_in_set)
  then have m: "l \<in> set (audit_events d)" "list_matches f l" by (simp_all add: ys(1))
  moreover from m ord have "0 < au_Seq l"
    by (simp add: stamps_ordered_def chain_rows_def list_matches_def)
  ultimately have "filter (list_matches (f\<lparr>lf_AfterSeq := au_Seq l\<rparr>)) (audit_events d) =
      filter (\<lambda>r. au_Seq r < au_Seq l) (filter (list_matches f) (audit_events d))"
    by (rule matches_after)
  then have "newest_first (filter (list_matches (f\<lparr>lf_AfterSeq := au_Seq l\<rparr>)) (audit_events d)) =
      filter (\<lambda>r. au_Seq r < au_Seq l) ys"
    unfolding ys(1) by (simp only: newest_first_filter [of "\<lambda>r. au_Seq r < au_Seq l"])
  also have "\<dots> = drop (page_limit f) ys"
    unfolding l by (rule after_page [OF _ ne]) (simp only: ys(1) newest_first_decreasing listed_ordered ord)
  finally show ?thesis .
qed


text \<open>Without that order it may miss events: the cursor of a page that ends with a late timestamp of an
  early sequence number passes over later sequence numbers with earlier timestamps.\<close>

lemma audit_paging_skips:
  assumes "faults w = []" "audit_events (db w) = [r, s]" "au_Chain r = ''x''" "au_Chain s = ''x''"
    and "au_Seq r = 1" "au_Ts r = 2000000" "au_Seq s = 2" "au_Ts s = 1000000"
  shows "list_pages 5 C \<lparr>lf_Chain = ''x'', lf_ActorID = '''', lf_Action = '''', lf_Outcome = '''',
      lf_From = 0, lf_To = 3000000, lf_Limit = 1, lf_AfterSeq = 0\<rparr> w = (Inr [stored_event C r], w)"
  using assms
  by (simp add: numeral_eq_Suc audit_Store_List_def go_bind_cases ListAuditEvents_def time_zero_def list_matches_def
      timestamptz_def truncate_us_def stored_event_def)

end
