(* ===== verification/Delegation_History.thy ===== *)
theory Delegation_History
  imports Running
begin

text \<open>
  The history of the delegation records. Once stored, a record is never removed and changes only by
  a revocation, which is never undone: the one statement that deletes organisations runs while an
  organisation is created, on an id that no record refers to. Hence a revocation that was
  answered with success holds for ever.
\<close>

section \<open>Records as they may look later\<close>

definition delegation_later :: "delegation_row \<Rightarrow> delegation_row \<Rightarrow> bool" where
  "delegation_later r r' \<longleftrightarrow> r' = r\<lparr>d_Revoked := d_Revoked r'\<rparr> \<and> (d_Revoked r \<longrightarrow> d_Revoked r')"

lemma delegation_later_id: "delegation_later r r' \<Longrightarrow> d_ID r' = d_ID r"
  unfolding delegation_later_def by (cases r; cases r') simp

interpretation delegation_rows: row_evolution delegation_later
proof unfold_locales
  show "delegation_later r r" for r by (simp add: delegation_later_def)
  show "delegation_later a c" if "delegation_later a b" "delegation_later b c" for a b c
    using that unfolding delegation_later_def by (cases a; cases b; cases c) simp
qed

text \<open>The tables keep their invariant, and with it the records.\<close>

definition records_kept :: "database \<Rightarrow> database \<Rightarrow> bool" where
  "records_kept d d' \<longleftrightarrow>
     (system_ok d \<longrightarrow> system_ok d' \<and> grown delegation_later (delegations d) (delegations d'))"

definition same_records :: "database \<Rightarrow> database \<Rightarrow> bool" where
  "same_records d d' \<longleftrightarrow> delegations d' = delegations d"

interpretation records: db_order records_kept
  by unfold_locales (auto simp: records_kept_def intro: delegation_rows.grown_refl delegation_rows.grown_trans)

interpretation same_records: db_order same_records
  by unfold_locales (auto simp: same_records_def)

lemma records_keptI: "stays system_ok d d' \<Longrightarrow> same_records d d' \<Longrightarrow> records_kept d d'"
  by (simp add: records_kept_def stays_def same_records_def delegation_rows.grown_refl)

lemma keeps_recordsI:
  "keeps (db_rel (stays system_ok)) m \<Longrightarrow> keeps (db_rel same_records) m \<Longrightarrow> keeps (db_rel records_kept) m"
  by (auto simp: keeps_def db_rel_def intro: records_keptI)

lemma same_records_statements:
  "q_CreateTeam u oid n d = Inr (x3, d') \<Longrightarrow> same_records d d'"
  "q_AddMember p oid d = Inr (x4, d') \<Longrightarrow> same_records d d'"
  "q_AddTeamMember p tid d = Inr (x5, d') \<Longrightarrow> same_records d d'"
  "q_CreateRole u oid n perms d = Inr (x6, d') \<Longrightarrow> same_records d d'"
  "q_RegisterOwnership ty rid ow oid d = Inr (x7, d') \<Longrightarrow> same_records d d'"
  "q_InsertSigningKey now kid alg enc stt ra d = Inr (x10, d') \<Longrightarrow> same_records d d'"
  "q_DemoteActive ra d = Inr (x11, d') \<Longrightarrow> same_records d d'"
  "q_DeleteExpired now d = Inr (x12, d') \<Longrightarrow> same_records d d'"
  "q_InsertApiKey now k d = Inr (x14, d') \<Longrightarrow> same_records d d'"
  "q_RevokeApiKey kid d = Inr (x15, d') \<Longrightarrow> same_records d d'"
  "q_TouchLastUsed now kid d = Inr (x16, d') \<Longrightarrow> same_records d d'"
  "q_EnsureLedger d = Inr (x17, d') \<Longrightarrow> same_records d d'"
  "q_Exec ddl up d = Inr (x18, d') \<Longrightarrow> same_records d d'"
  "q_InsertLedger n d = Inr (x19, d') \<Longrightarrow> same_records d d'"
  "q_AssignRole p r1 st sid d = Inr (x20, d') \<Longrightarrow> same_records d d'"
  "q_InsertPrincipal now r d = Inr (x21, d') \<Longrightarrow> same_records d d'"
  "q_InsertAuditEvent C ar d = Inr (x22, d') \<Longrightarrow> same_records d d'"
  by (auto simp: q_CreateTeam_def q_AddMember_def q_AddTeamMember_def q_CreateRole_def q_RegisterOwnership_def
       same_records_def Let_def split: if_splits option.splits)
     (auto simp: q_InsertSigningKey_def q_DemoteActive_def q_DeleteExpired_def q_InsertApiKey_def q_RevokeApiKey_def
       q_TouchLastUsed_def q_EnsureLedger_def q_Exec_def q_InsertLedger_def q_AssignRole_def q_InsertPrincipal_def
       q_InsertAuditEvent_def same_records_def Let_def split: if_splits option.splits)

lemma records_statements:
  "q_CreateTeam u oid n d = Inr (x3, d') \<Longrightarrow> records_kept d d'"
  "q_AddMember p oid d = Inr (x4, d') \<Longrightarrow> records_kept d d'"
  "q_AddTeamMember p tid d = Inr (x5, d') \<Longrightarrow> records_kept d d'"
  "q_CreateRole u oid n perms d = Inr (x6, d') \<Longrightarrow> records_kept d d'"
  "q_RegisterOwnership ty rid ow oid d = Inr (x7, d') \<Longrightarrow> records_kept d d'"
  "q_InsertSigningKey now kid alg enc stt ra d = Inr (x10, d') \<Longrightarrow> records_kept d d'"
  "q_DemoteActive ra d = Inr (x11, d') \<Longrightarrow> records_kept d d'"
  "q_DeleteExpired now d = Inr (x12, d') \<Longrightarrow> records_kept d d'"
  "q_InsertApiKey now k d = Inr (x14, d') \<Longrightarrow> records_kept d d'"
  "q_RevokeApiKey kid d = Inr (x15, d') \<Longrightarrow> records_kept d d'"
  "q_TouchLastUsed now kid d = Inr (x16, d') \<Longrightarrow> records_kept d d'"
  "q_EnsureLedger d = Inr (x17, d') \<Longrightarrow> records_kept d d'"
  "q_Exec ddl up d = Inr (x18, d') \<Longrightarrow> records_kept d d'"
  "q_InsertLedger n d = Inr (x19, d') \<Longrightarrow> records_kept d d'"
  by (rule records_keptI, erule ok_CreateTeam ok_AddMember ok_AddTeamMember ok_CreateRole ok_RegisterOwnership
        ok_InsertSigningKey ok_DemoteActive ok_DeleteExpired ok_InsertApiKey ok_RevokeApiKey ok_TouchLastUsed ok_ledger,
      erule same_records_statements)+

lemma records_InsertDelegation:
  "q_InsertDelegation u now ag de oid sc jkt ex d = Inr (x, d') \<Longrightarrow> records_kept d d'"
  using ok_InsertDelegation [of u now ag de oid sc jkt ex d x d']
  by (auto simp: records_kept_def stays_def q_InsertDelegation_def intro: delegation_rows.grown_append split: if_splits)

lemma records_RevokeDelegation: "q_RevokeDelegation u d = Inr (x, d') \<Longrightarrow> records_kept d d'"
  using ok_RevokeDelegation [of u d x d']
  by (auto simp: records_kept_def stays_def q_RevokeDelegation_def delegation_later_def intro!: delegation_rows.grown_update)

lemma records_Append: "json_codec C \<Longrightarrow> keeps (db_rel records_kept) (Append C chain es)"
  by (rule keeps_recordsI, erule ok_Append)
     (rule same_records.keeps_Append, unfold InsertAuditEvent_def, rule same_records.keeps_sql, erule same_records_statements)

lemma records_AssignRole: "uuid_codec E \<Longrightarrow> keeps (db_rel records_kept) (role_Service_AssignRole E p rid st sid)"
  by (rule keeps_recordsI, erule ok_AssignRole)
     (unfold role_Service_AssignRole_def role_Store_AssignRole_def role_q_AssignRole_def,
      intro keeps_rules same_records.keeps_sql, erule same_records_statements)

lemma records_Create:
  assumes "\<And>ep. keeps (db_rel (=)) (create ep)"
  shows "keeps (db_rel records_kept) (principal_Service_Create create i)"
proof (rule keeps_recordsI)
  show "keeps (db_rel (stays system_ok)) (principal_Service_Create create i)" using assms by (rule ok_Create)
  have "keeps (db_rel same_records) (create ep)" for ep using assms by (rule same_records.keeps_of_same)
  then show "keeps (db_rel same_records) (principal_Service_Create create i)"
    unfolding principal_Service_Create_def principal_Store_Insert_def InsertPrincipal_def
    by (intro keeps_rules same_records.keeps_sql) (assumption | erule same_records_statements)+
qed

lemma records_OrgCreate:
  assumes "uuid_codec E"
  shows "keeps (db_rel records_kept) (org_Service_CreateOrg E (role_Store_SeedDefaults E) n)"
proof (rule keepsI)
  fix w
  obtain r w' where run: "org_Service_CreateOrg E (role_Store_SeedDefaults E) n w = (r, w')" by fastforce
  have "stays system_ok (db w) (db w')" using keeps_eqD [OF ok_OrgCreate run] by (simp add: db_rel_def)
  moreover have "same_records (db w) (db w')" if "system_ok (db w)"
    using default_roles.create_org_delegations [OF assms _ run] that
    by (simp add: same_records_def system_ok_def db_ok_def)
  ultimately have "records_kept (db w) (db w')" by (meson records_keptI records_kept_def)
  with run show "db_rel records_kept w (snd (org_Service_CreateOrg E (role_Store_SeedDefaults E) n w))"
    by (simp add: db_rel_def)
qed

interpretation records: table_writes records_kept C for C
  by unfold_locales
     (fact records_OrgCreate records_AssignRole records_Create records_InsertDelegation records_RevokeDelegation
       records_Append records_statements)+

section \<open>Permanence\<close>

lemma revoked_record_stays:
  assumes "records_kept d d'" "system_ok d" "r \<in> set (delegations d)" "d_Revoked r"
    and "r' \<in> set (delegations d')" "d_ID r' = d_ID r"
  shows "d_Revoked r'"
proof -
  have g: "grown delegation_later (delegations d) (delegations d')" and ok: "keys_ok d'"
    using assms(1,2) by (simp_all add: records_kept_def system_ok_def db_ok_def)
  from g assms(3) obtain s where s: "s \<in> set (delegations d')" "delegation_later r s"
    by (rule delegation_rows.grown_member)
  with delegation_later_id ok assms(5,6) have "s = r'" by (auto simp: keys_ok_def distinct_map inj_on_def)
  with s(2) assms(4) show ?thesis by (simp add: delegation_later_def)
qed

lemma Revoke_InrD:
  assumes "dg_Handler_Revoke E cx did w = (Inr u, w1)"
  obtains r where "uuid_Scan E did = Some (d_ID r)" "r \<in> set (delegations (db w1))" "d_Revoked r"
proof -
  from assms obtain w0 w' where rev: "dg_Store_Revoke E did w0 = (Inr (), w')" and "db w1 = db w'"
    by (auto simp: dg_Handler_Revoke_def dg_Service_Revoke_def Record_def Let_def elim!: go_try_cases
        split: option.splits if_splits)
  from rev obtain id n where id: "uuid_Scan E did = Some id" and "RevokeDelegation id w0 = (Inr n, w')" "n \<noteq> 0"
    by (auto simp: dg_Store_Revoke_def split: option.splits if_splits elim!: go_bind_InrD)
  then obtain rows where "n = int (length (filter (\<lambda>r. d_ID r = id) rows))"
      "delegations (db w') = map (\<lambda>r. if d_ID r = id then r\<lparr>d_Revoked := True\<rparr> else r) rows"
    by (auto simp: RevokeDelegation_def q_RevokeDelegation_def dest!: sql_InrD sym [of _ "db w'"])
  moreover from this \<open>n \<noteq> 0\<close> obtain r where "r \<in> set rows" "d_ID r = id" by (auto simp: filter_empty_conv)
  ultimately show thesis using that [of "r\<lparr>d_Revoked := True\<rparr>"] id \<open>db w1 = db w'\<close> by force
qed

text \<open>C13: Revocation of a delegation is permanent: when \<open>RevokeDelegation\<close> has answered with success, then
  whatever requests, faults, rotations and restarts follow, no \<open>CheckDelegated\<close> for a token that names the
  delegation answers yes. (The tables satisfy their invariant, as they do in every reachable state.)\<close>

theorem delegation_revocation_permanent:
  assumes "libs_ok L" "system_ok (db w)"
    and "dispatch L S (DelegationService (RevokeDelegationReq did)) cx w = (Inr x, w1)"
    and "(sys_step L K S)\<^sup>*\<^sup>* w1 w2"
    and "\<And>pub tc. jwt_Claims (lib_jose L) (cd_Token m) pub = Some tc \<Longrightarrow> tc_DID tc = did"
  shows "fst (dispatch L S' (DelegationService (CheckDelegatedReq m)) cx' w2) \<noteq> Inr (AllowedResp True)"
proof
  assume "fst (dispatch L S' (DelegationService (CheckDelegatedReq m)) cx' w2) = Inr (AllowedResp True)"
  then obtain w3 where "dispatch L S' (DelegationService (CheckDelegatedReq m)) cx' w2 = (Inr (AllowedResp True), w3)"
    by (metis prod.collapse)
  then obtain res pf htm htu action w4 where
    "CheckDelegatedDPoP (lib_pg L) (lib_jose L) (lib_crypto L) (issuerOf S')
       (Manager_Keyset (lib_crypto L) (srv_kek S') (srv_opt S')) (authz_Service_Check (lib_pg L))
       (cd_Token m) action res pf htm htu w2 = (Inr True, w4)"
    by (auto simp: respond_def dg_Handler_CheckDelegated_def keysetOf_def elim!: go_bind_InrD go_try_cases)
  from rbac.delegated_sound [OF keyset_keeps this] assms(5) obtain r' where
    r': "r' \<in> set (delegations (db w2))" "uuid_Scan (lib_pg L) did = Some (d_ID r')" "\<not> d_Revoked r'" by blast
  from assms(3) obtain u where "dg_Handler_Revoke (lib_pg L) cx did w = (Inr u, w1)"
    by (auto simp: respond_def elim!: go_bind_InrD)
  then obtain r where r: "uuid_Scan (lib_pg L) did = Some (d_ID r)" "r \<in> set (delegations (db w1))" "d_Revoked r"
    by (rule Revoke_InrD)
  have "system_ok (db w1)"
    using keeps_eqD [OF ok.keeps_dispatch [OF assms(1)] assms(3)] assms(2) by (simp add: db_rel_def stays_def)
  with r r' revoked_record_stays [OF records.steps_write [OF assms(1) refl assms(4)]] show False by auto
qed

end
