(* ===== verification/Clients.thy ===== *)
theory Clients
  imports System
begin

text \<open>
  The clients that \<open>gen/baseservers/v1/baseserversv1connect\<close> generates beside the handlers, the
  response type that the generated interfaces declare for each procedure, and the stubs that refuse
  every procedure. The client side of the Connect library is the parameter \<open>client_lib\<close>: a client of
  the library is what \<open>connect.NewClient\<close> is given, the HTTP client and the URL of the procedure.
\<close>

section \<open>Clients\<close>

type_synonym http_client = "http_request \<Rightarrow> (err, http_response) wact"

record connect_client =
  cc_httpClient :: http_client
  cc_url :: string

definition NewClient :: "http_client \<Rightarrow> string \<Rightarrow> connect_client" where
  "NewClient http url = \<lparr>cc_httpClient = http, cc_url = url\<rparr>"

record client_lib =
  cl_Send :: "string \<Rightarrow> rpc_request \<Rightarrow> header \<Rightarrow> http_request"
  cl_Receive :: "http_response \<Rightarrow> rpc_error + rpc_response"
  cl_CallUnary :: "connect_client \<Rightarrow> rpc_request \<Rightarrow> header \<Rightarrow> (rpc_error, rpc_response) wact"

record principalServiceClient =
  pc_createPrincipal :: connect_client
  pc_getPrincipal :: connect_client

definition NewPrincipalServiceClient :: "http_client \<Rightarrow> string \<Rightarrow> principalServiceClient" where
  "NewPrincipalServiceClient http baseURL0 =
     (let baseURL = strings_TrimRight baseURL0 ''/''
      in \<lparr>pc_createPrincipal = NewClient http (baseURL @ ''/baseservers.v1.PrincipalService/CreatePrincipal''),
          pc_getPrincipal = NewClient http (baseURL @ ''/baseservers.v1.PrincipalService/GetPrincipal'')\<rparr>)"

fun principalServiceClient_call ::
  "client_lib \<Rightarrow> principalServiceClient \<Rightarrow> PrincipalServiceMsg \<Rightarrow> header \<Rightarrow> (rpc_error, rpc_response) wact" where
  "principalServiceClient_call U c (CreatePrincipalReq m) =
     cl_CallUnary U (pc_createPrincipal c) (PrincipalService (CreatePrincipalReq m))"
| "principalServiceClient_call U c (GetPrincipalReq i) =
     cl_CallUnary U (pc_getPrincipal c) (PrincipalService (GetPrincipalReq i))"

record orgServiceClient =
  oc_createOrganization :: connect_client
  oc_createTeam :: connect_client
  oc_addMember :: connect_client
  oc_addTeamMember :: connect_client

definition NewOrgServiceClient :: "http_client \<Rightarrow> string \<Rightarrow> orgServiceClient" where
  "NewOrgServiceClient http baseURL0 =
     (let baseURL = strings_TrimRight baseURL0 ''/''
      in \<lparr>oc_createOrganization = NewClient http (baseURL @ ''/baseservers.v1.OrgService/CreateOrganization''),
          oc_createTeam = NewClient http (baseURL @ ''/baseservers.v1.OrgService/CreateTeam''),
          oc_addMember = NewClient http (baseURL @ ''/baseservers.v1.OrgService/AddMember''),
          oc_addTeamMember = NewClient http (baseURL @ ''/baseservers.v1.OrgService/AddTeamMember'')\<rparr>)"

fun orgServiceClient_call ::
  "client_lib \<Rightarrow> orgServiceClient \<Rightarrow> OrgServiceMsg \<Rightarrow> header \<Rightarrow> (rpc_error, rpc_response) wact" where
  "orgServiceClient_call U c (CreateOrganizationReq n) =
     cl_CallUnary U (oc_createOrganization c) (OrgService (CreateOrganizationReq n))"
| "orgServiceClient_call U c (CreateTeamReq u n) = cl_CallUnary U (oc_createTeam c) (OrgService (CreateTeamReq u n))"
| "orgServiceClient_call U c (AddMemberReq p u) = cl_CallUnary U (oc_addMember c) (OrgService (AddMemberReq p u))"
| "orgServiceClient_call U c (AddTeamMemberReq p t) =
     cl_CallUnary U (oc_addTeamMember c) (OrgService (AddTeamMemberReq p t))"

record roleServiceClient =
  rc_createRole :: connect_client
  rc_assignRole :: connect_client

definition NewRoleServiceClient :: "http_client \<Rightarrow> string \<Rightarrow> roleServiceClient" where
  "NewRoleServiceClient http baseURL0 =
     (let baseURL = strings_TrimRight baseURL0 ''/''
      in \<lparr>rc_createRole = NewClient http (baseURL @ ''/baseservers.v1.RoleService/CreateRole''),
          rc_assignRole = NewClient http (baseURL @ ''/baseservers.v1.RoleService/AssignRole'')\<rparr>)"

fun roleServiceClient_call ::
  "client_lib \<Rightarrow> roleServiceClient \<Rightarrow> RoleServiceMsg \<Rightarrow> header \<Rightarrow> (rpc_error, rpc_response) wact" where
  "roleServiceClient_call U c (CreateRoleReq u n ps) = cl_CallUnary U (rc_createRole c) (RoleService (CreateRoleReq u n ps))"
| "roleServiceClient_call U c (AssignRoleReq p r st s) =
     cl_CallUnary U (rc_assignRole c) (RoleService (AssignRoleReq p r st s))"

record authzServiceClient =
  ac_check :: connect_client
  ac_registerOwnership :: connect_client

definition NewAuthzServiceClient :: "http_client \<Rightarrow> string \<Rightarrow> authzServiceClient" where
  "NewAuthzServiceClient http baseURL0 =
     (let baseURL = strings_TrimRight baseURL0 ''/''
      in \<lparr>ac_check = NewClient http (baseURL @ ''/baseservers.v1.AuthzService/Check''),
          ac_registerOwnership = NewClient http (baseURL @ ''/baseservers.v1.AuthzService/RegisterOwnership'')\<rparr>)"

fun authzServiceClient_call ::
  "client_lib \<Rightarrow> authzServiceClient \<Rightarrow> AuthzServiceMsg \<Rightarrow> header \<Rightarrow> (rpc_error, rpc_response) wact" where
  "authzServiceClient_call U c (CheckReq m) = cl_CallUnary U (ac_check c) (AuthzService (CheckReq m))"
| "authzServiceClient_call U c (RegisterOwnershipReq t i p u) =
     cl_CallUnary U (ac_registerOwnership c) (AuthzService (RegisterOwnershipReq t i p u))"

record delegationServiceClient =
  dc_issue :: connect_client
  dc_revoke :: connect_client
  dc_checkDelegated :: connect_client

definition NewDelegationServiceClient :: "http_client \<Rightarrow> string \<Rightarrow> delegationServiceClient" where
  "NewDelegationServiceClient http baseURL0 =
     (let baseURL = strings_TrimRight baseURL0 ''/''
      in \<lparr>dc_issue = NewClient http (baseURL @ ''/baseservers.v1.DelegationService/Issue''),
          dc_revoke = NewClient http (baseURL @ ''/baseservers.v1.DelegationService/Revoke''),
          dc_checkDelegated = NewClient http (baseURL @ ''/baseservers.v1.DelegationService/CheckDelegated'')\<rparr>)"

fun delegationServiceClient_call ::
  "client_lib \<Rightarrow> delegationServiceClient \<Rightarrow> DelegationServiceMsg \<Rightarrow> header \<Rightarrow> (rpc_error, rpc_response) wact" where
  "delegationServiceClient_call U c (IssueDelegationReq m) =
     cl_CallUnary U (dc_issue c) (DelegationService (IssueDelegationReq m))"
| "delegationServiceClient_call U c (RevokeDelegationReq i) =
     cl_CallUnary U (dc_revoke c) (DelegationService (RevokeDelegationReq i))"
| "delegationServiceClient_call U c (CheckDelegatedReq m) =
     cl_CallUnary U (dc_checkDelegated c) (DelegationService (CheckDelegatedReq m))"

record auditServiceClient =
  uc_list :: connect_client
  uc_verify :: connect_client

definition NewAuditServiceClient :: "http_client \<Rightarrow> string \<Rightarrow> auditServiceClient" where
  "NewAuditServiceClient http baseURL0 =
     (let baseURL = strings_TrimRight baseURL0 ''/''
      in \<lparr>uc_list = NewClient http (baseURL @ ''/baseservers.v1.AuditService/List''),
          uc_verify = NewClient http (baseURL @ ''/baseservers.v1.AuditService/Verify'')\<rparr>)"

fun auditServiceClient_call ::
  "client_lib \<Rightarrow> auditServiceClient \<Rightarrow> AuditServiceMsg \<Rightarrow> header \<Rightarrow> (rpc_error, rpc_response) wact" where
  "auditServiceClient_call U c (ListAuditReq m) = cl_CallUnary U (uc_list c) (AuditService (ListAuditReq m))"
| "auditServiceClient_call U c (VerifyAuditReq u) = cl_CallUnary U (uc_verify c) (AuditService (VerifyAuditReq u))"

record apiKeyServiceClient =
  kc_issue :: connect_client
  kc_revoke :: connect_client
  kc_list :: connect_client

definition NewApiKeyServiceClient :: "http_client \<Rightarrow> string \<Rightarrow> apiKeyServiceClient" where
  "NewApiKeyServiceClient http baseURL0 =
     (let baseURL = strings_TrimRight baseURL0 ''/''
      in \<lparr>kc_issue = NewClient http (baseURL @ ''/baseservers.v1.ApiKeyService/Issue''),
          kc_revoke = NewClient http (baseURL @ ''/baseservers.v1.ApiKeyService/Revoke''),
          kc_list = NewClient http (baseURL @ ''/baseservers.v1.ApiKeyService/List'')\<rparr>)"

fun apiKeyServiceClient_call ::
  "client_lib \<Rightarrow> apiKeyServiceClient \<Rightarrow> ApiKeyServiceMsg \<Rightarrow> header \<Rightarrow> (rpc_error, rpc_response) wact" where
  "apiKeyServiceClient_call U c (IssueApiKeyReq m) = cl_CallUnary U (kc_issue c) (ApiKeyService (IssueApiKeyReq m))"
| "apiKeyServiceClient_call U c (RevokeApiKeyReq i) = cl_CallUnary U (kc_revoke c) (ApiKeyService (RevokeApiKeyReq i))"
| "apiKeyServiceClient_call U c (ListApiKeysReq p n t) = cl_CallUnary U (kc_list c) (ApiKeyService (ListApiKeysReq p n t))"

text \<open>A call with the client of the message's service, freshly constructed for a base URL.\<close>

fun client_call ::
  "client_lib \<Rightarrow> http_client \<Rightarrow> string \<Rightarrow> rpc_request \<Rightarrow> header \<Rightarrow> (rpc_error, rpc_response) wact" where
  "client_call U http url (PrincipalService m) = principalServiceClient_call U (NewPrincipalServiceClient http url) m"
| "client_call U http url (OrgService m) = orgServiceClient_call U (NewOrgServiceClient http url) m"
| "client_call U http url (RoleService m) = roleServiceClient_call U (NewRoleServiceClient http url) m"
| "client_call U http url (AuthzService m) = authzServiceClient_call U (NewAuthzServiceClient http url) m"
| "client_call U http url (DelegationService m) = delegationServiceClient_call U (NewDelegationServiceClient http url) m"
| "client_call U http url (AuditService m) = auditServiceClient_call U (NewAuditServiceClient http url) m"
| "client_call U http url (ApiKeyService m) = apiKeyServiceClient_call U (NewApiKeyServiceClient http url) m"

section \<open>Declared response types\<close>

text \<open>The response type that the generated interfaces give each procedure.\<close>

fun PrincipalServiceHandler_returns :: "PrincipalServiceMsg \<Rightarrow> rpc_response \<Rightarrow> bool" where
  "PrincipalServiceHandler_returns (CreatePrincipalReq m) (PrincipalResp p) = True"
| "PrincipalServiceHandler_returns (GetPrincipalReq i) (PrincipalResp p) = True"
| "PrincipalServiceHandler_returns m x = False"

fun OrgServiceHandler_returns :: "OrgServiceMsg \<Rightarrow> rpc_response \<Rightarrow> bool" where
  "OrgServiceHandler_returns (CreateOrganizationReq n) (OrganizationResp o1) = True"
| "OrgServiceHandler_returns (CreateTeamReq u n) (TeamResp t) = True"
| "OrgServiceHandler_returns (AddMemberReq p u) EmptyResp = True"
| "OrgServiceHandler_returns (AddTeamMemberReq p t) EmptyResp = True"
| "OrgServiceHandler_returns m x = False"

fun RoleServiceHandler_returns :: "RoleServiceMsg \<Rightarrow> rpc_response \<Rightarrow> bool" where
  "RoleServiceHandler_returns (CreateRoleReq u n ps) (RoleResp r) = True"
| "RoleServiceHandler_returns (AssignRoleReq p r st s) EmptyResp = True"
| "RoleServiceHandler_returns m x = False"

fun AuthzServiceHandler_returns :: "AuthzServiceMsg \<Rightarrow> rpc_response \<Rightarrow> bool" where
  "AuthzServiceHandler_returns (CheckReq m) (AllowedResp b) = True"
| "AuthzServiceHandler_returns (RegisterOwnershipReq t i p u) EmptyResp = True"
| "AuthzServiceHandler_returns m x = False"

fun DelegationServiceHandler_returns :: "DelegationServiceMsg \<Rightarrow> rpc_response \<Rightarrow> bool" where
  "DelegationServiceHandler_returns (IssueDelegationReq m) (DelegationResp tok did) = True"
| "DelegationServiceHandler_returns (RevokeDelegationReq i) EmptyResp = True"
| "DelegationServiceHandler_returns (CheckDelegatedReq m) (AllowedResp b) = True"
| "DelegationServiceHandler_returns m x = False"

fun AuditServiceHandler_returns :: "AuditServiceMsg \<Rightarrow> rpc_response \<Rightarrow> bool" where
  "AuditServiceHandler_returns (ListAuditReq m) (AuditEventsResp es n) = True"
| "AuditServiceHandler_returns (VerifyAuditReq u) (VerifyResp b n) = True"
| "AuditServiceHandler_returns m x = False"

fun ApiKeyServiceHandler_returns :: "ApiKeyServiceMsg \<Rightarrow> rpc_response \<Rightarrow> bool" where
  "ApiKeyServiceHandler_returns (IssueApiKeyReq m) (ApiKeyResp k) = True"
| "ApiKeyServiceHandler_returns (RevokeApiKeyReq i) EmptyResp = True"
| "ApiKeyServiceHandler_returns (ListApiKeysReq p n t) (ApiKeysResp ks nx) = True"
| "ApiKeyServiceHandler_returns m x = False"

fun returns :: "rpc_request \<Rightarrow> rpc_response \<Rightarrow> bool" where
  "returns (PrincipalService m) = PrincipalServiceHandler_returns m"
| "returns (OrgService m) = OrgServiceHandler_returns m"
| "returns (RoleService m) = RoleServiceHandler_returns m"
| "returns (AuthzService m) = AuthzServiceHandler_returns m"
| "returns (DelegationService m) = DelegationServiceHandler_returns m"
| "returns (AuditService m) = AuditServiceHandler_returns m"
| "returns (ApiKeyService m) = ApiKeyServiceHandler_returns m"

section \<open>Stubs\<close>

fun UnimplementedPrincipalServiceHandler :: "PrincipalServiceMsg \<Rightarrow> (rpc_error, rpc_response) wact" where
  "UnimplementedPrincipalServiceHandler (CreatePrincipalReq m) = go_fail (NewError CodeUnimplemented)"
| "UnimplementedPrincipalServiceHandler (GetPrincipalReq i) = go_fail (NewError CodeUnimplemented)"

fun UnimplementedOrgServiceHandler :: "OrgServiceMsg \<Rightarrow> (rpc_error, rpc_response) wact" where
  "UnimplementedOrgServiceHandler (CreateOrganizationReq n) = go_fail (NewError CodeUnimplemented)"
| "UnimplementedOrgServiceHandler (CreateTeamReq u n) = go_fail (NewError CodeUnimplemented)"
| "UnimplementedOrgServiceHandler (AddMemberReq p u) = go_fail (NewError CodeUnimplemented)"
| "UnimplementedOrgServiceHandler (AddTeamMemberReq p t) = go_fail (NewError CodeUnimplemented)"

fun UnimplementedRoleServiceHandler :: "RoleServiceMsg \<Rightarrow> (rpc_error, rpc_response) wact" where
  "UnimplementedRoleServiceHandler (CreateRoleReq u n ps) = go_fail (NewError CodeUnimplemented)"
| "UnimplementedRoleServiceHandler (AssignRoleReq p r st s) = go_fail (NewError CodeUnimplemented)"

fun UnimplementedAuthzServiceHandler :: "AuthzServiceMsg \<Rightarrow> (rpc_error, rpc_response) wact" where
  "UnimplementedAuthzServiceHandler (CheckReq m) = go_fail (NewError CodeUnimplemented)"
| "UnimplementedAuthzServiceHandler (RegisterOwnershipReq t i p u) = go_fail (NewError CodeUnimplemented)"

fun UnimplementedDelegationServiceHandler :: "DelegationServiceMsg \<Rightarrow> (rpc_error, rpc_response) wact" where
  "UnimplementedDelegationServiceHandler (IssueDelegationReq m) = go_fail (NewError CodeUnimplemented)"
| "UnimplementedDelegationServiceHandler (RevokeDelegationReq i) = go_fail (NewError CodeUnimplemented)"
| "UnimplementedDelegationServiceHandler (CheckDelegatedReq m) = go_fail (NewError CodeUnimplemented)"

fun UnimplementedAuditServiceHandler :: "AuditServiceMsg \<Rightarrow> (rpc_error, rpc_response) wact" where
  "UnimplementedAuditServiceHandler (ListAuditReq m) = go_fail (NewError CodeUnimplemented)"
| "UnimplementedAuditServiceHandler (VerifyAuditReq u) = go_fail (NewError CodeUnimplemented)"

fun UnimplementedApiKeyServiceHandler :: "ApiKeyServiceMsg \<Rightarrow> (rpc_error, rpc_response) wact" where
  "UnimplementedApiKeyServiceHandler (IssueApiKeyReq m) = go_fail (NewError CodeUnimplemented)"
| "UnimplementedApiKeyServiceHandler (RevokeApiKeyReq i) = go_fail (NewError CodeUnimplemented)"
| "UnimplementedApiKeyServiceHandler (ListApiKeysReq p n t) = go_fail (NewError CodeUnimplemented)"

section \<open>What the client library does\<close>

text \<open>A unary call sends one request and, when the HTTP client has a response, returns what the
  library reads in it.\<close>

definition calls_unary :: "client_lib \<Rightarrow> bool" where
  "calls_unary U \<longleftrightarrow>
     (\<forall>http url req h w resp w'. http (cl_Send U url req h) w = (Inr resp, w') \<longrightarrow>
        cl_CallUnary U (NewClient http url) req h w = (cl_Receive U resp, w'))"

text \<open>The request made for a URL under the server's base URL has the rest of the URL as its path,
  carries the credentials it was given, and the server's side of the library reads the message back.\<close>

definition delivers :: "client_lib \<Rightarrow> connect_lib \<Rightarrow> string \<Rightarrow> string \<Rightarrow> rpc_request \<Rightarrow> header \<Rightarrow> bool" where
  "delivers U K base path req h \<longleftrightarrow>
     (let r = cl_Send U (base @ path) req h
      in rq_Path r = path \<and> rq_Header r ''Authorization'' = h ''Authorization'' \<and>
         rq_Header r ''X-BS-Root-Token'' = h ''X-BS-Root-Token'' \<and>
         (path = procedure req \<longrightarrow> cn_Decode K r = Inr req))"

section \<open>Lemmas\<close>

lemma TrimRight_slashes:
  assumes "base = [] \<or> last base \<noteq> CHR ''/''"
  shows "strings_TrimRight (base @ replicate n (CHR ''/'')) ''/'' = base"
proof -
  have "dropWhile (\<lambda>c. c = CHR ''/'') (replicate n (CHR ''/'') @ rev base) = rev base"
    using assms by (induction n) (cases base rule: rev_cases; simp)+
  then show ?thesis by (simp add: strings_TrimRight_def)
qed

text \<open>The path a generated client puts behind its base URL is the procedure of the message.\<close>

lemma client_call_url:
  "client_call U http url req = cl_CallUnary U (NewClient http (strings_TrimRight url ''/'' @ procedure req)) req"
proof (cases req)
  case (PrincipalService m)
  then show ?thesis by (cases m) (simp_all add: NewPrincipalServiceClient_def Let_def)
next
  case (OrgService m)
  then show ?thesis by (cases m) (simp_all add: NewOrgServiceClient_def Let_def)
next
  case (RoleService m)
  then show ?thesis by (cases m) (simp_all add: NewRoleServiceClient_def Let_def)
next
  case (AuthzService m)
  then show ?thesis by (cases m) (simp_all add: NewAuthzServiceClient_def Let_def)
next
  case (DelegationService m)
  then show ?thesis by (cases m) (simp_all add: NewDelegationServiceClient_def Let_def)
next
  case (AuditService m)
  then show ?thesis by (cases m) (simp_all add: NewAuditServiceClient_def Let_def)
next
  case (ApiKeyService m)
  then show ?thesis by (cases m) (simp_all add: NewApiKeyServiceClient_def Let_def)
qed

lemma dispatch_typed:
  assumes "dispatch L S req cx w = (Inr x, w')"
  shows "returns req x"
proof (cases req)
  case (PrincipalService m)
  with assms show ?thesis by (cases m) (auto simp: respond_def elim!: go_bind_InrD)
next
  case (OrgService m)
  with assms show ?thesis by (cases m) (auto simp: respond_def elim!: go_bind_InrD)
next
  case (RoleService m)
  with assms show ?thesis by (cases m) (auto simp: respond_def elim!: go_bind_InrD)
next
  case (AuthzService m)
  with assms show ?thesis by (cases m) (auto simp: respond_def elim!: go_bind_InrD)
next
  case (DelegationService m)
  with assms show ?thesis by (cases m) (auto simp: respond_def elim!: go_bind_InrD)
next
  case (AuditService m)
  with assms show ?thesis by (cases m) (auto simp: respond_def elim!: go_bind_InrD)
next
  case (ApiKeyService m)
  with assms show ?thesis by (cases m) (auto simp: respond_def elim!: go_bind_InrD)
qed

lemma rpc_typed: "rpc L S req h w = (Inr x, w') \<Longrightarrow> returns req x"
  unfolding rpc_def WrapUnary_def by (auto elim!: go_bind_InrD intro: dispatch_typed split: if_splits)

lemma stubs_refuse:
  "UnimplementedPrincipalServiceHandler m1 w = (Inl (NewError CodeUnimplemented), w)"
  "UnimplementedOrgServiceHandler m2 w = (Inl (NewError CodeUnimplemented), w)"
  "UnimplementedRoleServiceHandler m3 w = (Inl (NewError CodeUnimplemented), w)"
  "UnimplementedAuthzServiceHandler m4 w = (Inl (NewError CodeUnimplemented), w)"
  "UnimplementedDelegationServiceHandler m5 w = (Inl (NewError CodeUnimplemented), w)"
  "UnimplementedAuditServiceHandler m6 w = (Inl (NewError CodeUnimplemented), w)"
  "UnimplementedApiKeyServiceHandler m7 w = (Inl (NewError CodeUnimplemented), w)"
  by ((cases m1; simp), (cases m2; simp), (cases m3; simp), (cases m4; simp), (cases m5; simp), (cases m6; simp),
      (cases m7; simp))

text \<open>The credentials are all that a procedure sees of the header.\<close>

lemma rpc_credentials:
  "h ''Authorization'' = h' ''Authorization'' \<Longrightarrow> h ''X-BS-Root-Token'' = h' ''X-BS-Root-Token'' \<Longrightarrow>
   rpc L S req h = rpc L S req h'"
  by (simp add: rpc_def WrapUnary_def authenticate_def CheckRoot_def)

lemma procedure_served: "list_ex (strings_HasPrefix (procedure req)) service_paths"
  "procedure req \<noteq> ''/.well-known/jwks.json''"
proof -
  have "list_all (\<lambda>p. list_ex (strings_HasPrefix p) service_paths \<and> p \<noteq> ''/.well-known/jwks.json'') procedures"
    by (simp add: procedures_def service_paths_def strings_HasPrefix_def)
  with procedure_known [of req]
  show "list_ex (strings_HasPrefix (procedure req)) service_paths" "procedure req \<noteq> ''/.well-known/jwks.json''"
    by (auto simp: list_all_iff)
qed

text \<open>C26: A generated client is a typed stand-in for the service: a call of any procedure, with a client
  for the service's base URL written with any number of slashes behind it, runs that procedure
  behind the interceptor with the same message and credentials, returns what it returned, and a
  response has the type that the generated interface declares for the procedure.\<close>

theorem client_call_typed:
  assumes "calls_unary U" "base = [] \<or> last base \<noteq> CHR ''/''" "delivers U K base (procedure req) req h"
    and "rpc L S req h w = (out, w')" "cl_Receive U (unary_response K out) = out"
  shows "client_call U (mux_handlers L K S) (base @ replicate n (CHR ''/'')) req h w = (out, w') \<and>
    (case out of Inl e \<Rightarrow> True | Inr x \<Rightarrow> returns req x)"
proof -
  let ?r = "cl_Send U (base @ procedure req) req h"
  have r: "rq_Path ?r = procedure req" "cn_Decode K ?r = Inr req" "rpc L S req (rq_Header ?r) = rpc L S req h"
    using assms(3) by (auto simp: delivers_def Let_def intro: rpc_credentials)
  have "serve_rpc L K S ?r w = (Inr (unary_response K out), w')"
    using r assms(4) procedure_known [of req] by (auto simp: serve_rpc_def go_try_def split: sum.split)
  then have "mux_handlers L K S ?r w = (Inr (unary_response K out), w')"
    using r(1) procedure_served [of req] by (simp add: mux_handlers_def)
  with assms(1,5) have "cl_CallUnary U (NewClient (mux_handlers L K S) (base @ procedure req)) req h w = (out, w')"
    unfolding calls_unary_def by metis
  moreover have "case out of Inl e \<Rightarrow> True | Inr x \<Rightarrow> returns req x"
    using rpc_typed assms(4) by (auto split: sum.split)
  ultimately show ?thesis by (simp add: client_call_url TrimRight_slashes [OF assms(2)])
qed

end
