(* ===== verification/Replicas.thy ===== *)
theory Replicas
  imports Signingkey
begin

text \<open>
  Several replicas start on one database (\<open>signingkey/manager.go\<close>: \<open>EnsureActive\<close> and \<open>mint\<close>). A replica
  is at a program point between two SQL statements; a step runs the next statement of one replica
  on the shared tables, or other processes change tables other than the signing keys. The statements
  in a row are \<open>EnsureActive\<close>.
\<close>

section \<open>The statements of a starting replica\<close>

datatype ensure_point = Looking | Minting | Inserting Key bytes | Loading | Started | Refused err

fun ensure_step :: "key_crypto \<Rightarrow> bytes \<Rightarrow> ensure_point \<Rightarrow> world \<Rightarrow> ensure_point \<times> world" where
  "ensure_step C kek Looking w =
     (case sk_Store_GetActive w of
        (Inr r, w1) \<Rightarrow> (Loading, w1)
      | (Inl e, w1) \<Rightarrow> (if e \<noteq> ErrNoActive then Refused e else Minting, w1))"
| "ensure_step C kek Minting w =
     (case generate_sealed C kek w of
        (Inr (k, enc), w1) \<Rightarrow> (Inserting k enc, w1)
      | (Inl e, w1) \<Rightarrow> (Refused e, w1))"
| "ensure_step C kek (Inserting k enc) w =
     (case sk_Store_Insert (new_key_row k enc) w of
        (Inr u, w1) \<Rightarrow> (Loading, w1)
      | (Inl e, w1) \<Rightarrow> (if e = UniqueViolation then Loading else Refused e, w1))"
| "ensure_step C kek Loading w =
     (case sk_refresh C kek w of
        (Inr u, w1) \<Rightarrow> (Started, w1)
      | (Inl e, w1) \<Rightarrow> (Refused e, w1))"
| "ensure_step C kek Started w = (Started, w)"
| "ensure_step C kek (Refused e) w = (Refused e, w)"

definition ensure_steps :: "key_crypto \<Rightarrow> bytes \<Rightarrow> nat \<Rightarrow> ensure_point \<times> world \<Rightarrow> ensure_point \<times> world" where
  "ensure_steps C kek n = ((\<lambda>(p, w). ensure_step C kek p w) ^^ n)"

fun ensure_result :: "ensure_point \<Rightarrow> err + unit" where
  "ensure_result (Refused e) = Inl e"
| "ensure_result p = Inr ()"

text \<open>Four statements in a row are \<open>EnsureActive\<close>.\<close>

lemma ensure_steps_sequential:
  "EnsureActive C kek w = (case ensure_steps C kek 4 (Looking, w) of (p, w') \<Rightarrow> (ensure_result p, w'))"
proof -
  have 4: "ensure_steps C kek 4 (Looking, w) =
      (case ensure_step C kek Looking w of (p1, w1) \<Rightarrow>
       case ensure_step C kek p1 w1 of (p2, w2) \<Rightarrow>
       case ensure_step C kek p2 w2 of (p3, w3) \<Rightarrow> ensure_step C kek p3 w3)"
    by (simp add: ensure_steps_def numeral_eq_Suc split: prod.split)
  show ?thesis
    unfolding 4
    by (simp add: EnsureActive_def mint_def go_try_def go_bind_cases split: prod.split sum.split)
qed

section \<open>Replicas that start at the same time\<close>

type_synonym fleet = "database \<times> (ensure_point \<times> world) list"

inductive starting :: "key_crypto \<Rightarrow> bytes \<Rightarrow> fleet \<Rightarrow> fleet \<Rightarrow> bool" for C kek where
  replica: "i < length rs \<Longrightarrow> rs ! i = (p, w) \<Longrightarrow> ensure_step C kek p (w\<lparr>db := d\<rparr>) = (p', w') \<Longrightarrow>
     starting C kek (d, rs) (db w', rs[i := (p', w')])"
| others: "signing_keys d' = signing_keys d \<Longrightarrow> starting C kek (d, rs) (d', rs)"

inductive_cases startingE: "starting C kek s s'"

definition holds_active :: "key_crypto \<Rightarrow> bytes \<Rightarrow> database \<Rightarrow> Keyset \<Rightarrow> bool" where
  "holds_active C kek d ks \<longleftrightarrow>
     (\<exists>r der priv. active_keys d = [r] \<and> Open C kek (sk_Kid r) (sk_PrivateEnc r) = Inr der \<and>
        ParsePriv C der = Inr priv \<and> ks_Active ks = \<lparr>key_Kid = sk_Kid r, key_Priv = Some priv\<rparr>)"

fun point_ok :: "key_crypto \<Rightarrow> bytes \<Rightarrow> database \<Rightarrow> ensure_point \<times> world \<Rightarrow> bool" where
  "point_ok C kek d (Loading, w) \<longleftrightarrow> active_keys d \<noteq> []"
| "point_ok C kek d (Started, w) \<longleftrightarrow> holds_active C kek d (mgr_cached w)"
| "point_ok C kek d (p, w) \<longleftrightarrow> True"

text \<open>Old keys are kept only next to an active one.\<close>

definition keys_started :: "database \<Rightarrow> bool" where
  "keys_started d \<longleftrightarrow> length (active_keys d) \<le> 1 \<and> (active_keys d = [] \<longrightarrow> signing_keys d = [])"

definition fleet_ok :: "key_crypto \<Rightarrow> bytes \<Rightarrow> fleet \<Rightarrow> bool" where
  "fleet_ok C kek s \<longleftrightarrow> keys_started (fst s) \<and> (\<forall>x \<in> set (snd s). point_ok C kek (fst s) x)"

text \<open>A statement adds the active key when there is none, or leaves the active keys as they are.\<close>

definition first_active :: "database \<Rightarrow> database \<Rightarrow> bool" where
  "first_active d d' \<longleftrightarrow> active_keys d' = active_keys d \<or> active_keys d = [] \<and> length (active_keys d') = 1"

lemma point_ok_later:
  assumes "first_active d d'" "point_ok C kek d x"
  shows "point_ok C kek d' x"
  using assms by (induction C kek d x rule: point_ok.induct) (auto simp: first_active_def holds_active_def)

lemma insert_first_active:
  assumes "sk_Store_Insert (new_key_row k enc) w = (r, w')" "keys_started (db w)"
  shows "first_active (db w) (db w') \<and> keys_started (db w') \<and>
    (r = Inr u \<or> r = Inl UniqueViolation \<longrightarrow> active_keys (db w') \<noteq> [])"
proof -
  obtain now w1 where t: "time_Now w = (Inr now :: err + time, w1)" "db w1 = db w" by (rule time_Now_total)
  let ?q = "q_InsertSigningKey now (key_Kid k) ''ES256'' enc ''active'' None"
  have s: "sql ?q w1 = (r, w')"
    using assms(1) t(1) by (simp add: sk_Store_Insert_def InsertSigningKey_def new_key_row_def sk_ts_def go_bind_cases)
  show ?thesis
  proof (cases "active_keys (db w) = []")
    case True
    with assms(2) have q: "?q (db w1) = Inr ((), (db w)\<lparr>signing_keys := [\<lparr>sk_Kid = key_Kid k, sk_Alg = ''ES256'', sk_PrivateEnc = enc,
        sk_State = ''active'', sk_CreatedAt = timestamptz now, sk_RetireAfter = None\<rparr>]\<rparr>)"
      by (simp add: q_InsertSigningKey_def keys_started_def t(2))
    with s True assms(2) t(2) show ?thesis
      by (auto simp: sql_def first_active_def active_keys_def keys_started_def split: prod.splits fault.splits)
  next
    case False
    then have "?q (db w1) = Inl UniqueViolation" by (simp add: q_InsertSigningKey_def t(2))
    with sql_outcome [OF s] have "db w' = db w" using t(2) by auto
    with False assms(2) show ?thesis by (simp add: first_active_def)
  qed
qed

lemma refresh_holds:
  assumes "sk_refresh C kek w = (Inr u, w')" "keys_started (db w)" "active_keys (db w) \<noteq> []"
  shows "holds_active C kek (db w) (mgr_cached w')"
proof -
  obtain r where r: "active_keys (db w) = [r]" using assms(2,3) by (cases "active_keys (db w)") (auto simp: keys_started_def)
  have act: "sk \<in> set (signing_keys (db w)) \<and> sk_State sk = ''active'' \<longleftrightarrow> sk = r" for sk
    using arg_cong [OF r, of set] by (auto simp: active_keys_def)
  have one: "x = toKeyRow r" if "x \<in> set (map toKeyRow (live_keys (db w)))" "kr_State x = ''active''" for x
    using that act by (auto simp: live_keys_def) (metis KeyRow.select_convs(3) toKeyRow_def)+
  have some: "\<exists>x \<in> set (map toKeyRow (live_keys (db w))). kr_State x = ''active''"
    using act [of r] by (auto simp: live_keys_def toKeyRow_def intro!: bexI [of _ r])
  have "load_keys C kek no_keyset (map toKeyRow (live_keys (db w))) = Inr (mgr_cached w')"
    using sk_refresh_InrD [OF assms(1)] by simp
  from load_keys_active [OF this some] obtain x der priv where x: "x \<in> set (map toKeyRow (live_keys (db w)))"
    "kr_State x = ''active''" "Open C kek (kr_Kid x) (kr_PrivateEnc x) = Inr der" "ParsePriv C der = Inr priv"
    "ks_Active (mgr_cached w') = \<lparr>key_Kid = kr_Kid x, key_Priv = Some priv\<rparr>" by blast
  with one [OF x(1,2)] r show ?thesis by (auto simp: holds_active_def toKeyRow_def)
qed

text \<open>What one step of a replica does to the tables and to its own point.\<close>

lemma ensure_step_ok:
  assumes st: "ensure_step C kek p w = (p', w')" and ok: "keys_started (db w)" "point_ok C kek (db w) (p, w)"
  shows "keys_started (db w') \<and> first_active (db w) (db w') \<and> point_ok C kek (db w') (p', w')"
proof -
  have same: "first_active (db w) (db w)" by (simp add: first_active_def)
  show ?thesis
  proof (cases p)
    case Looking
    obtain r w1 where g: "sk_Store_GetActive w = (r, w1)" by fastforce
    have d: "db w1 = db w" by (rule keeps_sameD [OF same_db.keeps_sk_reads(1) g])
    have "active_keys (db w) \<noteq> []" if "r = Inr x" for x
      using g that unfolding sk_Store_GetActive_def GetActiveSigningKey_def
      by (auto elim!: go_try_cases dest!: sql_one_InrD find_SomeD simp: active_keys_def filter_empty_conv split: if_splits)
    with st g d Looking ok same show ?thesis by (cases r) (auto split: if_splits)
  next
    case Minting
    obtain r w1 where g: "generate_sealed C kek w = (r, w1)" by fastforce
    have "keeps (db_rel (=)) (generate_sealed C kek)"
      unfolding generate_sealed_def GenerateKey_def Seal_def by (intro keeps_rules)
    from keeps_sameD [OF this g] have "db w1 = db w" .
    with st g Minting ok same show ?thesis by (cases r) auto
  next
    case (Inserting k enc)
    obtain r w1 where g: "sk_Store_Insert (new_key_row k enc) w = (r, w1)" by fastforce
    from insert_first_active [OF g ok(1)] st g Inserting show ?thesis by (cases r) (auto split: if_splits)
  next
    case Loading
    obtain r w1 where g: "sk_refresh C kek w = (r, w1)" by fastforce
    have d: "db w1 = db w" by (rule keeps_sameD [OF same_db.keeps_sk_reads(3) g])
    with st g Loading ok same refresh_holds [of C kek w _ w1] show ?thesis by (cases r) auto
  qed (use st ok same in auto)
qed

lemma starting_ok:
  assumes "starting C kek s s'" "fleet_ok C kek s"
  shows "fleet_ok C kek s'"
  using assms(1)
proof cases
  case (replica i rs p w d p' w')
  then have x: "(p, w) \<in> set rs" using nth_mem by metis
  have pt: "point_ok C kek d (p, w\<lparr>db := d\<rparr>)"
    using x assms(2) replica by (cases p) (auto simp: fleet_ok_def)
  from ensure_step_ok [OF replica(5)] pt assms(2) replica(1)
  have r: "keys_started (db w')" "first_active d (db w')" "point_ok C kek (db w') (p', w')"
    by (simp_all add: fleet_ok_def)
  have "point_ok C kek (db w') x" if "x \<in> set (rs[i := (p', w')])" for x
  proof (cases "x = (p', w')")
    case False
    with that have "x \<in> set rs" using set_update_subset_insert by fastforce
    with assms(2) replica(1) have "point_ok C kek d x" by (simp add: fleet_ok_def)
    then show ?thesis by (rule point_ok_later [OF r(2)])
  qed (use r in simp)
  with r replica show ?thesis by (simp add: fleet_ok_def)
next
  case (others d' d rs)
  then have "active_keys d' = active_keys d" by (simp add: active_keys_def)
  with others assms(2) point_ok_later [of d d'] show ?thesis
    by (auto simp: fleet_ok_def keys_started_def first_active_def)
qed

lemma starting_runs_ok: "(starting C kek)\<^sup>*\<^sup>* s s' \<Longrightarrow> fleet_ok C kek s \<Longrightarrow> fleet_ok C kek s'"
  by (induction rule: rtranclp_induct) (auto intro: starting_ok)

text \<open>C14: Replicas that start at the same time agree on the signing key: in every interleaving of their
  statements, with lost connections and with other work on the database in between, at most one
  active key is stored, and any two replicas that got through start-up sign with the same key, the
  stored one.\<close>

theorem concurrent_start_one_key:
  assumes "keys_started d0" "(starting C kek)\<^sup>*\<^sup>* (d0, map (Pair Looking) ws) (d, rs)"
    and "(Started, w) \<in> set rs" "(Started, w') \<in> set rs"
  shows "\<exists>k. active_keys d = [k] \<and> key_Kid (ks_Active (mgr_cached w)) = sk_Kid k \<and>
     ks_Active (mgr_cached w') = ks_Active (mgr_cached w)"
proof -
  have "fleet_ok C kek (d0, map (Pair Looking) ws)" using assms(1) by (auto simp: fleet_ok_def)
  from starting_runs_ok [OF assms(2) this]
  have "holds_active C kek d (mgr_cached x)" if "(Started, x) \<in> set rs" for x
    using that by (auto simp: fleet_ok_def)
  from this [OF assms(3)] this [OF assms(4)]
  show ?thesis by (auto simp: holds_active_def)
qed

section \<open>Every schedule ends\<close>

text \<open>A schedule says which replica runs its next statement.\<close>

definition turn :: "key_crypto \<Rightarrow> bytes \<Rightarrow> nat \<Rightarrow> fleet \<Rightarrow> fleet" where
  "turn C kek i s =
     (case s of (d, rs) \<Rightarrow>
        if i < length rs then
          (case rs ! i of (p, w) \<Rightarrow>
             (case ensure_step C kek p (w\<lparr>db := d\<rparr>) of (p', w') \<Rightarrow> (db w', rs[i := (p', w')])))
        else (d, rs))"

definition run_fleet :: "key_crypto \<Rightarrow> bytes \<Rightarrow> nat list \<Rightarrow> fleet \<Rightarrow> fleet" where
  "run_fleet C kek sched s = foldl (\<lambda>s i. turn C kek i s) s sched"

lemma turn_starting: "(starting C kek)\<^sup>*\<^sup>* s (turn C kek i s)"
  by (cases s) (auto simp: turn_def split: prod.split intro!: r_into_rtranclp starting.replica)

lemma run_fleet_starting: "(starting C kek)\<^sup>*\<^sup>* s (run_fleet C kek sched s)"
proof (induction sched arbitrary: s)
  case (Cons i sched)
  from rtranclp_trans [OF turn_starting Cons.IH] show ?case by (simp add: run_fleet_def)
qed (simp add: run_fleet_def)

fun remaining :: "ensure_point \<Rightarrow> nat" where
  "remaining Looking = 4"
| "remaining Minting = 3"
| "remaining (Inserting k enc) = 2"
| "remaining Loading = 1"
| "remaining Started = 0"
| "remaining (Refused e) = 0"

definition openable :: "key_crypto \<Rightarrow> bytes \<Rightarrow> string \<Rightarrow> bytes \<Rightarrow> bool" where
  "openable C kek kid enc \<longleftrightarrow> (\<exists>der priv. Open C kek kid enc = Inr der \<and> ParsePriv C der = Inr priv)"

definition keys_openable :: "key_crypto \<Rightarrow> bytes \<Rightarrow> database \<Rightarrow> bool" where
  "keys_openable C kek d \<longleftrightarrow> (\<forall>k \<in> set (signing_keys d). openable C kek (sk_Kid k) (sk_PrivateEnc k))"

fun point_sound :: "key_crypto \<Rightarrow> bytes \<Rightarrow> ensure_point \<Rightarrow> bool" where
  "point_sound C kek (Inserting k enc) \<longleftrightarrow> openable C kek (key_Kid k) enc"
| "point_sound C kek (Refused e) \<longleftrightarrow> False"
| "point_sound C kek p \<longleftrightarrow> True"

text \<open>The packages under a healthy start: keys can be thumbprinted and marshalled.\<close>

definition crypto_total :: "key_crypto \<Rightarrow> bool" where
  "crypto_total C \<longleftrightarrow> key_crypto_ok C \<and> (\<forall>b. jwk_Thumbprint C b \<noteq> None) \<and> (\<forall>b. x509_MarshalPKCS8 C b \<noteq> None)"

lemma load_keys_openable:
  "\<forall>r \<in> set rs. openable C kek (kr_Kid r) (kr_PrivateEnc r) \<Longrightarrow> \<exists>ks'. load_keys C kek ks rs = Inr ks'"
  by (induction rs arbitrary: ks) (auto simp: openable_def)

lemma rand_Read_healthy:
  assumes "faults w = []"
  obtains b w' where "rand_Read n w = (Inr b, w')" "faults w' = []"
  using assms by (simp add: rand_Read_def next_fault_def)

lemma generate_healthy:
  assumes "crypto_total C" "faults w = []"
  obtains k enc w' where "generate_sealed C kek w = (Inr (k, enc), w')" "faults w' = []" "openable C kek (key_Kid k) enc"
proof -
  obtain seed w1 where r1: "rand_Read 32 w = (Inr seed, w1)" "faults w1 = []" using assms(2) by (rule rand_Read_healthy)
  obtain non w2 where r2: "rand_Read NonceSize w1 = (Inr non, w2)" "faults w2 = []" using r1(2) by (rule rand_Read_healthy)
  let ?priv = "ec_Generate C seed"
  obtain tp where tp: "jwk_Thumbprint C (ec_PublicKey C ?priv) = Some tp" using assms(1) by (auto simp: crypto_total_def)
  obtain der where der: "x509_MarshalPKCS8 C ?priv = Some der" using assms(1) by (auto simp: crypto_total_def)
  have "\<exists>k enc. generate_sealed C kek w = (Inr (k, enc), w2)"
    using r1 r2 tp der
    by (simp add: generate_sealed_def GenerateKey_def go_bind_cases thumbprintKid_def of_result_def MarshalPriv_def Seal_def)
  then obtain k enc where g: "generate_sealed C kek w = (Inr (k, enc), w2)" by blast
  from generate_sealed_InrD [OF _ g] assms(1) have "openable C kek (key_Kid k) enc"
    by (auto simp: crypto_total_def openable_def)
  with g r2(2) that show thesis by blast
qed

lemma ensure_step_healthy:
  assumes st: "ensure_step C kek p w = (p', w')" and C: "crypto_total C"
    and ok: "faults w = []" "keys_openable C kek (db w)" "point_sound C kek p"
  shows "faults w' = [] \<and> keys_openable C kek (db w') \<and> point_sound C kek p' \<and> remaining p' \<le> remaining p - 1"
proof (cases p)
  case Looking
  with st ok show ?thesis
    by (auto simp: sk_Store_GetActive_def GetActiveSigningKey_def go_try_def split: option.splits if_splits)
next
  case Minting
  obtain k enc w1 where "generate_sealed C kek w = (Inr (k, enc), w1)" "faults w1 = []" "openable C kek (key_Kid k) enc"
    using C ok(1) by (rule generate_healthy)
  moreover have "keeps (db_rel (=)) (generate_sealed C kek)"
    unfolding generate_sealed_def GenerateKey_def Seal_def by (intro keeps_rules)
  ultimately show ?thesis using st ok Minting keeps_sameD by fastforce
next
  case (Inserting k enc)
  obtain now w1 where t: "time_Now w = (Inr now :: err + time, w1)" "db w1 = db w" "faults w1 = faults w" by (rule time_Now_total)
  with st ok Inserting show ?thesis
    by (auto simp: sk_Store_Insert_def InsertSigningKey_def go_bind_cases new_key_row_def q_InsertSigningKey_def keys_openable_def
        split: if_splits)
next
  case Loading
  have "\<forall>r \<in> set (map toKeyRow (live_keys (db w))). openable C kek (kr_Kid r) (kr_PrivateEnc r)"
    using ok(2) by (auto simp: keys_openable_def live_keys_def toKeyRow_def)
  from load_keys_openable [OF this] obtain ks where ks: "load_keys C kek no_keyset (map toKeyRow (live_keys (db w))) = Inr ks" by blast
  obtain now w1 where t: "time_Now w = (Inr now :: err + time, w1)" "db w1 = db w" "faults w1 = faults w" by (rule time_Now_total)
  with st ok ks Loading show ?thesis
    by (auto simp: sk_refresh_def sk_Store_ListLive_def ListLiveSigningKeys_def go_bind_cases of_result_def set_cached_def)
qed (use st ok in auto)

definition fleet_sound :: "key_crypto \<Rightarrow> bytes \<Rightarrow> fleet \<Rightarrow> bool" where
  "fleet_sound C kek s \<longleftrightarrow>
     keys_openable C kek (fst s) \<and> (\<forall>x \<in> set (snd s). faults (snd x) = [] \<and> point_sound C kek (fst x))"

lemma turn_sound:
  assumes "crypto_total C" "fleet_sound C kek (d, rs)" "turn C kek i (d, rs) = (d', rs')"
  shows "fleet_sound C kek (d', rs') \<and> length rs' = length rs \<and>
    (\<forall>j < length rs. remaining (fst (rs' ! j)) \<le> remaining (fst (rs ! j)) - (if j = i then 1 else 0))"
proof (cases "i < length rs")
  case True
  obtain p w where x: "rs ! i = (p, w)" by fastforce
  obtain p' w' where st: "ensure_step C kek p (w\<lparr>db := d\<rparr>) = (p', w')" by fastforce
  have "(p, w) \<in> set rs" using True x nth_mem by metis
  then have s: "faults w = []" "keys_openable C kek d" "point_sound C kek p" using assms(2) by (auto simp: fleet_sound_def)
  have h: "faults w' = []" "keys_openable C kek (db w')" "point_sound C kek p'" "remaining p' \<le> remaining p - 1"
    using ensure_step_healthy [OF st assms(1)] s by simp_all
  have rs': "d' = db w'" "rs' = rs[i := (p', w')]" using assms(3) True x st by (simp_all add: turn_def)
  have "faults (snd y) = [] \<and> point_sound C kek (fst y)" if "y \<in> set rs'" for y
    using that h assms(2) set_update_subset_insert [of rs i "(p', w')"] by (auto simp: rs' fleet_sound_def)
  with h rs' x True show ?thesis by (auto simp: fleet_sound_def nth_list_update)
next
  case False
  with assms show ?thesis by (auto simp: turn_def)
qed

lemma run_fleet_sound:
  assumes "crypto_total C" "fleet_sound C kek (d, rs)" "run_fleet C kek sched (d, rs) = (d', rs')"
  shows "fleet_sound C kek (d', rs') \<and> length rs' = length rs \<and>
    (\<forall>j < length rs. remaining (fst (rs' ! j)) \<le> remaining (fst (rs ! j)) - count_list sched j)"
  using assms(2,3)
proof (induction sched arbitrary: d rs)
  case (Cons i sched)
  obtain d1 rs1 where t: "turn C kek i (d, rs) = (d1, rs1)" by fastforce
  note T = turn_sound [OF assms(1) Cons.prems(1) t]
  from Cons.prems(2) t have r: "run_fleet C kek sched (d1, rs1) = (d', rs')" by (simp add: run_fleet_def)
  note R = Cons.IH [OF conjunct1 [OF T] r]
  have "remaining (fst (rs' ! j)) \<le> remaining (fst (rs ! j)) - count_list (i # sched) j" if "j < length rs" for j
  proof -
    from that T R have "remaining (fst (rs1 ! j)) \<le> remaining (fst (rs ! j)) - (if j = i then 1 else 0)"
      "remaining (fst (rs' ! j)) \<le> remaining (fst (rs1 ! j)) - count_list sched j" by simp_all
    then show ?thesis by (auto split: if_splits)
  qed
  with T R show ?case by simp
qed (simp add: run_fleet_def)

lemma all_started:
  assumes "crypto_total C" "keys_openable C kek d0"
    and "\<forall>w \<in> set ws. faults w = []" "\<forall>i < length ws. 4 \<le> count_list sched i"
    and run: "run_fleet C kek sched (d0, map (Pair Looking) ws) = (d, rs)"
  shows "length rs = length ws \<and> (\<forall>x \<in> set rs. fst x = Started)"
proof -
  have "fleet_sound C kek (d0, map (Pair Looking) ws)" using assms(2,3) by (auto simp: fleet_sound_def)
  note R = run_fleet_sound [OF assms(1) this run]
  have "fst x = Started" if x: "x \<in> set rs" for x
  proof -
    from x obtain j where j: "j < length rs" "rs ! j = x" by (auto simp: in_set_conv_nth)
    with R assms(4) have "remaining (fst x) = 0" by fastforce
    moreover have "point_sound C kek (fst x)" using R x by (simp add: fleet_sound_def)
    ultimately show ?thesis by (cases "fst x") auto
  qed
  with R show ?thesis by simp
qed

text \<open>C15: Starting together succeeds: over healthy connections, for every number of replicas and every
  schedule that gives each of them four turns, all replicas finish start-up and sign with one and the
  same key, the only active key in the tables.\<close>

theorem concurrent_start_converges:
  assumes "crypto_total C" "keys_started d0" "keys_openable C kek d0" "ws \<noteq> []"
    and "\<forall>w \<in> set ws. faults w = []" "\<forall>i < length ws. 4 \<le> count_list sched i"
  shows "\<exists>d rs key. run_fleet C kek sched (d0, map (Pair Looking) ws) = (d, rs) \<and> length rs = length ws \<and>
     (\<forall>x \<in> set rs. fst x = Started \<and> ks_Active (mgr_cached (snd x)) = key) \<and>
     map sk_Kid (active_keys d) = [key_Kid key]"
proof -
  let ?s = "(d0, map (Pair Looking) ws)"
  obtain d rs where run: "run_fleet C kek sched ?s = (d, rs)" by fastforce
  note R = all_started [OF assms(1,3,5,6) run]
  have "fleet_ok C kek ?s" using assms(2) by (auto simp: fleet_ok_def)
  from starting_runs_ok [OF run_fleet_starting this, of sched] run
  have ok: "fleet_ok C kek (d, rs)" by simp
  have holds: "holds_active C kek d (mgr_cached (snd x))" if "x \<in> set rs" for x
    using ok R that by (cases x) (auto simp: fleet_ok_def dest!: bspec)
  have x0: "rs ! 0 \<in> set rs" using R assms(4) by (auto intro!: nth_mem)
  from holds [OF x0] obtain k where
    k: "active_keys d = [k]" "key_Kid (ks_Active (mgr_cached (snd (rs ! 0)))) = sk_Kid k"
    by (auto simp: holds_active_def)
  have "ks_Active (mgr_cached (snd x)) = ks_Active (mgr_cached (snd (rs ! 0)))" if "x \<in> set rs" for x
    using holds [OF that] holds [OF x0] by (auto simp: holds_active_def)
  with run R k show ?thesis by (intro exI [of _ d] exI [of _ rs] exI) auto
qed

end
