(* ===== verification/Samples.thy ===== *)
theory Samples
  imports Startup
begin

text \<open>
  Concrete inputs: one instance of each library parameter that satisfies the laws the properties
  assume of it, and a world with one organisation (id 1, written \<open>''x''\<close>), the principal
  \<open>''alice''\<close> who is a member of it and owns the document \<open>''d''\<close>, one delegation and one API
  key.
\<close>

definition sample_pg :: pgtype where
  "sample_pg = \<lparr>uuid_Scan = (\<lambda>s. Some (of_nat (length s))), uuid_String = (\<lambda>u. replicate (unat u) (CHR ''x''))\<rparr>"

definition sample_codec :: audit_codec where
  "sample_codec = \<lparr>sha256 = (\<lambda>b. [of_nat (length b)]), json_record = (\<lambda>r. [of_int (cr_Seq r)]),
     json_Marshal = (\<lambda>d. if d = None then [] else [1]), json_Unmarshal = (\<lambda>b. None),
     jsonb = (\<lambda>b. if b = [] then Some b else None)\<rparr>"

definition sample_crypto :: key_crypto where
  "sample_crypto = \<lparr>ec_Generate = (\<lambda>s. s), ec_PublicKey = (\<lambda>p. p), jwk_Thumbprint = (\<lambda>p. Some [0]),
     x509_MarshalPKCS8 = Some, x509_ParsePKCS8 = (\<lambda>d. Some (Some d)),
     gcm_Seal = (\<lambda>k n p a. p), gcm_Open = (\<lambda>k n c a. Some c)\<rparr>"

definition sample_claims :: tokenClaims where
  "sample_claims = \<lparr>tc_Iss = ''bs'', tc_Sub = ''bot'', tc_Exp = 2000000000, tc_Iat = 1000000000,
     tc_ActSub = ''alice'', tc_DID = ''xxxxxxx'', tc_Scope = [''doc.read''], tc_Org = ''x'', tc_CnfJkt = None\<rparr>"

definition sample_proof :: dpopPayload where
  "sample_proof = \<lparr>dp_Htm = ''GET'', dp_Htu = ''u'', dp_Iat = 1000000000, dp_Jti = ''j'', dp_Ath = ''''\<rparr>"

text \<open>Every token carries the same claims; a proof's text is the number of seconds it is dated after
  the sample clock, in unary.\<close>

definition sample_jose :: jose where
  "sample_jose = \<lparr>jwt_Signed = (\<lambda>p kid tc. Some ''t''), jwt_ParseSigned = (\<lambda>t. Some (Some ''AA'')),
     jwt_Claims = (\<lambda>t pub. Some sample_claims),
     jws_ParseSigned = (\<lambda>p. Some \<lparr>jp_Signatures = 1, jp_Typ = Some ''dpop+jwt'', jp_JWK = Some []\<rparr>),
     jws_Verify = (\<lambda>p jwk. Some (bytes_of p)),
     dpop_Unmarshal = (\<lambda>b. Some (if b = [] then sample_proof\<lparr>dp_Iat := 20000000000\<rparr> else sample_proof)),
     jwks_Marshal = (\<lambda>ks. []), sha256_Sum = (\<lambda>b. [])\<rparr>"

definition sample_hmac :: hmac_op where
  "sample_hmac k b = k @ b"

definition sample_rate :: rate_lib where
  "sample_rate = \<lparr>rate_NewLimiter = (\<lambda>rps burst. [burst]),
     rate_AllowN = (\<lambda>t b. if hd b > 0 then (True, [hd b - 1]) else (False, b)),
     rate_ReserveN = (\<lambda>t b. ([], b)), rate_DelayFrom = (\<lambda>t r. second), rate_CancelAt = (\<lambda>t r b. b)\<rparr>"

definition sample_key_id :: string where
  "sample_key_id = replicate 16 CHR ''k''"

definition sample_secret :: string where
  "sample_secret = replicate 32 CHR ''s''"

definition sample_token :: string where
  "sample_token = Prefix @ sample_key_id @ ''_'' @ sample_secret @
     crc (Prefix @ sample_key_id @ ''_'' @ sample_secret)"

definition sample_db :: database where
  "sample_db = empty_db
     \<lparr>organizations := [\<lparr>o_ID = 1, o_Name = ''acme'', o_ParentID = None, o_CreatedAt = 0\<rparr>],
      principals := [\<lparr>p_ID = ''alice'', p_Type = ''human'', p_DisplayName = ''Alice'',
        p_OwnerPrincipalID = None, p_Capabilities = [], p_Purpose = '''', p_OnBehalfOf = '''', p_CreatedAt = 0\<rparr>],
      memberships := [\<lparr>mb_PrincipalID = ''alice'', mb_OrgID = 1\<rparr>],
      ownership := [\<lparr>ow_ResourceType = ''doc'', ow_ResourceID = ''d'', ow_OwnerPrincipalID = ''alice'', ow_OrgID = 1\<rparr>],
      delegations := [\<lparr>d_ID = 7, d_AgentPrincipalID = ''bot'', d_DelegatorPrincipalID = ''alice'', d_OrgID = 1,
        d_Scope = [''doc.read''], d_CnfJkt = '''', d_ParentDelegationID = None,
        d_ExpiresAt = 1500000000000000000, d_Revoked = False, d_CreatedAt = 0\<rparr>],
      signing_keys := [\<lparr>sk_Kid = ''old'', sk_Alg = ''ES256'', sk_PrivateEnc = replicate 12 0 @ [1], sk_State = ''active'',
        sk_CreatedAt = 0, sk_RetireAfter = None\<rparr>],
      api_keys := [\<lparr>k_KeyID = sample_key_id, k_PrincipalID = ''alice'', k_OrgID = ''x'', k_Name = ''ci'',
        k_Hash = sample_hmac [] (bytes_of sample_secret), k_HashVersion = 1, k_ReadOnly = True,
        k_Revoked = False, k_CreatedAt = 0, k_ExpiresAt = None, k_LastUsedAt = None\<rparr>]\<rparr>"

definition sample_keyset :: Keyset where
  "sample_keyset = \<lparr>ks_Active = \<lparr>key_Kid = ''AA'', key_Priv = Some [1]\<rparr>,
     ks_All = [\<lparr>key_Kid = ''AA'', key_Priv = Some [1]\<rparr>]\<rparr>"

definition sample_world :: world where
  "sample_world = \<lparr>db = sample_db, faults = [], clock = 1000000000000000000, ticks = [],
     uuid_src = (\<lambda>n. of_nat (n + 2)), uuid_pos = 0, rand_src = (\<lambda>n. of_nat n), rand_pos = 0,
     chan = [], chan_cap = 8, dropped = 0, eng = fake_New,
     mgr_cached = sample_keyset, mgr_loadedAt = 1000000000000000000,
     unkCount = 0, unkLastFlush = time_zero, ipLim = None, globalLim = None, prLim = None,
     rootLastEmit = time_zero, kc_keys = Map.empty, kc_fetched = time_zero,
     kc_lastRefreshAttempt = time_zero, jwks_responses = []\<rparr>"

definition sample_caller :: Caller where
  "sample_caller = \<lparr>c_PrincipalID = ''alice'', c_SystemAdmin = False, c_AuthMethod = ''oidc'', c_ReadOnly = False\<rparr>"

definition sample_root :: Caller where
  "sample_root = \<lparr>c_PrincipalID = '''', c_SystemAdmin = True, c_AuthMethod = ''root'', c_ReadOnly = False\<rparr>"

definition sample_event :: "string \<Rightarrow> audit_event" where
  "sample_event org = \<lparr>ev_ActorID = ''alice'', ev_ActorType = '''', ev_SystemAdmin = False,
     ev_Action = ''team.create'', ev_TargetType = ''team'', ev_TargetID = ''t'', ev_OrgID = org,
     ev_Outcome = ''success'', ev_Detail = None\<rparr>"

definition sample_queue :: "queued list" where
  "sample_queue = [\<lparr>q_chain = ''x'', q_e = sample_event ''x''\<rparr>, \<lparr>q_chain = ''system'', q_e = sample_event ''''\<rparr>]"

definition sample_files :: "(string \<times> string) list" where
  "sample_files = [(''0002_b.sql'', ''-- +goose Up b''), (''0001_a.sql'', ''-- +goose Up a'')]"

section \<open>The samples satisfy the laws\<close>

lemma sample_uuid_codec [simp]: "uuid_codec sample_pg"
  by (simp add: uuid_codec_def sample_pg_def)

lemma sample_json_codec [simp]: "json_codec sample_codec"
  by (auto simp: json_codec_def sample_codec_def split: if_splits)

lemma sample_key_crypto_ok [simp]: "key_crypto_ok sample_crypto"
  by (simp add: key_crypto_ok_def sample_crypto_def)

lemma sample_Parse [simp]: "Parse sample_token = Some (sample_key_id, sample_secret)"
  using Parse_parts [of sample_key_id sample_secret "crc (Prefix @ sample_key_id @ ''_'' @ sample_secret)"]
  by (simp add: sample_token_def sample_key_id_def sample_secret_def keyIDLen_def secretLen_def)

lemma sample_world_sel [simp]:
  "db sample_world = sample_db" "faults sample_world = []" "clock sample_world = 1000000000000000000"
  "ticks sample_world = []" "chan sample_world = []" "mgr_cached sample_world = sample_keyset"
  "mgr_loadedAt sample_world = 1000000000000000000"
  by (simp_all add: sample_world_def)

lemma sample_time_Now [simp]: "time_Now sample_world = (Inr 1000000000000000000, sample_world)"
  by (simp add: time_Now_def Let_def)

lemma sample_chain_rows [simp]: "chain_rows c sample_db = []"
  by (simp add: sample_db_def empty_db_def chain_rows_def)

lemma run_eq: "fst p = r \<Longrightarrow> p = (r, snd p)"
  by auto

end
