(* ===== verification/Witnesses.thy ===== *)
theory Witnesses
  imports Samples
begin

text \<open>
  Each property that has hypotheses applied at a concrete input: the hypotheses are evaluated on the
  samples and the property's conclusion is read off.
\<close>

section \<open>Rate limiting and the audit log\<close>

theorem lru_refines_recency_list_witness:
  "lru_inv (newLRU 1 :: int lru) \<and> lru_abs (lru_put ''b'' 2 (lru_put ''a'' 1 (newLRU 1))) = [(''b'', 2 :: int)]"
proof -
  note one = lru_refines_recency_list [of "newLRU 1 :: int lru" "''a''" 1]
  have cap: "lru_cap (newLRU 1 :: int lru) = 1" by (simp add: newLRU_def)
  note two = lru_refines_recency_list [of "lru_put ''a'' 1 (newLRU 1) :: int lru" "''b''" 2]
  show ?thesis using one two cap by (simp add: spec_put_def)
qed


lemma sample_details [simp]: "details_ok sample_codec [sample_event o1, sample_event o2]"
  by (simp add: details_ok_def sample_event_def sample_codec_def Redact_def)

lemma redacted_sample [simp]: "redacted (sample_event c) = sample_event c"
  by (simp add: redacted_def sample_event_def Redact_def)

lemma sample_append: "fst (Append sample_codec ''x'' [sample_event ''x'', sample_event ''x''] sample_world) = Inr ()"
proof -
  obtain w' where "Append sample_codec ''x'' [sample_event ''x'', sample_event ''x''] sample_world = (Inr (), w')"
    by (rule Append_healthy [of sample_world sample_codec "[sample_event ''x'', sample_event ''x'']" "''x''"]) simp_all
  then show ?thesis by simp
qed

theorem append_then_verify_witness:
  "\<exists>w'. Append sample_codec ''x'' [sample_event ''x'', sample_event ''x''] sample_world = (Inr (), w') \<and>
     verify_loop sample_codec genesis 0 (chain_rows ''x'' (db w')) = (True, 0) \<and>
     map (row_event sample_codec) (chain_rows ''x'' (db w')) = [sample_event ''x'', sample_event ''x'']"
  using append_then_verify [OF sample_json_codec _ _ run_eq [OF sample_append]] run_eq [OF sample_append]
  by fastforce

definition lossy_world :: world where
  "lossy_world = sample_world\<lparr>faults := [Up, Up, Up, Up, LostAfter]\<rparr>"

theorem append_atomic_witness:
  "fst (Append sample_codec ''x'' [sample_event ''x''] lossy_world) = Inl ErrConn \<and>
   (\<exists>rows. audit_grows sample_db rows (db (snd (Append sample_codec ''x'' [sample_event ''x''] lossy_world))) \<and>
      length rows = 1)"
  using append_atomic [OF sample_json_codec surjective_pairing, of "''x''" "[sample_event ''x'']" lossy_world]
  by (simp add: lossy_world_def sample_world_def Append_def in_tx_def append_tx_def go_bind_cases go_try_def
    next_fault_def advisory_lock_def sql_read_def sql_def AuditChainHead_def sql_one_def time_Now_def
    Let_def InsertAuditEvent_def q_InsertAuditEvent_def event_row_def sample_codec_def sample_event_def
    Redact_def sample_db_def empty_db_def chain_rows_def)

definition sample_row :: audit_row where
  "sample_row = (event_row sample_codec ''x'' 1 0 (sample_event ''x'') genesis
     (canonicalHash sample_codec 1 0 (sample_event ''x'') genesis))"

lemma sample_row_ok [simp]: "verify_loop sample_codec genesis 0 [sample_row] = (True, 0)"
  by (simp add: sample_row_def event_row_def row_hash_def row_event_def canonicalHash_def canonical_def
      sample_codec_def sample_event_def Let_def int64_def timestamptz_def truncate_us_def)




section \<open>Migrations\<close>

lemma sample_names: "migration_names sample_files = [''0001_a.sql'', ''0002_b.sql'']"
  by (simp add: migration_names_def sample_files_def strings_HasSuffix_def strings_HasPrefix_def
      sort_Strings_def)

lemma sample_up: "upSection ''-- +goose Up a'' = ''a''" "upSection ''-- +goose Up b'' = ''b''"
  by (simp_all add: upSection_def strings_HasPrefix_def Let_def strings_TrimSpace_def)

lemma sample_bodies:
  "map_of sample_files ''0001_a.sql'' = Some ''-- +goose Up a''"
  "map_of sample_files ''0002_b.sql'' = Some ''-- +goose Up b''"
  by (simp_all add: sample_files_def)

lemma sample_migrated: "fst (migrate_Apply (\<lambda>s l. True) sample_files sample_world) = Inr () \<and>
  executed_ddl (db (snd (migrate_Apply (\<lambda>s l. True) sample_files sample_world))) = [''a'', ''b'']"
  by (simp add: migrate_Apply_def migrate_body_def go_bind_cases sample_names q_EnsureLedger_def
      sample_db_def empty_db_def q_LedgerHas_def sample_bodies Let_def sample_up migrate_tx_def in_tx_def
      q_Exec_def q_InsertLedger_def advisory_unlock_def)

theorem migrations_exactly_once_witness:
  "distinct (ledger (db (snd (migrate_Apply (\<lambda>s l. True) sample_files sample_world)))) \<and>
   [''a'', ''b''] =
     map (\<lambda>n. upSection (the (map_of sample_files n)))
       (ledger (db (snd (migrate_Apply (\<lambda>s l. True) sample_files sample_world)))) \<and>
   executed_ddl (db (snd (migrate_Apply (\<lambda>s l. True) sample_files sample_world))) =
     map (\<lambda>n. upSection (the (map_of sample_files n)))
       (ledger (db (snd (migrate_Apply (\<lambda>s l. True) sample_files sample_world))))"
proof -
  have "ledger_ok sample_files (db sample_world)"
    by (simp add: ledger_ok_def sample_db_def empty_db_def)
  from migrations_exactly_once [OF this surjective_pairing] sample_migrated show ?thesis by auto
qed

theorem migrations_complete_and_idempotent_witness:
  "\<exists>w3. migrate_Apply (\<lambda>s l. True) sample_files
      (sample_world\<lparr>db := db (snd (migrate_Apply (\<lambda>s l. True) sample_files sample_world))\<rparr>) = (Inr (), w3) \<and>
     executed_ddl (db w3) = [''a'', ''b'']"
  using migrations_complete_and_idempotent [OF run_eq [OF conjunct1 [OF sample_migrated]],
      of "sample_world\<lparr>db := db (snd (migrate_Apply (\<lambda>s l. True) sample_files sample_world))\<rparr>"]
    conjunct2 [OF sample_migrated] by auto

section \<open>Signing keys\<close>

lemmas rotate_eval = Manager_Rotate_def go_bind_cases go_try_def generate_sealed_def GenerateKey_def rand_Read_def sample_crypto_def
    Let_def of_result_def thumbprintKid_def MarshalPriv_def Seal_def sk_Store_Rotate_def in_tx_def DemoteActiveSigningKey_def
    InsertSigningKey_def q_DemoteActive_def q_InsertSigningKey_def sk_Store_RetireExpired_def DeleteExpiredSigningKeys_def
    q_DeleteExpired_def sk_refresh_def sk_Store_ListLive_def ListLiveSigningKeys_def live_keys_def new_key_row_def
    NonceSize_def toKeyRow_def Open_def ParsePriv_def add_key_def set_cached_def active_keys_def key_expired_def
    NewManager_def NewManagerWithOptions_def DefaultRetireWindow_def second_def sk_ts_def time_zero_def time_Add_def
    timestamptz_def truncate_us_def b64url_char_def b64url_alphabet_def

lemma sample_rotate:
  "(case Manager_Rotate sample_crypto (replicate 32 0) NewManager sample_world of
      (r, w') \<Rightarrow> map_sum id key_Kid r = Inr ''AA'' \<and> clock w' = 1000000000000000000)"
  by (simp add: rotate_eval sample_db_def empty_db_def sample_world_def time_Now_def)

lemma sample_rotated:
  obtains k w' where "Manager_Rotate sample_crypto (replicate 32 0) NewManager sample_world = (Inr k, w')"
    "key_Kid k = ''AA''" "clock w' = 1000000000000000000"
  using sample_rotate by (auto split: prod.splits sum.splits simp: map_sum_def)

theorem rotate_installs_new_key_witness:
  "\<exists>k w'. Manager_Rotate sample_crypto (replicate 32 0) NewManager sample_world = (Inr k, w') \<and>
     ks_Active (mgr_cached w') = k \<and> (\<exists>new. active_keys (db w') = [new] \<and> sk_Kid new = ''AA'')"
proof -
  obtain k w' where run: "Manager_Rotate sample_crypto (replicate 32 0) NewManager sample_world = (Inr k, w')"
    and k: "key_Kid k = ''AA''" by (rule sample_rotated)
  from rotate_installs_new_key [OF sample_key_crypto_ok run] run k show ?thesis by auto
qed

theorem rotate_keeps_old_key_witness:
  "\<exists>k w'. Manager_Rotate sample_crypto (replicate 32 0) NewManager sample_world = (Inr k, w') \<and>
     ''old'' \<in> set (map key_Kid (ks_All (mgr_cached w')))"
proof -
  obtain k w' where run: "Manager_Rotate sample_crypto (replicate 32 0) NewManager sample_world = (Inr k, w')"
    and c: "clock w' = 1000000000000000000" by (rule sample_rotated)
  have win: "clock w' \<le> clock sample_world + opt_RetireWindow NewManager"
    by (simp add: c NewManager_def NewManagerWithOptions_def DefaultRetireWindow_def second_def)
  have "\<exists>old. old \<in> set (active_keys (db sample_world)) \<and> sk_Kid old = ''old''"
    by (simp add: sample_db_def active_keys_def)
  with rotate_keeps_old_key [OF sample_key_crypto_ok run _ win] run show ?thesis by metis
qed

section \<open>Delegations\<close>

definition sample_keys :: keyset_op where
  "sample_keys = Manager_Keyset sample_crypto [] NewManager"

definition sample_doc :: Resource where
  "sample_doc = \<lparr>res_Type = ''doc'', res_ID = ''d'', res_OrgID = ''x'', res_TeamID = ''''\<rparr>"

lemma sample_keys_eval: "Manager_Keyset sample_crypto [] NewManager sample_world = (Inr sample_keyset, sample_world)"
  by (simp add: Manager_Keyset_def go_bind_cases get_cached_def NewManager_def NewManagerWithOptions_def
      DefaultCacheTTL_def second_def time_Sub_def)

lemma sample_sel [simp]:
  "uuid_Scan sample_pg s = Some (of_nat (length s))" "uuid_String sample_pg u = replicate (unat u) (CHR ''x'')"
  "jwt_ParseSigned sample_jose t = Some (Some ''AA'')" "jwt_Claims sample_jose t pub = Some sample_claims"
  "jwt_Signed sample_jose p kid tc = Some ''t''"
  by (simp_all add: sample_pg_def sample_jose_def)

lemma replicate_numerals: "replicate 7 c = [c, c, c, c, c, c, c]" "replicate 2 c = [c, c]"
  by (simp_all add: numeral_eq_Suc)

lemma sample_get: "dg_Store_Get sample_pg ''xxxxxxx'' sample_world =
    (Inr \<lparr>dg_ID = ''xxxxxxx'', dg_AgentID = ''bot'', dg_DelegatorID = ''alice'', dg_OrgID = ''x'', dg_Scope = [''doc.read''],
      dg_ExpiresAt = 1500000000000000000, dg_Revoked = False, dg_CnfJkt = ''''\<rparr>, sample_world)"
  by (simp add: dg_Store_Get_def go_try_def GetDelegation_def sample_db_def dg_of_row_def replicate_numerals) 

lemma sample_check_yes: "check_spec sample_pg sample_db ''alice'' a sample_doc = Some True"
  by (simp add: check_spec_def sample_doc_def is_owner_def sample_db_def)

lemma sample_verify: "Signer_Verify sample_jose sample_crypto ''bs'' (Manager_Keyset sample_crypto [] NewManager) ''t'' sample_world =
    (Inr (claims_of_token sample_claims), sample_world)"
  by (simp add: Signer_Verify_def go_bind_cases sample_keys_eval publicFor_def sample_keyset_def of_result_def
      sample_claims_def time_Unix_def)

lemma sample_delegated:
  "fst (CheckDelegatedDPoP sample_pg sample_jose sample_crypto ''bs'' (Manager_Keyset sample_crypto [] NewManager)
     (authz_Service_Check sample_pg) ''t'' ''doc.read'' sample_doc '''' '''' '''' sample_world) = Inr True"
  using rbac.check_up [of sample_world sample_pg "''alice''" "''doc.read''" sample_doc True] sample_check_yes
  by (simp add: CheckDelegatedDPoP_def go_try_def sample_verify claims_of_token_def sample_claims_def sample_get
      go_bind_cases contains_def) (simp add: sample_doc_def)

theorem delegated_check_attenuates_witness:
  "\<exists>r \<in> set (delegations sample_db). \<not> d_Revoked r \<and> ''doc.read'' \<in> set (d_Scope r) \<and>
     check_spec sample_pg sample_db (d_DelegatorPrincipalID r) ''doc.read'' sample_doc = Some True"
  using delegated_check_attenuates [OF run_eq [OF sample_delegated]] by auto

lemma sample_revoke:
  "fst (dg_Store_Revoke sample_pg ''xxxxxxx'' sample_world) = Inr ()"
  by (simp add: dg_Store_Revoke_def RevokeDelegation_def go_bind_cases go_try_def q_RevokeDelegation_def sample_db_def)

definition sample_issue :: IssueInput where
  "sample_issue = \<lparr>ii_AgentID = ''bot'', ii_DelegatorID = ''alice'', ii_OrgID = ''x'', ii_Scope = [''doc.read''],
     ii_TTLSeconds = 3600, ii_CnfJkt = ''''\<rparr>"

lemma sample_issued:
  "fst (dg_Service_Issue sample_pg sample_jose ''bs'' (Manager_Keyset sample_crypto [] NewManager) TypeOf sample_issue sample_world)
     = Inr (''t'', ''xx'')"
  by (simp add: dg_Service_Issue_def sample_issue_def go_bind_cases TypeOf_def principal_Store_Get_def go_try_def q_GetPrincipal_def
     sample_db_def principal_of_row_def principal_Service_Get_def PrincipalType_defs MaxTTLSeconds_def Let_def dg_Store_Insert_def InsertDelegation_def gen_random_uuid_def
     sample_world_def time_Now_def q_InsertDelegation_def org_exists_def Sign_def Manager_Keyset_def get_cached_def
     NewManager_def NewManagerWithOptions_def DefaultCacheTTL_def second_def time_Sub_def sample_keyset_def replicate_numerals)

theorem issued_delegation_bounded_witness:
  "\<exists>x. delegations (db (snd (dg_Service_Issue sample_pg sample_jose ''bs'' (Manager_Keyset sample_crypto [] NewManager)
       TypeOf sample_issue sample_world))) = delegations sample_db @ [x] \<and> \<not> d_Revoked x"
  using issued_delegation_bounded [OF run_eq [OF sample_issued]] by auto

lemma sample_parse_proof:
  "parseDPoPProof sample_jose ''p'' = Inr ([], sample_proof)"
  "parseDPoPProof sample_jose '''' = Inr ([], sample_proof\<lparr>dp_Iat := 20000000000\<rparr>)"
  "jktFromJWK sample_crypto [] = Inr ''AA''"
  by (simp_all add: parseDPoPProof_def sample_jose_def jktFromJWK_def sample_crypto_def Let_def b64url_char_def b64url_alphabet_def
      bytes_of_def)

lemma sample_dpop: "fst (VerifyDPoP sample_jose sample_crypto ''p'' ''AA'' ''GET'' ''u'' '''' sample_world) = Inr ()"
  by (simp add: VerifyDPoP_def go_bind_cases of_result_def sample_parse_proof sample_proof_def dpop_age_def time_OfUnix_def
     int64_def time_Sub_def dpopFreshnessWindow_def second_def Let_def)

theorem VerifyDPoP_sound_witness:
  "\<exists>jwk p payload. jws_Verify sample_jose ''p'' jwk = Some payload \<and> dpop_Unmarshal sample_jose payload = Some p \<and>
     dp_Htm p = ''GET''"
  using VerifyDPoP_sound [OF run_eq [OF sample_dpop]] by metis

theorem VerifyDPoP_accepts_far_future_witness:
  "fst (VerifyDPoP sample_jose sample_crypto '''' ''AA'' ''GET'' ''u'' '''' sample_world) = Inr ()"
  by (rule VerifyDPoP_accepts_far_future [OF sample_parse_proof(2,3)])
    (simp_all add: sample_proof_def time_OfUnix_def int64_def)

section \<open>API keys\<close>

lemma sample_auth:
  "fst (ak_Verify sample_hmac [] None sample_token sample_world) = Inr (''alice'', True)"
  by (simp add: ak_Verify_def go_try_def GetByKeyID_def go_bind_cases GetApiKey_def sample_db_def ak_row_def Equal_def Hash_def
     TouchLastUsed_def TouchApiKeyLastUsed_def q_TouchLastUsed_def)

theorem apikey_authentication_sound_witness:
  "\<exists>k \<in> set (api_keys sample_db). sample_key_id = k_KeyID k \<and> \<not> k_Revoked k \<and> ''alice'' = k_PrincipalID k"
  using apikey_authentication_sound [OF run_eq [OF sample_auth]] by fastforce

lemma sample_revoked_key:
  "fst (ak_Handler_Revoke (authz_Service_Check sample_pg) (Some sample_caller) sample_key_id sample_world) = Inr ()"
  by (simp add: ak_Handler_Revoke_def go_try_def GetByKeyID_def go_bind_cases GetApiKey_def sample_db_def ak_row_def sample_caller_def
    ak_Store_Revoke_def RevokeApiKey_def q_RevokeApiKey_def Record_def Let_def)


definition sample_policy :: apikey_policy where
  "sample_policy = \<lparr>pol_maxTTL = 7776000000000000, pol_allowNeverExpire = False, pol_keyCap = 50\<rparr>"

definition sample_key_request :: IssueApiKeyRequest where
  "sample_key_request = \<lparr>ik_PrincipalId = ''alice'', ik_OrgId = ''x'', ik_Name = ''ci'', ik_ReadOnly = False, ik_TtlSeconds = 60\<rparr>"

lemma sample_generate:
  obtains pt kid sec w' where "Generate sample_world = (Inr (pt, kid, sec), w')" "db w' = sample_db" "faults w' = []"
    "kid = map (\<lambda>n. alphabet ! (n mod 62)) [0..<16]" "clock w' = clock sample_world" "ticks w' = []" 
proof -
  have "\<exists>pt kid sec w'. Generate sample_world = (Inr (pt, kid, sec), w') \<and> db w' = sample_db \<and> faults w' = [] \<and>
    kid = map (\<lambda>n. alphabet ! (n mod 62)) [0..<16] \<and> clock w' = clock sample_world \<and> ticks w' = []"
    by (simp add: Generate_def randBase62_def rand_Read_def go_bind_cases Let_def to_base62_def keyIDLen_def)
       (simp add: sample_world_def  unat_of_nat)
  with that show thesis by blast
qed

lemma sample_guard:
  "issue_guard (org_Store_IsMember sample_pg) sample_caller sample_key_request sample_world = (Inr (), sample_world)"
  "CountActive ''alice'' sample_world = (Inr 1, sample_world)"
  "issue_expiry sample_policy 60 sample_world = (Inr (Some 1000000060000000000), sample_world)"
  by (simp_all add: issue_guard_def sample_caller_def sample_key_request_def go_try_def go_bind_cases is_member_def
      org_members.isMember_up sample_db_def CountActive_def CountActiveApiKeys_def count_active_def key_active_def
      issue_expiry_def sample_policy_def dur_mul_def second_def int64_def Let_def time_Add_def)

definition lasts_a_minute :: "database \<Rightarrow> bool" where
  "lasts_a_minute d \<longleftrightarrow> (\<forall>k \<in> set (api_keys d). \<forall>t. k_ExpiresAt k = Some t \<longrightarrow> 1000000060000000000 \<le> t)"

lemma sample_issue_key:
  obtains resp w' where "ak_Handler_Issue sample_hmac [] sample_policy (org_Store_IsMember sample_pg) (Some sample_caller)
      sample_key_request sample_world = (Inr resp, w')" "lasts_a_minute (db w')"
proof -
  obtain pt kid sec w1 where g: "Generate sample_world = (Inr (pt, kid, sec), w1)" "db w1 = sample_db" "faults w1 = []"
    "kid = map (\<lambda>n. alphabet ! (n mod 62)) [0..<16]" by (rule sample_generate)
  let ?nk = "\<lparr>nk_KeyID = kid, nk_PrincipalID = ''alice'', nk_OrgID = ''x'', nk_Name = ''ci'',
      nk_Hash = Hash sample_hmac [] sec, nk_ReadOnly = False, nk_ExpiresAt = Some 1000000060000000000\<rparr>"
  have "kid ! 0 \<noteq> sample_key_id ! 0" unfolding g(4) by (simp add: sample_key_id_def alphabet_def)
  then have "kid \<noteq> sample_key_id" by auto
  then have "\<exists>w2. ak_Store_Insert ?nk w1 = (Inr (), w2) \<and> lasts_a_minute (db w2)"
    using g(2,3) by (simp add: ak_Store_Insert_def InsertApiKey_def go_bind_cases time_Now_def Let_def q_InsertApiKey_def
        sample_db_def lasts_a_minute_def timestamptz_def truncate_us_def)
  then obtain w2 where ins: "ak_Store_Insert ?nk w1 = (Inr (), w2)" and l: "lasts_a_minute (db w2)" by blast
  have "\<exists>resp w'. ak_Handler_Issue sample_hmac [] sample_policy (org_Store_IsMember sample_pg) (Some sample_caller)
      sample_key_request sample_world = (Inr resp, w') \<and> lasts_a_minute (db w')"
    using sample_guard g(1) ins l
    by (simp add: ak_Handler_Issue_def go_bind_cases go_try_def sample_key_request_def sample_caller_def Record_def Let_def)
       (simp add: sample_policy_def)
  with that show thesis by blast
qed

theorem issued_key_within_policy_witness:
  "\<exists>resp w' k. ak_Handler_Issue sample_hmac [] sample_policy (org_Store_IsMember sample_pg) (Some sample_caller)
      sample_key_request sample_world = (Inr resp, w') \<and>
     api_keys (db w') = api_keys sample_db @ [k] \<and> k_ExpiresAt k \<noteq> None"
proof -
  obtain resp w' where run: "ak_Handler_Issue sample_hmac [] sample_policy (org_Store_IsMember sample_pg)
      (Some sample_caller) sample_key_request sample_world = (Inr resp, w')" by (rule sample_issue_key)
  from issued_key_within_policy [OF run] obtain k where "db w' = sample_db\<lparr>api_keys := api_keys sample_db @ [k]\<rparr>"
    "k_ExpiresAt k \<noteq> None" by (auto simp: sample_policy_def)
  with run show ?thesis by auto
qed


theorem Parse_rejects_single_typo_witness: "Parse (sample_token[0 := CHR ''x'']) = None"
  by (rule Parse_rejects_single_typo [OF sample_Parse]) (simp_all add: sample_token_def Prefix_def)

end
