(* ===== verification/System_Witnesses.thy ===== *)
theory System_Witnesses
  imports Tenancy Audit_Paging Delegation_History Clients Replicas Witnesses
begin

text \<open>
  Concrete inputs for the properties of the assembled service: one instance of every library, an
  environment under which the service starts on an empty database, and the applications of the
  properties to them.
\<close>

section \<open>A service that starts\<close>

definition sample_gocloak :: gocloak where
  "sample_gocloak = \<lparr>gc_LoginAdmin = (\<lambda>u p r. go_ret ''tok''), gc_GetProfile = (\<lambda>t u. go_ret (200, None)),
     gc_PutProfile = (\<lambda>t u b. go_ret 200), gc_CreateUser = (\<lambda>t r n a. go_ret n),
     gc_CreateClient = (\<lambda>t r c. go_ret ''c''), gc_GetUserByID = (\<lambda>t r i. go_ret None),
     gc_GetClient = (\<lambda>t r i. go_fail (ErrText ''404'')), gc_GetRealm = (\<lambda>t r. go_fail (ErrText ''404'')),
     gc_CreateRealm = (\<lambda>t r. go_ret ()), gc_GetClients = (\<lambda>t r i. go_ret []), gc_UpdateClient = (\<lambda>t r c. go_ret ())\<rparr>"

definition sample_net :: net_lib where
  "sample_net = \<lparr>net_SplitHostPort = Some, net_ParseIP = (\<lambda>s. if s = ''10.0.0.1'' then Some 0xffff0a000001 else None),
     net_ParseCIDR = (\<lambda>s. None), net_String4 = (\<lambda>w. replicate (unat w) (CHR ''4'')),
     net_String16 = (\<lambda>w. replicate (unat w) (CHR ''6''))\<rparr>"

definition sample_libs :: libs where
  "sample_libs = \<lparr>lib_ParseFloat = (\<lambda>s. None), lib_pool = (\<lambda>u. go_ret ()), lib_ping = go_ret (),
     lib_realm_status = (\<lambda>u. go_ret 200), lib_ddl = (\<lambda>s l. True), lib_files = sample_files, lib_pg = sample_pg,
     lib_crypto = sample_crypto, lib_jose = sample_jose,
     lib_oidc = \<lparr>rs_ParseSigned = (\<lambda>t. None), rs_Claims = (\<lambda>t p. None)\<rparr>, lib_hmac = sample_hmac,
     lib_codec = sample_codec, lib_rfc = \<lparr>rfc_Parse = (\<lambda>s. None), rfc_Format = (\<lambda>t. '''')\<rparr>,
     lib_rate = sample_rate, lib_net = sample_net, lib_gocloak = sample_gocloak\<rparr>"

definition sample_b64 :: string where
  "sample_b64 = replicate 43 (CHR ''A'') @ ''=''"

definition sample_env :: environ where
  "sample_env = (\<lambda>_. '''')(''DATABASE_URL'' := ''db'', ''KEYCLOAK_URL'' := ''kc'', ''BS_SIGNING_KEK'' := sample_b64,
     ''BS_SERVICE_CLIENT_SECRET'' := ''s'', ''BS_PUBLIC_ISSUER'' := ''iss'', ''BS_APIKEY_PEPPER'' := sample_b64,
     ''BS_ROOT_TOKEN'' := ''root'')"

definition empty_world :: world where
  "empty_world = sample_world\<lparr>db := empty_db\<rparr>"

lemma sample_libs_ok: "libs_ok sample_libs"
  by (simp add: libs_ok_def sample_libs_def gocloak_apart_def sample_gocloak_def keeps_rules)

lemma sample_kek: "StdEncoding_DecodeString sample_b64 = Some (replicate 32 0)"
  by code_simp

lemma sample_load: "\<exists>cfg. Load (\<lambda>s. None) sample_env = Inr cfg \<and> OIDCServiceClientSecret cfg = ''s'' \<and>
   PublicIssuer cfg = ''iss'' \<and> APIKeyPepper cfg = sample_b64 \<and> RootToken cfg = ''root''"
  by (simp add: Load_def sample_env_def Let_def)

lemma migrate_empty:
  "\<exists>w1. migrate_Apply (\<lambda>s l. True) sample_files empty_world = (Inr (), w1) \<and> faults w1 = [] \<and>
     signing_keys (db w1) = [] \<and> clock w1 = 1000000000000000000 \<and> ticks w1 = [] \<and> rand_src w1 = of_nat \<and> rand_pos w1 = 0"
  by (simp add: empty_world_def sample_world_def migrate_Apply_def migrate_body_def go_bind_cases sample_names q_EnsureLedger_def
      empty_db_def q_LedgerHas_def sample_bodies Let_def sample_up migrate_tx_def in_tx_def
      q_Exec_def q_InsertLedger_def advisory_unlock_def)

lemma ensure_empty:
  assumes "faults w = []" "signing_keys (db w) = []" "clock w = 1000000000000000000" "ticks w = []" "rand_src w = of_nat" "rand_pos w = 0"
  shows "\<exists>w1. EnsureActive sample_crypto (replicate 32 0) w = (Inr (), w1) \<and> faults w1 = []"
  using assms
  by (simp add: EnsureActive_def sk_Store_GetActive_def GetActiveSigningKey_def mint_def sk_Store_Insert_def rotate_eval time_Now_def)

lemma sample_boot: "\<exists>S w. runServer sample_libs sample_env empty_world = (Inr S, w) \<and> faults w = [] \<and>
   srv_pepper S = replicate 32 0 \<and> RootToken (srv_cfg S) = ''root''"
proof -
  obtain cfg where cfg: "Load (\<lambda>s. None) sample_env = Inr cfg" "OIDCServiceClientSecret cfg = ''s''"
    "PublicIssuer cfg = ''iss''" "APIKeyPepper cfg = sample_b64" "RootToken cfg = ''root''"
    using sample_load by blast
  obtain w1 where w1: "migrate_Apply (\<lambda>s l. True) sample_files empty_world = (Inr (), w1)" "faults w1 = []"
      "signing_keys (db w1) = []" "clock w1 = 1000000000000000000" "ticks w1 = []" "rand_src w1 = of_nat" "rand_pos w1 = 0"
    using migrate_empty by blast
  let ?w1 = "w1\<lparr>mgr_cached := no_keyset, mgr_loadedAt := time_zero\<rparr>"
  obtain w2 where w2: "EnsureActive sample_crypto (replicate 32 0) ?w1 = (Inr (), w2)" "faults w2 = []"
    using ensure_empty [of ?w1] w1 by auto
  have kek: "KEKFromEnv (sample_env ''BS_SIGNING_KEK'') = Inr (replicate 32 0)" "LoadPepper sample_b64 = Inr (replicate 32 0)"
    "sample_b64 \<noteq> ''''"
    by (simp_all add: KEKFromEnv_def LoadPepper_def sample_kek sample_env_def) (simp_all add: sample_b64_def)
  show ?thesis
    using cfg w1(1) w2 kek
    by (simp add: runServer_def sample_libs_def go_bind_cases of_result_def NewCipher_def new_manager_def require_def
        EnsureProvisioned_def kc_login_def sample_gocloak_def ensureRealm_def go_try_def ensureClients_def upsertClient_def
        NewHasher_def fresh_process_def)
qed

lemma sample_reachable: "\<exists>S w. reachable sample_libs K S w \<and> faults w = []"
proof -
  obtain S w where "runServer sample_libs sample_env empty_world = (Inr S, w)" "faults w = []"
    using sample_boot by blast
  moreover have "db empty_world = empty_db" by (simp add: empty_world_def)
  ultimately show ?thesis using reachable.started by blast
qed

section \<open>Reachable states\<close>

definition sample_connect :: connect_lib where
  "sample_connect = \<lparr>cn_Decode = (\<lambda>r. Inl (plain 400 '''')), cn_Status = (\<lambda>c. 400), cn_Encode = (\<lambda>r. [])\<rparr>"

theorem reachable_tables_ok_witness:
  "\<exists>S w. reachable sample_libs sample_connect S w \<and> db_ok (db w) \<and> scopes_ok (db w)"
  using sample_reachable [of sample_connect] reachable_tables_ok [OF sample_libs_ok] by blast

lemma sample_codec_of_libs [simp]: "lib_codec sample_libs = sample_codec"
  by (simp add: sample_libs_def)

theorem reachable_chains_verify_witness:
  "\<exists>S w. reachable sample_libs sample_connect S w \<and>
     (int (length (audit_events (db w))) < 2 ^ 63 \<longrightarrow> fst (Verify sample_codec ''system'' w) = Inr (True, 0))"
proof -
  obtain S w where r: "reachable sample_libs sample_connect S w" and up: "faults w = []"
    using sample_reachable by blast
  have "\<exists>v. Verify sample_codec ''system'' w = (Inr v, w)"
    using up by (simp add: Verify_def ScanAuditChain_def go_bind_cases)
  with reachable_chains_verify [OF sample_libs_ok r, of "''system''"] r show ?thesis by fastforce
qed

definition revoked_world :: world where
  "revoked_world = sample_world\<lparr>db := sample_db\<lparr>api_keys := map (\<lambda>k. k\<lparr>k_Revoked := True\<rparr>) (api_keys sample_db)\<rparr>\<rparr>"

definition sample_header :: header where
  "sample_header = (\<lambda>_. '''')(''Authorization'' := ''Bearer '' @ sample_token)"

lemma revoked_world_ok: "system_ok (db revoked_world)"
  by (simp add: revoked_world_def sample_db_def empty_db_def system_ok_def db_ok_defs scopes_ok_def agents_ok_def
      org_exists_def team_exists_def role_exists_def)

text \<open>A log with one row, and an event that waits in the channel until the worker is cancelled.\<close>

definition logged_world :: world where
  "logged_world = sample_world\<lparr>db := sample_db\<lparr>audit_events := [sample_row]\<rparr>, chan := sample_queue\<rparr>"

theorem audit_log_append_only_witness:
  "\<exists>S rows. (sys_step sample_libs sample_connect S)\<^sup>*\<^sup>* logged_world (drainAll sample_codec rev logged_world) \<and>
     audit_events (db (drainAll sample_codec rev logged_world)) = [sample_row] @ rows"
proof -
  obtain S w where "runServer sample_libs sample_env empty_world = (Inr S, w)" using sample_boot by blast
  have "sys_step sample_libs sample_connect S logged_world (drainAll sample_codec rev logged_world)"
    by (rule sys_step.worker [where ord = rev and b = False]) (simp add: run_step.cancelled)
  then have s: "(sys_step sample_libs sample_connect S)\<^sup>*\<^sup>* logged_world (drainAll sample_codec rev logged_world)" ..
  have "audit_events (db logged_world) = [sample_row]" by (simp add: logged_world_def)
  with audit_log_append_only [OF sample_libs_ok s] s show ?thesis by auto
qed

theorem apikey_revocation_permanent_witness:
  "\<exists>S w''. rpc sample_libs S (AuditService (VerifyAuditReq ''x'')) sample_header revoked_world =
     (Inl (NewError CodeUnauthenticated), w'')"
proof -
  obtain S w where S: "runServer sample_libs sample_env empty_world = (Inr S, w)" using sample_boot by blast
  let ?k = "hd (api_keys (db revoked_world))"
  have k: "?k \<in> set (api_keys (db revoked_world))" "k_Revoked ?k" "k_KeyID ?k = sample_key_id"
    by (simp_all add: revoked_world_def sample_db_def)
  have h: "sample_header ''Authorization'' = ''Bearer '' @ sample_token"
    "\<not> snd (CheckRoot sample_header (RootToken (srv_cfg S)))"
    by (simp_all add: sample_header_def CheckRoot_def Let_def)
  from apikey_revocation_permanent [OF sample_libs_ok revoked_world_ok k(1,2) rtranclp.rtrancl_refl h(1) _ h(2)]
  show ?thesis using k(3) by fastforce
qed


section \<open>Organisations, checks and principals\<close>

lemma sample_create_org:
  "fst (org_Service_CreateOrg sample_pg (role_Store_SeedDefaults sample_pg) ''globex'' sample_world) =
     Inr \<lparr>org_ID = ''xx'', org_Name = ''globex'', org_ParentID = ''''\<rparr>"
  by (simp add: org_Service_CreateOrg_def org_Store_CreateOrg_def org_q_CreateOrg_def go_bind_cases go_try_def gen_random_uuid_def
      time_Now_def Let_def q_CreateOrg_def org_exists_def sample_db_def empty_db_def org_of_row_def replicate_numerals
      role_Store_SeedDefaults_def DefaultRoles_def role_Store_CreateRole_def role_q_CreateRole_def q_CreateRole_def role_exists_def
      sample_world_def parentIDString_def)


definition sample_check :: CheckRequest where
  "sample_check = \<lparr>ck_Subject = ''alice'', ck_Action = ''doc.read'', ck_ResourceType = ''doc'', ck_ResourceId = ''d'',
     ck_OrgId = ''x'', ck_TeamId = ''''\<rparr>"

theorem check_handler_refines_spec_witness:
  "fst (authz_Handler_Check sample_pg (org_Store_IsMember sample_pg) (Some sample_caller) sample_check sample_world) = Inr True \<and>
   fst (authz_Handler_Check sample_pg (org_Store_IsMember sample_pg) (Some sample_caller)
     (sample_check\<lparr>ck_OrgId := ''yy''\<rparr>) sample_world) = Inl (NewError CodePermissionDenied)"
  using check_handler_refines_spec [OF sample_world_sel(2), of sample_pg sample_caller sample_check]
    check_handler_refines_spec [OF sample_world_sel(2), of sample_pg sample_caller "sample_check\<lparr>ck_OrgId := ''yy''\<rparr>"]
  by (simp add: sample_caller_def sample_check_def is_member_def sample_db_def check_spec_def is_owner_def)

theorem ownership_takeover_witness:
  "\<exists>w'. authz_Handler_RegisterOwnership sample_pg (org_Store_IsMember sample_pg) (Some sample_caller) ''doc'' ''secret''
      ''alice'' ''x'' sample_world = (Inr (), w') \<and>
     check_spec sample_pg (db w') ''alice'' ''doc.delete''
       \<lparr>res_Type = ''doc'', res_ID = ''secret'', res_OrgID = ''yy'', res_TeamID = ''''\<rparr> = Some True"
  using ownership_takeover [OF sample_world_sel(2), of sample_pg sample_caller "''x''" 1 "''doc''" "''secret''" "''doc.delete''" "''yy''" "''''"]
  by (simp add: sample_caller_def is_member_def sample_db_def org_exists_def)

definition sample_principal :: CreatePrincipalRequest where
  "sample_principal = \<lparr>cp_Type = PRINCIPAL_TYPE_AGENT, cp_DisplayName = ''Bot'', cp_OwnerPrincipalId = ''alice'',
     cp_Capabilities = [''read''], cp_Purpose = ''''\<rparr>"

lemma char_of_digit_one: "char_of (49 :: nat) = CHR ''1''"
  by code_simp

lemma sample_created:
  "\<exists>msg. fst (principal_Handler_CreatePrincipal fake_CreatePrincipal (Some sample_root) sample_principal sample_world) = Inr msg \<and>
     pm_Id msg = ''fake-1'' "
  by (simp add: principal_Handler_CreatePrincipal_def RequireSystemAdmin_def sample_root_def go_bind_cases go_try_def
      principal_Service_Create_def Validate_def sample_principal_def PrincipalType_defs Let_def fake_CreatePrincipal_def
      sample_world_def fake_New_def principal_Store_Insert_def InsertPrincipal_def q_InsertPrincipal_def time_Now_def
      sample_db_def empty_db_def int64_def fake_id_def strconv_Itoa_def nat_digits.simps Record_def toProto_def
      char_of_digit_one)

lemma fake_apart: "keeps (db_rel (=)) (fake_CreatePrincipal ep)"
  by (rule keepsI) (simp add: db_rel_def fake_CreatePrincipal_def Let_def)

theorem create_then_get_principal_witness:
  "\<exists>msg w1. principal_Handler_CreatePrincipal fake_CreatePrincipal (Some sample_root) sample_principal sample_world = (Inr msg, w1) \<and>
     fst (principal_Handler_GetPrincipal ''fake-1'' (sample_world\<lparr>db := db w1\<rparr>)) = Inr msg"
proof -
  obtain msg where m: "fst (principal_Handler_CreatePrincipal fake_CreatePrincipal (Some sample_root) sample_principal sample_world) = Inr msg"
    "pm_Id msg = ''fake-1''" using sample_created by blast
  from create_then_get_principal [OF fake_apart run_eq [OF m(1)], of "sample_world\<lparr>db := db (snd (principal_Handler_CreatePrincipal
      fake_CreatePrincipal (Some sample_root) sample_principal sample_world))\<rparr>"] m(2)
  show ?thesis using run_eq [OF m(1)] by fastforce
qed

section \<open>Start-up and Gate A\<close>

theorem startup_fails_closed_witness:
  "\<exists>S. fst (runServer sample_libs sample_env empty_world) = Inr S \<and> length (srv_kek S) = 32"
proof -
  obtain S w where "runServer sample_libs sample_env empty_world = (Inr S, w)" using sample_boot by blast
  with startup_fails_closed [OF this] show ?thesis by simp
qed

definition sample_request :: http_request where
  "sample_request = \<lparr>rq_Path = ''/readyz'', rq_Header = (\<lambda>_. ''''), rq_RemoteAddr = ''10.0.0.1'', rq_Body = []\<rparr>"

lemma sample_net_inj: "inj (net_String4 sample_net)" "inj (net_String16 sample_net)"
  by (auto simp: sample_net_def inj_def unsigned_word_eqI dest!: arg_cong [where f = length])


theorem gate_a_decides_witness:
  "fst (RateLimitMiddleware sample_rate sample_net [] ''root'' (\<lambda>r. go_ret (plain 200 ''ok'') :: (err, http_response) wact) sample_request
     sample_world) = Inr (plain 200 ''ok'')"
proof -
  have none: "globalLim w = None \<Longrightarrow> globalLimiter_Allow L k w = (Inr (True, 0, False) :: err + _, w)"
     "ipLim w = None \<Longrightarrow> ipLimiter_Allow L k w = (Inr (True, 0, False) :: err + _, w)" for L k w
    by (simp_all add: globalLimiter_Allow_def ipLimiter_Allow_def limiter_call_def)
  have pre: "rq_Path sample_request \<noteq> ''/healthz''" "\<not> snd (CheckRoot (rq_Header sample_request) ''root'')"
    by (simp_all add: sample_request_def CheckRoot_def Let_def)
  have lims: "globalLim sample_world = None" "ipLim sample_world = None"
    "root_report (fst (CheckRoot (rq_Header sample_request) ''root'')) False sample_world = (Inr () :: err + unit, sample_world)"
    by (simp_all add: sample_world_def root_report_def CheckRoot_def sample_request_def Let_def)
  show ?thesis
    using gate_a_decides [OF pre, where w = sample_world and L = sample_rate and N = sample_net and trusted = "[]"
        and nxt = "\<lambda>r. go_ret (plain 200 ''ok'')"] none [of sample_world] lims
    by (auto split: if_splits)
qed

section \<open>Credentials\<close>

lemma sample_auth_state:
  "\<exists>d. ak_Verify sample_hmac [] None sample_token sample_world = (Inr (''alice'', True), sample_world\<lparr>db := d\<rparr>) \<and>
     memberships d = memberships sample_db \<and> ownership d = ownership sample_db"
  by (simp add: ak_Verify_def go_try_def GetByKeyID_def go_bind_cases GetApiKey_def sample_db_def ak_row_def Equal_def Hash_def
     TouchLastUsed_def TouchApiKeyLastUsed_def q_TouchLastUsed_def) (intro exI conjI, rule refl, simp_all)

lemma sample_credential:
  assumes "srv_pepper S = []"
  obtains d where "credential sample_libs S sample_header sample_world =
     (Inr \<lparr>c_PrincipalID = ''alice'', c_SystemAdmin = False, c_AuthMethod = ''apikey'', c_ReadOnly = True\<rparr>, sample_world\<lparr>db := d\<rparr>)"
    "memberships d = memberships sample_db" "ownership d = ownership sample_db"
proof -
  have h: "sample_header ''Authorization'' = ''Bearer '' @ sample_token"
    "\<not> snd (CheckRoot sample_header (RootToken (srv_cfg S)))"
    by (simp_all add: sample_header_def CheckRoot_def Let_def)
  have p: "strings_HasPrefix sample_token apikeyPrefix"
    by (simp add: sample_token_def Prefix_def apikeyPrefix_def strings_HasPrefix_def)
  obtain d where d: "ak_Verify sample_hmac [] None sample_token sample_world = (Inr (''alice'', True), sample_world\<lparr>db := d\<rparr>)"
    "memberships d = memberships sample_db" "ownership d = ownership sample_db"
    using sample_auth_state by blast
  from d(1) have "credential sample_libs S sample_header sample_world =
     (Inr \<lparr>c_PrincipalID = ''alice'', c_SystemAdmin = False, c_AuthMethod = ''apikey'', c_ReadOnly = True\<rparr>, sample_world\<lparr>db := d\<rparr>)"
    unfolding authenticate_apikey [OF h(1) p h(2)] by (simp add: go_try_def assms sample_libs_def)
  with d that show thesis by blast
qed

lemma sample_server: "\<exists>S :: base_server. srv_pepper S = []"
proof -
  have "srv_pepper (S\<lparr>srv_pepper := []\<rparr>) = []" for S :: base_server by simp
  then show ?thesis by blast
qed

definition sample_team_request :: rpc_request where
  "sample_team_request = OrgService (CreateTeamReq ''x'' ''ops'')"

theorem readonly_credential_never_writes_witness:
  "\<exists>S :: base_server. srv_pepper S = [] \<and>
     same_unstamped sample_db (db (snd (rpc sample_libs S sample_team_request sample_header sample_world)))"
proof -
  obtain S :: base_server where S: "srv_pepper S = []" using sample_server by blast
  obtain d where "credential sample_libs S sample_header sample_world =
     (Inr \<lparr>c_PrincipalID = ''alice'', c_SystemAdmin = False, c_AuthMethod = ''apikey'', c_ReadOnly = True\<rparr>, sample_world\<lparr>db := d\<rparr>)"
    using S by (rule sample_credential)
  from readonly_credential_never_writes [OF this, of sample_team_request] S show ?thesis by auto
qed

lemma sample_rpc_ok:
  assumes "srv_pepper S = []"
  shows "fst (rpc sample_libs S (AuthzService (CheckReq sample_check)) sample_header sample_world) = Inr (AllowedResp True)"
proof -
  let ?c = "\<lparr>c_PrincipalID = ''alice'', c_SystemAdmin = False, c_AuthMethod = ''apikey'', c_ReadOnly = True\<rparr>"
  obtain d where c: "credential sample_libs S sample_header sample_world = (Inr ?c, sample_world\<lparr>db := d\<rparr>)"
    and d: "memberships d = memberships sample_db" "ownership d = ownership sample_db"
    using assms by (rule sample_credential)
  let ?w = "sample_world\<lparr>db := d\<rparr>"
  have "prLim ?w = None" "faults ?w = []" by (simp_all add: sample_world_def)
  then have gate: "gateB (lib_rate sample_libs) None ?c ?w = (Inr (), ?w)"
    by (simp add: gateB_def prLimiter_Allow_def limiter_call_def go_bind_cases)
  have chk: "authz_Service_Check sample_pg ''alice'' ''doc.read''
      \<lparr>res_Type = ''doc'', res_ID = ''d'', res_OrgID = ''x'', res_TeamID = ''''\<rparr> ?w = (Inr True, ?w)"
    using d by (intro rbac.check_up) (simp_all add: check_spec_def is_owner_def sample_db_def)
  have mem: "RequireMember (Some ?c) (org_Store_IsMember sample_pg) ''x'' ?w = (Inr ?c, ?w)"
    using d by (intro org_members.require_accepts) (simp_all add: is_member_def sample_db_def)
  have run: "rpc sample_libs S req sample_header sample_world = dispatch sample_libs S req (Some ?c) ?w"
    if "IsReadSafe (procedure req)" for req
    using c gate that by (simp add: rpc_def WrapUnary_def go_bind_cases WithCaller_def)
  show ?thesis
    using run [of "AuthzService (CheckReq sample_check)"] chk mem
    by (simp add: IsReadSafe_def readSafeProcedures_def respond_def go_bind_cases authz_Handler_Check_def go_try_def
        sample_check_def Record_def Let_def) (simp add: sample_libs_def go_try_def go_bind_cases Record_def Let_def)
qed


theorem tenant_isolation_witness:
  "\<exists>S :: base_server. srv_pepper S = [] \<and>
     tenant 2 (db (snd (rpc sample_libs S (OrgService (AddMemberReq ''alice'' ''yy'')) sample_header sample_world))) =
     tenant 2 sample_db"
proof -
  obtain S :: base_server where S: "srv_pepper S = []" using sample_server by blast
  obtain d where c: "credential sample_libs S sample_header sample_world =
     (Inr \<lparr>c_PrincipalID = ''alice'', c_SystemAdmin = False, c_AuthMethod = ''apikey'', c_ReadOnly = True\<rparr>, sample_world\<lparr>db := d\<rparr>)"
    using S by (rule sample_credential)
  have h: "uuid_codec (lib_pg sample_libs)" "keys_ok (db sample_world)"
    "\<lparr>mb_PrincipalID = ''alice'', mb_OrgID = 2\<rparr> \<notin> set (memberships (db sample_world))"
    using sample_uuid_codec by (simp_all add: sample_libs_def keys_ok_def sample_db_def empty_db_def)
  from tenant_isolation [OF h(1,2) c, of 2 "OrgService (AddMemberReq ''alice'' ''yy'')"] h(3) S show ?thesis by auto
qed

section \<open>Listing the audit log\<close>

definition sample_trail :: "audit_row list" where
  "sample_trail = [sample_row\<lparr>au_Seq := 2, au_Ts := 1000000\<rparr>, sample_row\<lparr>au_Seq := 1, au_Ts := 1000000\<rparr>]"

definition sample_filter :: ListFilter where
  "sample_filter = \<lparr>lf_Chain = au_Chain sample_row, lf_ActorID = '''', lf_Action = '''', lf_Outcome = '''',
     lf_From = 0, lf_To = 2000000, lf_Limit = 1, lf_AfterSeq = 0\<rparr>"


section \<open>A revoked delegation\<close>

lemma sample_world_ok: "system_ok sample_db"
  by (simp add: sample_db_def empty_db_def system_ok_def db_ok_defs scopes_ok_def agents_ok_def
      org_exists_def team_exists_def role_exists_def)

lemma sample_revoke_request:
  "fst (dispatch sample_libs S (DelegationService (RevokeDelegationReq ''xxxxxxx'')) (Some sample_caller) sample_world) =
     Inr EmptyResp"
proof -
  obtain w1 where r: "dg_Store_Revoke sample_pg ''xxxxxxx'' sample_world = (Inr (), w1)"
    using run_eq [OF sample_revoke] by blast
  show ?thesis
    by (simp add: sample_libs_def respond_def dg_Handler_Revoke_def go_try_def go_bind_cases CallerFromContext_def
        dg_Service_Get_def sample_get sample_caller_def dg_Service_Revoke_def r Record_def Let_def)
qed

definition sample_delegated_request :: CheckDelegatedRequest where
  "sample_delegated_request = \<lparr>cd_Token = ''t'', cd_Action = ''doc.read'', cd_ResourceType = ''doc'', cd_ResourceId = ''d'',
     cd_OrgId = ''x'', cd_TeamId = '''', cd_DpopProof = '''', cd_HttpMethod = '''', cd_HttpUri = ''''\<rparr>"

theorem delegation_revocation_permanent_witness:
  "\<exists>S w1. dispatch sample_libs S (DelegationService (RevokeDelegationReq ''xxxxxxx'')) (Some sample_caller) sample_world
       = (Inr EmptyResp, w1) \<and>
     fst (dispatch sample_libs S (DelegationService (CheckDelegatedReq sample_delegated_request)) (Some sample_caller)
       (drainAll sample_codec rev w1)) \<noteq> Inr (AllowedResp True)"
proof -
  obtain S w where "runServer sample_libs sample_env empty_world = (Inr S, w)" using sample_boot by blast
  obtain w1 where rev: "dispatch sample_libs S (DelegationService (RevokeDelegationReq ''xxxxxxx'')) (Some sample_caller)
      sample_world = (Inr EmptyResp, w1)"
    using run_eq [OF sample_revoke_request] by blast
  have "sys_step sample_libs sample_connect S w1 (drainAll sample_codec rev w1)"
    by (rule sys_step.worker [where ord = rev and b = False]) (simp add: run_step.cancelled)
  then have "(sys_step sample_libs sample_connect S)\<^sup>*\<^sup>* w1 (drainAll sample_codec rev w1)" ..
  from delegation_revocation_permanent [OF sample_libs_ok _ rev this, of sample_delegated_request S "Some sample_caller"] rev
  show ?thesis by (auto simp: sample_world_ok sample_libs_def sample_claims_def)
qed

section \<open>Two replicas that start together\<close>

lemma sample_crypto_total: "crypto_total sample_crypto"
  using sample_key_crypto_ok by (simp add: crypto_total_def sample_crypto_def)

abbreviation two_replicas :: fleet where
  "two_replicas \<equiv> (empty_db, map (Pair Looking) [sample_world, sample_world])"

definition sample_schedule :: "nat list" where
  "sample_schedule = [0, 1, 1, 0, 0, 1, 1, 0]"

lemma sample_fleet:
  "keys_started empty_db" "keys_openable sample_crypto [] empty_db" "\<forall>w \<in> set [sample_world, sample_world]. faults w = []"
  "\<forall>i < length [sample_world, sample_world]. 4 \<le> count_list sample_schedule i"
  by (auto simp: keys_started_def keys_openable_def empty_db_def active_keys_def sample_schedule_def less_Suc_eq)

theorem concurrent_start_converges_witness:
  "\<exists>d rs key. run_fleet sample_crypto [] sample_schedule two_replicas = (d, rs) \<and> length rs = 2 \<and>
     (\<forall>x \<in> set rs. fst x = Started \<and> ks_Active (mgr_cached (snd x)) = key) \<and>
     map sk_Kid (active_keys d) = [key_Kid key]"
  using concurrent_start_converges [OF sample_crypto_total sample_fleet(1,2) _ sample_fleet(3,4)] by (simp add: numeral_2_eq_2)

theorem concurrent_start_one_key_witness:
  "\<exists>d rs k. run_fleet sample_crypto [] sample_schedule two_replicas = (d, rs) \<and> active_keys d = [k] \<and>
     ks_Active (mgr_cached (snd (rs ! 0))) = ks_Active (mgr_cached (snd (rs ! 1)))"
proof -
  obtain d rs where run: "run_fleet sample_crypto [] sample_schedule two_replicas = (d, rs)" by fastforce
  have all: "length rs = 2" "\<forall>x \<in> set rs. fst x = Started"
    using all_started [OF sample_crypto_total sample_fleet(2,3,4) run] by simp_all
  have "rs ! 0 \<in> set rs" "rs ! 1 \<in> set rs" using all(1) by simp_all
  with all(2) have m: "(Started, snd (rs ! 0)) \<in> set rs" "(Started, snd (rs ! 1)) \<in> set rs"
    by (metis prod.collapse)+
  have st: "(starting sample_crypto [])\<^sup>*\<^sup>* two_replicas (d, rs)"
    using run_fleet_starting [of sample_crypto "[]" two_replicas sample_schedule] run by simp
  from concurrent_start_one_key [OF sample_fleet(1) st m(2,1)] run show ?thesis by auto
qed

section \<open>A generated client\<close>

definition sample_receive :: "http_response \<Rightarrow> rpc_error + rpc_response" where
  "sample_receive r = (if rs_Status r = 200 then Inr (AllowedResp True) else Inl (NewError CodeInternal))"

definition sample_send :: "string \<Rightarrow> rpc_request \<Rightarrow> header \<Rightarrow> http_request" where
  "sample_send url req h = \<lparr>rq_Path = drop 8 url, rq_Header = h, rq_RemoteAddr = '''', rq_Body = []\<rparr>"

definition sample_client :: client_lib where
  "sample_client = \<lparr>cl_Send = sample_send, cl_Receive = sample_receive,
     cl_CallUnary = (\<lambda>c req h w. case cc_httpClient c (sample_send (cc_url c) req h) w of
        (Inl e, w') \<Rightarrow> (Inl (NewError CodeInternal), w') | (Inr resp, w') \<Rightarrow> (sample_receive resp, w'))\<rparr>"

theorem client_call_typed_witness:
  "\<exists>(S :: base_server) w'. client_call sample_client
       (mux_handlers sample_libs (sample_connect\<lparr>cn_Decode := \<lambda>r. Inr (AuthzService (CheckReq sample_check))\<rparr>) S)
       ''http://h//'' (AuthzService (CheckReq sample_check)) sample_header sample_world = (Inr (AllowedResp True), w')"
proof -
  let ?K = "sample_connect\<lparr>cn_Decode := \<lambda>r. Inr (AuthzService (CheckReq sample_check))\<rparr>"
  obtain S :: base_server where S: "srv_pepper S = []" using sample_server by blast
  have U: "calls_unary sample_client" by (auto simp: calls_unary_def sample_client_def NewClient_def)
  have d: "delivers sample_client ?K ''http://h'' (procedure (AuthzService (CheckReq sample_check)))
      (AuthzService (CheckReq sample_check)) sample_header"
    by (simp add: delivers_def sample_client_def sample_send_def Let_def)
  have "cl_Receive sample_client (unary_response ?K (Inr (AllowedResp True))) = Inr (AllowedResp True)"
    by (simp add: sample_client_def sample_receive_def unary_response_def)
  from client_call_typed [OF U _ d run_eq [OF sample_rpc_ok [OF S]] this, of 2]
  show ?thesis by (auto simp: numeral_2_eq_2 simp del: client_call.simps)
qed

end
