(* ===== verification/Spec2Isabelle.thy ===== *)
theory Spec2Isabelle
  imports System_Witnesses
begin

text \<open>
  A verification library for \<open>base-servers\<close>, an identity and permission service in Go: humans,
  services and agents are principals of organisations; they get roles, own resources, authenticate
  with bearer tokens of an identity provider or with API keys, and delegate part of their authority
  to agents through signed tokens; everything they do is recorded in hash-chained audit logs. Paths
  below are under \<open>src/internal\<close> unless they start with another directory of \<open>src\<close>.

  \<^bold>\<open>How the program is modelled.\<close> A Go function that can fail or touch state is an action of the theory
  \<open>Prelude\<close>: a function from the state to an error or a result, and the new state; \<open>go_bind\<close> is
  the early return on an error, \<open>go_try\<close> an \<open>if err != nil\<close> with its own branch. The state is the
  record \<open>world\<close> of the theory \<open>World\<close>: the PostgreSQL tables (\<open>database\<close>, one record type per row
  struct of \<open>*/db/models.go\<close>), the recorder's channel, the caches and limiters of the process, the
  clock, the random source and the faults of the database connection that are still to come. An SQL
  statement (\<open>sql\<close>) may be lost before or after it takes effect; a transaction (\<open>in_tx\<close>) is undone
  when its body fails, and its commit may be lost in the same two ways. Each sqlc query is a function on the tables with the
  constraints of \<open>src/db/migrations\<close> written out, followed by the store, service and handler functions
  of its package, under the names of the source with the package as prefix where names clash.
  Machine integers keep their width: hashes and addresses are words, \<open>int64\<close> writes out the
  wrap-around of durations, timestamps and sequence numbers.

  \<^bold>\<open>Components.\<close>
  \<^item> \<open>Encoding\<close>: base64, CRC-32, FNV and base 62 as the sources use them.
  \<^item> \<open>Ratelimit\<close> (\<open>ratelimit/\<close>): the LRU map with its list handles, refined to a recency list; the
    sharded limiter, whose decision for a key depends on that key alone; the report cooldown.
  \<^item> \<open>Authn\<close>, \<open>Interceptor\<close> (\<open>authn/\<close>): root token, read-only allowlist, membership guard (locale
    \<open>member_checker\<close>), bearer verifier with its key cache, Gate B, the interceptor.
  \<^item> \<open>Audit_Log\<close>, \<open>Audit_Chain\<close>, \<open>Recorder\<close>, \<open>Audit_Paging\<close> (\<open>audit/\<close>): events, redaction, the chained
    store, the recorder and its worker (a step relation), listing and handler. What is appended
    verifies, appends are atomic, an altered chain of the same head exhibits a hash collision, a drain
    records everything, following the listing's cursor ends and misses nothing while timestamps
    follow sequence numbers.
  \<^item> \<open>Org\<close>, \<open>Role\<close>, \<open>Authz\<close> (\<open>org/\<close>, \<open>role/\<close>, \<open>authz/\<close>): organisations, teams, roles and their scoped
    assignment, ownership and the check. The interface \<open>RoleSeeder\<close> is the locale \<open>role_seeder\<close>, the
    interface of the check the locale \<open>authz_checker\<close>, interpreted with the declarative specification
    \<open>check_spec\<close>.
  \<^item> \<open>Engine\<close>, \<open>Principal\<close> (\<open>engine/\<close>, \<open>principal/\<close>): the identity engine (locale \<open>identity_engine\<close>), its
    in-memory and Keycloak implementations, provisioning; principals and their agent rule.
  \<^item> \<open>Signingkey\<close>, \<open>Delegation\<close> (\<open>signingkey/\<close>, \<open>delegation/\<close>): sealed signing keys, rotation and
    retirement, the cached keyset; delegation records, tokens, DPoP proofs, delegated checks. A
    delegated check never exceeds the delegation or the delegator; rotation keeps old tokens
    verifiable.
  \<^item> \<open>Apikey_Format\<close>, \<open>Apikey\<close> (\<open>apikey/\<close>): the key format with its checksum, issue, verification,
    revocation, listing, sampled reports of unknown keys (locale \<open>apikey_verifier\<close>).
  \<^item> \<open>Replicas\<close> (\<open>signingkey/manager.go\<close>): replicas that start together, each the program points between
    the statements of \<open>EnsureActive\<close>, interleaved in any order on one database: they agree on one
    active key, and every schedule that gives each replica four turns starts them all.
  \<^item> \<open>Server\<close> (\<open>server/\<close>): Gate A, client addresses and their buckets, health and readiness paths.
  \<^item> \<open>Migrate\<close>, \<open>Startup\<close> (\<open>migrate/\<close>, \<open>config/\<close>, \<open>cmd/base-servers/main.go\<close>): migrations, configuration,
    the start-up sequence and its refusals, key rotation, the command line, the health check, shutdown.
  \<^item> \<open>System\<close> (\<open>gen/baseservers/v1/baseserversv1connect\<close>, \<open>main.go\<close>): the procedures and their routing,
    the interceptor and Gate A around them, and the steps of the running process (\<open>sys_step\<close>,
    \<open>reachable\<close>): requests, the audit worker, rotation, further replicas, restarts, the environment.
  \<^item> \<open>Clients\<close> (the same directory): the generated clients, the response type each procedure declares
    and the stubs; a client's call is the procedure it names, with a response of the declared type.

  \<^bold>\<open>Properties of the whole.\<close> The locale \<open>table_writes\<close> (theory \<open>Invariants\<close>) is the interface between
  the writing statements and the service: a reflexive and transitive relation that they respect is
  respected by every handler, request, worker step, start and rotation, hence by every reachable
  state. Its interpretations, in \<open>Table_Invariants\<close> and (through the locale \<open>log_relation\<close>) in
  \<open>Running\<close>, give the invariant of the tables, verifiable chains, the append-only log and the permanent
  revocation of API keys; its interpretation in \<open>Delegation_History\<close> gives that of delegations. Both
  histories are instances of the locale \<open>row_evolution\<close>, rows that are never removed and change in one
  direction only. \<open>Access\<close> shows which credentials reach a procedure and that read-only ones never
  write; \<open>Tenancy\<close> that a caller outside an organisation cannot change it. \<open>Samples\<close>, \<open>Witnesses\<close> and
  \<open>System_Witnesses\<close> apply the properties to concrete inputs, among them a complete start of the
  service on an empty database.

  \<^bold>\<open>Parameters.\<close> Code outside the repository is a field of a record that the definitions take as an
  argument: \<open>pgtype\<close> (text form of ids), \<open>audit_codec\<close> (SHA-256, JSON, JSONB), \<open>rate_lib\<close>
  (\<open>golang.org/x/time/rate\<close>), \<open>jose\<close> and \<open>oidc_jose\<close> (go-jose), \<open>key_crypto\<close> (ECDSA, PKCS8, AES-GCM),
  \<open>gocloak\<close>, \<open>net_lib\<close> (IP addresses), \<open>rfc3339\<close>, \<open>connect_lib\<close> and \<open>client_lib\<close> (the two sides of
  Connect), and \<open>libs\<close>, which collects those of the server.
  What a property needs of them is a named hypothesis: \<open>uuid_codec\<close> (an id's text parses back),
  \<open>json_codec\<close> (a stored detail reads back), \<open>key_crypto_ok\<close>, \<open>jose_ok\<close> (what is sealed or signed
  opens), \<open>crypto_total\<close> (key generation and encoding succeed, and what is sealed opens), \<open>calls_unary\<close> and \<open>delivers\<close> (a unary
  call sends one request to its URL with the credentials given and returns what it reads in the
  response), \<open>libs_ok\<close> (the first two, and that calls to the identity provider and the pool do not
  write the service's tables).

  \<^bold>\<open>Bounds.\<close> Loops are structural recursion or \<open>fun\<close> with a measure (\<open>drainAll\<close> by the length of the
  channel), so every operation is total. The one fuel is that of \<open>list_pages\<close>, a client's walk
  through pages: more than the number of matching events is enough. A starting replica has at most
  four statements to run. Chains are claimed to verify
  below \<open>2 ^ 63\<close> audit rows, where the sequence number would wrap.

  \<^bold>\<open>Simplifications.\<close> Handlers run one after the other; the steps of the worker, rotation, other
  replicas and the environment come between them, not inside them (only \<open>Replicas\<close> interleaves single
  statements), and a mutex or an advisory lock is the atomicity of the operation that holds it. Go's random iteration order of the batch map is
  the parameter \<open>map_order\<close>. The clock of a process does not run backwards while an operation runs
  (environment steps may set it). A connection fault is not distinguished by its error text. The mux
  matches clean paths; its redirects are left out. A principal type outside the four declared
  numbers is the unspecified one.

  \<^bold>\<open>Not modelled.\<close> The connection wrappers \<open>*/db/db.go\<close> (they hold a handle), the accessors and
  descriptors of the generated messages, the text of error messages, the wire format of Connect and HTTP, signals and
  the listener's goroutine, log output, the fakes and containers of tests, and the scripts of
  \<open>src/deploy\<close> and \<open>src/scripts\<close>: they carry no decision of the service.
\<close>

end
